(* ===== verification/Prelude.thy ===== *)
theory Prelude
  imports Main "HOL-Library.Word" "HOL-Library.Signed_Division" "HOL-Library.State_Monad"
    "HOL-Library.Monad_Syntax"
begin

text \<open>
  Shared vocabulary of the development: Go's fixed-width integers, and the reasoning
  about effectful Go code.

  A Go function that performs effects is a value of the library's state monad
  \<open>('s, 'a) state\<close>. Effectful code is analysed with triples about an observation
  \<open>obs\<close> of the state (for the file service: the database). \<open>triple obs P m Q\<close> says
  that from a state whose observed part satisfies \<open>P\<close>, the computation \<open>m\<close> ends in
  one whose observed part satisfies \<open>Q\<close> of the result. Its rules follow the structure of the
  monadic programs, so that the proof about an operation is a walk through its text.
\<close>

named_theorems triple_rules "rules of the judgement triple, one per program construct"
named_theorems silent_rules "computations that leave the observed part of the state alone"

type_synonym int64 = "64 word"
type_synonym int32 = "32 word"

text \<open>Go's integer division truncates towards zero; the operands are read as two's complement.\<close>

definition go_div64 :: "int64 \<Rightarrow> int64 \<Rightarrow> int64" where
  "go_div64 a b = word_of_int (sint a sdiv sint b)"

text \<open>The conversion \<open>int32(x)\<close> of an int64 keeps the low 32 bits.\<close>

definition to_int32 :: "int64 \<Rightarrow> int32" where
  "to_int32 x = ucast x"

subsection \<open>Reading machine integers\<close>

lemma sint_of_int64: "sint (word_of_int k :: int64) = (k + 2 ^ 63) mod 2 ^ 64 - 2 ^ 63"
  by (simp add: sint_sbintrunc' signed_take_bit_eq_take_bit_shift take_bit_eq_mod)

lemma sint64_range: "- (2 ^ 63) \<le> sint (x :: int64)" "sint (x :: int64) < 2 ^ 63"
  using sint_greater_eq [of x] sint_less [of x] by simp_all

lemma sint64_plus_minus: "sint (a + b - 1 :: int64) = (sint a + sint b - 1 + 2 ^ 63) mod 2 ^ 64 - 2 ^ 63"
proof -
  have "a + b - 1 = word_of_int (sint a + sint b - 1)" by simp
  then show ?thesis by (metis sint_of_int64)
qed

lemma sint64_exact: "- (2 ^ 63) \<le> k \<Longrightarrow> k < 2 ^ 63 \<Longrightarrow> sint (word_of_int k :: int64) = k"
  by (simp add: sint_of_int64)

lemma sint_go_div64:
  assumes "1 < sint b"
  shows "sint (go_div64 a b) = sint a sdiv sint b"
proof -
  have "\<bar>sint a\<bar> div \<bar>sint b\<bar> < 2 ^ 63"
  proof -
    have "\<bar>sint a\<bar> div \<bar>sint b\<bar> \<le> 2 ^ 63 div \<bar>sint b\<bar>"
      by (rule zdiv_mono1) (use sint64_range [of a] assms in auto)
    also have "\<dots> \<le> 2 ^ 63 div 2" by (rule zdiv_mono2) (use assms in auto)
    finally have "\<bar>sint a\<bar> div \<bar>sint b\<bar> \<le> 2 ^ 63 div 2" .
    then show ?thesis by simp
  qed
  moreover have "0 \<le> \<bar>sint a\<bar> div \<bar>sint b\<bar>" using assms by (simp add: pos_imp_zdiv_nonneg_iff)
  moreover have "sint a sdiv sint b = sgn (sint a) * (\<bar>sint a\<bar> div \<bar>sint b\<bar>)"
    using assms by (simp add: signed_divide_int_def)
  ultimately have "- (2 ^ 63) \<le> sint a sdiv sint b" "sint a sdiv sint b < 2 ^ 63"
    by (auto simp: sgn_if)
  then show ?thesis unfolding go_div64_def by (rule sint64_exact)
qed


lemma sint_of_int32: "sint (word_of_int k :: int32) = signed_take_bit 31 k"
  by (simp add: sint_sbintrunc')

lemma sint_to_int32:
  assumes "- (2 ^ 31) \<le> sint x" "sint x < 2 ^ 31"
  shows "sint (to_int32 x) = sint x"
proof -
  have "to_int32 x = word_of_int (sint x)"
    unfolding to_int32_def by transfer (simp add: take_bit_signed_take_bit)
  then have "sint (to_int32 x) = signed_take_bit 31 (sint x)" by (simp only: sint_of_int32)
  also have "\<dots> = sint x" using assms by (simp add: signed_take_bit_int_eq_self)
  finally show ?thesis .
qed

subsection \<open>Triples\<close>

text \<open>A computation that leaves the observed part alone.\<close>

definition silent :: "('s \<Rightarrow> 'd) \<Rightarrow> ('s, 'a) state \<Rightarrow> bool" where
  "silent obs m \<longleftrightarrow> (\<forall>s. obs (snd (run_state m s)) = obs s)"

text \<open>The judgement, and its rules.\<close>

definition triple ::
  "('s \<Rightarrow> 'd) \<Rightarrow> ('d \<Rightarrow> bool) \<Rightarrow> ('s, 'a) state \<Rightarrow> ('a \<Rightarrow> 'd \<Rightarrow> bool) \<Rightarrow> bool" where
  "triple obs P m Q \<longleftrightarrow>
     (\<forall>s. P (obs s) \<longrightarrow> (case run_state m s of (a, s') \<Rightarrow> Q a (obs s')))"

lemma silentI: "(\<And>s a s'. run_state m s = (a, s') \<Longrightarrow> obs s' = obs s) \<Longrightarrow> silent obs m"
  unfolding silent_def by (metis prod.collapse)

lemma silentD: "silent obs m \<Longrightarrow> run_state m s = (a, s') \<Longrightarrow> obs s' = obs s"
  unfolding silent_def by (metis snd_conv)

lemma silent_return [silent_rules, intro!, simp]: "silent obs (State_Monad.return a)"
  by (simp add: silent_def)

lemma silent_bind [silent_rules, intro]:
  "silent obs m \<Longrightarrow> (\<And>a. silent obs (f a)) \<Longrightarrow> silent obs (m \<bind> f)"
  by (auto simp: silent_def split: prod.splits) (metis prod.collapse snd_conv)

lemma tripleI:
  "(\<And>s a s'. P (obs s) \<Longrightarrow> run_state m s = (a, s') \<Longrightarrow> Q a (obs s')) \<Longrightarrow> triple obs P m Q"
  unfolding triple_def by (auto split: prod.splits)

lemma tripleD: "triple obs P m Q \<Longrightarrow> P (obs s) \<Longrightarrow> run_state m s = (a, s') \<Longrightarrow> Q a (obs s')"
  unfolding triple_def by (auto split: prod.splits)

lemma triple_weaken:
  "triple obs P m Q \<Longrightarrow> (\<And>d. P' d \<Longrightarrow> P d) \<Longrightarrow> (\<And>a d. Q a d \<Longrightarrow> Q' a d) \<Longrightarrow> triple obs P' m Q'"
  unfolding triple_def by (fastforce split: prod.splits)

lemma triple_return:
  "(\<And>d. P d \<Longrightarrow> Q a d) \<Longrightarrow> triple obs P (State_Monad.return a) Q"
  by (auto intro!: tripleI)

lemma triple_silent: "silent obs m \<Longrightarrow> triple obs P m (\<lambda>_. P)"
  by (rule tripleI) (auto dest: silentD)

lemma triple_bind:
  assumes "triple obs P m M" and "\<And>a. triple obs (M a) (f a) Q"
  shows "triple obs P (m \<bind> f) Q"
proof (rule tripleI)
  fix s b s'' assume s: "P (obs s)" and run: "run_state (m \<bind> f) s = (b, s'')"
  obtain a s' where a: "run_state m s = (a, s')" by (cases "run_state m s")
  with run have "run_state (f a) s' = (b, s'')" by simp
  with tripleD [OF assms(1) s a] show "Q b (obs s'')" by (rule tripleD [OF assms(2)])
qed

text \<open>The common case: a silent first step, after which \<open>P\<close> still holds.\<close>

lemma triple_bind_silent:
  "silent obs m \<Longrightarrow> (\<And>a. triple obs P (f a) Q) \<Longrightarrow> triple obs P (m \<bind> f) Q"
  by (rule triple_bind [OF triple_silent])

lemma triple_if [triple_rules]:
  "(b \<Longrightarrow> triple obs P m Q) \<Longrightarrow> (\<not> b \<Longrightarrow> triple obs P n Q) \<Longrightarrow> triple obs P (if b then m else n) Q"
  by simp

lemma triple_let [triple_rules]: "triple obs P (f x) Q \<Longrightarrow> triple obs P (let a = x in f a) Q"
  by simp

lemma triple_none [triple_rules]:
  "triple obs P m Q \<Longrightarrow> triple obs P (case None of None \<Rightarrow> m | Some a \<Rightarrow> f a) Q"
  by simp

lemma triple_some [triple_rules]:
  "triple obs P (f y) Q \<Longrightarrow> triple obs P (case Some y of None \<Rightarrow> m | Some a \<Rightarrow> f a) Q"
  by simp

lemma triple_option [triple_rules]:
  "(x = None \<Longrightarrow> triple obs P m Q) \<Longrightarrow> (\<And>a. x = Some a \<Longrightarrow> triple obs P (f a) Q) \<Longrightarrow>
    triple obs P (case x of None \<Rightarrow> m | Some a \<Rightarrow> f a) Q"
  by (cases x) auto

lemma triple_sum [triple_rules]:
  "(\<And>a. x = Inl a \<Longrightarrow> triple obs P (f a) Q) \<Longrightarrow> (\<And>b. x = Inr b \<Longrightarrow> triple obs P (g b) Q) \<Longrightarrow>
    triple obs P (case x of Inl a \<Rightarrow> f a | Inr b \<Rightarrow> g b) Q"
  by (cases x) auto

lemma triple_prod [triple_rules]:
  "(\<And>a b. x = (a, b) \<Longrightarrow> triple obs P (f a b) Q) \<Longrightarrow>
    triple obs P (case x of (a, b) \<Rightarrow> f a b) Q"
  by (cases x) auto

end
