(* ===== verification/Config_Types.thy ===== *)
theory Config_Types
  imports Prelude Complex_Main
begin

text \<open>
  The configuration structs of \<^verbatim>\<open>internal/config/config.go\<close>, one record per
  struct and one field per field, named \<open><struct>_<Field>\<close> with the struct's name in lower
  case. A \<open>time.Duration\<close> is an int64 count of nanoseconds; Go's \<open>int\<close> is 64 bits
  wide. A Go map is an association list: the list order stands for the iteration order, which
  the language leaves open.
\<close>

type_synonym duration = int64
type_synonym uint32 = "32 word"

datatype float64 = NaN | NegInf | PosInf | Finite rat

record cfg_Runtime =
  runtime_ActiveProfile :: string
  runtime_ConfigFiles :: "string list"

record cfg_App =
  app_Name :: string
  app_Schema :: string
  app_Env :: string
  app_ShutdownTimeout :: duration

record cfg_CORS =
  cors_Enabled :: bool
  cors_AllowedOrigins :: "string list"
  cors_AllowedHeaders :: "string list"
  cors_ExposedHeaders :: "string list"
  cors_MaxAge :: duration

record cfg_HTTP =
  http_Address :: string
  http_ReadTimeout :: duration
  http_WriteTimeout :: duration
  http_IdleTimeout :: duration
  http_RequestTimeout :: duration
  http_MaxBodyBytes :: int64
  http_TrustedProxies :: "string list"
  http_CORS :: cfg_CORS

record cfg_GRPCTLS =
  grpctls_Enabled :: bool
  grpctls_CertFile :: string
  grpctls_KeyFile :: string
  grpctls_ClientCAFile :: string

record cfg_GRPC =
  grpc_Enabled :: bool
  grpc_Address :: string
  grpc_ReflectionEnabled :: bool
  grpc_MaxReceiveBytes :: int64
  grpc_TLS :: cfg_GRPCTLS

record cfg_Log =
  log_Level :: string
  log_Format :: string
  log_File :: string
  log_MaxSizeMB :: int64
  log_MaxBackups :: int64
  log_MaxAgeDays :: int64
  log_Compress :: bool

record cfg_Database =
  database_Enabled :: bool
  database_Name :: string
  database_Schema :: string
  database_Type :: string
  database_DSN :: string
  database_MaxOpenConns :: int64
  database_MaxIdleConns :: int64
  database_ConnMaxLifetime :: duration
  database_ConnMaxIdleTime :: duration
  database_PingTimeout :: duration

record cfg_Redis =
  redis_Enabled :: bool
  redis_Address :: string
  redis_Username :: string
  redis_Password :: string
  redis_DB :: int64
  redis_DialTimeout :: duration
  redis_ReadTimeout :: duration
  redis_WriteTimeout :: duration

record cfg_Health =
  health_DatabaseTimeout :: duration
  health_RedisTimeout :: duration

record cfg_RateLimitRule =
  ratelimitrule_Rate :: int64
  ratelimitrule_Burst :: int64
  ratelimitrule_Period :: duration

record cfg_RateLimit =
  ratelimit_Enabled :: bool
  ratelimit_FailOpen :: bool
  ratelimit_IP :: cfg_RateLimitRule
  ratelimit_API :: cfg_RateLimitRule
  ratelimit_User :: cfg_RateLimitRule
  ratelimit_Login :: cfg_RateLimitRule

record cfg_Observability =
  observability_MetricsEnabled :: bool
  observability_TracingEnabled :: bool
  observability_TracingEndpoint :: string
  observability_TracingSampleRatio :: float64
  observability_PprofEnabled :: bool
  observability_PprofToken :: string

record cfg_Swagger =
  swagger_Enabled :: bool
  swagger_RequireAuth :: bool

record cfg_JWT =
  jwt_Issuer :: string
  jwt_Secret :: string
  jwt_TTL :: duration

record cfg_PSK =
  psk_Enabled :: bool
  psk_Key :: string
  psk_HTTPPaths :: "string list"
  psk_GRPCMethods :: "string list"

record cfg_Auth =
  auth_JWKSURL :: string
  auth_Issuer :: string
  auth_Audience :: string
  auth_ClientID :: string
  auth_ClientSecret :: string
  auth_SkipHTTPPaths :: "string list"
  auth_SkipGRPCMethods :: "string list"
  auth_PSK :: cfg_PSK

record cfg_Authorization =
  authorization_Enabled :: bool

record cfg_Cron =
  cron_Enabled :: bool
  cron_Timezone :: string
  cron_SampleSpec :: string

record cfg_Migration =
  migration_AutoUp :: bool
  migration_CreateSchema :: bool
  migration_Path :: string
  migration_DatabaseURL :: string
  migration_Table :: string
  migration_Schema :: string
  migration_DatabaseName :: string

record cfg_User =
  user_CacheTTL :: duration
  user_LockTTL :: duration
  user_LockRetryDelay :: duration

record cfg_Idempotency =
  idempotency_Enabled :: bool
  idempotency_HTTPPaths :: "string list"
  idempotency_GRPCMethods :: "string list"
  idempotency_ProcessingTTL :: duration
  idempotency_ResultTTL :: duration
  idempotency_FailureTTL :: duration

record cfg_ClientAuth =
  clientauth_Type :: string
  clientauth_Token :: string

record cfg_Retry =
  retry_MaxAttempts :: int64
  retry_InitialBackoff :: duration
  retry_MaxBackoff :: duration
  retry_Methods :: "string list"

record cfg_Breaker =
  breaker_Enabled :: bool
  breaker_FailureThreshold :: uint32
  breaker_OpenTimeout :: duration

record cfg_ClientTLS =
  clienttls_Enabled :: bool
  clienttls_ServerName :: string
  clienttls_CAFile :: string
  clienttls_CertFile :: string
  clienttls_KeyFile :: string

record cfg_HTTPUpstream =
  httpupstream_BaseURL :: string
  httpupstream_Timeout :: duration
  httpupstream_Auth :: cfg_ClientAuth
  httpupstream_Retry :: cfg_Retry
  httpupstream_Breaker :: cfg_Breaker
  httpupstream_TLS :: cfg_ClientTLS

record cfg_GRPCUpstream =
  grpcupstream_Target :: string
  grpcupstream_Timeout :: duration
  grpcupstream_Auth :: cfg_ClientAuth
  grpcupstream_Retry :: cfg_Retry
  grpcupstream_Breaker :: cfg_Breaker
  grpcupstream_TLS :: cfg_ClientTLS

record cfg_Outbound =
  outbound_HTTP :: "(string \<times> cfg_HTTPUpstream) list"
  outbound_GRPC :: "(string \<times> cfg_GRPCUpstream) list"

record cfg_EventBus =
  eventbus_Enabled :: bool
  eventbus_URLs :: "string list"
  eventbus_StreamName :: string
  eventbus_Subjects :: "string list"
  eventbus_Storage :: string
  eventbus_MaxAge :: duration
  eventbus_DuplicateWindow :: duration
  eventbus_ConnectTimeout :: duration
  eventbus_ReconnectWait :: duration
  eventbus_PublishTimeout :: duration
  eventbus_ConsumerAckWait :: duration
  eventbus_ConsumerMaxDeliver :: int64
  eventbus_DispatchInterval :: duration
  eventbus_DispatchBatchSize :: int64
  eventbus_DispatchLease :: duration
  eventbus_DispatchRetryDelay :: duration
  eventbus_PublishedRetention :: duration
  eventbus_CleanupInterval :: duration
  eventbus_CleanupBatchSize :: int64

record cfg_ObjectStorage =
  objectstorage_Enabled :: bool
  objectstorage_Endpoint :: string
  objectstorage_PresignEndpoint :: string
  objectstorage_AccessKey :: string
  objectstorage_SecretKey :: string
  objectstorage_SessionToken :: string
  objectstorage_Bucket :: string
  objectstorage_Region :: string
  objectstorage_UseSSL :: bool
  objectstorage_PresignUseSSL :: bool
  objectstorage_PresignTTL :: duration
  objectstorage_MaxUploadBytes :: int64
  objectstorage_MultipartSessionTTL :: duration
  objectstorage_CleanupBatchSize :: int64
  objectstorage_CleanupSpec :: string
  objectstorage_ScanRequired :: bool

record cfg_Config =
  config_Runtime :: cfg_Runtime
  config_App :: cfg_App
  config_HTTP :: cfg_HTTP
  config_GRPC :: cfg_GRPC
  config_Log :: cfg_Log
  config_Database :: cfg_Database
  config_Redis :: cfg_Redis
  config_Health :: cfg_Health
  config_RateLimit :: cfg_RateLimit
  config_Observability :: cfg_Observability
  config_Swagger :: cfg_Swagger
  config_JWT :: cfg_JWT
  config_Auth :: cfg_Auth
  config_Authorization :: cfg_Authorization
  config_Cron :: cfg_Cron
  config_Migration :: cfg_Migration
  config_User :: cfg_User
  config_Idempotency :: cfg_Idempotency
  config_Outbound :: cfg_Outbound
  config_EventBus :: cfg_EventBus
  config_ObjectStorage :: cfg_ObjectStorage


end
