(* ===== verification/File_Model.thy ===== *)
theory File_Model
  imports Prelude Config_Types
begin

text \<open>
  The data of the file domain, \<^verbatim>\<open>internal/file/model.go\<close>, and the protobuf message
  that carries a file's metadata in events and gRPC answers. An instant (\<open>time.Time\<close>) is
  an integer count of nanoseconds since the Unix epoch, a \<open>*time.Time\<close> an option.
\<close>

type_synonym instant = int

text \<open>\<open>time.Time{}\<close>: the first of January of the year 1.\<close>

definition zero_time :: instant where
  "zero_time = - 62135596800000000000"

record Metadata =
  m_ID :: string
  m_TenantID :: string
  m_ApplicationID :: string
  m_OwnerID :: string
  m_Bucket :: string
  m_ObjectKey :: string
  m_Filename :: string
  m_ContentType :: string
  m_Size :: int64
  m_ChecksumSHA256 :: string
  m_Status :: string
  m_ScanStatus :: string
  m_IdempotencyKey :: string
  m_UploadMode :: string
  m_MultipartUploadID :: string
  m_PartSize :: int64
  m_PartCount :: int32
  m_UploadExpiresAt :: "instant option"
  m_Version :: int64
  m_CreatedAt :: instant
  m_UpdatedAt :: instant
  m_CreatedBy :: string
  m_UpdatedBy :: string

text \<open>\<open>Metadata{}\<close>, what the methods return beside an error.\<close>

definition zero_Metadata :: Metadata where
  "zero_Metadata =
     \<lparr>m_ID = [], m_TenantID = [], m_ApplicationID = [], m_OwnerID = [], m_Bucket = [],
      m_ObjectKey = [], m_Filename = [], m_ContentType = [], m_Size = 0, m_ChecksumSHA256 = [],
      m_Status = [], m_ScanStatus = [], m_IdempotencyKey = [], m_UploadMode = [],
      m_MultipartUploadID = [], m_PartSize = 0, m_PartCount = 0, m_UploadExpiresAt = None,
      m_Version = 0, m_CreatedAt = zero_time, m_UpdatedAt = zero_time, m_CreatedBy = [],
      m_UpdatedBy = []\<rparr>"

record Authorization =
  a_File :: Metadata
  a_URL :: string
  a_Headers :: "(string \<times> string) list"
  a_ExpiresAt :: instant

definition zero_Authorization :: Authorization where
  "zero_Authorization =
     \<lparr>a_File = zero_Metadata, a_URL = [], a_Headers = [], a_ExpiresAt = zero_time\<rparr>"

record MultipartAuthorization =
  ma_File :: Metadata
  ma_UploadID :: string
  ma_PartSize :: int64
  ma_PartCount :: int32
  ma_ExpiresAt :: instant

definition zero_MultipartAuthorization :: MultipartAuthorization where
  "zero_MultipartAuthorization =
     \<lparr>ma_File = zero_Metadata, ma_UploadID = [], ma_PartSize = 0, ma_PartCount = 0,
      ma_ExpiresAt = zero_time\<rparr>"

record CompletedPart =
  cp_PartNumber :: int32
  cp_ETag :: string

record ListFilter =
  lf_TenantID :: string
  lf_ApplicationID :: string
  lf_Keyword :: string
  lf_Status :: string
  lf_ScanStatus :: string
  lf_ContentType :: string
  lf_OwnerID :: string
  lf_Page :: int64
  lf_PageSize :: int64

record MetadataPage =
  mp_Files :: "Metadata list"
  mp_Total :: int
  mp_Page :: int64
  mp_PageSize :: int64

definition zero_MetadataPage :: MetadataPage where
  "zero_MetadataPage = \<lparr>mp_Files = [], mp_Total = 0, mp_Page = 0, mp_PageSize = 0\<rparr>"

record OutboxEvent =
  oe_ID :: string
  oe_Subject :: string
  oe_Envelope :: string
  oe_AvailableAt :: instant
  oe_CreatedAt :: instant
  oe_UpdatedAt :: instant
  oe_CreatedBy :: string
  oe_UpdatedBy :: string

text \<open>The message \<open>platform.file.v1.FileMetadata\<close>, with the fields the program sets.\<close>

record PbFile =
  pb_Id :: string
  pb_TenantId :: string
  pb_ApplicationId :: string
  pb_OwnerId :: string
  pb_Bucket :: string
  pb_ObjectKey :: string
  pb_Filename :: string
  pb_ContentType :: string
  pb_Size :: int64
  pb_ChecksumSha256 :: string
  pb_Status :: string
  pb_ScanStatus :: string
  pb_UploadMode :: string
  pb_MultipartUploadId :: string
  pb_PartSize :: int64
  pb_PartCount :: int32
  pb_Version :: int64
  pb_CreatedAt :: instant
  pb_UpdatedAt :: instant
  pb_CreatedBy :: string
  pb_UpdatedBy :: string
  pb_UploadExpiresAt :: "instant option"

text \<open>\<open>eventbus.Metadata\<close> as the program fills it.\<close>

record EventMetadata =
  em_EventID :: string
  em_EventType :: string
  em_AggregateID :: string
  em_AggregateType :: string
  em_TenantID :: string
  em_ApplicationID :: string
  em_SchemaVersion :: int
  em_ActorID :: string
  em_OccurredAt :: instant

text \<open>The caller, \<open>principal.Principal\<close> of the platform library.\<close>

datatype PrincipalType = TypeUser | TypeServiceAccount | TypeOther string

record Principal =
  p_ID :: string
  p_Type :: PrincipalType
  p_TenantID :: string

text \<open>What the service reads from a request context: the caller, if authentication put one there.\<close>

record Ctx =
  ctx_principal :: "Principal option"

end
