(* ===== verification/App_Error.thy ===== *)
theory App_Error
  imports Prelude
begin

text \<open>
  Go's error values as the program builds and inspects them, and the package
  \<^verbatim>\<open>internal/apperror\<close>.

  \<open>go_error\<close> has one constructor per sentinel error the program compares with
  (\<open>errors.Is\<close>), \<open>Errorf\<close> for an error that carries only a text (made here or
  by a library), \<open>Wrapf\<close> for \<open>fmt.Errorf\<close> with \<^verbatim>\<open>%w\<close>, \<open>Join\<close> for
  \<open>errors.Join\<close> and \<open>AppError\<close> for the struct \<open>apperror.Error\<close>. A nil
  error is \<open>None\<close> of type \<open>go_error option\<close>. The numbers behind the codes come
  from a package outside the repository, so a code is a value of \<open>app_code\<close>.
\<close>

datatype app_code =
    CodeOK
  | CodeInvalidArgument
  | CodeNotFound
  | CodeRequestTimeout
  | CodeTooManyRequests
  | CodeUnauthorized
  | CodeForbidden
  | CodeConflict
  | CodeRequestInProgress
  | CodeStaleVersion
  | CodeInternal
  | CodeDependencyUnavailable

datatype go_error =
    ErrNotFound
  | ErrStaleVersion
  | ErrNotGranted
  | ErrDecisionUnavailable
  | Canceled
  | DeadlineExceeded
  | Errorf string
  | Wrapf string go_error
  | Join "go_error list"
  | AppError (ae_Code: app_code) (ae_Message: string) (ae_HTTPStatus: nat)
      (ae_Err: "go_error option")

text \<open>\<open>errors.Is\<close> for a sentinel target: the error itself or anything it wraps.\<close>

fun errors_Is :: "go_error \<Rightarrow> go_error \<Rightarrow> bool" where
  "errors_Is (Wrapf s e) t = (Wrapf s e = t \<or> errors_Is e t)"
| "errors_Is (Join es) t = (Join es = t \<or> list_ex (\<lambda>e. errors_Is e t) es)"
| "errors_Is (AppError c m h (Some e)) t = (AppError c m h (Some e) = t \<or> errors_Is e t)"
| "errors_Is e t = (e = t)"

text \<open>\<open>errors.As\<close> with a target of type \<open>*apperror.Error\<close>: the first one in the tree.\<close>

fun errors_As :: "go_error \<Rightarrow> go_error option" where
  "errors_As (AppError c m h e) = Some (AppError c m h e)"
| "errors_As (Wrapf s e) = errors_As e"
| "errors_As (Join es) = foldr (\<lambda>e r. case errors_As e of None \<Rightarrow> r | Some a \<Rightarrow> Some a) es None"
| "errors_As _ = None"

text \<open>The constructors of the package.\<close>

definition apperror_New :: "app_code \<Rightarrow> string \<Rightarrow> nat \<Rightarrow> go_error option \<Rightarrow> go_error" where
  "apperror_New code message status err = AppError code message status err"

definition Invalid :: "string \<Rightarrow> go_error option \<Rightarrow> go_error" where
  "Invalid message err = apperror_New CodeInvalidArgument message 400 err"

definition NotFound :: "string \<Rightarrow> go_error" where
  "NotFound message = apperror_New CodeNotFound message 404 None"

definition Conflict :: "string \<Rightarrow> go_error option \<Rightarrow> go_error" where
  "Conflict message err = apperror_New CodeConflict message 409 err"

definition StaleVersion :: "go_error option \<Rightarrow> go_error" where
  "StaleVersion err = apperror_New CodeStaleVersion ''resource version is stale'' 409 err"

definition RequestInProgress :: "go_error" where
  "RequestInProgress = apperror_New CodeRequestInProgress ''request is already processing'' 409 None"

definition Unauthorized :: "string \<Rightarrow> go_error" where
  "Unauthorized message = apperror_New CodeUnauthorized message 401 None"

definition Forbidden :: "string \<Rightarrow> go_error" where
  "Forbidden message = apperror_New CodeForbidden message 403 None"

definition TooManyRequests :: "go_error" where
  "TooManyRequests = apperror_New CodeTooManyRequests ''too many requests'' 429 None"

definition RequestTimeout :: "go_error" where
  "RequestTimeout = apperror_New CodeRequestTimeout ''request timeout'' 504 None"

definition Unavailable :: "string \<Rightarrow> go_error option \<Rightarrow> go_error" where
  "Unavailable message err = apperror_New CodeDependencyUnavailable message 503 err"

definition Internal :: "go_error option \<Rightarrow> go_error" where
  "Internal err = apperror_New CodeInternal ''internal server error'' 500 err"

lemmas apperror_defs = apperror_New_def Invalid_def NotFound_def Conflict_def StaleVersion_def
  RequestInProgress_def Unauthorized_def Forbidden_def TooManyRequests_def RequestTimeout_def
  Unavailable_def Internal_def

lemma errors_Is_refl [simp]: "errors_Is e e"
  by (cases "(e, e)" rule: errors_Is.cases) auto

end
