(* ===== verification/Go_Strings.thy ===== *)
theory Go_Strings
  imports Prelude "HOL-Library.Sublist"
begin

text \<open>
  The parts of Go's standard library for strings that the program uses. A Go string is a
  sequence of bytes, here a \<open>string\<close> (a list of 8-bit characters).

  \<open>TrimSpace\<close> removes the Unicode white space runes at both ends in their UTF-8 encoding,
  as \<open>strings.TrimSpace\<close> does. \<open>ToLower\<close> is exact on ASCII strings; for other
  strings the Unicode case tables are the argument \<open>uni\<close>. \<open>EqualFold\<close> compares
  with an ASCII right-hand side, including the two non-ASCII runes that fold to ASCII letters.
  The theory also has \<open>filepath.Base\<close> for Unix paths, \<open>hex.DecodeString\<close>'s
  success condition, \<open>strings.Cut\<close>, \<open>strings.Trim\<close> with a one-character cut set,
  \<open>strings.Split\<close> at one character and decimal formatting.
\<close>

definition byte :: "string \<Rightarrow> nat \<Rightarrow> nat" where
  "byte s i = (if i < length s then of_char (s ! i) else 0)"

text \<open>The length in bytes of the white space rune at the front of a string, 0 for none.\<close>

definition space_len :: "string \<Rightarrow> nat" where
  "space_len s =
     (if s = [] then 0
      else if byte s 0 = 9 \<or> byte s 0 = 10 \<or> byte s 0 = 11 \<or> byte s 0 = 12 \<or> byte s 0 = 13
         \<or> byte s 0 = 32 then 1
      else if byte s 0 = 194 \<and> (byte s 1 = 133 \<or> byte s 1 = 160) then 2
      else if byte s 0 = 225 \<and> byte s 1 = 154 \<and> byte s 2 = 128 then 3
      else if byte s 0 = 226 \<and> byte s 1 = 128 \<and>
         (128 \<le> byte s 2 \<and> byte s 2 \<le> 138 \<or> byte s 2 = 168 \<or> byte s 2 = 169 \<or> byte s 2 = 175)
         then 3
      else if byte s 0 = 226 \<and> byte s 1 = 129 \<and> byte s 2 = 159 then 3
      else if byte s 0 = 227 \<and> byte s 1 = 128 \<and> byte s 2 = 128 then 3
      else 0)"

text \<open>The same at the end of a string.\<close>

definition space_end :: "string \<Rightarrow> nat" where
  "space_end s =
     (if 1 \<le> length s \<and> space_len (drop (length s - 1) s) = 1 then 1
      else if 2 \<le> length s \<and> space_len (drop (length s - 2) s) = 2 then 2
      else if 3 \<le> length s \<and> space_len (drop (length s - 3) s) = 3 then 3
      else 0)"

function trim_left_space :: "string \<Rightarrow> string" where
  "trim_left_space s =
     (if s = [] \<or> space_len s = 0 then s else trim_left_space (drop (space_len s) s))"
  by pat_completeness auto
termination
  by (relation "measure length") auto

function trim_right_space :: "string \<Rightarrow> string" where
  "trim_right_space s =
     (if s = [] \<or> space_end s = 0 then s
      else trim_right_space (take (length s - space_end s) s))"
  by pat_completeness auto
termination
  by (relation "measure length") auto

declare trim_left_space.simps [simp del] trim_right_space.simps [simp del]

definition TrimSpace :: "string \<Rightarrow> string" where
  "TrimSpace s = trim_right_space (trim_left_space s)"

definition ascii_lower :: "char \<Rightarrow> char" where
  "ascii_lower c =
     (let n = of_char c :: nat in if 65 \<le> n \<and> n \<le> 90 then char_of (n + 32) else c)"

definition is_ascii :: "string \<Rightarrow> bool" where
  "is_ascii s = list_all (\<lambda>c. (of_char c :: nat) < 128) s"

definition ToLower :: "(string \<Rightarrow> string) \<Rightarrow> string \<Rightarrow> string" where
  "ToLower uni s = (if is_ascii s then map ascii_lower s else uni s)"

text \<open>\<open>strings.Trim(s, c)\<close> for a cut set of the one character \<open>c\<close>.\<close>

definition trim_char :: "char \<Rightarrow> string \<Rightarrow> string" where
  "trim_char c s = rev (dropWhile (\<lambda>x. x = c) (rev (dropWhile (\<lambda>x. x = c) s)))"

text \<open>\<open>filepath.Base\<close> on a Unix system.\<close>

definition filepath_Base :: "string \<Rightarrow> string" where
  "filepath_Base path =
     (if path = [] then ''.''
      else
        let stripped = rev (dropWhile (\<lambda>c. c = CHR ''/'') (rev path));
            base = rev (takeWhile (\<lambda>c. c \<noteq> CHR ''/'') (rev stripped))
        in if base = [] then ''/'' else base)"

definition is_hex :: "char \<Rightarrow> bool" where
  "is_hex c =
     (let n = of_char c :: nat in
      48 \<le> n \<and> n \<le> 57 \<or> 97 \<le> n \<and> n \<le> 102 \<or> 65 \<le> n \<and> n \<le> 70)"

text \<open>The number of bytes \<open>hex.DecodeString\<close> yields, \<open>None\<close> for its error.\<close>

definition hex_decoded_len :: "string \<Rightarrow> nat option" where
  "hex_decoded_len s =
     (if list_all is_hex s \<and> even (length s) then Some (length s div 2) else None)"

text \<open>\<open>strings.Cut(s, sep)\<close> for a one-character separator: before, after, found.\<close>

definition Cut :: "string \<Rightarrow> char \<Rightarrow> string \<times> string \<times> bool" where
  "Cut s c =
     (if c \<in> set s then (takeWhile (\<lambda>x. x \<noteq> c) s, tl (dropWhile (\<lambda>x. x \<noteq> c) s), True)
      else (s, [], False))"

text \<open>\<open>strings.Split(s, sep)\<close> for a one-character separator.\<close>

fun Split :: "string \<Rightarrow> char \<Rightarrow> string list" where
  "Split [] c = [[]]"
| "Split (x # xs) c =
     (if x = c then [] # Split xs c
      else case Split xs c of [] \<Rightarrow> [[x]] | y # ys \<Rightarrow> (x # y) # ys)"

text \<open>
  \<open>strings.EqualFold(s, t)\<close> for an ASCII string \<open>t\<close>. Besides upper and lower case,
  U+017F folds to the letter s and U+212A to the letter k.
\<close>

fun EqualFold :: "string \<Rightarrow> string \<Rightarrow> bool" where
  "EqualFold s [] = (s = [])"
| "EqualFold s (c # cs) =
     (case s of
        [] \<Rightarrow> False
      | x # xs \<Rightarrow>
          if ascii_lower x = ascii_lower c then EqualFold xs cs
          else if ascii_lower c = CHR ''s'' \<and> byte s 0 = 197 \<and> byte s 1 = 191
            then EqualFold (drop 2 s) cs
          else if ascii_lower c = CHR ''k'' \<and> byte s 0 = 226 \<and> byte s 1 = 132 \<and> byte s 2 = 170
            then EqualFold (drop 3 s) cs
          else False)"

fun nat_digits :: "nat \<Rightarrow> string" where
  "nat_digits n =
     (if n < 10 then [char_of (48 + n)] else nat_digits (n div 10) @ [char_of (48 + n mod 10)])"

declare nat_digits.simps [simp del]

text \<open>Decimal formatting of an integer, as \<open>fmt.Sprint\<close> and \<open>strconv\<close> print it.\<close>

definition itoa :: "int \<Rightarrow> string" where
  "itoa n = (if n < 0 then CHR ''-'' # nat_digits (nat (- n)) else nat_digits (nat n))"

subsection \<open>Trimming\<close>

lemma byte_append: "i < length s \<Longrightarrow> byte (s @ t) i = byte s i"
  by (simp add: byte_def nth_append)

lemma byte_nonzero: "byte s i \<noteq> 0 \<Longrightarrow> i < length s"
  by (simp add: byte_def split: if_splits)

lemma space_len_cases:
  assumes "space_len s \<noteq> 0"
  obtains
    (one) "byte s 0 = 9 \<or> byte s 0 = 10 \<or> byte s 0 = 11 \<or> byte s 0 = 12 \<or> byte s 0 = 13
      \<or> byte s 0 = 32" "space_len s = 1"
  | (two) "byte s 0 = 194" "byte s 1 = 133 \<or> byte s 1 = 160" "space_len s = 2"
  | (ogham) "byte s 0 = 225" "byte s 1 = 154" "byte s 2 = 128" "space_len s = 3"
  | (general) "byte s 0 = 226" "byte s 1 = 128"
      "128 \<le> byte s 2 \<and> byte s 2 \<le> 138 \<or> byte s 2 = 168 \<or> byte s 2 = 169 \<or> byte s 2 = 175"
      "space_len s = 3"
  | (medium) "byte s 0 = 226" "byte s 1 = 129" "byte s 2 = 159" "space_len s = 3"
  | (ideographic) "byte s 0 = 227" "byte s 1 = 128" "byte s 2 = 128" "space_len s = 3"
  using assms unfolding space_len_def by (simp split: if_split_asm)

lemma space_len_append:
  assumes "space_len s \<noteq> 0" shows "space_len (s @ t) \<noteq> 0"
proof -
  have same: "\<And>i. byte s i \<noteq> 0 \<Longrightarrow> byte (s @ t) i = byte s i"
    by (simp add: byte_nonzero byte_append)
  have ne: "s \<noteq> []" using assms by (auto simp: space_len_def)
  from assms show ?thesis
  proof (cases rule: space_len_cases)
    case one
    from one(1) have "byte s 0 \<noteq> 0" by auto
    then have "byte (s @ t) 0 = byte s 0" by (rule same)
    with one(1) ne show ?thesis by (simp add: space_len_def)
  next
    case two
    from two(2) have "byte s 1 \<noteq> 0" by auto
    with two(1,2) ne show ?thesis using same [of 0] same [of 1] by (simp add: space_len_def)
  next
    case ogham
    from ogham(1-3) ne show ?thesis using same [of 0] same [of 1] same [of 2] by (simp add: space_len_def)
  next
    case general
    then have "byte s 2 \<noteq> 0" by auto
    with general(1-3) ne show ?thesis using same [of 0] same [of 1] same [of 2] by (simp add: space_len_def)
  next
    case medium
    from medium(1-3) ne show ?thesis using same [of 0] same [of 1] same [of 2] by (simp add: space_len_def)
  next
    case ideographic
    from ideographic(1-3) ne show ?thesis using same [of 0] same [of 1] same [of 2] by (simp add: space_len_def)
  qed
qed

lemma trim_left_space_no_space: "trim_left_space s \<noteq> [] \<Longrightarrow> space_len (trim_left_space s) = 0"
proof (induction s rule: trim_left_space.induct)
  case (1 s)
  then show ?case by (cases "s = [] \<or> space_len s = 0") (auto simp: trim_left_space.simps [of s])
qed

lemma trim_left_space_idle [simp]: "space_len s = 0 \<Longrightarrow> trim_left_space s = s"
  by (simp add: trim_left_space.simps)

lemma trim_right_space_idle: "space_end s = 0 \<Longrightarrow> trim_right_space s = s"
  by (simp add: trim_right_space.simps)

lemma trim_right_space_prefix: "\<exists>v. s = trim_right_space s @ v"
proof (induction s rule: trim_right_space.induct)
  case (1 s)
  show ?case
  proof (cases "s = [] \<or> space_end s = 0")
    case True
    then show ?thesis by (auto simp: trim_right_space.simps [of s])
  next
    case False
    let ?t = "take (length s - space_end s) s"
    from False have step: "trim_right_space s = trim_right_space ?t"
      by (simp add: trim_right_space.simps [of s])
    from "1" False obtain v where "?t = trim_right_space ?t @ v" by blast
    then have "s = (trim_right_space ?t @ v) @ drop (length s - space_end s) s"
      by (metis append_take_drop_id)
    then show ?thesis unfolding step by (metis append_assoc)
  qed
qed

lemma space_end_Nil [simp]: "space_end [] = 0"
  by (simp add: space_end_def)

lemma trim_right_space_no_space: "space_end (trim_right_space s) = 0"
proof (induction s rule: trim_right_space.induct)
  case (1 s)
  then show ?case
    by (cases "s = [] \<or> space_end s = 0") (auto simp: trim_right_space.simps [of s])
qed

text \<open>Trimming twice is trimming once: what the service stores is stable under the checks that trim again.\<close>

lemma TrimSpace_idem [simp]: "TrimSpace (TrimSpace s) = TrimSpace s"
proof -
  define u where "u = trim_left_space s"
  define t where "t = trim_right_space u"
  obtain v where v: "u = t @ v" unfolding t_def using trim_right_space_prefix by blast
  have "space_len t = 0"
  proof (rule ccontr)
    assume n: "space_len t \<noteq> 0"
    then have "u \<noteq> []" using v by (auto simp: space_len_def)
    then have "space_len u = 0" unfolding u_def by (rule trim_left_space_no_space)
    with space_len_append [OF n, of v] v show False by simp
  qed
  then show ?thesis
    unfolding TrimSpace_def u_def [symmetric] t_def [symmetric]
    using trim_right_space_no_space [of u] by (simp add: trim_right_space_idle t_def)
qed

lemma TrimSpace_Nil [simp]: "TrimSpace [] = []"
  by (simp add: TrimSpace_def trim_left_space.simps trim_right_space.simps)

subsection \<open>Base names and checksums\<close>

text \<open>The base name has no separator, but for the one name \<^verbatim>\<open>"/"\<close>.\<close>

lemma filepath_Base_no_sep:
  "filepath_Base p = ''/'' \<or> (filepath_Base p \<noteq> [] \<and> CHR ''/'' \<notin> set (filepath_Base p))"
  by (auto simp: filepath_Base_def Let_def dest: set_takeWhileD)

lemma hex_decoded_len_32:
  "hex_decoded_len s = Some 32 \<longleftrightarrow> length s = 64 \<and> list_all is_hex s"
  by (auto simp: hex_decoded_len_def)

end
