(* ===== verification/Object_Storage.thy ===== *)
theory Object_Storage
  imports Config_Types App_Error Go_Strings
begin

text \<open>
  The package \<^verbatim>\<open>internal/objectstorage\<close>: the interface \<open>Storage\<close> and its
  implementation \<open>S3\<close>.

  The S3 client library is not part of the repository. It is the record \<open>minio\<close> of the
  calls the package makes, each a function of the outside world's state \<open>'x\<close>, so that the
  object store, the network and their failures are covered by what those functions may do. The
  interface is the record \<open>Storage\<close>; \<open>S3_Storage\<close> makes the interface value of an
  \<open>S3\<close>. The locale \<open>gated_storage\<close> states what the methods promise when the storage is
  disabled: an error and no call to the outside world.
\<close>

type_synonym ('x, 'a) ext_op = "'x \<Rightarrow> 'a \<times> 'x"

record ObjectInfo =
  oi_Size :: int64
  oi_ChecksumSHA256 :: string

text \<open>\<open>objectstorage.CompletedPart\<close>; its part number is a Go \<open>int\<close>.\<close>

record StoragePart =
  sp_PartNumber :: int
  sp_ETag :: string

record 'x minio =
  mc_PresignHeader :: "string \<Rightarrow> string \<Rightarrow> string \<Rightarrow> duration \<Rightarrow> (string \<times> string) list \<Rightarrow>
    ('x, go_error + string) ext_op"
  mc_PresignedGetObject :: "string \<Rightarrow> string \<Rightarrow> duration \<Rightarrow> ('x, go_error + string) ext_op"
  mc_Presign :: "string \<Rightarrow> string \<Rightarrow> string \<Rightarrow> duration \<Rightarrow> (string \<times> string) list \<Rightarrow>
    ('x, go_error + string) ext_op"
  mc_StatObject :: "string \<Rightarrow> string \<Rightarrow> ('x, (int64 \<times> (string \<Rightarrow> string)) \<times> go_error option) ext_op"
  mc_RemoveObject :: "string \<Rightarrow> string \<Rightarrow> ('x, go_error option) ext_op"
  mc_NewMultipartUpload :: "string \<Rightarrow> string \<Rightarrow> string \<Rightarrow> (string \<times> string) list \<Rightarrow>
    ('x, go_error + string) ext_op"
  mc_CompleteMultipartUpload :: "string \<Rightarrow> string \<Rightarrow> string \<Rightarrow> StoragePart list \<Rightarrow>
    ('x, go_error option) ext_op"
  mc_AbortMultipartUpload :: "string \<Rightarrow> string \<Rightarrow> string \<Rightarrow> ('x, go_error option) ext_op"

record 'x Storage =
  st_PresignUpload :: "string \<Rightarrow> string \<Rightarrow> int64 \<Rightarrow> string \<Rightarrow> ('x, go_error + string) ext_op"
  st_PresignDownload :: "string \<Rightarrow> ('x, go_error + string) ext_op"
  st_Stat :: "string \<Rightarrow> ('x, ObjectInfo \<times> go_error option) ext_op"
  st_Delete :: "string \<Rightarrow> ('x, go_error option) ext_op"
  st_InitiateMultipart :: "string \<Rightarrow> string \<Rightarrow> string \<Rightarrow> ('x, go_error + string) ext_op"
  st_PresignUploadPart :: "string \<Rightarrow> string \<Rightarrow> int \<Rightarrow> ('x, go_error + string) ext_op"
  st_CompleteMultipart :: "string \<Rightarrow> string \<Rightarrow> StoragePart list \<Rightarrow> ('x, go_error option) ext_op"
  st_AbortMultipart :: "string \<Rightarrow> string \<Rightarrow> ('x, go_error option) ext_op"
  st_Bucket :: string
  st_TTL :: duration
  st_MaxUploadBytes :: int64
  st_Enabled :: bool

text \<open>A nil client is \<open>None\<close>: \<open>New\<close> leaves both clients nil when the storage is disabled.\<close>

record 'x S3 =
  s3_client :: "'x minio option"
  s3_presignClient :: "'x minio option"
  s3_cfg :: cfg_ObjectStorage

text \<open>
  \<open>minio.New\<close> is the argument \<open>minio_New\<close>, taking the endpoint, whether to use TLS and
  the configuration with the credentials and the region.
\<close>

definition S3_New ::
  "(string \<Rightarrow> bool \<Rightarrow> cfg_ObjectStorage \<Rightarrow> go_error + 'x minio) \<Rightarrow> cfg_ObjectStorage \<Rightarrow>
    go_error + 'x S3" where
  "S3_New minio_New c =
     (if \<not> objectstorage_Enabled c
      then Inr \<lparr>s3_client = None, s3_presignClient = None, s3_cfg = c\<rparr>
      else case minio_New (objectstorage_Endpoint c) (objectstorage_UseSSL c) c of
        Inl err \<Rightarrow> Inl err
      | Inr client \<Rightarrow>
          if objectstorage_PresignEndpoint c \<noteq> [] \<and>
             (objectstorage_PresignEndpoint c \<noteq> objectstorage_Endpoint c \<or>
              objectstorage_PresignUseSSL c \<noteq> objectstorage_UseSSL c)
          then case minio_New (objectstorage_PresignEndpoint c) (objectstorage_PresignUseSSL c) c of
              Inl err \<Rightarrow> Inl err
            | Inr presignClient \<Rightarrow>
                Inr \<lparr>s3_client = Some client, s3_presignClient = Some presignClient, s3_cfg = c\<rparr>
          else Inr \<lparr>s3_client = Some client, s3_presignClient = Some client, s3_cfg = c\<rparr>)"

definition S3_Enabled :: "'x S3 \<Rightarrow> bool" where
  "S3_Enabled s = objectstorage_Enabled (s3_cfg s)"

definition disabled_error :: go_error where
  "disabled_error = Errorf ''object storage is disabled''"

text \<open>
  The check that opens every method, and the use of a client. A nil client of an enabled storage
  would be a nil dereference; \<open>S3_New_enabled\<close> shows that \<open>New\<close> never makes one.
\<close>

definition gate :: "'x S3 \<Rightarrow> 'x minio option \<Rightarrow> (go_error \<Rightarrow> 'a) \<Rightarrow> ('x minio \<Rightarrow> ('x, 'a) ext_op) \<Rightarrow>
    ('x, 'a) ext_op" where
  "gate s client fail call x =
     (if \<not> S3_Enabled s then (fail disabled_error, x)
      else case client of
        None \<Rightarrow> (fail (Errorf ''nil pointer dereference''), x)
      | Some c \<Rightarrow> call c x)"

definition S3_PresignUpload :: "'x S3 \<Rightarrow> string \<Rightarrow> string \<Rightarrow> int64 \<Rightarrow> string \<Rightarrow>
    ('x, go_error + string) ext_op" where
  "S3_PresignUpload s key contentType sz checksum =
     gate s (s3_presignClient s) Inl (\<lambda>c.
       mc_PresignHeader c ''PUT'' (objectstorage_Bucket (s3_cfg s)) key
         (objectstorage_PresignTTL (s3_cfg s))
         [(''Content-Type'', contentType), (''Content-Length'', itoa (sint sz)),
          (''X-Amz-Meta-Sha256'', checksum)])"

definition S3_PresignDownload :: "'x S3 \<Rightarrow> string \<Rightarrow> ('x, go_error + string) ext_op" where
  "S3_PresignDownload s key =
     gate s (s3_presignClient s) Inl (\<lambda>c.
       mc_PresignedGetObject c (objectstorage_Bucket (s3_cfg s)) key
         (objectstorage_PresignTTL (s3_cfg s)))"

definition S3_Stat :: "'x S3 \<Rightarrow> string \<Rightarrow> ('x, ObjectInfo \<times> go_error option) ext_op" where
  "S3_Stat s key =
     gate s (s3_client s) (\<lambda>e. (\<lparr>oi_Size = 0, oi_ChecksumSHA256 = []\<rparr>, Some e)) (\<lambda>c x.
       (case mc_StatObject c (objectstorage_Bucket (s3_cfg s)) key x of
          (((sz, metadata), err), x') \<Rightarrow>
            ((\<lparr>oi_Size = sz, oi_ChecksumSHA256 = metadata ''X-Amz-Meta-Sha256''\<rparr>, err), x')))"

definition S3_Delete :: "'x S3 \<Rightarrow> string \<Rightarrow> ('x, go_error option) ext_op" where
  "S3_Delete s key =
     gate s (s3_client s) Some (\<lambda>c. mc_RemoveObject c (objectstorage_Bucket (s3_cfg s)) key)"

definition S3_InitiateMultipart :: "'x S3 \<Rightarrow> string \<Rightarrow> string \<Rightarrow> string \<Rightarrow>
    ('x, go_error + string) ext_op" where
  "S3_InitiateMultipart s key contentType checksum =
     gate s (s3_client s) Inl (\<lambda>c.
       mc_NewMultipartUpload c (objectstorage_Bucket (s3_cfg s)) key contentType
         [(''sha256'', checksum)])"

definition S3_PresignUploadPart :: "'x S3 \<Rightarrow> string \<Rightarrow> string \<Rightarrow> int \<Rightarrow>
    ('x, go_error + string) ext_op" where
  "S3_PresignUploadPart s key uploadID partNumber =
     gate s (s3_presignClient s) Inl (\<lambda>c.
       mc_Presign c ''PUT'' (objectstorage_Bucket (s3_cfg s)) key
         (objectstorage_PresignTTL (s3_cfg s))
         [(''uploadId'', uploadID), (''partNumber'', itoa partNumber)])"

text \<open>The entity tag without the quotes around it: \<open>strings.Trim(strings.TrimSpace(etag), "\"")\<close>.\<close>

definition clean_etag :: "string \<Rightarrow> string" where
  "clean_etag etag = trim_char (char_of (34::nat)) (TrimSpace etag)"

definition S3_CompleteMultipart :: "'x S3 \<Rightarrow> string \<Rightarrow> string \<Rightarrow> StoragePart list \<Rightarrow>
    ('x, go_error option) ext_op" where
  "S3_CompleteMultipart s key uploadID parts =
     gate s (s3_client s) Some (\<lambda>c.
       mc_CompleteMultipartUpload c (objectstorage_Bucket (s3_cfg s)) key uploadID
         (map (\<lambda>part. \<lparr>sp_PartNumber = sp_PartNumber part,
            sp_ETag = clean_etag (sp_ETag part)\<rparr>) parts))"

definition S3_AbortMultipart :: "'x S3 \<Rightarrow> string \<Rightarrow> string \<Rightarrow> ('x, go_error option) ext_op" where
  "S3_AbortMultipart s key uploadID =
     gate s (s3_client s) Some (\<lambda>c.
       mc_AbortMultipartUpload c (objectstorage_Bucket (s3_cfg s)) key uploadID)"

definition S3_Storage :: "'x S3 \<Rightarrow> 'x Storage" where
  "S3_Storage s =
     \<lparr>st_PresignUpload = S3_PresignUpload s,
      st_PresignDownload = S3_PresignDownload s,
      st_Stat = S3_Stat s,
      st_Delete = S3_Delete s,
      st_InitiateMultipart = S3_InitiateMultipart s,
      st_PresignUploadPart = S3_PresignUploadPart s,
      st_CompleteMultipart = S3_CompleteMultipart s,
      st_AbortMultipart = S3_AbortMultipart s,
      st_Bucket = objectstorage_Bucket (s3_cfg s),
      st_TTL = objectstorage_PresignTTL (s3_cfg s),
      st_MaxUploadBytes = objectstorage_MaxUploadBytes (s3_cfg s),
      st_Enabled = S3_Enabled s\<rparr>"

lemmas S3_method_defs = S3_PresignUpload_def S3_PresignDownload_def S3_Stat_def S3_Delete_def
  S3_InitiateMultipart_def S3_PresignUploadPart_def S3_CompleteMultipart_def S3_AbortMultipart_def

text \<open>
  What a client of the interface may rely on when the storage is disabled: every method that
  reaches the store reports an error and leaves the outside world alone.
\<close>

locale gated_storage =
  fixes st :: "'x Storage"
  assumes presign_upload_gated: "\<not> st_Enabled st \<Longrightarrow> \<exists>e. st_PresignUpload st k ct n c x = (Inl e, x)"
    and presign_download_gated: "\<not> st_Enabled st \<Longrightarrow> \<exists>e. st_PresignDownload st k x = (Inl e, x)"
    and stat_gated: "\<not> st_Enabled st \<Longrightarrow> \<exists>i e. st_Stat st k x = ((i, Some e), x)"
    and delete_gated: "\<not> st_Enabled st \<Longrightarrow> \<exists>e. st_Delete st k x = (Some e, x)"
    and initiate_gated: "\<not> st_Enabled st \<Longrightarrow> \<exists>e. st_InitiateMultipart st k ct c x = (Inl e, x)"
    and presign_part_gated: "\<not> st_Enabled st \<Longrightarrow> \<exists>e. st_PresignUploadPart st k u pn x = (Inl e, x)"
    and complete_gated: "\<not> st_Enabled st \<Longrightarrow> \<exists>e. st_CompleteMultipart st k u ps x = (Some e, x)"
    and abort_gated: "\<not> st_Enabled st \<Longrightarrow> \<exists>e. st_AbortMultipart st k u x = (Some e, x)"

interpretation s3_gated: gated_storage "S3_Storage s" for s
  by unfold_locales (auto simp: S3_Storage_def S3_method_defs gate_def)

text \<open>\<open>New\<close> gives an enabled storage both clients, so no method of it meets a nil client.\<close>

lemma S3_New_enabled:
  assumes "S3_New minio_New c = Inr s" and "S3_Enabled s"
  shows "s3_client s \<noteq> None" and "s3_presignClient s \<noteq> None"
  using assms by (auto simp: S3_New_def S3_Enabled_def split: if_splits sum.splits)

end
