(* ===== verification/Database.thy ===== *)
theory Database
  imports File_Model App_Error Object_Storage
begin

text \<open>
  The database as the service sees it, and \<open>Transactor\<close> of
  \<^verbatim>\<open>internal/database/transaction.go\<close>.

  The state is a record \<open>world\<close>: the two tables of the service (\<open>database\<close>) and the rest
  of the outside world \<open>'x\<close>. What is not in the repository is the record \<open>runtime\<close>: the
  clock, the identifier generator, the event encoder, the faults of the database driver, and
  \<open>rt_others\<close>, the transactions that other requests and replicas commit. \<open>rt_others\<close> acts
  before every statement outside a transaction and before every transaction, which are the points
  where this process observes what others have committed; a transaction itself is atomic. An
  error from \<open>COMMIT\<close> does not tell whether the transaction took effect, so there are two
  failing outcomes.
\<close>

record OutboxRow =
  or_ID :: string
  or_Subject :: string
  or_Envelope :: string
  or_Attempts :: int
  or_AvailableAt :: instant
  or_PublishedAt :: "instant option"
  or_LastError :: string
  or_Version :: int
  or_CreatedAt :: instant
  or_UpdatedAt :: instant
  or_CreatedBy :: string
  or_UpdatedBy :: string

record database =
  files :: "Metadata list"
  file_outbox_events :: "OutboxRow list"

record 'x world =
  w_db :: database
  w_ext :: 'x

datatype commit_outcome = Committed | Commit_lost go_error | Commit_unknown go_error

record 'x runtime =
  rt_others :: "database \<Rightarrow> ('x, database) ext_op"
  rt_now :: "('x, instant) ext_op"
  rt_uuid :: "('x, string) ext_op"
  rt_stmt :: "('x, go_error option) ext_op"
  rt_begin :: "('x, go_error option) ext_op"
  rt_commit :: "('x, commit_outcome) ext_op"
  rt_rollback :: "('x, go_error option) ext_op"
  rt_new_envelope :: "EventMetadata \<Rightarrow> PbFile \<Rightarrow> go_error + string"
  rt_event_id :: "string \<Rightarrow> string"
  rt_marshal :: "string \<Rightarrow> go_error + string"
  rt_unicode_lower :: "string \<Rightarrow> string"
  rt_lower_like :: "string \<Rightarrow> string \<Rightarrow> bool"

definition ext_call :: "('x, 'a) ext_op \<Rightarrow> ('x world, 'a) state" where
  "ext_call f = State (\<lambda>w. case f (w_ext w) of (a, x) \<Rightarrow> (a, w\<lparr>w_ext := x\<rparr>))"

definition interfere :: "'x runtime \<Rightarrow> ('x world, unit) state" where
  "interfere R =
     State (\<lambda>w. case rt_others R (w_db w) (w_ext w) of (d, x) \<Rightarrow> ((), \<lparr>w_db = d, w_ext = x\<rparr>))"

definition read_db :: "(database \<Rightarrow> 'a) \<Rightarrow> ('x world, 'a) state" where
  "read_db q = State (\<lambda>w. (q (w_db w), w))"

definition restore_db :: "database \<Rightarrow> ('x world, unit) state" where
  "restore_db d = State (\<lambda>w. ((), w\<lparr>w_db := d\<rparr>))"

text \<open>A query outside a transaction: a driver error or the rows.\<close>

definition sql_query :: "'x runtime \<Rightarrow> (database \<Rightarrow> 'a) \<Rightarrow> ('x world, go_error + 'a) state" where
  "sql_query R q = do {
     interfere R;
     fault \<leftarrow> ext_call (rt_stmt R);
     case fault of
       Some err \<Rightarrow> State_Monad.return (Inl err)
     | None \<Rightarrow> do { rows \<leftarrow> read_db q; State_Monad.return (Inr rows) }
   }"

text \<open>A statement inside a transaction: a driver or constraint error, or its result and the changed tables.\<close>

definition tx_exec ::
  "'x runtime \<Rightarrow> (database \<Rightarrow> go_error + 'a \<times> database) \<Rightarrow> ('x world, go_error + 'a) state" where
  "tx_exec R f = do {
     fault \<leftarrow> ext_call (rt_stmt R);
     case fault of
       Some err \<Rightarrow> State_Monad.return (Inl err)
     | None \<Rightarrow> State (\<lambda>w. case f (w_db w) of
           Inl err \<Rightarrow> (Inl err, w)
         | Inr (a, d) \<Rightarrow> (Inr a, w\<lparr>w_db := d\<rparr>))
   }"

text \<open>
  \<open>Transactor.Within\<close>. The argument \<open>avail\<close> says whether the transactor has a database
  (\<open>Available\<close>). The closure's captured variable is threaded as the value of type
  \<open>'a\<close>: it is \<open>a\<close> before the transaction and what the closure leaves in it afterwards,
  whether or not the transaction commits.
\<close>

definition Within ::
  "'x runtime \<Rightarrow> bool \<Rightarrow> 'a \<Rightarrow> ('x world, go_error option \<times> 'a) state \<Rightarrow>
    ('x world, go_error option \<times> 'a) state" where
  "Within R avail a fn =
     (if \<not> avail
      then State_Monad.return (Some (Errorf ''begin transaction: database is disabled''), a)
      else do {
        begin_err \<leftarrow> ext_call (rt_begin R);
        case begin_err of
          Some err \<Rightarrow> State_Monad.return (Some (Wrapf ''begin transaction'' err), a)
        | None \<Rightarrow> do {
            interfere R;
            saved \<leftarrow> read_db id;
            (fn_err, a') \<leftarrow> fn;
            case fn_err of
              Some err \<Rightarrow> do {
                restore_db saved;
                rollback_err \<leftarrow> ext_call (rt_rollback R);
                State_Monad.return
                  (Some (case rollback_err of
                     Some r \<Rightarrow> Wrapf ''rollback transaction'' r
                   | None \<Rightarrow> err), a')
              }
            | None \<Rightarrow> do {
                outcome \<leftarrow> ext_call (rt_commit R);
                case outcome of
                  Committed \<Rightarrow> State_Monad.return (None, a')
                | Commit_lost err \<Rightarrow> do {
                    restore_db saved;
                    State_Monad.return (Some (Wrapf ''commit transaction'' err), a')
                  }
                | Commit_unknown err \<Rightarrow>
                    State_Monad.return (Some (Wrapf ''commit transaction'' err), a')
              }
          }
      })"

subsection \<open>What the primitives leave alone\<close>

lemma run_ext_call: "run_state (ext_call f) w = (case f (w_ext w) of (a, x) \<Rightarrow> (a, w\<lparr>w_ext := x\<rparr>))"
  by (simp add: ext_call_def)

lemma run_interfere:
  "run_state (interfere R) w =
    (case rt_others R (w_db w) (w_ext w) of (d, x) \<Rightarrow> ((), \<lparr>w_db = d, w_ext = x\<rparr>))"
  by (simp add: interfere_def)

lemma run_read_db: "run_state (read_db q) w = (q (w_db w), w)"
  by (simp add: read_db_def)

lemma run_restore_db: "run_state (restore_db d) w = ((), w\<lparr>w_db := d\<rparr>)"
  by (simp add: restore_db_def)

lemmas run_db_prims = run_ext_call run_interfere run_read_db run_restore_db

lemma silent_ext_call [silent_rules, intro!, simp]: "silent w_db (ext_call f)"
  by (rule silentI) (auto simp: run_ext_call split: prod.splits)

lemma silent_read_db [silent_rules, intro!, simp]: "silent w_db (read_db q)"
  by (rule silentI) (simp add: run_read_db)

text \<open>The tables after what others have committed, as seen from a world.\<close>

definition others_db :: "'x runtime \<Rightarrow> 'x world \<Rightarrow> database" where
  "others_db R w = fst (rt_others R (w_db w) (w_ext w))"

text \<open>No other request is active.\<close>

definition quiet :: "'x runtime \<Rightarrow> bool" where
  "quiet R \<longleftrightarrow> (\<forall>d x. fst (rt_others R d x) = d)"

text \<open>
  The effect of \<open>Within\<close>: either the tables are as they were when the transaction began, or
  the closure's whole effect is in them. Success means the latter.
\<close>

lemma Within_cases:
  assumes "run_state (Within R avail a fn) w = ((err, b), w')"
  obtains (not_begun) e where "w_db w' = w_db w" "err = Some e" "b = a"
  | (rolled_back) w1 e fe w2 where "run_state fn w1 = ((fe, b), w2)" "err = Some e"
      "w_db w' = w_db w1" "\<exists>x. w_db w1 = fst (rt_others R (w_db w) x)"
  | (applied) w1 w2 where "run_state fn w1 = ((None, b), w2)" "w_db w' = w_db w2"
      "\<exists>x. w_db w1 = fst (rt_others R (w_db w) x)"
proof (cases "avail")
  case False
  with assms show ?thesis by (auto simp: Within_def intro: not_begun)
next
  case True
  obtain be x1 where be: "rt_begin R (w_ext w) = (be, x1)" by fastforce
  show ?thesis
  proof (cases be)
    case (Some e)
    with assms True be show ?thesis by (auto simp: Within_def run_db_prims intro: not_begun)
  next
    case None
    obtain d x2 where o: "rt_others R (w_db w) x1 = (d, x2)" by fastforce
    define w1 where "w1 = \<lparr>w_db = d, w_ext = x2\<rparr>"
    obtain fe b' w2 where f: "run_state fn w1 = ((fe, b'), w2)" by (metis prod.collapse)
    have w1: "\<exists>x. w_db w1 = fst (rt_others R (w_db w) x)"
      by (rule exI [of _ x1]) (simp add: w1_def o)
    note step = Within_def run_db_prims be None o w1_def [symmetric] f
    show ?thesis
    proof (cases fe)
      case (Some e)
      obtain r x3 where rb: "rt_rollback R (w_ext w2) = (r, x3)" by fastforce
      have "run_state (Within R avail a fn) w =
          ((Some (case r of Some r \<Rightarrow> Wrapf ''rollback transaction'' r | None \<Rightarrow> e), b'),
            w2\<lparr>w_db := w_db w1, w_ext := x3\<rparr>)"
        using True Some by (simp add: step rb)
      with assms have "err \<noteq> None" "b = b'" "w_db w' = w_db w1" by auto
      with f w1 show ?thesis using rolled_back by blast
    next
      case fe: None
      obtain oc x3 where oc: "rt_commit R (w_ext w2) = (oc, x3)" by fastforce
      show ?thesis
      proof (cases oc)
        case Committed
        then have "run_state (Within R avail a fn) w = ((None, b'), w2\<lparr>w_ext := x3\<rparr>)"
          using True fe by (simp add: step oc)
        with assms f fe have "run_state fn w1 = ((None, b), w2)" "w_db w' = w_db w2" by auto
        then show ?thesis using w1 by (rule applied)
      next
        case (Commit_lost e)
        then have "run_state (Within R avail a fn) w =
            ((Some (Wrapf ''commit transaction'' e), b'), w2\<lparr>w_ext := x3, w_db := w_db w1\<rparr>)"
          using True fe by (simp add: step oc)
        with assms have "err \<noteq> None" "b = b'" "w_db w' = w_db w1" by auto
        with f w1 show ?thesis using rolled_back by blast
      next
        case (Commit_unknown e)
        then have "run_state (Within R avail a fn) w =
            ((Some (Wrapf ''commit transaction'' e), b'), w2\<lparr>w_ext := x3\<rparr>)"
          using True fe by (simp add: step oc)
        with assms f fe have "run_state fn w1 = ((None, b), w2)" "w_db w' = w_db w2" by auto
        then show ?thesis using w1 by (rule applied)
      qed
    qed
  qed
qed

end
