(* ===== verification/File_Repository.thy ===== *)
theory File_Repository
  imports Database "HOL-Library.List_Lexorder" "HOL-Library.Char_ord"
    "HOL-Library.Product_Lexorder"
begin

text \<open>
  \<open>SQLRepository\<close> of \<^verbatim>\<open>internal/file/repository.go\<close>. Each SQL statement is a
  function on the tables, with the constraints the migrations under
  \<^verbatim>\<open>migrations/\<close> declare: the primary keys, the unique pairs (bucket, object key) and
  triples (tenant, application, idempotency key), and the non-empty application. Text is compared
  byte by byte, as PostgreSQL and KingbaseES do; \<open>LOWER(column) LIKE pattern\<close> depends on the
  server's locale and is \<open>rt_lower_like\<close>. A \<open>BIGINT\<close> that overflows is an error of the
  statement, and so is a negative \<open>LIMIT\<close> or \<open>OFFSET\<close>.

  The locale \<open>versioned_store\<close> is the contract of the versioned table: what an update that
  hits, or misses, does to every key. Its client lemma is that of two writers that expect the same
  version at most one succeeds.
\<close>

definition row_is :: "string \<Rightarrow> string \<Rightarrow> string \<Rightarrow> Metadata \<Rightarrow> bool" where
  "row_is i tenant application r \<longleftrightarrow>
     m_ID r = i \<and> m_TenantID r = tenant \<and> m_ApplicationID r = application"

definition select_by_id :: "string \<Rightarrow> string \<Rightarrow> string \<Rightarrow> database \<Rightarrow> Metadata option" where
  "select_by_id i tenant application d = find (row_is i tenant application) (files d)"

definition select_by_key :: "string \<Rightarrow> string \<Rightarrow> string \<Rightarrow> database \<Rightarrow> Metadata option" where
  "select_by_key tenant application key d =
     find (\<lambda>r. m_TenantID r = tenant \<and> m_ApplicationID r = application \<and> m_IdempotencyKey r = key)
       (files d)"

definition conflicts :: "Metadata \<Rightarrow> Metadata \<Rightarrow> bool" where
  "conflicts v r \<longleftrightarrow>
     m_ID r = m_ID v \<or>
     (m_Bucket r = m_Bucket v \<and> m_ObjectKey r = m_ObjectKey v) \<or>
     (m_TenantID r = m_TenantID v \<and> m_ApplicationID r = m_ApplicationID v \<and>
      m_IdempotencyKey r = m_IdempotencyKey v)"

definition insert_file :: "Metadata \<Rightarrow> database \<Rightarrow> go_error + unit \<times> database" where
  "insert_file v d =
     (if list_ex (conflicts v) (files d) then Inl (Errorf ''unique constraint violated'')
      else if m_ApplicationID v = [] then Inl (Errorf ''check constraint violated'')
      else Inr ((), d\<lparr>files := files d @ [v]\<rparr>))"

definition max_bigint :: int64 where
  "max_bigint = 9223372036854775807"

definition update_hits :: "Metadata \<Rightarrow> int64 \<Rightarrow> Metadata \<Rightarrow> bool" where
  "update_hits v expected r \<longleftrightarrow>
     row_is (m_ID v) (m_TenantID v) (m_ApplicationID v) r \<and> m_Version r = expected"

definition set_columns :: "Metadata \<Rightarrow> Metadata \<Rightarrow> Metadata" where
  "set_columns v r =
     r\<lparr>m_Status := m_Status v, m_ScanStatus := m_ScanStatus v,
       m_ChecksumSHA256 := m_ChecksumSHA256 v, m_Size := m_Size v,
       m_UploadMode := m_UploadMode v, m_MultipartUploadID := m_MultipartUploadID v,
       m_PartSize := m_PartSize v, m_PartCount := m_PartCount v,
       m_UploadExpiresAt := m_UploadExpiresAt v, m_Version := m_Version r + 1,
       m_UpdatedAt := m_UpdatedAt v, m_UpdatedBy := m_UpdatedBy v\<rparr>"

text \<open>The \<open>UPDATE\<close> statement: the number of affected rows and the tables after it.\<close>

definition update_file :: "Metadata \<Rightarrow> int64 \<Rightarrow> database \<Rightarrow> go_error + nat \<times> database" where
  "update_file v expected d =
     (if list_ex (\<lambda>r. update_hits v expected r \<and> m_Version r = max_bigint) (files d)
      then Inl (Errorf ''bigint out of range'')
      else Inr (length (filter (update_hits v expected) (files d)),
        d\<lparr>files := map (\<lambda>r. if update_hits v expected r then set_columns v r else r) (files d)\<rparr>))"

definition insert_outbox :: "OutboxEvent \<Rightarrow> database \<Rightarrow> go_error + unit \<times> database" where
  "insert_outbox event d =
     (if list_ex (\<lambda>r. or_ID r = oe_ID event) (file_outbox_events d)
      then Inl (Errorf ''unique constraint violated'')
      else Inr ((), d\<lparr>file_outbox_events := file_outbox_events d @
        [\<lparr>or_ID = oe_ID event, or_Subject = oe_Subject event, or_Envelope = oe_Envelope event,
          or_Attempts = 0, or_AvailableAt = oe_AvailableAt event, or_PublishedAt = None,
          or_LastError = [], or_Version = 1, or_CreatedAt = oe_CreatedAt event,
          or_UpdatedAt = oe_UpdatedAt event, or_CreatedBy = oe_CreatedBy event,
          or_UpdatedBy = oe_UpdatedBy event\<rparr>]\<rparr>))"

definition where_matches :: "'x runtime \<Rightarrow> ListFilter \<Rightarrow> Metadata \<Rightarrow> bool" where
  "where_matches R flt r \<longleftrightarrow>
     m_TenantID r = lf_TenantID flt \<and> m_ApplicationID r = lf_ApplicationID flt \<and>
     (lf_Keyword flt \<noteq> [] \<longrightarrow>
        (let keyword = ''%'' @ ToLower (rt_unicode_lower R) (lf_Keyword flt) @ ''%'' in
         rt_lower_like R (m_Filename r) keyword \<or> rt_lower_like R (m_ID r) keyword)) \<and>
     (lf_Status flt \<noteq> [] \<longrightarrow> m_Status r = lf_Status flt) \<and>
     (lf_ScanStatus flt \<noteq> [] \<longrightarrow> m_ScanStatus r = lf_ScanStatus flt) \<and>
     (lf_ContentType flt \<noteq> [] \<longrightarrow> m_ContentType r = lf_ContentType flt) \<and>
     (lf_OwnerID flt \<noteq> [] \<longrightarrow> m_OwnerID r = lf_OwnerID flt)"

definition newest_first :: "Metadata list \<Rightarrow> Metadata list" where
  "newest_first rows = rev (sort_key (\<lambda>r. (m_CreatedAt r, m_ID r)) rows)"

definition select_page :: "'x runtime \<Rightarrow> ListFilter \<Rightarrow> int64 \<Rightarrow> int64 \<Rightarrow> database \<Rightarrow>
    go_error + Metadata list" where
  "select_page R flt limit offset d =
     (if sint limit < 0 \<or> sint offset < 0 then Inl (Errorf ''LIMIT and OFFSET must not be negative'')
      else Inr (take (nat (sint limit)) (drop (nat (sint offset))
        (newest_first (List.filter (where_matches R flt) (files d))))))"

definition select_expired :: "instant \<Rightarrow> int64 \<Rightarrow> database \<Rightarrow> go_error + Metadata list" where
  "select_expired cutoff limit d =
     (if sint limit < 0 then Inl (Errorf ''LIMIT must not be negative'')
      else Inr (take (nat (sint limit))
        (sort_key (\<lambda>r. (the (m_UploadExpiresAt r), m_ID r))
          (List.filter (\<lambda>r. m_Status r = ''pending_upload'' \<and> m_UploadExpiresAt r \<noteq> None \<and>
             the (m_UploadExpiresAt r) \<le> cutoff) (files d)))))"

definition one_row :: "go_error + Metadata option \<Rightarrow> Metadata \<times> go_error option" where
  "one_row answer =
     (case answer of
        Inl err \<Rightarrow> (zero_Metadata, Some err)
      | Inr None \<Rightarrow> (zero_Metadata, Some ErrNotFound)
      | Inr (Some v) \<Rightarrow> (v, None))"

definition SQLRepository_Get :: "'x runtime \<Rightarrow> string \<Rightarrow> string \<Rightarrow> string \<Rightarrow>
    ('x world, Metadata \<times> go_error option) state" where
  "SQLRepository_Get R i tenant application = do {
     answer \<leftarrow> sql_query R (select_by_id i tenant application);
     State_Monad.return (one_row answer)
   }"

definition SQLRepository_GetByKey :: "'x runtime \<Rightarrow> string \<Rightarrow> string \<Rightarrow> string \<Rightarrow>
    ('x world, Metadata \<times> go_error option) state" where
  "SQLRepository_GetByKey R tenant application key = do {
     answer \<leftarrow> sql_query R (select_by_key tenant application key);
     State_Monad.return (one_row answer)
   }"

definition SQLRepository_List :: "'x runtime \<Rightarrow> ListFilter \<Rightarrow>
    ('x world, Metadata list \<times> int \<times> go_error option) state" where
  "SQLRepository_List R flt = do {
     total \<leftarrow> sql_query R (\<lambda>d. int (length (List.filter (where_matches R flt) (files d))));
     case total of
       Inl err \<Rightarrow> State_Monad.return ([], 0, Some err)
     | Inr n \<Rightarrow> do {
         page \<leftarrow> sql_query R (select_page R flt (lf_PageSize flt)
           ((lf_Page flt - 1) * lf_PageSize flt));
         State_Monad.return (case page of
             Inl err \<Rightarrow> ([], n, Some err)
           | Inr (Inl err) \<Rightarrow> ([], n, Some err)
           | Inr (Inr values) \<Rightarrow> (values, n, None))
       }
   }"

definition SQLRepository_Insert :: "'x runtime \<Rightarrow> Metadata \<Rightarrow> ('x world, go_error option) state" where
  "SQLRepository_Insert R v = do {
     result \<leftarrow> tx_exec R (insert_file v);
     State_Monad.return (case result of Inl err \<Rightarrow> Some err | Inr _ \<Rightarrow> None)
   }"

definition SQLRepository_Update :: "'x runtime \<Rightarrow> Metadata \<Rightarrow> int64 \<Rightarrow>
    ('x world, go_error option) state" where
  "SQLRepository_Update R v expected = do {
     result \<leftarrow> tx_exec R (update_file v expected);
     State_Monad.return (case result of
         Inl err \<Rightarrow> Some err
       | Inr n \<Rightarrow> if n = 0 then Some ErrStaleVersion else None)
   }"

definition SQLRepository_AddOutbox :: "'x runtime \<Rightarrow> OutboxEvent \<Rightarrow>
    ('x world, go_error option) state" where
  "SQLRepository_AddOutbox R event = do {
     result \<leftarrow> tx_exec R (insert_outbox event);
     State_Monad.return (case result of Inl err \<Rightarrow> Some err | Inr _ \<Rightarrow> None)
   }"

definition SQLRepository_ListExpiredUploads :: "'x runtime \<Rightarrow> instant \<Rightarrow> int64 \<Rightarrow>
    ('x world, Metadata list \<times> go_error option) state" where
  "SQLRepository_ListExpiredUploads R cutoff limit = do {
     answer \<leftarrow> sql_query R (select_expired cutoff limit);
     State_Monad.return (case answer of
         Inl err \<Rightarrow> ([], Some err)
       | Inr (Inl err) \<Rightarrow> ([], Some err)
       | Inr (Inr values) \<Rightarrow> (values, None))
   }"

subsection \<open>The contract of the versioned table\<close>

definition ids_distinct :: "database \<Rightarrow> bool" where
  "ids_distinct d = distinct (map m_ID (files d))"

text \<open>The table as a map from (id, tenant, application) to rows.\<close>

definition file_map :: "database \<Rightarrow> string \<times> string \<times> string \<Rightarrow> Metadata option" where
  "file_map d k = (case k of (i, t, a) \<Rightarrow> select_by_id i t a d)"

definition file_key :: "Metadata \<Rightarrow> string \<times> string \<times> string" where
  "file_key r = (m_ID r, m_TenantID r, m_ApplicationID r)"

locale versioned_store =
  fixes lookup :: "'d \<Rightarrow> 'k \<Rightarrow> 'r option"
    and key :: "'r \<Rightarrow> 'k"
    and version :: "'r \<Rightarrow> int64"
    and update :: "'r \<Rightarrow> int64 \<Rightarrow> 'd \<Rightarrow> 'e + nat \<times> 'd"
    and set_row :: "'r \<Rightarrow> 'r \<Rightarrow> 'r"
    and wf :: "'d \<Rightarrow> bool"
  assumes set_row_version: "version (set_row v r) = version r + 1"
    and update_wf: "wf d \<Longrightarrow> update v e d = Inr (n, d') \<Longrightarrow> wf d'"
    and update_at_most_one: "wf d \<Longrightarrow> update v e d = Inr (n, d') \<Longrightarrow> n \<le> 1"
    and update_hit: "wf d \<Longrightarrow> update v e d = Inr (n, d') \<Longrightarrow> n \<noteq> 0 \<Longrightarrow>
      \<exists>r. lookup d (key v) = Some r \<and> version r = e \<and>
        lookup d' = (lookup d)(key v := Some (set_row v r))"
    and update_miss: "wf d \<Longrightarrow> update v e d = Inr (0, d') \<Longrightarrow>
      lookup d' = lookup d \<and> (\<forall>r. lookup d (key v) = Some r \<longrightarrow> version r \<noteq> e)"
begin

lemma version_moves:
  assumes "wf d" "update v e d = Inr (n, d')" "n \<noteq> 0" "lookup d' (key v) = Some r'"
  shows "version r' = e + 1"
  using update_hit [OF assms(1-3)] assms(4) by (auto simp: set_row_version)

text \<open>Of two writers that expect the same version of the same row, the second one loses.\<close>

lemma single_winner:
  assumes "wf d" "update v e d = Inr (n, d1)" "n \<noteq> 0" "key v' = key v"
    and "update v' e d1 = Inr (m, d2)"
  shows "m = 0"
proof (rule ccontr)
  assume m: "m \<noteq> 0"
  have wf1: "wf d1" by (rule update_wf [OF assms(1,2)])
  from update_hit [OF wf1 assms(5) m] assms(4)
  obtain r' where r': "lookup d1 (key v) = Some r'" "version r' = e" by auto
  have "version r' = e + 1" by (rule version_moves [OF assms(1-3) r'(1)])
  with r'(2) show False by simp
qed

end

lemma find_map_cong: "(\<And>x. x \<in> set xs \<Longrightarrow> P (f x) = P x) \<Longrightarrow>
    find P (map f xs) = map_option f (find P xs)"
  by (induction xs) auto

lemma set_columns_core [simp]:
  "m_ID (set_columns v r) = m_ID r" "m_TenantID (set_columns v r) = m_TenantID r"
  "m_ApplicationID (set_columns v r) = m_ApplicationID r" "m_Bucket (set_columns v r) = m_Bucket r"
  "m_ObjectKey (set_columns v r) = m_ObjectKey r" "m_Filename (set_columns v r) = m_Filename r"
  "m_IdempotencyKey (set_columns v r) = m_IdempotencyKey r"
  "m_Version (set_columns v r) = m_Version r + 1"
  by (simp_all add: set_columns_def)

lemma row_is_set_columns [simp]: "row_is i t a (set_columns v r) = row_is i t a r"
  by (simp add: row_is_def)

lemma find_distinct_id:
  assumes "distinct (map m_ID rs)" "r \<in> set rs" "row_is i t a r"
  shows "find (row_is i t a) rs = Some r"
  using assms by (induction rs) (auto simp: row_is_def image_iff)

lemma select_by_id_iff:
  assumes "ids_distinct d"
  shows "select_by_id i t a d = Some r \<longleftrightarrow> r \<in> set (files d) \<and> row_is i t a r"
  using assms unfolding select_by_id_def ids_distinct_def
  by (metis find_Some_iff find_distinct_id nth_mem)

lemma length_filter_at_most_one:
  assumes "distinct (map m_ID rs)" "\<And>r. P r \<Longrightarrow> m_ID r = i"
  shows "length (filter P rs) \<le> 1"
proof -
  have "distinct (map m_ID (filter P rs))" using assms(1) by (simp add: distinct_map_filter)
  moreover have "set (map m_ID (filter P rs)) \<subseteq> {i}" using assms(2) by auto
  ultimately have "length (map m_ID (filter P rs)) \<le> card {i}"
    by (metis card_mono distinct_card finite.emptyI finite.insertI)
  then show ?thesis by simp
qed

lemma update_file_map:
  assumes "ids_distinct d" "update_file v e d = Inr (n, d')"
  shows "file_map d' k =
    (case file_map d k of
       None \<Rightarrow> None
     | Some r \<Rightarrow> Some (if update_hits v e r then set_columns v r else r))"
  using assms(2)
  by (auto simp: update_file_def file_map_def select_by_id_def find_map_cong split: if_splits
      prod.splits option.splits)

lemma update_file_count:
  assumes "ids_distinct d" "update_file v e d = Inr (n, d')"
  shows "n = (case file_map d (file_key v) of
      None \<Rightarrow> 0 | Some r \<Rightarrow> if m_Version r = e then 1 else 0)"
proof -
  have n: "n = length (filter (update_hits v e) (files d))"
    using assms(2) by (simp add: update_file_def split: if_splits)
  have le: "n \<le> 1" unfolding n
    by (rule length_filter_at_most_one [of _ _ "m_ID v"])
      (use assms(1) in \<open>auto simp: ids_distinct_def update_hits_def row_is_def\<close>)
  have "n \<noteq> 0 \<longleftrightarrow> (\<exists>r \<in> set (files d). update_hits v e r)"
    unfolding n by (simp add: filter_empty_conv)
  also have "\<dots> \<longleftrightarrow> (\<exists>r. file_map d (file_key v) = Some r \<and> m_Version r = e)"
    using select_by_id_iff [OF assms(1)]
    by (auto simp: file_map_def file_key_def update_hits_def)
  finally show ?thesis using le by (auto split: option.splits)
qed

lemma update_file_ids: "update_file v e d = Inr (n, d') \<Longrightarrow> map m_ID (files d') = map m_ID (files d)"
  by (auto simp: update_file_def split: if_splits)

interpretation files_table: versioned_store file_map file_key m_Version update_file set_columns
    ids_distinct
proof unfold_locales
  fix v r show "m_Version (set_columns v r) = m_Version r + 1" by simp
next
  fix d v e n d' assume u: "ids_distinct d" "update_file v e d = Inr (n, d')"
  then show "ids_distinct d'" by (simp add: ids_distinct_def update_file_ids)
  show "n \<le> 1" using update_file_count [OF u] by (auto split: option.splits if_splits)
next
  fix d v e n d'
  assume u: "ids_distinct d" "update_file v e d = Inr (n, d')" and n: "n \<noteq> (0::nat)"
  from update_file_count [OF u] n obtain r where
    r: "file_map d (file_key v) = Some r" "m_Version r = e"
    by (auto split: option.splits if_splits)
  then have hit: "update_hits v e r"
    using select_by_id_iff [OF u(1)] by (auto simp: file_map_def file_key_def update_hits_def)
  have "file_map d' k = ((file_map d)(file_key v := Some (set_columns v r))) k" for k
  proof (cases "k = file_key v")
    case True
    then show ?thesis using update_file_map [OF u, of k] r hit by simp
  next
    case False
    have "\<not> update_hits v e r'" if "file_map d k = Some r'" for r'
      using that False select_by_id_iff [OF u(1)]
      by (auto simp: file_map_def file_key_def update_hits_def row_is_def split: prod.splits)
    then show ?thesis using update_file_map [OF u, of k] False by (auto split: option.splits)
  qed
  with r show "\<exists>r. file_map d (file_key v) = Some r \<and> m_Version r = e \<and>
      file_map d' = (file_map d)(file_key v := Some (set_columns v r))" by blast
next
  fix d v e d'
  assume u: "ids_distinct d" "update_file v e d = Inr (0, d')"
  have "\<not> update_hits v e r" if "r \<in> set (files d)" for r
    using u(2) that by (auto simp: update_file_def filter_empty_conv split: if_splits)
  then have "files d' = files d"
    using u(2) by (auto simp: update_file_def map_idI split: if_splits)
  moreover have "\<forall>r. file_map d (file_key v) = Some r \<longrightarrow> m_Version r \<noteq> e"
    using update_file_count [OF u] by (auto split: option.splits if_splits)
  ultimately show "file_map d' = file_map d \<and>
      (\<forall>r. file_map d (file_key v) = Some r \<longrightarrow> m_Version r \<noteq> e)"
    by (auto simp: file_map_def select_by_id_def fun_eq_iff)
qed

end
