(* ===== verification/Go_Mime.thy ===== *)
theory Go_Mime
  imports Go_Strings App_Error
begin

text \<open>
  \<open>mime.ParseMediaType\<close> of Go's standard library, which decides whether a content type is
  acceptable. The result is the media type or an error; the parameter map, which the program does
  not use, is kept only for the check for duplicates. The last phase of the library function, which
  joins continued parameters, cannot fail and is left out.
\<close>

definition is_tspecial :: "char \<Rightarrow> bool" where
  "is_tspecial c = (c \<in> set ''()<>@,;:/[]?='' \<or> c = char_of (34::nat) \<or> c = char_of (92::nat))"

definition is_token_char :: "char \<Rightarrow> bool" where
  "is_token_char c = ((32::nat) < of_char c \<and> of_char c < (127::nat) \<and> \<not> is_tspecial c)"

definition consume_token :: "string \<Rightarrow> string \<times> string" where
  "consume_token v = (takeWhile is_token_char v, dropWhile is_token_char v)"

text \<open>The rest of a quoted string, after its opening quote: the value and what follows it.\<close>

fun consume_quoted :: "string \<Rightarrow> string \<Rightarrow> (string \<times> string) option" where
  "consume_quoted acc [] = None"
| "consume_quoted acc (r # rs) =
     (if r = char_of (34::nat) then Some (rev acc, rs)
      else if r = char_of (92::nat) \<and> rs \<noteq> [] \<and> is_tspecial (hd rs)
        then consume_quoted (hd rs # acc) (tl rs)
      else if r = char_of (13::nat) \<or> r = char_of (10::nat) then None
      else consume_quoted (r # acc) rs)"

definition consume_value :: "string \<Rightarrow> string \<times> string" where
  "consume_value v =
     (case v of
        [] \<Rightarrow> ([], [])
      | c # cs \<Rightarrow>
          if c \<noteq> char_of (34::nat) then consume_token v
          else case consume_quoted [] cs of None \<Rightarrow> ([], v) | Some r \<Rightarrow> r)"

text \<open>One parameter \<open>; key = value\<close>; \<open>None\<close> where the library returns an empty key.\<close>

definition consume_param :: "string \<Rightarrow> (string \<times> string \<times> string) option" where
  "consume_param v =
     (let r0 = trim_left_space v in
      if r0 = [] \<or> hd r0 \<noteq> CHR '';'' then None
      else
        let r1 = trim_left_space (tl r0);
            (param, r2) = consume_token r1;
            r3 = trim_left_space r2
        in if param = [] \<or> r3 = [] \<or> hd r3 \<noteq> CHR ''='' then None
           else
             let r4 = trim_left_space (tl r3);
                 (val, r5) = consume_value r4
             in if val = [] \<and> r5 = r4 then None
                else Some (map ascii_lower param, val, r5))"

lemma trim_left_space_length: "length (trim_left_space s) \<le> length s"
proof (induction s rule: trim_left_space.induct)
  case (1 s)
  then show ?case
    by (cases "s = [] \<or> space_len s = 0") (auto simp: trim_left_space.simps [of s])
qed

lemma consume_quoted_length: "consume_quoted acc v = Some (a, r) \<Longrightarrow> length r \<le> length v"
proof (induction acc v rule: consume_quoted.induct)
  case (1 acc)
  then show ?case by simp
next
  case (2 acc r rs)
  have tl: "length (tl rs) \<le> length rs" by simp
  from 2 show ?case by (auto split: if_splits intro: le_SucI order_trans [OF _ tl])
qed

lemma consume_value_length: "length (snd (consume_value v)) \<le> length v"
proof (cases v)
  case (Cons c cs)
  then show ?thesis
    using consume_quoted_length [of "[]" cs]
    by (auto simp: consume_value_def consume_token_def length_dropWhile_le split: option.splits
        intro: le_SucI)
qed (simp add: consume_value_def)

lemma consume_param_shorter:
  assumes "consume_param v = Some (k, x, rest)"
  shows "length rest < length v"
proof -
  define r0 where "r0 = trim_left_space v"
  define r1 where "r1 = trim_left_space (tl r0)"
  define r2 where "r2 = dropWhile is_token_char r1"
  define r3 where "r3 = trim_left_space r2"
  define r4 where "r4 = trim_left_space (tl r3)"
  from assms have r0: "r0 \<noteq> []" and rest: "rest = snd (consume_value r4)"
    unfolding consume_param_def Let_def r0_def r1_def r2_def r3_def r4_def
    by (auto simp: consume_token_def split: if_splits prod.splits)
  have "length rest \<le> length r4" unfolding rest by (rule consume_value_length)
  also have "\<dots> \<le> length (tl r3)" unfolding r4_def by (rule trim_left_space_length)
  also have "\<dots> \<le> length r3" by simp
  also have "\<dots> \<le> length r2" unfolding r3_def by (rule trim_left_space_length)
  also have "\<dots> \<le> length r1" unfolding r2_def by (rule length_dropWhile_le)
  also have "\<dots> \<le> length (tl r0)" unfolding r1_def by (rule trim_left_space_length)
  also have "\<dots> < length r0" using r0 by (cases r0) auto
  also have "\<dots> \<le> length v" unfolding r0_def by (rule trim_left_space_length)
  finally show ?thesis .
qed

text \<open>The parameter loop; the accumulator holds the parameters seen so far.\<close>

function parse_params :: "(string \<times> string) list \<Rightarrow> string \<Rightarrow> go_error option" where
  "parse_params seen v =
     (let v1 = trim_left_space v in
      if v1 = [] then None
      else case consume_param v1 of
        None \<Rightarrow>
          if TrimSpace v1 = '';'' then None else Some (Errorf ''mime: invalid media parameter'')
      | Some (key, val, rest) \<Rightarrow>
          (case map_of seen key of
             Some old \<Rightarrow>
               if old \<noteq> val then Some (Errorf ''mime: duplicate parameter name'')
               else parse_params seen rest
           | None \<Rightarrow> parse_params ((key, val) # seen) rest))"
  by pat_completeness auto
termination
  by (relation "measure (\<lambda>(seen, v). length v)")
    (auto dest!: consume_param_shorter intro: less_le_trans [OF _ trim_left_space_length])

declare parse_params.simps [simp del]

definition check_media_type :: "string \<Rightarrow> go_error option" where
  "check_media_type s =
     (let (typ, rest) = consume_token s in
      if typ = [] then Some (Errorf ''mime: no media type'')
      else if rest = [] then None
      else if hd rest \<noteq> CHR ''/'' then Some (Errorf ''mime: expected slash after first token'')
      else
        let (subtype, rest') = consume_token (tl rest) in
        if subtype = [] then Some (Errorf ''mime: expected token after slash'')
        else if rest' \<noteq> [] then Some (Errorf ''mime: unexpected content after media subtype'')
        else None)"

definition ParseMediaType :: "(string \<Rightarrow> string) \<Rightarrow> string \<Rightarrow> go_error + string" where
  "ParseMediaType uni v =
     (let base = takeWhile (\<lambda>c. c \<noteq> CHR '';'') v;
          mediatype = TrimSpace (ToLower uni base)
      in case check_media_type mediatype of
           Some err \<Rightarrow> Inl err
         | None \<Rightarrow>
             (case parse_params [] (drop (length base) v) of
                Some err \<Rightarrow> Inl err
              | None \<Rightarrow> Inr mediatype))"

end
