(* ===== verification/File_Service.thy ===== *)
theory File_Service
  imports File_Repository Go_Mime
begin

text \<open>
  \<open>Service\<close> of \<^verbatim>\<open>internal/file/service.go\<close>: one definition per method, in the
  state monad over \<open>world\<close>, with the checks, the early returns and the calls in the order of
  the source. A method returns the pair (value, error) of the Go method.

  The runtime \<open>R\<close> stands for the repository's database, the clock (\<open>s.now\<close>) and the
  libraries; the service record \<open>S\<close> holds the fields of the struct. The service runs with a
  database handle and a storage value, as the application module always supplies them, so the test
  \<open>s.storage == nil\<close> has no counterpart. Two pieces of code that the source repeats are
  definitions of their own: \<open>authorize\<close> (caller, tenant, application), and \<open>save_status\<close>
  (the transaction that updates the row and adds the status event).
\<close>

record 'x Service =
  sv_storage :: "'x Storage"
  sv_transactor :: bool
  sv_scanRequired :: bool
  sv_uploadSessionTTL :: duration
  sv_cleanupBatchSize :: int64
  sv_applications :: "string \<Rightarrow> string \<Rightarrow> ('x, go_error option) ext_op"

definition allowAllApplications :: "string \<Rightarrow> string \<Rightarrow> ('x, go_error option) ext_op" where
  "allowAllApplications tenant application x = (None, x)"

text \<open>24 hours in nanoseconds.\<close>

definition default_session_ttl :: duration where
  "default_session_ttl = 86400000000000"

definition NewService :: "bool \<Rightarrow> 'x Storage \<Rightarrow> 'x Service" where
  "NewService t s =
     \<lparr>sv_storage = s, sv_transactor = t, sv_scanRequired = False,
      sv_uploadSessionTTL = default_session_ttl, sv_cleanupBatchSize = 100,
      sv_applications = allowAllApplications\<rparr>"

definition NewRuntimeService ::
  "bool \<Rightarrow> 'x Storage \<Rightarrow> cfg_Config \<Rightarrow>
    (string \<Rightarrow> string \<Rightarrow> ('x, go_error option) ext_op) option \<Rightarrow> go_error + 'x Service" where
  "NewRuntimeService t s cfg applications =
     (case applications of
        None \<Rightarrow> Inl (Errorf ''application verifier is required'')
      | Some verify \<Rightarrow>
          Inr ((NewService t s)
            \<lparr>sv_applications := verify,
             sv_scanRequired := objectstorage_ScanRequired (config_ObjectStorage cfg),
             sv_uploadSessionTTL := objectstorage_MultipartSessionTTL (config_ObjectStorage cfg),
             sv_cleanupBatchSize := objectstorage_CleanupBatchSize (config_ObjectStorage cfg)\<rparr>))"

subsection \<open>Helpers of the service\<close>

definition validChecksum :: "string \<Rightarrow> bool" where
  "validChecksum v = (hex_decoded_len v = Some 32)"

definition translate :: "go_error option \<Rightarrow> go_error option" where
  "translate err =
     (case err of
        None \<Rightarrow> None
      | Some e \<Rightarrow>
          if errors_Is e ErrNotFound then Some (NotFound ''file not found'')
          else if errors_Is e ErrStaleVersion then Some (StaleVersion (Some e))
          else Some (Internal (Some e)))"

definition enforceTenant :: "Principal \<Rightarrow> string \<Rightarrow> go_error option" where
  "enforceTenant caller requested =
     (if p_Type caller = TypeUser \<and>
         (TrimSpace (p_TenantID caller) = [] \<or> p_TenantID caller \<noteq> TrimSpace requested)
      then Some (Forbidden ''tenant access denied'')
      else None)"

definition verifyApplication :: "'x Service \<Rightarrow> string \<Rightarrow> string \<Rightarrow>
    ('x world, go_error option) state" where
  "verifyApplication S tenant application =
     (let tenantID = TrimSpace tenant; applicationID = TrimSpace application in
      if tenantID = [] \<or> applicationID = []
      then State_Monad.return (Some (Invalid ''tenant_id and application_id are required'' None))
      else do {
        err \<leftarrow> ext_call (sv_applications S tenantID applicationID);
        State_Monad.return (case err of
            None \<Rightarrow> None
          | Some e \<Rightarrow>
              if errors_Is e ErrNotGranted then Some (Forbidden ''application access denied'')
              else Some (Unavailable ''application access verification unavailable'' (Some e)))
      })"

text \<open>The opening of the methods: the caller of the context, its tenant, the application grant.\<close>

definition authorize :: "'x Service \<Rightarrow> Ctx \<Rightarrow> string \<Rightarrow> string \<Rightarrow>
    ('x world, go_error + Principal) state" where
  "authorize S ctx tenant application =
     (case ctx_principal ctx of
        None \<Rightarrow> State_Monad.return (Inl (Unauthorized ''authenticated actor is required''))
      | Some caller \<Rightarrow>
          (case enforceTenant caller tenant of
             Some err \<Rightarrow> State_Monad.return (Inl err)
           | None \<Rightarrow> do {
               err \<leftarrow> verifyApplication S tenant application;
               State_Monad.return (case err of Some e \<Rightarrow> Inl e | None \<Rightarrow> Inr caller)
             }))"

definition uploadHeaders :: "string \<Rightarrow> int64 \<Rightarrow> string \<Rightarrow> (string \<times> string) list" where
  "uploadHeaders contentType sz checksum =
     [(''Content-Type'', contentType), (''Content-Length'', itoa (sint sz)),
      (''X-Amz-Meta-Sha256'', checksum)]"

definition multipartAuthorization :: "Metadata \<Rightarrow> MultipartAuthorization" where
  "multipartAuthorization v =
     \<lparr>ma_File = v, ma_UploadID = m_MultipartUploadID v, ma_PartSize = m_PartSize v,
      ma_PartCount = m_PartCount v,
      ma_ExpiresAt = (case m_UploadExpiresAt v of None \<Rightarrow> zero_time | Some t \<Rightarrow> t)\<rparr>"

definition object_key :: "string \<Rightarrow> string \<Rightarrow> string \<Rightarrow> string \<Rightarrow> string" where
  "object_key tenant application i filename =
     tenant @ ''/'' @ application @ ''/'' @ i @ ''/'' @ filename"

subsection \<open>Status events and transactions\<close>

definition event_file :: "Metadata \<Rightarrow> PbFile" where
  "event_file v =
     \<lparr>pb_Id = m_ID v, pb_TenantId = m_TenantID v, pb_ApplicationId = m_ApplicationID v,
      pb_OwnerId = m_OwnerID v, pb_Bucket = m_Bucket v, pb_ObjectKey = m_ObjectKey v,
      pb_Filename = m_Filename v, pb_ContentType = m_ContentType v, pb_Size = m_Size v,
      pb_ChecksumSha256 = m_ChecksumSHA256 v, pb_Status = m_Status v,
      pb_ScanStatus = m_ScanStatus v, pb_UploadMode = m_UploadMode v, pb_MultipartUploadId = [],
      pb_PartSize = m_PartSize v, pb_PartCount = m_PartCount v, pb_Version = m_Version v,
      pb_CreatedAt = m_CreatedAt v, pb_UpdatedAt = m_UpdatedAt v, pb_CreatedBy = m_CreatedBy v,
      pb_UpdatedBy = m_UpdatedBy v, pb_UploadExpiresAt = m_UploadExpiresAt v\<rparr>"

definition event_metadata :: "string \<Rightarrow> Metadata \<Rightarrow> EventMetadata" where
  "event_metadata eventID v =
     \<lparr>em_EventID = eventID, em_EventType = ''platform.file.v1.FileStatusChanged'',
      em_AggregateID = m_ID v, em_AggregateType = ''file'', em_TenantID = m_TenantID v,
      em_ApplicationID = m_ApplicationID v, em_SchemaVersion = 1, em_ActorID = m_UpdatedBy v,
      em_OccurredAt = m_UpdatedAt v\<rparr>"

definition outbox_event :: "string \<Rightarrow> string \<Rightarrow> Metadata \<Rightarrow> OutboxEvent" where
  "outbox_event eventID encoded v =
     \<lparr>oe_ID = eventID, oe_Subject = ''platform.file.status.changed.v1'', oe_Envelope = encoded,
      oe_AvailableAt = m_UpdatedAt v, oe_CreatedAt = m_UpdatedAt v, oe_UpdatedAt = m_UpdatedAt v,
      oe_CreatedBy = m_UpdatedBy v, oe_UpdatedBy = m_UpdatedBy v\<rparr>"

definition addStatusEvent :: "'x runtime \<Rightarrow> Metadata \<Rightarrow> ('x world, go_error option) state" where
  "addStatusEvent R v = do {
     eventID \<leftarrow> ext_call (rt_uuid R);
     case rt_new_envelope R (event_metadata eventID v) (event_file v) of
       Inl err \<Rightarrow> State_Monad.return (Some err)
     | Inr envelope \<Rightarrow>
         (case rt_marshal R envelope of
            Inl err \<Rightarrow> State_Monad.return (Some err)
          | Inr encoded \<Rightarrow>
              SQLRepository_AddOutbox R (outbox_event (rt_event_id R envelope) encoded v))
   }"

definition insert_body :: "'x runtime \<Rightarrow> Metadata \<Rightarrow>
    ('x world, go_error option \<times> Metadata) state" where
  "insert_body R v = do {
     err \<leftarrow> SQLRepository_Insert R v;
     case err of
       Some e \<Rightarrow> State_Monad.return (Some e, v)
     | None \<Rightarrow> do { err \<leftarrow> addStatusEvent R v; State_Monad.return (err, v) }
   }"

text \<open>The transaction that creates a file.\<close>

definition create_file :: "'x runtime \<Rightarrow> 'x Service \<Rightarrow> Metadata \<Rightarrow>
    ('x world, go_error option \<times> Metadata) state" where
  "create_file R S v = Within R (sv_transactor S) v (insert_body R v)"

definition update_body :: "'x runtime \<Rightarrow> Metadata \<Rightarrow> int64 \<Rightarrow>
    ('x world, go_error option \<times> Metadata) state" where
  "update_body R v expected = do {
     err \<leftarrow> SQLRepository_Update R v expected;
     case err of
       Some e \<Rightarrow> State_Monad.return (Some e, v)
     | None \<Rightarrow> do {
         err \<leftarrow> addStatusEvent R (v\<lparr>m_Version := expected + 1\<rparr>);
         State_Monad.return (err, v\<lparr>m_Version := expected + 1\<rparr>)
       }
   }"

text \<open>The transaction that changes a file's status; the second result is the captured variable.\<close>

definition save_status :: "'x runtime \<Rightarrow> 'x Service \<Rightarrow> Metadata \<Rightarrow> int64 \<Rightarrow>
    ('x world, go_error option \<times> Metadata) state" where
  "save_status R S v expected = Within R (sv_transactor S) v (update_body R v expected)"

subsection \<open>Initiating uploads\<close>

text \<open>
  The checks of an upload request before the caller is looked at, which \<open>InitiateUpload\<close> and
  \<open>validateUpload\<close> both make: the trimmed tenant, application, file name, content type,
  checksum and idempotency key.
\<close>

definition check_upload ::
  "'x runtime \<Rightarrow> 'x Service \<Rightarrow> string \<Rightarrow> string \<Rightarrow> string \<Rightarrow> string \<Rightarrow> int64 \<Rightarrow> string \<Rightarrow> string \<Rightarrow>
    go_error + string \<times> string \<times> string \<times> string \<times> string \<times> string" where
  "check_upload R S tenant application filename contentType sz checksum key =
     (let tenant = TrimSpace tenant;
          application = TrimSpace application;
          filename = filepath_Base (TrimSpace filename);
          contentType = TrimSpace contentType;
          checksum = ToLower (rt_unicode_lower R) (TrimSpace checksum);
          key = TrimSpace key
      in if tenant = [] \<or> application = [] \<or> filename = [] \<or> filename = ''.'' \<or> key = [] \<or>
            sint sz \<le> 0 \<or> \<not> st_Enabled (sv_storage S) \<or>
            sint (st_MaxUploadBytes (sv_storage S)) < sint sz
         then Inl (Invalid ''invalid upload request or object storage unavailable'' None)
         else case ParseMediaType (rt_unicode_lower R) contentType of
             Inl err \<Rightarrow> Inl (Invalid ''invalid content_type'' (Some err))
           | Inr _ \<Rightarrow>
               if \<not> validChecksum checksum
               then Inl (Invalid ''checksum_sha256 must be 64 hexadecimal characters'' None)
               else Inr (tenant, application, filename, contentType, checksum, key))"

definition Service_InitiateUpload ::
  "'x runtime \<Rightarrow> 'x Service \<Rightarrow> Ctx \<Rightarrow> string \<Rightarrow> string \<Rightarrow> string \<Rightarrow> string \<Rightarrow> int64 \<Rightarrow> string \<Rightarrow>
    string \<Rightarrow> ('x world, Authorization \<times> go_error option) state" where
  "Service_InitiateUpload R S ctx tenant application filename contentType sz checksum key =
     (case check_upload R S tenant application filename contentType sz checksum key of
        Inl err \<Rightarrow> State_Monad.return (zero_Authorization, Some err)
      | Inr (tenant, application, filename, contentType, checksum, key) \<Rightarrow> do {
          auth \<leftarrow> authorize S ctx tenant application;
          case auth of
            Inl err \<Rightarrow> State_Monad.return (zero_Authorization, Some err)
          | Inr caller \<Rightarrow> do {
              (existing, err) \<leftarrow> SQLRepository_GetByKey R tenant application key;
              case err of
                None \<Rightarrow> do {
                  url \<leftarrow> ext_call (st_PresignUpload (sv_storage S) (m_ObjectKey existing)
                    (m_ContentType existing) (m_Size existing) (m_ChecksumSHA256 existing));
                  case url of
                    Inl urlErr \<Rightarrow> State_Monad.return
                      (zero_Authorization, Some (Unavailable ''object storage unavailable'' (Some urlErr)))
                  | Inr u \<Rightarrow> do {
                      now \<leftarrow> ext_call (rt_now R);
                      State_Monad.return
                        (\<lparr>a_File = existing, a_URL = u,
                          a_Headers = uploadHeaders (m_ContentType existing) (m_Size existing)
                            (m_ChecksumSHA256 existing),
                          a_ExpiresAt = now + sint (st_TTL (sv_storage S))\<rparr>, None)
                    }
                }
              | Some e \<Rightarrow>
                  if \<not> errors_Is e ErrNotFound
                  then State_Monad.return (zero_Authorization, translate (Some e))
                  else do {
                    now \<leftarrow> ext_call (rt_now R);
                    i \<leftarrow> ext_call (rt_uuid R);
                    let v = \<lparr>m_ID = i, m_TenantID = tenant, m_ApplicationID = application,
                      m_OwnerID = p_ID caller, m_Bucket = st_Bucket (sv_storage S),
                      m_ObjectKey = object_key tenant application i filename,
                      m_Filename = filename, m_ContentType = contentType, m_Size = sz,
                      m_ChecksumSHA256 = checksum, m_Status = ''pending_upload'',
                      m_ScanStatus = ''pending'', m_IdempotencyKey = key, m_UploadMode = ''single'',
                      m_MultipartUploadID = [], m_PartSize = 0, m_PartCount = 0,
                      m_UploadExpiresAt = Some (now + sint (sv_uploadSessionTTL S)),
                      m_Version = 1, m_CreatedAt = now, m_UpdatedAt = now,
                      m_CreatedBy = p_ID caller, m_UpdatedBy = p_ID caller\<rparr>;
                    (err, v) \<leftarrow> create_file R S v;
                    case err of
                      Some e \<Rightarrow> State_Monad.return (zero_Authorization, translate (Some e))
                    | None \<Rightarrow> do {
                        url \<leftarrow> ext_call (st_PresignUpload (sv_storage S) (m_ObjectKey v)
                          contentType sz checksum);
                        State_Monad.return (case url of
                            Inl urlErr \<Rightarrow>
                              (zero_Authorization,
                                Some (Unavailable ''object storage unavailable'' (Some urlErr)))
                          | Inr u \<Rightarrow>
                              (\<lparr>a_File = v, a_URL = u,
                                a_Headers = uploadHeaders contentType sz checksum,
                                a_ExpiresAt = now + sint (st_TTL (sv_storage S))\<rparr>, None))
                      }
                  }
            }
        })"

definition validateUpload ::
  "'x runtime \<Rightarrow> 'x Service \<Rightarrow> Ctx \<Rightarrow> string \<Rightarrow> string \<Rightarrow> string \<Rightarrow> string \<Rightarrow> int64 \<Rightarrow> string \<Rightarrow>
    string \<Rightarrow> ('x world, Metadata \<times> go_error option) state" where
  "validateUpload R S ctx tenant application filename contentType sz checksum key =
     (case check_upload R S tenant application filename contentType sz checksum key of
        Inl err \<Rightarrow> State_Monad.return (zero_Metadata, Some err)
      | Inr (tenant, application, filename, contentType, checksum, key) \<Rightarrow> do {
          auth \<leftarrow> authorize S ctx tenant application;
          State_Monad.return (case auth of
              Inl err \<Rightarrow> (zero_Metadata, Some err)
            | Inr caller \<Rightarrow>
                (zero_Metadata\<lparr>m_TenantID := tenant, m_ApplicationID := application,
                  m_Filename := filename, m_ContentType := contentType, m_Size := sz,
                  m_ChecksumSHA256 := checksum, m_IdempotencyKey := key,
                  m_CreatedBy := p_ID caller, m_UpdatedBy := p_ID caller\<rparr>, None))
        })"

text \<open>The part size in force and the number of parts, in int64 arithmetic, or the rejection.\<close>

definition multipart_geometry :: "int64 \<Rightarrow> int64 \<Rightarrow> go_error + int64 \<times> int64" where
  "multipart_geometry sz requested =
     (let partSize = (if requested = 0 then 8388608 else requested) in
      if sint partSize < 5242880 \<or> 5368709120 < sint partSize
      then Inl (Invalid ''part_size must be between 5 MiB and 5 GiB'' None)
      else
        let partCount = go_div64 (sz + partSize - 1) partSize in
        if sint sz \<le> 0 \<or> sint partCount < 1 \<or> 10000 < sint partCount
        then Inl (Invalid ''multipart upload requires between 1 and 10000 parts'' None)
        else Inr (partSize, partCount))"

definition Service_InitiateMultipartUpload ::
  "'x runtime \<Rightarrow> 'x Service \<Rightarrow> Ctx \<Rightarrow> string \<Rightarrow> string \<Rightarrow> string \<Rightarrow> string \<Rightarrow> int64 \<Rightarrow> string \<Rightarrow>
    string \<Rightarrow> int64 \<Rightarrow> ('x world, MultipartAuthorization \<times> go_error option) state" where
  "Service_InitiateMultipartUpload R S ctx tenant application filename contentType sz checksum key
     requestedPartSize =
     (case multipart_geometry sz requestedPartSize of
        Inl err \<Rightarrow> State_Monad.return (zero_MultipartAuthorization, Some err)
      | Inr (partSize, partCount) \<Rightarrow> do {
          (base, err) \<leftarrow> validateUpload R S ctx tenant application filename contentType sz checksum key;
          case err of
            Some e \<Rightarrow> State_Monad.return (zero_MultipartAuthorization, Some e)
          | None \<Rightarrow> do {
              (existing, getErr) \<leftarrow> SQLRepository_GetByKey R (m_TenantID base)
                (m_ApplicationID base) (m_IdempotencyKey base);
              case getErr of
                None \<Rightarrow>
                  if m_UploadMode existing \<noteq> ''multipart'' \<or> m_Status existing \<noteq> ''pending_upload''
                  then State_Monad.return (zero_MultipartAuthorization,
                    Some (Conflict ''idempotency key belongs to another upload'' None))
                  else State_Monad.return (multipartAuthorization existing, None)
              | Some e \<Rightarrow>
                  if \<not> errors_Is e ErrNotFound
                  then State_Monad.return (zero_MultipartAuthorization, translate (Some e))
                  else do {
                    now \<leftarrow> ext_call (rt_now R);
                    i \<leftarrow> ext_call (rt_uuid R);
                    let base = base\<lparr>m_ID := i,
                      m_ObjectKey := object_key (m_TenantID base) (m_ApplicationID base) i
                        (m_Filename base),
                      m_Bucket := st_Bucket (sv_storage S), m_OwnerID := m_CreatedBy base,
                      m_Status := ''pending_upload'', m_ScanStatus := ''pending'',
                      m_UploadMode := ''multipart'', m_PartSize := partSize,
                      m_PartCount := to_int32 partCount, m_Version := 1,
                      m_UploadExpiresAt := Some (now + sint (sv_uploadSessionTTL S)),
                      m_CreatedAt := now, m_UpdatedAt := now\<rparr>;
                    upload \<leftarrow> ext_call (st_InitiateMultipart (sv_storage S) (m_ObjectKey base)
                      (m_ContentType base) (m_ChecksumSHA256 base));
                    case upload of
                      Inl e \<Rightarrow> State_Monad.return (zero_MultipartAuthorization,
                        Some (Unavailable ''object storage unavailable'' (Some e)))
                    | Inr uploadID \<Rightarrow> do {
                        (err, base) \<leftarrow> create_file R S (base\<lparr>m_MultipartUploadID := uploadID\<rparr>);
                        case err of
                          Some e \<Rightarrow> do {
                            ignored \<leftarrow> ext_call (st_AbortMultipart (sv_storage S)
                              (m_ObjectKey base) uploadID);
                            State_Monad.return (zero_MultipartAuthorization, translate (Some e))
                          }
                        | None \<Rightarrow> State_Monad.return (multipartAuthorization base, None)
                      }
                  }
            }
        })"

subsection \<open>Parts and completion\<close>

definition Service_AuthorizeUploadPart ::
  "'x runtime \<Rightarrow> 'x Service \<Rightarrow> Ctx \<Rightarrow> string \<Rightarrow> string \<Rightarrow> string \<Rightarrow> int32 \<Rightarrow>
    ('x world, Authorization \<times> go_error option) state" where
  "Service_AuthorizeUploadPart R S ctx i tenant application partNumber = do {
     auth \<leftarrow> authorize S ctx tenant application;
     case auth of
       Inl err \<Rightarrow> State_Monad.return (zero_Authorization, Some err)
     | Inr caller \<Rightarrow> do {
         (v, err) \<leftarrow> SQLRepository_Get R i tenant application;
         case err of
           Some e \<Rightarrow> State_Monad.return (zero_Authorization, translate (Some e))
         | None \<Rightarrow>
             if m_Status v \<noteq> ''pending_upload'' \<or> m_UploadMode v \<noteq> ''multipart'' \<or>
                sint partNumber < 1 \<or> sint (m_PartCount v) < sint partNumber \<or>
                m_UploadExpiresAt v = None
             then State_Monad.return (zero_Authorization,
               Some (Conflict ''multipart upload is unavailable or expired'' None))
             else do {
               now \<leftarrow> ext_call (rt_now R);
               if \<not> now < the (m_UploadExpiresAt v)
               then State_Monad.return (zero_Authorization,
                 Some (Conflict ''multipart upload is unavailable or expired'' None))
               else do {
                 url \<leftarrow> ext_call (st_PresignUploadPart (sv_storage S) (m_ObjectKey v)
                   (m_MultipartUploadID v) (sint partNumber));
                 case url of
                   Inl e \<Rightarrow> State_Monad.return
                     (zero_Authorization, Some (Unavailable ''object storage unavailable'' (Some e)))
                 | Inr u \<Rightarrow> do {
                     now \<leftarrow> ext_call (rt_now R);
                     State_Monad.return
                       (\<lparr>a_File = v, a_URL = u, a_Headers = [],
                         a_ExpiresAt = now + sint (st_TTL (sv_storage S))\<rparr>, None)
                   }
               }
             }
       }
   }"

definition Service_CompleteUpload ::
  "'x runtime \<Rightarrow> 'x Service \<Rightarrow> Ctx \<Rightarrow> string \<Rightarrow> string \<Rightarrow> string \<Rightarrow> string \<Rightarrow> int64 \<Rightarrow>
    ('x world, Metadata \<times> go_error option) state" where
  "Service_CompleteUpload R S ctx i tenant application checksum expected = do {
     auth \<leftarrow> authorize S ctx tenant application;
     case auth of
       Inl err \<Rightarrow> State_Monad.return (zero_Metadata, Some err)
     | Inr caller \<Rightarrow> do {
         (v, err) \<leftarrow> SQLRepository_Get R i tenant application;
         case err of
           Some e \<Rightarrow> State_Monad.return (zero_Metadata, translate (Some e))
         | None \<Rightarrow>
             if m_Status v = ''ready'' then State_Monad.return (v, None)
             else if sint expected < 1
             then State_Monad.return
               (zero_Metadata, Some (Invalid ''expected_version is required'' None))
             else do {
               (info, statErr) \<leftarrow> ext_call (st_Stat (sv_storage S) (m_ObjectKey v));
               case statErr of
                 Some e \<Rightarrow> State_Monad.return
                   (zero_Metadata, Some (Unavailable ''uploaded object is unavailable'' (Some e)))
               | None \<Rightarrow>
                   if oi_Size info \<noteq> m_Size v \<or>
                      ToLower (rt_unicode_lower R) (TrimSpace checksum) \<noteq> m_ChecksumSHA256 v \<or>
                      (oi_ChecksumSHA256 info \<noteq> [] \<and> oi_ChecksumSHA256 info \<noteq> m_ChecksumSHA256 v)
                   then State_Monad.return (zero_Metadata,
                     Some (Conflict ''uploaded object does not match declared size or checksum'' None))
                   else do {
                     now \<leftarrow> ext_call (rt_now R);
                     (err, v') \<leftarrow> save_status R S
                       (v\<lparr>m_Status := ''ready'',
                          m_ScanStatus := (if sv_scanRequired S then ''pending'' else ''skipped''),
                          m_UpdatedAt := now, m_UpdatedBy := p_ID caller\<rparr>) expected;
                     State_Monad.return (v'\<lparr>m_Version := expected + 1\<rparr>, translate err)
                   }
             }
       }
   }"

text \<open>The loop over the reported parts: \<open>seen\<close> is the map of part numbers, the result the storage's list.\<close>

fun check_parts :: "int32 \<Rightarrow> int32 list \<Rightarrow> CompletedPart list \<Rightarrow> go_error + StoragePart list" where
  "check_parts partCount seen [] = Inr []"
| "check_parts partCount seen (part # parts) =
     (let etag = clean_etag (cp_ETag part) in
      if sint (cp_PartNumber part) < 1 \<or> sint partCount < sint (cp_PartNumber part) \<or> etag = []
      then Inl (Invalid ''invalid completed part'' None)
      else if cp_PartNumber part \<in> set seen
      then Inl (Invalid ''duplicate completed part'' None)
      else case check_parts partCount (cp_PartNumber part # seen) parts of
          Inl err \<Rightarrow> Inl err
        | Inr storageParts \<Rightarrow>
            Inr (\<lparr>sp_PartNumber = sint (cp_PartNumber part), sp_ETag = etag\<rparr> # storageParts))"

definition Service_CompleteMultipartUpload ::
  "'x runtime \<Rightarrow> 'x Service \<Rightarrow> Ctx \<Rightarrow> string \<Rightarrow> string \<Rightarrow> string \<Rightarrow> string \<Rightarrow> CompletedPart list \<Rightarrow>
    int64 \<Rightarrow> ('x world, Metadata \<times> go_error option) state" where
  "Service_CompleteMultipartUpload R S ctx i tenant application checksum parts expected = do {
     auth \<leftarrow> authorize S ctx tenant application;
     case auth of
       Inl err \<Rightarrow> State_Monad.return (zero_Metadata, Some err)
     | Inr caller \<Rightarrow> do {
         (v, err) \<leftarrow> SQLRepository_Get R i tenant application;
         case err of
           Some e \<Rightarrow> State_Monad.return (zero_Metadata, translate (Some e))
         | None \<Rightarrow>
             if m_UploadMode v \<noteq> ''multipart'' \<or> m_Status v \<noteq> ''pending_upload'' \<or>
                word_of_nat (length parts) \<noteq> m_PartCount v \<or> expected \<noteq> m_Version v
             then State_Monad.return (zero_Metadata,
               Some (Conflict ''multipart upload state, parts, or version do not match'' None))
             else case check_parts (m_PartCount v) [] parts of
                 Inl err \<Rightarrow> State_Monad.return (zero_Metadata, Some err)
               | Inr storageParts \<Rightarrow> do {
                   err \<leftarrow> ext_call (st_CompleteMultipart (sv_storage S) (m_ObjectKey v)
                     (m_MultipartUploadID v) (sort_key sp_PartNumber storageParts));
                   case err of
                     Some e \<Rightarrow> State_Monad.return
                       (zero_Metadata, Some (Unavailable ''complete multipart upload'' (Some e)))
                   | None \<Rightarrow> Service_CompleteUpload R S ctx i tenant application checksum expected
                 }
       }
   }"

subsection \<open>Ending an upload or a file\<close>

definition Service_AbortMultipartUpload ::
  "'x runtime \<Rightarrow> 'x Service \<Rightarrow> Ctx \<Rightarrow> string \<Rightarrow> string \<Rightarrow> string \<Rightarrow> int64 \<Rightarrow>
    ('x world, Metadata \<times> go_error option) state" where
  "Service_AbortMultipartUpload R S ctx i tenant application expected = do {
     auth \<leftarrow> authorize S ctx tenant application;
     case auth of
       Inl err \<Rightarrow> State_Monad.return (zero_Metadata, Some err)
     | Inr caller \<Rightarrow> do {
         (v, err) \<leftarrow> SQLRepository_Get R i tenant application;
         case err of
           Some e \<Rightarrow> State_Monad.return (zero_Metadata, translate (Some e))
         | None \<Rightarrow>
             if m_Status v = ''deleted'' then State_Monad.return (v, None)
             else if m_UploadMode v \<noteq> ''multipart'' \<or> m_Status v \<noteq> ''pending_upload'' \<or>
                expected \<noteq> m_Version v
             then State_Monad.return
               (zero_Metadata, Some (Conflict ''multipart upload cannot be aborted'' None))
             else do {
               err \<leftarrow> ext_call (st_AbortMultipart (sv_storage S) (m_ObjectKey v)
                 (m_MultipartUploadID v));
               case err of
                 Some e \<Rightarrow> State_Monad.return
                   (zero_Metadata, Some (Unavailable ''abort multipart upload'' (Some e)))
               | None \<Rightarrow> do {
                   now \<leftarrow> ext_call (rt_now R);
                   (err, v') \<leftarrow> save_status R S
                     (v\<lparr>m_Status := ''deleted'', m_UpdatedAt := now, m_UpdatedBy := p_ID caller\<rparr>)
                     expected;
                   State_Monad.return (v', translate err)
                 }
             }
       }
   }"

definition lifecycle_actor :: string where
  "lifecycle_actor = ''system:file-lifecycle''"

text \<open>The body of the cleanup loop: the counter and the collected errors are the loop's variables.\<close>

fun cleanup_loop :: "'x runtime \<Rightarrow> 'x Service \<Rightarrow> nat \<Rightarrow> go_error list \<Rightarrow> Metadata list \<Rightarrow>
    ('x world, nat \<times> go_error list) state" where
  "cleanup_loop R S cleaned errs [] = State_Monad.return (cleaned, errs)"
| "cleanup_loop R S cleaned errs (v # vs) = do {
     err \<leftarrow> (if m_UploadMode v = ''multipart''
       then ext_call (st_AbortMultipart (sv_storage S) (m_ObjectKey v) (m_MultipartUploadID v))
       else ext_call (st_Delete (sv_storage S) (m_ObjectKey v)));
     case err of
       Some e \<Rightarrow> cleanup_loop R S cleaned (errs @ [Wrapf (''clean expired upload '' @ m_ID v) e]) vs
     | None \<Rightarrow> do {
         now \<leftarrow> ext_call (rt_now R);
         (err, v') \<leftarrow> save_status R S
           (v\<lparr>m_Status := ''expired'', m_UpdatedAt := now, m_UpdatedBy := lifecycle_actor\<rparr>)
           (m_Version v);
         case err of
           Some e \<Rightarrow> cleanup_loop R S cleaned (errs @ [Wrapf (''persist expired upload '' @ m_ID v) e]) vs
         | None \<Rightarrow> cleanup_loop R S (Suc cleaned) errs vs
       }
   }"

definition errors_Join :: "go_error list \<Rightarrow> go_error option" where
  "errors_Join errs = (if errs = [] then None else Some (Join errs))"

definition Service_CleanupExpiredUploads :: "'x runtime \<Rightarrow> 'x Service \<Rightarrow>
    ('x world, nat \<times> go_error option) state" where
  "Service_CleanupExpiredUploads R S = do {
     now \<leftarrow> ext_call (rt_now R);
     (values, err) \<leftarrow> SQLRepository_ListExpiredUploads R now (sv_cleanupBatchSize S);
     case err of
       Some e \<Rightarrow> State_Monad.return (0, translate (Some e))
     | None \<Rightarrow> do {
         (cleaned, errs) \<leftarrow> cleanup_loop R S 0 [] values;
         State_Monad.return (cleaned, errors_Join errs)
       }
   }"

subsection \<open>Reading\<close>

definition Service_Get ::
  "'x runtime \<Rightarrow> 'x Service \<Rightarrow> Ctx \<Rightarrow> string \<Rightarrow> string \<Rightarrow> string \<Rightarrow>
    ('x world, Metadata \<times> go_error option) state" where
  "Service_Get R S ctx i tenant application = do {
     auth \<leftarrow> authorize S ctx tenant application;
     case auth of
       Inl err \<Rightarrow> State_Monad.return (zero_Metadata, Some err)
     | Inr caller \<Rightarrow> do {
         (v, err) \<leftarrow> SQLRepository_Get R i tenant application;
         State_Monad.return (v, translate err)
       }
   }"

text \<open>The normalised filter of \<open>List\<close>, before the page defaults.\<close>

definition normal_filter :: "'x runtime \<Rightarrow> ListFilter \<Rightarrow> ListFilter" where
  "normal_filter R flt =
     flt\<lparr>lf_TenantID := TrimSpace (lf_TenantID flt),
         lf_ApplicationID := TrimSpace (lf_ApplicationID flt),
         lf_Keyword := TrimSpace (lf_Keyword flt),
         lf_Status := ToLower (rt_unicode_lower R) (TrimSpace (lf_Status flt)),
         lf_ScanStatus := ToLower (rt_unicode_lower R) (TrimSpace (lf_ScanStatus flt)),
         lf_ContentType := TrimSpace (lf_ContentType flt),
         lf_OwnerID := TrimSpace (lf_OwnerID flt)\<rparr>"

definition page_defaults :: "ListFilter \<Rightarrow> ListFilter" where
  "page_defaults flt =
     flt\<lparr>lf_Page := (if sint (lf_Page flt) \<le> 0 then 1 else lf_Page flt),
         lf_PageSize := (if sint (lf_PageSize flt) \<le> 0 then 20 else lf_PageSize flt)\<rparr>"

definition Service_List :: "'x runtime \<Rightarrow> 'x Service \<Rightarrow> Ctx \<Rightarrow> ListFilter \<Rightarrow>
    ('x world, MetadataPage \<times> go_error option) state" where
  "Service_List R S ctx flt =
     (let flt = normal_filter R flt in do {
        auth \<leftarrow> authorize S ctx (lf_TenantID flt) (lf_ApplicationID flt);
        case auth of
          Inl err \<Rightarrow> State_Monad.return (zero_MetadataPage, Some err)
        | Inr caller \<Rightarrow>
            let flt = page_defaults flt in
            if 100 < sint (lf_PageSize flt)
            then State_Monad.return
              (zero_MetadataPage, Some (Invalid ''page_size must not exceed 100'' None))
            else do {
              (values, total, err) \<leftarrow> SQLRepository_List R flt;
              State_Monad.return
                (\<lparr>mp_Files = values, mp_Total = total, mp_Page = lf_Page flt,
                  mp_PageSize = lf_PageSize flt\<rparr>, translate err)
            }
      })"

definition Service_AuthorizeDownload ::
  "'x runtime \<Rightarrow> 'x Service \<Rightarrow> Ctx \<Rightarrow> string \<Rightarrow> string \<Rightarrow> string \<Rightarrow>
    ('x world, Authorization \<times> go_error option) state" where
  "Service_AuthorizeDownload R S ctx i tenant application = do {
     auth \<leftarrow> authorize S ctx tenant application;
     case auth of
       Inl err \<Rightarrow> State_Monad.return (zero_Authorization, Some err)
     | Inr caller \<Rightarrow> do {
         (v, err) \<leftarrow> SQLRepository_Get R i tenant application;
         case err of
           Some e \<Rightarrow> State_Monad.return (zero_Authorization, translate (Some e))
         | None \<Rightarrow>
             if m_Status v \<noteq> ''ready'' \<or> (m_ScanStatus v \<noteq> ''clean'' \<and> m_ScanStatus v \<noteq> ''skipped'')
             then State_Monad.return
               (zero_Authorization, Some (Conflict ''file is not available for download'' None))
             else do {
               url \<leftarrow> ext_call (st_PresignDownload (sv_storage S) (m_ObjectKey v));
               case url of
                 Inl e \<Rightarrow> State_Monad.return
                   (zero_Authorization, Some (Unavailable ''object storage unavailable'' (Some e)))
               | Inr u \<Rightarrow> do {
                   now \<leftarrow> ext_call (rt_now R);
                   State_Monad.return
                     (\<lparr>a_File = v, a_URL = u, a_Headers = [],
                       a_ExpiresAt = now + sint (st_TTL (sv_storage S))\<rparr>, None)
                 }
             }
       }
   }"

subsection \<open>Scan results and deletion\<close>

definition Service_ReportScanResult ::
  "'x runtime \<Rightarrow> 'x Service \<Rightarrow> Ctx \<Rightarrow> string \<Rightarrow> string \<Rightarrow> string \<Rightarrow> string \<Rightarrow> int64 \<Rightarrow>
    ('x world, Metadata \<times> go_error option) state" where
  "Service_ReportScanResult R S ctx i tenant application scanStatus expected =
     (case ctx_principal ctx of
        None \<Rightarrow> State_Monad.return
          (zero_Metadata, Some (Unauthorized ''authenticated scanner is required''))
      | Some caller \<Rightarrow>
          (case enforceTenant caller tenant of
             Some err \<Rightarrow> State_Monad.return (zero_Metadata, Some err)
           | None \<Rightarrow>
               if scanStatus \<noteq> ''clean'' \<and> scanStatus \<noteq> ''infected''
               then State_Monad.return
                 (zero_Metadata, Some (Invalid ''scan_status must be clean or infected'' None))
               else do {
                 verr \<leftarrow> verifyApplication S tenant application;
                 case verr of
                   Some e \<Rightarrow> State_Monad.return (zero_Metadata, Some e)
                 | None \<Rightarrow> do {
                     (v, err) \<leftarrow> SQLRepository_Get R i tenant application;
                     case err of
                       Some e \<Rightarrow> State_Monad.return (zero_Metadata, translate (Some e))
                     | None \<Rightarrow>
                         if m_Status v \<noteq> ''ready'' \<or> m_ScanStatus v \<noteq> ''pending''
                         then State_Monad.return
                           (zero_Metadata, Some (Conflict ''file is not pending a scan result'' None))
                         else do {
                           now \<leftarrow> ext_call (rt_now R);
                           (err, v') \<leftarrow> save_status R S
                             (v\<lparr>m_ScanStatus := scanStatus, m_UpdatedAt := now,
                                m_UpdatedBy := p_ID caller\<rparr>) expected;
                           State_Monad.return (v'\<lparr>m_Version := expected + 1\<rparr>, translate err)
                         }
                   }
               }))"

text \<open>The second half of \<open>Delete\<close>: the object is removed and the row becomes deleted.\<close>

definition finish_delete ::
  "'x runtime \<Rightarrow> 'x Service \<Rightarrow> Principal \<Rightarrow> Metadata \<Rightarrow> ('x world, Metadata \<times> go_error option) state"
  where
  "finish_delete R S caller v = do {
     err \<leftarrow> ext_call (st_Delete (sv_storage S) (m_ObjectKey v));
     case err of
       Some e \<Rightarrow> State_Monad.return
         (v, Some (Unavailable ''object storage unavailable; deletion can be retried'' (Some e)))
     | None \<Rightarrow> do {
         now \<leftarrow> ext_call (rt_now R);
         (err, v') \<leftarrow> save_status R S
           (v\<lparr>m_Status := ''deleted'', m_UpdatedAt := now, m_UpdatedBy := p_ID caller\<rparr>)
           (m_Version v);
         State_Monad.return (v'\<lparr>m_Version := m_Version v + 1\<rparr>, translate err)
       }
   }"

definition Service_Delete ::
  "'x runtime \<Rightarrow> 'x Service \<Rightarrow> Ctx \<Rightarrow> string \<Rightarrow> string \<Rightarrow> string \<Rightarrow> int64 \<Rightarrow>
    ('x world, Metadata \<times> go_error option) state" where
  "Service_Delete R S ctx i tenant application expected = do {
     auth \<leftarrow> authorize S ctx tenant application;
     case auth of
       Inl err \<Rightarrow> State_Monad.return (zero_Metadata, Some err)
     | Inr caller \<Rightarrow> do {
         (v, err) \<leftarrow> SQLRepository_Get R i tenant application;
         case err of
           Some e \<Rightarrow> State_Monad.return (zero_Metadata, translate (Some e))
         | None \<Rightarrow>
             if m_Status v = ''deleted'' then State_Monad.return (v, None)
             else if sint expected < 1
             then State_Monad.return
               (zero_Metadata, Some (Invalid ''expected_version is required'' None))
             else if m_Status v \<noteq> ''deleting'' then do {
               now \<leftarrow> ext_call (rt_now R);
               (err, v') \<leftarrow> save_status R S
                 (v\<lparr>m_Status := ''deleting'', m_UpdatedAt := now, m_UpdatedBy := p_ID caller\<rparr>)
                 expected;
               case err of
                 Some e \<Rightarrow> State_Monad.return (zero_Metadata, translate (Some e))
               | None \<Rightarrow> finish_delete R S caller v'
             }
             else finish_delete R S caller v
       }
   }"

subsection \<open>The part geometry\<close>

text \<open>
  An accepted geometry is exact: the wrapped int64 sum of the source is the mathematical one, the
  count is the rounded-up quotient, and the conversion to int32 loses nothing.
\<close>

lemma multipart_geometry_exact:
  assumes "multipart_geometry sz requested = Inr (partSize, partCount)"
  shows "5242880 \<le> sint partSize" "sint partSize \<le> 5368709120" "0 < sint sz"
    and "sint partCount = (sint sz + sint partSize - 1) div sint partSize"
    and "1 \<le> sint partCount" "sint partCount \<le> 10000" "sint (to_int32 partCount) = sint partCount"
proof -
  from assms have ps: "5242880 \<le> sint partSize" "sint partSize \<le> 5368709120"
    and pc: "partCount = go_div64 (sz + partSize - 1) partSize"
    and sz: "0 < sint sz" and range: "1 \<le> sint partCount" "sint partCount \<le> 10000"
    unfolding multipart_geometry_def Let_def by (auto split: if_splits)
  have div: "sint partCount = sint (sz + partSize - 1) sdiv sint partSize"
    unfolding pc by (rule sint_go_div64) (use ps in simp)
  have pos: "0 < sint (sz + partSize - 1)"
  proof (rule ccontr)
    assume "\<not> ?thesis"
    then have "sint partCount \<le> 0" unfolding div
      using ps by (auto simp: signed_divide_int_def sgn_if pos_imp_zdiv_nonneg_iff)
    with range show False by simp
  qed
  define k where "k = sint sz + sint partSize - 1 + 2 ^ 63"
  have k: "0 \<le> k" "k < 2 ^ 64 + 2 ^ 63" using sz ps sint64_range [of sz] by (auto simp: k_def)
  have m: "2 ^ 63 < k mod 2 ^ 64" using pos unfolding sint64_plus_minus k_def [symmetric] by simp
  have "k < 2 ^ 64"
  proof (rule ccontr)
    assume big: "\<not> ?thesis"
    then have "k mod 2 ^ 64 = (k - 2 ^ 64) mod 2 ^ 64" by (intro mod_pos_geq) auto
    also have "\<dots> = k - 2 ^ 64" using big k by (intro mod_pos_pos_trivial) auto
    finally show False using m k by simp
  qed
  with k(1) have "k mod 2 ^ 64 = k" by (rule mod_pos_pos_trivial)
  then have "sint (sz + partSize - 1) = sint sz + sint partSize - 1"
    unfolding sint64_plus_minus k_def [symmetric] unfolding k_def by linarith
  then show "sint partCount = (sint sz + sint partSize - 1) div sint partSize"
    using div pos ps by (simp add: signed_divide_int_def sgn_if)
  show "sint (to_int32 partCount) = sint partCount"
    by (rule sint_to_int32) (use range in simp_all)
qed (use assms in \<open>auto simp: multipart_geometry_def Let_def split: if_splits\<close>)

end
