(* ===== verification/File_Protocol.thy ===== *)
theory File_Protocol
  imports File_Service
begin

text \<open>
  The protocol between the service and its tables, and the proof that every method of
  \<open>Service\<close> follows it.

  A session is what one call of a method does: its state is the database and the set of rows the
  call holds in its variables because it has read or written them. \<open>svc_step\<close> says what may
  happen next in a session: others commit; a row is read; a new upload is created; or a held row
  is moved along the life cycle of a file (\<open>lifecycle\<close>), written under an expected version, and
  announced in the outbox. \<open>serve_follows_protocol\<close> shows that each method, on every branch and
  for every behaviour of the storage, the clock, the driver and the other replicas, is a sequence
  of such steps.
\<close>

subsection \<open>The protocol\<close>

text \<open>The shape of a row with respect to its upload mode.\<close>

definition geometry_ok :: "Metadata \<Rightarrow> bool" where
  "geometry_ok v \<longleftrightarrow>
     (m_UploadMode v = ''single'' \<and> m_PartSize v = 0 \<and> m_PartCount v = 0 \<and>
      m_MultipartUploadID v = []) \<or>
     (m_UploadMode v = ''multipart'' \<and> 5242880 \<le> sint (m_PartSize v) \<and>
      sint (m_PartSize v) \<le> 5368709120 \<and>
      sint (m_PartCount v) = (sint (m_Size v) + sint (m_PartSize v) - 1) div sint (m_PartSize v) \<and>
      1 \<le> sint (m_PartCount v) \<and> sint (m_PartCount v) \<le> 10000)"

definition clean_text :: "string \<Rightarrow> bool" where
  "clean_text s \<longleftrightarrow> s \<noteq> [] \<and> TrimSpace s = s"

text \<open>The columns that no method ever changes, as the creation of an upload fills them.\<close>

definition core_ok :: "Metadata \<Rightarrow> bool" where
  "core_ok v \<longleftrightarrow>
     clean_text (m_TenantID v) \<and> clean_text (m_ApplicationID v) \<and> clean_text (m_IdempotencyKey v) \<and>
     m_Filename v \<noteq> [] \<and>
     m_ObjectKey v = object_key (m_TenantID v) (m_ApplicationID v) (m_ID v) (m_Filename v) \<and>
     0 < sint (m_Size v) \<and> validChecksum (m_ChecksumSHA256 v) \<and>
     m_UploadExpiresAt v \<noteq> None \<and> m_CreatedBy v = m_OwnerID v \<and> geometry_ok v"

definition fresh_row :: "'x Service \<Rightarrow> Metadata \<Rightarrow> bool" where
  "fresh_row S v \<longleftrightarrow>
     core_ok v \<and> m_Status v = ''pending_upload'' \<and> m_ScanStatus v = ''pending'' \<and> m_Version v = 1 \<and>
     m_Bucket v = st_Bucket (sv_storage S) \<and>
     sint (m_Size v) \<le> sint (st_MaxUploadBytes (sv_storage S)) \<and>
     m_UpdatedBy v = m_OwnerID v \<and> m_UpdatedAt v = m_CreatedAt v \<and>
     m_UploadExpiresAt v = Some (m_CreatedAt v + sint (sv_uploadSessionTTL S))"

text \<open>
  The life cycle: the first argument says whether a scan is required, the last two are the row
  held and the row to be written. \<open>stamp\<close> sets the two columns that every change sets.
\<close>

definition stamp :: "instant \<Rightarrow> string \<Rightarrow> Metadata \<Rightarrow> Metadata" where
  "stamp t by v = v\<lparr>m_UpdatedAt := t, m_UpdatedBy := by\<rparr>"

inductive lifecycle :: "bool \<Rightarrow> Metadata \<Rightarrow> Metadata \<Rightarrow> bool" for scan where
  complete: "m_Status v \<noteq> ''ready'' \<Longrightarrow> lifecycle scan v
    (stamp t by (v\<lparr>m_Status := ''ready'',
      m_ScanStatus := (if scan then ''pending'' else ''skipped'')\<rparr>))"
| scanned: "m_Status v = ''ready'' \<Longrightarrow> m_ScanStatus v = ''pending'' \<Longrightarrow> s = ''clean'' \<or> s = ''infected'' \<Longrightarrow>
    lifecycle scan v (stamp t by (v\<lparr>m_ScanStatus := s\<rparr>))"
| start_delete: "m_Status v \<noteq> ''deleted'' \<Longrightarrow> m_Status v \<noteq> ''deleting'' \<Longrightarrow>
    lifecycle scan v (stamp t by (v\<lparr>m_Status := ''deleting''\<rparr>))"
| end_delete: "m_Status v = ''deleting'' \<Longrightarrow>
    lifecycle scan v (stamp t by (v\<lparr>m_Status := ''deleted''\<rparr>))"
| abort: "m_Status v = ''pending_upload'' \<Longrightarrow> m_UploadMode v = ''multipart'' \<Longrightarrow>
    lifecycle scan v (stamp t by (v\<lparr>m_Status := ''deleted''\<rparr>))"
| expire: "m_Status v = ''pending_upload'' \<Longrightarrow>
    lifecycle scan v (stamp t lifecycle_actor (v\<lparr>m_Status := ''expired''\<rparr>))"

text \<open>The outbox gets one event that describes the row \<open>v\<close>.\<close>

definition announces :: "'x runtime \<Rightarrow> Metadata \<Rightarrow> database \<Rightarrow> database \<Rightarrow> bool" where
  "announces R v d d' \<longleftrightarrow>
     (\<exists>i envelope encoded. rt_new_envelope R (event_metadata i v) (event_file v) = Inr envelope \<and>
        rt_marshal R envelope = Inr encoded \<and>
        insert_outbox (outbox_event (rt_event_id R envelope) encoded v) d = Inr ((), d'))"

type_synonym session = "database \<times> Metadata set"

inductive svc_step ::
  "'x runtime \<Rightarrow> 'x Service \<Rightarrow> (string \<times> string \<times> string) set \<Rightarrow> session \<Rightarrow> session \<Rightarrow> bool"
  for R S sc where
  others: "svc_step R S sc (d, K) (fst (rt_others R d x), K)"
| read: "r \<in> set (files d) \<Longrightarrow> file_key r \<in> sc \<Longrightarrow> svc_step R S sc (d, K) (d, insert r K)"
| create: "fresh_row S v \<Longrightarrow> file_key v \<in> sc \<Longrightarrow> insert_file v d = Inr ((), d1) \<Longrightarrow>
    announces R v d1 d2 \<Longrightarrow> svc_step R S sc (d, K) (d2, K)"
| change: "v0 \<in> K \<Longrightarrow> lifecycle (sv_scanRequired S) v0 v \<Longrightarrow> update_file v e d = Inr (n, d1) \<Longrightarrow>
    n \<noteq> 0 \<Longrightarrow> announces R (v\<lparr>m_Version := e + 1\<rparr>) d1 d2 \<Longrightarrow>
    svc_step R S sc (d, K) (d2, insert (v\<lparr>m_Version := e + 1\<rparr>) K)"

text \<open>The database \<open>d\<close> has been reached from \<open>d0\<close> by a session that holds the rows \<open>A\<close>.\<close>

definition session_at ::
  "'x runtime \<Rightarrow> 'x Service \<Rightarrow> (string \<times> string \<times> string) set \<Rightarrow> database \<Rightarrow> Metadata set \<Rightarrow>
    database \<Rightarrow> bool" where
  "session_at R S sc d0 A d \<longleftrightarrow> (\<exists>K. A \<subseteq> K \<and> (svc_step R S sc)\<^sup>*\<^sup>* (d0, {}) (d, K))"

lemma session_start: "session_at R S sc d {} d"
  unfolding session_at_def by blast

lemma session_mono: "session_at R S sc d0 A d \<Longrightarrow> B \<subseteq> A \<Longrightarrow> session_at R S sc d0 B d"
  unfolding session_at_def by blast

lemma session_others: "session_at R S sc d0 A d \<Longrightarrow> session_at R S sc d0 A (fst (rt_others R d x))"
  unfolding session_at_def by (meson rtranclp.rtrancl_into_rtrancl svc_step.others)

lemma session_read:
  assumes "session_at R S sc d0 A d" "r \<in> set (files d)" "file_key r \<in> sc"
  shows "session_at R S sc d0 (insert r A) d"
proof -
  from assms(1) obtain K where K: "A \<subseteq> K" "(svc_step R S sc)\<^sup>*\<^sup>* (d0, {}) (d, K)"
    unfolding session_at_def by blast
  have "(svc_step R S sc)\<^sup>*\<^sup>* (d0, {}) (d, insert r K)"
    by (rule rtranclp.rtrancl_into_rtrancl [OF K(2) svc_step.read [OF assms(2,3)]])
  with K(1) show ?thesis unfolding session_at_def by blast
qed

lemma session_create:
  assumes "session_at R S sc d0 A d" "fresh_row S v" "file_key v \<in> sc"
    "insert_file v d = Inr ((), d1)" "announces R v d1 d2"
  shows "session_at R S sc d0 A d2"
  using assms unfolding session_at_def by (meson rtranclp.rtrancl_into_rtrancl svc_step.create)

lemma session_change:
  assumes "session_at R S sc d0 A d" "v0 \<in> A" "lifecycle (sv_scanRequired S) v0 v"
    "update_file v e d = Inr (n, d1)" "n \<noteq> 0" "announces R (v\<lparr>m_Version := e + 1\<rparr>) d1 d2"
  shows "session_at R S sc d0 (insert (v\<lparr>m_Version := e + 1\<rparr>) A) d2"
proof -
  from assms(1) obtain K where K: "A \<subseteq> K" "(svc_step R S sc)\<^sup>*\<^sup>* (d0, {}) (d, K)"
    unfolding session_at_def by blast
  have "(svc_step R S sc)\<^sup>*\<^sup>* (d0, {}) (d2, insert (v\<lparr>m_Version := e + 1\<rparr>) K)"
    by (rule rtranclp.rtrancl_into_rtrancl [OF K(2) svc_step.change [OF _ assms(3-6)]])
      (use K(1) assms(2) in blast)
  with K(1) show ?thesis unfolding session_at_def by blast
qed

subsection \<open>The repository follows the protocol\<close>

lemma triple_sql_query:
  "triple w_db (session_at R S sc d0 A) (sql_query R q)
     (\<lambda>answer d. session_at R S sc d0 A d \<and> (\<forall>a. answer = Inr a \<longrightarrow> a = q d))"
  by (rule tripleI)
    (auto simp: sql_query_def run_db_prims session_others split: prod.splits option.splits
      dest!: arg_cong [of _ _ fst] intro: session_others)

text \<open>A query by id holds the row it returns; any other query of the service only looks.\<close>

lemma triple_Get:
  assumes "(i, t, a) \<in> sc"
  shows "triple w_db (session_at R S sc d0 A) (SQLRepository_Get R i t a)
    (\<lambda>r d. case r of (v, err) \<Rightarrow>
      (case err of Some e \<Rightarrow> v = zero_Metadata \<and> session_at R S sc d0 A d
       | None \<Rightarrow> row_is i t a v \<and> session_at R S sc d0 (insert v A) d))"
  unfolding SQLRepository_Get_def
proof (rule triple_bind [OF triple_sql_query], rule triple_return)
  fix answer :: "go_error + Metadata option" and d
  assume h: "session_at R S sc d0 A d \<and> (\<forall>r. answer = Inr r \<longrightarrow> r = select_by_id i t a d)"
  show "case one_row answer of (v, err) \<Rightarrow>
      (case err of Some e \<Rightarrow> v = zero_Metadata \<and> session_at R S sc d0 A d
       | None \<Rightarrow> row_is i t a v \<and> session_at R S sc d0 (insert v A) d)"
  proof (cases "\<exists>v. answer = Inr (Some v)")
    case True
    then obtain v where v: "answer = Inr (Some v)" by blast
    with h have "find (row_is i t a) (files d) = Some v" by (simp add: select_by_id_def)
    then have "v \<in> set (files d)" "row_is i t a v" by (metis find_Some_iff nth_mem)+
    then have "session_at R S sc d0 (insert v A) d"
      using h assms by (auto simp: file_key_def row_is_def intro: session_read)
    then show ?thesis using \<open>row_is i t a v\<close> v by (simp add: one_row_def)
  next
    case False
    with h show ?thesis by (auto simp: one_row_def split: sum.splits option.splits)
  qed
qed

lemma triple_GetByKey:
  "triple w_db (session_at R S sc d0 A) (SQLRepository_GetByKey R t a k)
    (\<lambda>_. session_at R S sc d0 A)"
  unfolding SQLRepository_GetByKey_def
  by (rule triple_bind [OF triple_sql_query], rule triple_return) simp

lemma triple_List:
  "triple w_db (session_at R S sc d0 A) (SQLRepository_List R flt) (\<lambda>_. session_at R S sc d0 A)"
  unfolding SQLRepository_List_def
  by (rule triple_bind [OF triple_sql_query], rule triple_sum)
    (auto intro!: triple_return triple_bind [OF triple_weaken [OF triple_sql_query]])

lemma session_read_all:
  assumes "session_at R S sc d0 A d" "set rs \<subseteq> set (files d)" "\<forall>r \<in> set rs. file_key r \<in> sc"
  shows "session_at R S sc d0 (A \<union> set rs) d"
  using assms by (induction rs) (auto intro: session_read)

lemma triple_ListExpired:
  "triple w_db (session_at R S UNIV d0 A) (SQLRepository_ListExpiredUploads R cutoff limit)
    (\<lambda>r d. case r of (rs, err) \<Rightarrow> session_at R S UNIV d0 (A \<union> set rs) d \<and>
       (\<forall>r \<in> set rs. m_Status r = ''pending_upload''))"
  unfolding SQLRepository_ListExpiredUploads_def
proof (rule triple_bind [OF triple_sql_query], rule triple_return)
  fix answer :: "go_error + (go_error + Metadata list)" and d
  assume h: "session_at R S UNIV d0 A d \<and> (\<forall>r. answer = Inr r \<longrightarrow> r = select_expired cutoff limit d)"
  have sel: "set rs \<subseteq> set (files d) \<and> (\<forall>r \<in> set rs. m_Status r = ''pending_upload'')"
    if "select_expired cutoff limit d = Inr rs" for rs
    using that by (auto simp: select_expired_def split: if_splits dest: in_set_takeD)
  show "case case answer of Inl err \<Rightarrow> ([], Some err)
        | Inr (Inl err) \<Rightarrow> ([], Some err) | Inr (Inr values) \<Rightarrow> (values, None) of
      (rs, err) \<Rightarrow> session_at R S UNIV d0 (A \<union> set rs) d \<and>
        (\<forall>r \<in> set rs. m_Status r = ''pending_upload'')"
    using h sel by (auto split: sum.splits intro!: session_read_all)
qed

text \<open>The two closures that run inside transactions.\<close>

lemma run_tx_exec:
  "run_state (tx_exec R f) w = (answer, w') \<Longrightarrow>
    (case answer of
       Inl e \<Rightarrow> w_db w' = w_db w
     | Inr a \<Rightarrow> f (w_db w) = Inr (a, w_db w'))"
  by (auto simp: tx_exec_def run_db_prims split: prod.splits option.splits sum.splits)

lemma addStatusEvent_announces:
  assumes "run_state (addStatusEvent R v) w = (None, w')"
  shows "announces R v (w_db w) (w_db w')"
proof -
  obtain i x where i: "rt_uuid R (w_ext w) = (i, x)" by fastforce
  note step = addStatusEvent_def run_db_prims i SQLRepository_AddOutbox_def
  from assms obtain envelope where env: "rt_new_envelope R (event_metadata i v) (event_file v) = Inr envelope"
    by (auto simp: step split: sum.splits)
  from assms env obtain encoded where enc: "rt_marshal R envelope = Inr encoded"
    by (auto simp: step split: sum.splits)
  obtain answer w1 where run: "run_state (tx_exec R (insert_outbox
      (outbox_event (rt_event_id R envelope) encoded v))) (w\<lparr>w_ext := x\<rparr>) = (answer, w1)" by fastforce
  with assms env enc have "\<exists>u. answer = Inr u" "w1 = w'" by (auto simp: step split: sum.splits)
  with run_tx_exec [OF run] env enc show ?thesis unfolding announces_def by auto
qed

lemma run_insert_body:
  assumes "run_state (insert_body R v) w = ((None, b), w')"
  shows "b = v \<and> (\<exists>d1. insert_file v (w_db w) = Inr ((), d1) \<and> announces R v d1 (w_db w'))"
proof -
  obtain answer w1 where ins: "run_state (tx_exec R (insert_file v)) w = (answer, w1)" by fastforce
  note step = insert_body_def SQLRepository_Insert_def ins
  have ok: "answer = Inr ()" using assms by (auto simp: step split: sum.splits)
  have ev: "run_state (addStatusEvent R v) w1 = (None, w') \<and> b = v"
    using assms ok by (auto simp: step split: prod.splits)
  have "insert_file v (w_db w) = Inr ((), w_db w1)" using run_tx_exec [OF ins] ok by simp
  with ev addStatusEvent_announces [of R v w1 w'] show ?thesis by blast
qed

lemma run_update_body:
  assumes "run_state (update_body R v e) w = ((None, b), w')"
  shows "b = v\<lparr>m_Version := e + 1\<rparr> \<and>
    (\<exists>n d1. update_file v e (w_db w) = Inr (n, d1) \<and> n \<noteq> 0 \<and>
       announces R (v\<lparr>m_Version := e + 1\<rparr>) d1 (w_db w'))"
proof -
  obtain answer w1 where upd: "run_state (tx_exec R (update_file v e)) w = (answer, w1)" by fastforce
  note step = update_body_def SQLRepository_Update_def upd
  obtain n where n: "answer = Inr n" "n \<noteq> 0"
    using assms by (auto simp: step split: sum.splits if_splits)
  have ev: "run_state (addStatusEvent R (v\<lparr>m_Version := e + 1\<rparr>)) w1 = (None, w') \<and>
      b = v\<lparr>m_Version := e + 1\<rparr>"
    using assms n by (auto simp: step split: prod.splits)
  have "update_file v e (w_db w) = Inr (n, w_db w1)" using run_tx_exec [OF upd] n by simp
  with n ev addStatusEvent_announces [of R _ w1 w'] show ?thesis by blast
qed

lemma triple_create_file:
  assumes "fresh_row S v" "file_key v \<in> sc"
  shows "triple w_db (session_at R S sc d0 A) (create_file R S v) (\<lambda>_. session_at R S sc d0 A)"
proof (rule tripleI)
  fix w r w' assume at: "session_at R S sc d0 A (w_db w)" and run: "run_state (create_file R S v) w = (r, w')"
  obtain err b where r: "r = (err, b)" by (cases r)
  from run r have "run_state (Within R (sv_transactor S) v (insert_body R v)) w = ((err, b), w')"
    by (simp add: create_file_def)
  then show "session_at R S sc d0 A (w_db w')"
  proof (cases rule: Within_cases)
    case (applied w1 w2)
    from session_others [OF at] applied(3) have "session_at R S sc d0 A (w_db w1)" by auto
    with run_insert_body [OF applied(1)] applied(2) show ?thesis
      using session_create [OF _ assms] by auto
  qed (use at in \<open>auto intro: session_others\<close>)
qed

text \<open>
  The status transaction: when it reports success the session holds the row it wrote, with the
  next version; when it fails, the change may or may not have been applied.
\<close>

lemma triple_save_status:
  assumes "lifecycle (sv_scanRequired S) v0 v" "v0 \<in> A"
  shows "triple w_db (session_at R S sc d0 A) (save_status R S v e)
    (\<lambda>r d. case r of (err, b) \<Rightarrow> session_at R S sc d0 A d \<and>
       (err = None \<longrightarrow> b = v\<lparr>m_Version := e + 1\<rparr> \<and> session_at R S sc d0 (insert b A) d))"
proof (rule tripleI)
  fix w r w'
  assume at: "session_at R S sc d0 A (w_db w)" and run: "run_state (save_status R S v e) w = (r, w')"
  obtain err b where r: "r = (err, b)" by (cases r)
  from run r have "run_state (Within R (sv_transactor S) v (update_body R v e)) w = ((err, b), w')"
    by (simp add: save_status_def)
  then show "case r of (err, b) \<Rightarrow> session_at R S sc d0 A (w_db w') \<and>
      ((err :: go_error option) = None \<longrightarrow> b = v\<lparr>m_Version := e + 1\<rparr> \<and> session_at R S sc d0 (insert b A) (w_db w'))"
  proof (cases rule: Within_cases)
    case (applied w1 w2)
    from session_others [OF at] applied(3) have "session_at R S sc d0 A (w_db w1)" by auto
    with run_update_body [OF applied(1)] applied(2)
    have "b = v\<lparr>m_Version := e + 1\<rparr>" "session_at R S sc d0 (insert b A) (w_db w')"
      using session_change [OF _ assms(2,1)] by auto
    then show ?thesis using r by (auto intro: session_mono)
  qed (use at r in \<open>auto intro: session_others\<close>)
qed

subsection \<open>The methods follow the protocol\<close>

lemma silent_verifyApplication [silent_rules, simp]: "silent w_db (verifyApplication S t a)"
  by (simp add: verifyApplication_def Let_def silent_bind)

lemma silent_authorize [silent_rules, simp]: "silent w_db (authorize S ctx t a)"
  by (simp add: authorize_def silent_bind split: option.splits)

lemma triple_Get_bind:
  assumes "(i, t, a) \<in> sc"
    and "\<And>e. triple w_db (session_at R S sc d0 A) (f zero_Metadata (Some e)) Q"
    and "\<And>v. row_is i t a v \<Longrightarrow> triple w_db (session_at R S sc d0 (insert v A)) (f v None) Q"
  shows "triple w_db (session_at R S sc d0 A)
    (SQLRepository_Get R i t a \<bind> (\<lambda>(v, err). f v err)) Q"
proof (rule triple_bind [OF triple_Get [OF assms(1)]])
  fix r :: "Metadata \<times> go_error option"
  obtain v err where r: "r = (v, err)" by (cases r)
  show "triple w_db (\<lambda>d. case r of (v, err) \<Rightarrow>
      (case err of Some e \<Rightarrow> v = zero_Metadata \<and> session_at R S sc d0 A d
       | None \<Rightarrow> row_is i t a v \<and> session_at R S sc d0 (insert v A) d)) (case r of (v, err) \<Rightarrow> f v err) Q"
  proof (cases err)
    case None
    then show ?thesis using assms(3) [of v] by (auto simp: r triple_def)
  next
    case (Some e)
    then show ?thesis using assms(2) [of e] by (auto simp: r triple_def)
  qed
qed

lemma triple_save_bind:
  assumes "lifecycle (sv_scanRequired S) v0 v" "v0 \<in> A"
    and "\<And>err b. triple w_db (session_at R S sc d0 A) (f (Some err) b) Q"
    and "triple w_db (session_at R S sc d0 (insert (v\<lparr>m_Version := e + 1\<rparr>) A))
      (f None (v\<lparr>m_Version := e + 1\<rparr>)) Q"
  shows "triple w_db (session_at R S sc d0 A) 
    (save_status R S v e \<bind> (\<lambda>(err, b). f err b)) Q"
proof (rule triple_bind [OF triple_save_status [OF assms(1,2)]])
  fix r :: "go_error option \<times> Metadata"
  obtain err b where r: "r = (err, b)" by (cases r)
  show "triple w_db (\<lambda>d. case r of (err, b) \<Rightarrow> session_at R S sc d0 A d \<and>
      (err = None \<longrightarrow> b = v\<lparr>m_Version := e + 1\<rparr> \<and> session_at R S sc d0 (insert b A) d)) (case r of (err, b) \<Rightarrow> f err b) Q"
  proof (cases err)
    case None
    show ?thesis
      by (rule tripleI) (use assms(4) in \<open>auto simp: r None dest: tripleD\<close>)
  next
    case (Some e')
    show ?thesis
      by (rule tripleI) (use assms(3) in \<open>auto simp: r Some dest: tripleD\<close>)
  qed
qed

lemma triple_done [triple_rules]:
  "triple w_db (session_at R S sc d0 A) (State_Monad.return a) (\<lambda>_. session_at R S sc d0 {})"
  by (rule triple_return) (rule session_mono, auto)

lemma stamp_fields:
  "v\<lparr>m_Status := s, m_UpdatedAt := t, m_UpdatedBy := by\<rparr> = stamp t by (v\<lparr>m_Status := s\<rparr>)"
  "v\<lparr>m_ScanStatus := c, m_UpdatedAt := t, m_UpdatedBy := by\<rparr> = stamp t by (v\<lparr>m_ScanStatus := c\<rparr>)"
  "v\<lparr>m_Status := s, m_ScanStatus := c, m_UpdatedAt := t, m_UpdatedBy := by\<rparr> =
     stamp t by (v\<lparr>m_Status := s, m_ScanStatus := c\<rparr>)"
  by (simp_all add: stamp_def)

lemmas triple_ext_bind [triple_rules] = triple_bind_silent [OF silent_ext_call]
lemmas triple_authorize_bind [triple_rules] = triple_bind_silent [OF silent_authorize]
lemmas triple_verify_bind [triple_rules] = triple_bind_silent [OF silent_verifyApplication]

lemmas method_rules = triple_done triple_none triple_some triple_ext_bind triple_authorize_bind
  triple_verify_bind triple_let triple_if triple_option triple_sum triple_prod

lemma session_CompleteUpload:
  assumes "(i, t, a) \<in> sc"
  shows "triple w_db (session_at R S sc d0 A)
    (Service_CompleteUpload R S ctx i t a checksum expected) (\<lambda>_. session_at R S sc d0 {})"
  unfolding Service_CompleteUpload_def stamp_fields
  by (rule method_rules triple_Get_bind [OF assms] triple_save_bind [OF lifecycle.complete] |
      simp)+

lemma session_CompleteMultipartUpload:
  assumes "(i, t, a) \<in> sc"
  shows "triple w_db (session_at R S sc d0 A)
    (Service_CompleteMultipartUpload R S ctx i t a checksum parts expected)
    (\<lambda>_. session_at R S sc d0 {})"
  unfolding Service_CompleteMultipartUpload_def
  by (rule method_rules triple_Get_bind [OF assms] session_CompleteUpload [OF assms])+

lemma session_AuthorizeUploadPart:
  assumes "(i, t, a) \<in> sc"
  shows "triple w_db (session_at R S sc d0 A) (Service_AuthorizeUploadPart R S ctx i t a n)
    (\<lambda>_. session_at R S sc d0 {})"
  unfolding Service_AuthorizeUploadPart_def
  by (rule method_rules triple_Get_bind [OF assms])+

lemma session_AbortMultipartUpload:
  assumes "(i, t, a) \<in> sc"
  shows "triple w_db (session_at R S sc d0 A) (Service_AbortMultipartUpload R S ctx i t a expected)
    (\<lambda>_. session_at R S sc d0 {})"
  unfolding Service_AbortMultipartUpload_def stamp_fields
  by (rule method_rules triple_Get_bind [OF assms] triple_save_bind [OF lifecycle.abort] | simp)+

lemma session_Get:
  assumes "(i, t, a) \<in> sc"
  shows "triple w_db (session_at R S sc d0 A) (Service_Get R S ctx i t a) (\<lambda>_. session_at R S sc d0 {})"
  unfolding Service_Get_def
  by (rule method_rules triple_Get_bind [OF assms])+

lemma session_AuthorizeDownload:
  assumes "(i, t, a) \<in> sc"
  shows "triple w_db (session_at R S sc d0 A) (Service_AuthorizeDownload R S ctx i t a)
    (\<lambda>_. session_at R S sc d0 {})"
  unfolding Service_AuthorizeDownload_def
  by (rule method_rules triple_Get_bind [OF assms])+

lemma session_ReportScanResult:
  assumes "(i, t, a) \<in> sc"
  shows "triple w_db (session_at R S sc d0 A) (Service_ReportScanResult R S ctx i t a scan expected)
    (\<lambda>_. session_at R S sc d0 {})"
  unfolding Service_ReportScanResult_def stamp_fields
  by (rule method_rules triple_Get_bind [OF assms] triple_save_bind [OF lifecycle.scanned] | simp)+

lemma session_finish_delete:
  assumes "m_Status v = ''deleting''" "v \<in> A"
  shows "triple w_db (session_at R S sc d0 A) (finish_delete R S caller v) (\<lambda>_. session_at R S sc d0 {})"
  unfolding finish_delete_def stamp_fields
  by (rule method_rules triple_save_bind [OF lifecycle.end_delete] assms)+

lemma session_Delete:
  assumes "(i, t, a) \<in> sc"
  shows "triple w_db (session_at R S sc d0 A) (Service_Delete R S ctx i t a expected)
    (\<lambda>_. session_at R S sc d0 {})"
  unfolding Service_Delete_def stamp_fields
  by (rule method_rules triple_Get_bind [OF assms] triple_save_bind [OF lifecycle.start_delete]
        session_finish_delete | simp add: stamp_def)+

lemma session_List:
  "triple w_db (session_at R S sc d0 A) (Service_List R S ctx flt) (\<lambda>_. session_at R S sc d0 {})"
  unfolding Service_List_def
  by (rule method_rules triple_bind [OF triple_List])+

lemma session_cleanup_loop:
  assumes "set vs \<subseteq> A" "\<forall>v \<in> set vs. m_Status v = ''pending_upload''"
  shows "triple w_db (session_at R S sc d0 A) (cleanup_loop R S n errs vs) (\<lambda>_. session_at R S sc d0 {})"
  using assms
proof (induction vs arbitrary: A n errs)
  case Nil
  then show ?case by (simp add: triple_done)
next
  case (Cons v vs)
  have IH: "triple w_db (session_at R S sc d0 B) (cleanup_loop R S m es vs) (\<lambda>_. session_at R S sc d0 {})"
    if "A \<subseteq> B" for B m es
    by (rule Cons.IH) (use Cons.prems that in auto)
  have pick: "silent w_db (if m_UploadMode v = ''multipart''
      then ext_call (st_AbortMultipart (sv_storage S) (m_ObjectKey v) (m_MultipartUploadID v))
      else ext_call (st_Delete (sv_storage S) (m_ObjectKey v)))" by simp
  show ?case unfolding cleanup_loop.simps stamp_fields
    by (rule method_rules triple_bind_silent [OF pick] IH
          triple_save_bind [OF lifecycle.expire] | use Cons.prems in auto)+
qed

lemma session_Cleanup:
  "triple w_db (session_at R S UNIV d0 A) (Service_CleanupExpiredUploads R S)
    (\<lambda>_. session_at R S UNIV d0 {})"
proof -
  have loop: "triple w_db (\<lambda>d. case r of (rs, err) \<Rightarrow> session_at R S UNIV d0 (A \<union> set rs) d \<and>
        (\<forall>r \<in> set rs. m_Status r = ''pending_upload''))
      (case r of (values, err) \<Rightarrow> case err of
         Some e \<Rightarrow> State_Monad.return (0, translate (Some e))
       | None \<Rightarrow> do { (cleaned, errs) \<leftarrow> cleanup_loop R S 0 [] values;
                     State_Monad.return (cleaned, errors_Join errs) })
      (\<lambda>_. session_at R S UNIV d0 {})" for r
  proof (cases r)
    case (Pair rs err)
    show ?thesis
    proof (cases "\<forall>r \<in> set rs. m_Status r = ''pending_upload''")
      case True
      have "triple w_db (session_at R S UNIV d0 (A \<union> set rs))
        (case err of
           Some e \<Rightarrow> State_Monad.return (0, translate (Some e))
         | None \<Rightarrow> do { (cleaned, errs) \<leftarrow> cleanup_loop R S 0 [] rs;
                       State_Monad.return (cleaned, errors_Join errs) })
        (\<lambda>_. session_at R S UNIV d0 {})"
        by (rule method_rules triple_bind [OF session_cleanup_loop] | use True in auto)+
      then show ?thesis by (simp add: Pair True)
    qed (auto simp: Pair triple_def)
  qed
  show ?thesis unfolding Service_CleanupExpiredUploads_def
    by (rule triple_ext_bind, rule triple_bind [OF triple_ListExpired], rule loop)
qed

text \<open>What passes the checks of an upload request.\<close>

lemma check_upload_ok:
  assumes "check_upload R S tenant application filename contentType sz checksum key =
    Inr (t, a, f, ct, cs, k)"
  shows "t = TrimSpace tenant" "a = TrimSpace application" "clean_text t" "clean_text a"
    "clean_text k" "f \<noteq> []" "0 < sint sz" "sint sz \<le> sint (st_MaxUploadBytes (sv_storage S))"
    "validChecksum cs" "st_Enabled (sv_storage S)"
  using assms unfolding check_upload_def Let_def
  by (auto simp: clean_text_def TrimSpace_idem split: if_splits sum.splits)

lemma triple_create_bind:
  assumes "fresh_row S v" "file_key v \<in> sc"
    and "\<And>err b. triple w_db (session_at R S sc d0 A) (f err b) Q"
  shows "triple w_db (session_at R S sc d0 A) (create_file R S v \<bind> (\<lambda>(err, b). f err b)) Q"
  by (rule triple_bind [OF triple_create_file [OF assms(1,2)]], rule triple_prod, rule assms(3))

lemma triple_GetByKey_bind:
  assumes "\<And>v err. triple w_db (session_at R S sc d0 A) (f v err) Q"
  shows "triple w_db (session_at R S sc d0 A)
    (SQLRepository_GetByKey R t a k \<bind> (\<lambda>(v, err). f v err)) Q"
  by (rule triple_bind [OF triple_GetByKey], rule triple_prod, rule assms)

lemma session_InitiateUpload:
  assumes sc: "UNIV \<times> {TrimSpace tenant} \<times> {TrimSpace application} \<subseteq> sc"
  shows "triple w_db (session_at R S sc d0 A)
    (Service_InitiateUpload R S ctx tenant application filename contentType sz checksum key)
    (\<lambda>_. session_at R S sc d0 {})"
proof (cases "check_upload R S tenant application filename contentType sz checksum key")
  case (Inl e)
  then show ?thesis by (simp add: Service_InitiateUpload_def triple_done)
next
  case (Inr b)
  obtain t a f ct cs k where b: "b = (t, a, f, ct, cs, k)" by (cases b)
  note ok = check_upload_ok [OF Inr [unfolded b]]
  show ?thesis
    unfolding Service_InitiateUpload_def Inr b sum.case prod.case
    by (rule method_rules triple_GetByKey_bind triple_create_bind |
        use ok sc in \<open>auto simp: fresh_row_def core_ok_def geometry_ok_def file_key_def\<close>)+
qed

lemma triple_validateUpload_bind:
  assumes "\<And>e. triple w_db P (f zero_Metadata (Some e)) Q"
    and "\<And>t a n ct cs k (caller :: Principal).
      check_upload R S tenant application filename contentType sz checksum key =
        Inr (t, a, n, ct, cs, k) \<Longrightarrow>
      triple w_db P (f (zero_Metadata\<lparr>m_TenantID := t, m_ApplicationID := a, m_Filename := n,
        m_ContentType := ct, m_Size := sz, m_ChecksumSHA256 := cs, m_IdempotencyKey := k,
        m_CreatedBy := p_ID caller, m_UpdatedBy := p_ID caller\<rparr>) None) Q"
  shows "triple w_db P (validateUpload R S ctx tenant application filename contentType sz checksum key
    \<bind> (\<lambda>(v, err). f v err)) Q"
proof (cases "check_upload R S tenant application filename contentType sz checksum key")
  case (Inl e)
  then show ?thesis using assms(1) by (simp add: validateUpload_def)
next
  case (Inr b)
  obtain t a n ct cs k where b: "b = (t, a, n, ct, cs, k)" by (cases b)
  note good = assms(2) [OF Inr [unfolded b]]
  show ?thesis unfolding validateUpload_def Inr b sum.case prod.case bind_assoc
  proof (rule triple_authorize_bind)
    fix auth :: "go_error + Principal"
    show "triple w_db P (State_Monad.return (case auth of
        Inl err \<Rightarrow> (zero_Metadata, Some err)
      | Inr caller \<Rightarrow> (zero_Metadata\<lparr>m_TenantID := t, m_ApplicationID := a, m_Filename := n,
          m_ContentType := ct, m_Size := sz, m_ChecksumSHA256 := cs, m_IdempotencyKey := k,
          m_CreatedBy := p_ID caller, m_UpdatedBy := p_ID caller\<rparr>, None)) \<bind>
      (\<lambda>(v, err). f v err)) Q"
      by (cases auth) (use assms(1) good in simp_all)
  qed
qed

lemma session_InitiateMultipartUpload:
  assumes sc: "UNIV \<times> {TrimSpace tenant} \<times> {TrimSpace application} \<subseteq> sc"
  shows "triple w_db (session_at R S sc d0 A)
    (Service_InitiateMultipartUpload R S ctx tenant application filename contentType sz checksum key
      requested) (\<lambda>_. session_at R S sc d0 {})"
proof (cases "multipart_geometry sz requested")
  case (Inl e)
  then show ?thesis by (simp add: Service_InitiateMultipartUpload_def triple_done)
next
  case (Inr g)
  obtain ps pc where g: "g = (ps, pc)" by (cases g)
  note geo = multipart_geometry_exact [OF Inr [unfolded g]]
  show ?thesis
    unfolding Service_InitiateMultipartUpload_def Inr g sum.case prod.case
    apply (rule method_rules triple_validateUpload_bind triple_GetByKey_bind triple_create_bind)+
    subgoal premises p using check_upload_ok [OF p(1)] geo
      by (simp add: fresh_row_def core_ok_def geometry_ok_def)
    subgoal premises p using check_upload_ok [OF p(1)] sc by (auto simp: file_key_def)
    by (rule method_rules)+
qed

subsection \<open>Requests\<close>

text \<open>
  The calls that the transports, the scheduler and other services make on \<open>Service\<close>, and
  their answers. \<open>scope\<close> is the set of keys (id, tenant, application) a call names.
\<close>

datatype request =
  ReqInitiateUpload string string string string int64 string string
| ReqInitiateMultipart string string string string int64 string string int64
| ReqAuthorizeUploadPart string string string int32
| ReqCompleteUpload string string string string int64
| ReqCompleteMultipart string string string string "CompletedPart list" int64
| ReqAbortMultipart string string string int64
| ReqCleanup
| ReqGet string string string
| ReqList ListFilter
| ReqAuthorizeDownload string string string
| ReqReportScanResult string string string string int64
| ReqDelete string string string int64

datatype answer =
  AnsAuthorization Authorization
| AnsMultipart MultipartAuthorization
| AnsMetadata Metadata
| AnsPage MetadataPage
| AnsCount nat

definition answering :: "('a \<Rightarrow> answer) \<Rightarrow> ('x world, 'a \<times> go_error option) state \<Rightarrow>
    ('x world, answer \<times> go_error option) state" where
  "answering f m = do { (a, err) \<leftarrow> m; State_Monad.return (f a, err) }"

fun serve :: "'x runtime \<Rightarrow> 'x Service \<Rightarrow> Ctx \<Rightarrow> request \<Rightarrow>
    ('x world, answer \<times> go_error option) state" where
  "serve R S ctx (ReqInitiateUpload t a f ct sz cs k) =
     answering AnsAuthorization (Service_InitiateUpload R S ctx t a f ct sz cs k)"
| "serve R S ctx (ReqInitiateMultipart t a f ct sz cs k ps) =
     answering AnsMultipart (Service_InitiateMultipartUpload R S ctx t a f ct sz cs k ps)"
| "serve R S ctx (ReqAuthorizeUploadPart i t a n) =
     answering AnsAuthorization (Service_AuthorizeUploadPart R S ctx i t a n)"
| "serve R S ctx (ReqCompleteUpload i t a cs e) =
     answering AnsMetadata (Service_CompleteUpload R S ctx i t a cs e)"
| "serve R S ctx (ReqCompleteMultipart i t a cs ps e) =
     answering AnsMetadata (Service_CompleteMultipartUpload R S ctx i t a cs ps e)"
| "serve R S ctx (ReqAbortMultipart i t a e) =
     answering AnsMetadata (Service_AbortMultipartUpload R S ctx i t a e)"
| "serve R S ctx ReqCleanup = answering AnsCount (Service_CleanupExpiredUploads R S)"
| "serve R S ctx (ReqGet i t a) = answering AnsMetadata (Service_Get R S ctx i t a)"
| "serve R S ctx (ReqList flt) = answering AnsPage (Service_List R S ctx flt)"
| "serve R S ctx (ReqAuthorizeDownload i t a) =
     answering AnsAuthorization (Service_AuthorizeDownload R S ctx i t a)"
| "serve R S ctx (ReqReportScanResult i t a s e) =
     answering AnsMetadata (Service_ReportScanResult R S ctx i t a s e)"
| "serve R S ctx (ReqDelete i t a e) = answering AnsMetadata (Service_Delete R S ctx i t a e)"

fun scope :: "request \<Rightarrow> (string \<times> string \<times> string) set" where
  "scope (ReqInitiateUpload t a f ct sz cs k) = UNIV \<times> {TrimSpace t} \<times> {TrimSpace a}"
| "scope (ReqInitiateMultipart t a f ct sz cs k ps) = UNIV \<times> {TrimSpace t} \<times> {TrimSpace a}"
| "scope (ReqAuthorizeUploadPart i t a n) = {(i, t, a)}"
| "scope (ReqCompleteUpload i t a cs e) = {(i, t, a)}"
| "scope (ReqCompleteMultipart i t a cs ps e) = {(i, t, a)}"
| "scope (ReqAbortMultipart i t a e) = {(i, t, a)}"
| "scope ReqCleanup = UNIV"
| "scope (ReqGet i t a) = {(i, t, a)}"
| "scope (ReqList flt) = {}"
| "scope (ReqAuthorizeDownload i t a) = {(i, t, a)}"
| "scope (ReqReportScanResult i t a s e) = {(i, t, a)}"
| "scope (ReqDelete i t a e) = {(i, t, a)}"

lemma triple_answering:
  "triple w_db P m (\<lambda>_. Q) \<Longrightarrow> triple w_db P (answering f m) (\<lambda>_. Q)"
  unfolding answering_def by (rule triple_bind) (auto intro: triple_return)

lemmas session_methods = session_InitiateUpload session_InitiateMultipartUpload
  session_AuthorizeUploadPart session_CompleteUpload session_CompleteMultipartUpload
  session_AbortMultipartUpload session_Cleanup session_Get session_List session_AuthorizeDownload
  session_ReportScanResult session_Delete

lemma triple_serve:
  "triple w_db (session_at R S (scope req) d0 {}) (serve R S ctx req)
    (\<lambda>_. session_at R S (scope req) d0 {})"
  by (cases req) (simp_all add: triple_answering session_methods)

lemma serve_session:
  "run_state (serve R S ctx req) w = (r, w') \<Longrightarrow> session_at R S (scope req) (w_db w) {} (w_db w')"
  using tripleD [OF triple_serve session_start] .

end
