(* ===== verification/File_Invariants.thy ===== *)
theory File_Invariants
  imports File_Protocol
begin

text \<open>
  Invariants of the tables. The locale \<open>store_discipline\<close> is the contract under which a
  property of the database survives every call of the service: an invariant \<open>I\<close>, a relation
  \<open>G\<close> between earlier and later databases, and what a session may conclude (\<open>knows\<close>)
  from holding a row it read a while ago. The laws speak of one protocol step each; the theorem of
  the locale lifts them to whole calls. It is interpreted for the consistency of the rows under
  concurrent writers, for the outbox, for the scan policy and for the isolation of the scopes.
\<close>

text \<open>Others keep the invariant and move the database along the relation.\<close>

definition rely :: "'x runtime \<Rightarrow> (database \<Rightarrow> bool) \<Rightarrow> (database \<Rightarrow> database \<Rightarrow> bool) \<Rightarrow> bool" where
  "rely R I G \<longleftrightarrow>
     (\<forall>d x. I d \<longrightarrow> I (fst (rt_others R d x)) \<and> G d (fst (rt_others R d x)))"

locale store_discipline =
  fixes R :: "'x runtime" and S :: "'x Service" and sc :: "(string \<times> string \<times> string) set"
    and I :: "database \<Rightarrow> bool" and G :: "database \<Rightarrow> database \<Rightarrow> bool"
    and knows :: "database \<Rightarrow> Metadata \<Rightarrow> bool"
  assumes G_refl: "I d \<Longrightarrow> G d d"
    and G_trans: "G c d \<Longrightarrow> G d d' \<Longrightarrow> G c d'"
    and env: "I d \<Longrightarrow> I (fst (rt_others R d x)) \<and> G d (fst (rt_others R d x))"
    and knows_read: "I d \<Longrightarrow> r \<in> set (files d) \<Longrightarrow> file_key r \<in> sc \<Longrightarrow> knows d r"
    and knows_stable: "knows d v \<Longrightarrow> G d d' \<Longrightarrow> knows d' v"
    and creates: "I d \<Longrightarrow> fresh_row S v \<Longrightarrow> file_key v \<in> sc \<Longrightarrow> insert_file v d = Inr ((), d1) \<Longrightarrow>
      announces R v d1 d2 \<Longrightarrow> I d2 \<and> G d d2"
    and changes: "I d \<Longrightarrow> knows d v0 \<Longrightarrow> lifecycle (sv_scanRequired S) v0 v \<Longrightarrow>
      update_file v e d = Inr (n, d1) \<Longrightarrow> n \<noteq> 0 \<Longrightarrow> announces R (v\<lparr>m_Version := e + 1\<rparr>) d1 d2 \<Longrightarrow>
      I d2 \<and> G d d2 \<and> knows d2 (v\<lparr>m_Version := e + 1\<rparr>)"
begin

lemma step_keeps:
  assumes "svc_step R S sc c c'" "I (fst c)" "\<forall>v \<in> snd c. knows (fst c) v"
  shows "I (fst c') \<and> G (fst c) (fst c') \<and> (\<forall>v \<in> snd c'. knows (fst c') v)"
  using assms
proof (induction rule: svc_step.induct)
  case (others d K x)
  then show ?case using env [of d x] knows_stable by auto
next
  case (read r d K)
  then show ?case using knows_read G_refl by auto
next
  case (create v d d1 d2 K)
  then show ?case using creates knows_stable by (metis fst_conv snd_conv)
next
  case (change v0 K v e d n d1 d2)
  then have "I d2 \<and> G d d2 \<and> knows d2 (v\<lparr>m_Version := e + 1\<rparr>)"
    by (intro changes [of d v0]) auto
  with change.prems knows_stable show ?case by auto
qed

lemma session_keeps:
  assumes "session_at R S sc d0 {} d" "I d0"
  shows "I d \<and> G d0 d"
proof -
  from assms(1) obtain K where "(svc_step R S sc)\<^sup>*\<^sup>* (d0, {}) (d, K)"
    unfolding session_at_def by blast
  then have "I d \<and> G d0 d \<and> (\<forall>v \<in> K. knows d v)"
  proof (induction "(d, K)" arbitrary: d K rule: rtranclp_induct)
    case base
    then show ?case using assms(2) G_refl by simp
  next
    case (step c)
    obtain d1 K1 where c: "c = (d1, K1)" by (cases c)
    with step have "I d1" "G d0 d1" "\<forall>v \<in> K1. knows d1 v" by auto
    with step_keeps [OF step(2)] c show ?case using G_trans by auto
  qed
  then show ?thesis by simp
qed

end

subsection \<open>Rows, their immutable part, and the consistency of the tables\<close>

text \<open>The immutable part of a row: everything but the columns a status change writes.\<close>

definition core :: "Metadata \<Rightarrow> Metadata" where
  "core r = r\<lparr>m_Status := [], m_ScanStatus := [], m_Version := 0, m_UpdatedAt := 0, m_UpdatedBy := []\<rparr>"

definition row_ok :: "Metadata \<Rightarrow> bool" where
  "row_ok r \<longleftrightarrow>
     core_ok r \<and> 1 \<le> sint (m_Version r) \<and>
     m_Status r \<in> {''pending_upload'', ''ready'', ''deleting'', ''deleted'', ''expired''} \<and>
     m_ScanStatus r \<in> {''pending'', ''clean'', ''infected'', ''skipped''} \<and>
     (m_Status r = ''pending_upload'' \<longleftrightarrow> m_Version r = 1) \<and>
     (m_Status r \<in> {''pending_upload'', ''expired''} \<longrightarrow> m_ScanStatus r = ''pending'')"

definition db_ok :: "database \<Rightarrow> bool" where
  "db_ok d \<longleftrightarrow>
     distinct (map m_ID (files d)) \<and>
     distinct (map (\<lambda>r. (m_Bucket r, m_ObjectKey r)) (files d)) \<and>
     distinct (map (\<lambda>r. (m_TenantID r, m_ApplicationID r, m_IdempotencyKey r)) (files d)) \<and>
     (\<forall>r \<in> set (files d). row_ok r) \<and> distinct (map or_ID (file_outbox_events d))"

text \<open>
  How one row may move: its immutable part stays, its version grows, the same version means the
  same row, and nothing returns to the pending state.
\<close>

definition row_moves :: "Metadata \<Rightarrow> Metadata \<Rightarrow> bool" where
  "row_moves r r' \<longleftrightarrow>
     core r' = core r \<and> sint (m_Version r) \<le> sint (m_Version r') \<and>
     (m_Version r' = m_Version r \<longrightarrow> r' = r)"

definition evolves :: "database \<Rightarrow> database \<Rightarrow> bool" where
  "evolves d d' \<longleftrightarrow> (\<forall>r \<in> set (files d). \<exists>r' \<in> set (files d'). row_moves r r')"

lemma row_moves_refl [simp]: "row_moves r r"
  by (simp add: row_moves_def)

lemma row_moves_trans: "row_moves a b \<Longrightarrow> row_moves b c \<Longrightarrow> row_moves a c"
  unfolding row_moves_def by (metis order_antisym order_trans signed_word_eqI)

lemma evolves_refl: "evolves d d"
  unfolding evolves_def using row_moves_refl by blast

lemma evolves_trans: "evolves c d \<Longrightarrow> evolves d e \<Longrightarrow> evolves c e"
  unfolding evolves_def by (meson row_moves_trans)

subsection \<open>What one committed step does to the tables\<close>

lemma lifecycle_core: "lifecycle scan v0 v \<Longrightarrow> core v = core v0"
  by (induction rule: lifecycle.induct) (simp_all add: core_def stamp_def)

lemma core_fields:
  assumes "core r' = core r"
  shows "m_ID r' = m_ID r" "m_TenantID r' = m_TenantID r" "m_ApplicationID r' = m_ApplicationID r"
    "m_Bucket r' = m_Bucket r" "m_ObjectKey r' = m_ObjectKey r"
    "m_IdempotencyKey r' = m_IdempotencyKey r" "core_ok r' = core_ok r"
    "file_key r' = file_key r"
proof -
  note eq = arg_cong [OF assms]
  show "m_ID r' = m_ID r" using eq [of m_ID] by (simp add: core_def)
  show "m_TenantID r' = m_TenantID r" using eq [of m_TenantID] by (simp add: core_def)
  show "m_ApplicationID r' = m_ApplicationID r" using eq [of m_ApplicationID] by (simp add: core_def)
  show "m_Bucket r' = m_Bucket r" using eq [of m_Bucket] by (simp add: core_def)
  show "m_ObjectKey r' = m_ObjectKey r" using eq [of m_ObjectKey] by (simp add: core_def)
  show "m_IdempotencyKey r' = m_IdempotencyKey r" using eq [of m_IdempotencyKey] by (simp add: core_def)
  show "core_ok r' = core_ok r"
    using eq [of core_ok] by (simp add: core_def core_ok_def geometry_ok_def)
  show "file_key r' = file_key r" using eq [of file_key] by (simp add: core_def file_key_def)
qed

text \<open>A row with the immutable part and the mutable columns of \<open>v\<close> is \<open>v\<close>.\<close>

lemma set_columns_same_core:
  assumes "core r = core v" "m_Version r = e"
  shows "set_columns v r = v\<lparr>m_Version := e + 1\<rparr>"
  using assms by (cases r, cases v) (simp add: core_def set_columns_def)

lemma update_hits_iff: "update_hits v e r \<longleftrightarrow> file_key r = file_key v \<and> m_Version r = e"
  by (auto simp: update_hits_def row_is_def file_key_def)

text \<open>The one row an update hits, and the table after it.\<close>

lemma update_replaces:
  assumes "distinct (map m_ID (files d))" "r \<in> set (files d)" "core r = core v"
    and "update_file v e d = Inr (n, d1)" "n \<noteq> 0"
  shows "m_Version r = e" "e \<noteq> max_bigint"
    "files d1 = map (\<lambda>x. if m_ID x = m_ID v then v\<lparr>m_Version := e + 1\<rparr> else x) (files d)"
    "file_outbox_events d1 = file_outbox_events d"
proof -
  from assms(4,5) have "\<exists>x \<in> set (files d). update_hits v e x"
    by (auto simp: update_file_def filter_empty_conv split: if_splits)
  then obtain x where x: "x \<in> set (files d)" "update_hits v e x" by blast
  have "m_ID x = m_ID r" using x(2) core_fields [OF assms(3)] by (simp add: update_hits_iff file_key_def)
  then have "x = r" using assms(1,2) x(1) by (simp add: distinct_map inj_on_def)
  with x(2) show ver: "m_Version r = e" by (simp add: update_hits_iff)
  from assms(4) x ver \<open>x = r\<close> show "e \<noteq> max_bigint" "file_outbox_events d1 = file_outbox_events d"
    by (auto simp: update_file_def list_ex_iff split: if_splits)
  have same: "(if update_hits v e y then set_columns v y else y) =
      (if m_ID y = m_ID v then v\<lparr>m_Version := e + 1\<rparr> else y)" if "y \<in> set (files d)" for y
  proof (cases "m_ID y = m_ID v")
    case True
    then have "y = r" using assms(1,2) that core_fields(1) [OF assms(3)]
      by (simp add: distinct_map inj_on_def)
    then show ?thesis using x(2) \<open>x = r\<close> set_columns_same_core [OF assms(3) ver] True by simp
  qed (simp add: update_hits_iff file_key_def)
  then show "files d1 = map (\<lambda>x. if m_ID x = m_ID v then v\<lparr>m_Version := e + 1\<rparr> else x) (files d)"
    using assms(4) by (auto simp: update_file_def split: if_splits)
qed

lemma announces_tables:
  assumes "announces R v d d'"
  shows "files d' = files d" "\<exists>row. file_outbox_events d' = file_outbox_events d @ [row]"
    "distinct (map or_ID (file_outbox_events d)) \<Longrightarrow> distinct (map or_ID (file_outbox_events d'))"
  using assms by (auto simp: announces_def insert_outbox_def list_ex_iff split: if_splits) blast

lemma insert_file_tables:
  assumes "insert_file v d = Inr ((), d1)"
  shows "files d1 = files d @ [v]" "file_outbox_events d1 = file_outbox_events d"
    "\<forall>r \<in> set (files d). \<not> conflicts v r"
  using assms by (auto simp: insert_file_def list_ex_iff split: if_splits)

lemma next_version:
  assumes "1 \<le> sint (e :: int64)" "e \<noteq> max_bigint"
  shows "sint (e + 1) = sint e + 1"
proof -
  have "sint e \<noteq> sint max_bigint" using assms(2) by (metis signed_word_eqI)
  moreover have "sint max_bigint = 2 ^ 63 - 1" by (simp add: max_bigint_def)
  ultimately have "sint e + 1 < 2 ^ 63" using sint64_range(2) [of e] by simp
  moreover have "e + 1 = word_of_int (sint e + 1)" by simp
  ultimately show ?thesis using sint64_exact [of "sint e + 1"] assms(1) by (metis add_increasing2
    dual_order.trans neg_le_0_iff_le zero_le_numeral zero_le_one zero_le_power)
qed

subsection \<open>Consistency under concurrent writers\<close>

text \<open>
  What a session may conclude from holding \<open>v\<close>: it is a well-formed row, and the table has
  the row it has become.
\<close>

definition holds :: "database \<Rightarrow> Metadata \<Rightarrow> bool" where
  "holds d v \<longleftrightarrow> row_ok v \<and> (\<exists>r \<in> set (files d). row_moves v r)"

lemma lifecycle_row_ok:
  assumes "lifecycle scan v0 v" "row_ok v0" "1 \<le> sint e" "e \<noteq> max_bigint"
  shows "row_ok (v\<lparr>m_Version := e + 1\<rparr>)"
proof -
  have c: "core (v\<lparr>m_Version := e + 1\<rparr>) = core v0"
    using lifecycle_core [OF assms(1)] by (simp add: core_def)
  have ver: "1 \<le> sint (e + 1)" "e + 1 \<noteq> 1"
    using next_version [OF assms(3,4)] assms(3) by auto
  have old: "m_ScanStatus v0 \<in> {''pending'', ''clean'', ''infected'', ''skipped''}"
    "m_Status v0 = ''pending_upload'' \<longrightarrow> m_ScanStatus v0 = ''pending''" "core_ok v0"
    using assms(2) by (simp_all add: row_ok_def)
  from assms(1) old(1,2)
  have new: "m_Status v \<in> {''ready'', ''deleting'', ''deleted'', ''expired''}"
    "m_ScanStatus v \<in> {''pending'', ''clean'', ''infected'', ''skipped''}"
    "m_Status v = ''expired'' \<longrightarrow> m_ScanStatus v = ''pending''"
    by (cases rule: lifecycle.cases; simp add: stamp_def; blast?)+
  from new(1) have "m_Status v \<noteq> ''pending_upload''" by auto
  then show ?thesis using new ver core_fields(7) [OF c] old(3) unfolding row_ok_def by auto
qed

lemma create_keeps_ok:
  assumes "db_ok d" "fresh_row S v" "insert_file v d = Inr ((), d1)" "announces R v d1 d2"
  shows "db_ok d2" "evolves d d2"
proof -
  note ins = insert_file_tables [OF assms(3)] and ann = announces_tables [OF assms(4)]
  have row: "row_ok v" using assms(2) by (simp add: fresh_row_def row_ok_def)
  have fresh: "m_ID v \<notin> m_ID ` set (files d)"
    "(m_Bucket v, m_ObjectKey v) \<notin> (\<lambda>r. (m_Bucket r, m_ObjectKey r)) ` set (files d)"
    "(m_TenantID v, m_ApplicationID v, m_IdempotencyKey v) \<notin>
      (\<lambda>r. (m_TenantID r, m_ApplicationID r, m_IdempotencyKey r)) ` set (files d)"
    using ins(3) by (auto simp: conflicts_def)
  show "db_ok d2" using assms(1) row fresh ann(3) unfolding db_ok_def ann(1) ins(1,2)
    by (auto simp: image_iff)
  show "evolves d d2" unfolding evolves_def ann(1) ins(1) using row_moves_refl by fastforce
qed

lemma change_keeps_ok:
  assumes "db_ok d" "holds d v0" "lifecycle scan v0 v" "update_file v e d = Inr (n, d1)" "n \<noteq> 0"
    and "announces R v1 d1 d2"
  shows "db_ok d2" "evolves d d2" "holds d2 (v\<lparr>m_Version := e + 1\<rparr>)"
proof -
  let ?v = "v\<lparr>m_Version := e + 1\<rparr>"
  from assms(2) obtain r where r: "r \<in> set (files d)" "row_moves v0 r" and v0: "row_ok v0"
    by (auto simp: holds_def)
  have cr: "core r = core v" using r(2) lifecycle_core [OF assms(3)] by (simp add: row_moves_def)
  have ids: "distinct (map m_ID (files d))" using assms(1) by (simp add: db_ok_def)
  note upd = update_replaces [OF ids r(1) cr assms(4,5)] and ann = announces_tables [OF assms(6)]
  have e: "1 \<le> sint e" using assms(1) r(1) upd(1) by (auto simp: db_ok_def row_ok_def)
  have v: "row_ok ?v" by (rule lifecycle_row_ok [OF assms(3) v0 e upd(2)])
  have cv: "core ?v = core v" by (simp add: core_def)
  note nv = next_version [OF e upd(2)]
  have one: "x = r" if "x \<in> set (files d)" "m_ID x = m_ID v" for x
    using ids r(1) that core_fields(1) [OF cr] by (simp add: distinct_map inj_on_def)
  have mv: "row_moves r ?v" using nv upd(1) cv cr by (auto simp: row_moves_def)
  let ?f = "\<lambda>x. if m_ID x = m_ID v then ?v else x"
  have files: "files d2 = map ?f (files d)" using upd(3) ann(1) by simp
  have maps: "map h (files d2) = map h (files d)" if "h ?v = h r" for h :: "Metadata \<Rightarrow> 'b"
    unfolding files using one that by (auto simp: comp_def)
  note cf = core_fields [OF trans [OF cv cr [symmetric]]]
  have m: "map m_ID (files d2) = map m_ID (files d)"
    "map (\<lambda>r. (m_Bucket r, m_ObjectKey r)) (files d2) = map (\<lambda>r. (m_Bucket r, m_ObjectKey r)) (files d)"
    "map (\<lambda>r. (m_TenantID r, m_ApplicationID r, m_IdempotencyKey r)) (files d2) =
      map (\<lambda>r. (m_TenantID r, m_ApplicationID r, m_IdempotencyKey r)) (files d)"
    by (rule maps; use cf in simp)+
  show "db_ok d2" using assms(1) v ann(3) unfolding db_ok_def m upd(4) by (auto simp: files upd(4))
  show "evolves d d2" unfolding evolves_def files
  proof
    fix x assume x: "x \<in> set (files d)"
    then have "row_moves x (?f x)" using one mv by auto
    with x show "\<exists>x' \<in> set (map ?f (files d)). row_moves x x'"
      by (metis (mono_tags, lifting) image_eqI list.set_map)
  qed
  have "?v \<in> set (files d2)" using r(1) core_fields(1) [OF cr] by (auto simp: files)
  then show "holds d2 ?v" unfolding holds_def using v row_moves_refl by blast
qed

lemma holds_stable: "holds d v \<Longrightarrow> evolves d d' \<Longrightarrow> holds d' v"
  unfolding holds_def evolves_def by (meson row_moves_trans)

lemma holds_read: "db_ok d \<Longrightarrow> r \<in> set (files d) \<Longrightarrow> holds d r"
  unfolding holds_def db_ok_def using row_moves_refl by blast

interpretation tables: store_discipline R S sc
    "\<lambda>d. rely R db_ok evolves \<longrightarrow> db_ok d" "\<lambda>d d'. rely R db_ok evolves \<longrightarrow> evolves d d'"
    "\<lambda>d v. rely R db_ok evolves \<longrightarrow> holds d v" for R S sc
proof unfold_locales
  fix d v d1 d2
  assume "rely R db_ok evolves \<longrightarrow> db_ok d" "fresh_row S v" "insert_file v d = Inr ((), d1)"
    "announces R v d1 d2"
  then show "(rely R db_ok evolves \<longrightarrow> db_ok d2) \<and> (rely R db_ok evolves \<longrightarrow> evolves d d2)"
    using create_keeps_ok by blast
next
  fix d v0 v e n d1 d2
  assume a: "rely R db_ok evolves \<longrightarrow> db_ok d" "rely R db_ok evolves \<longrightarrow> holds d v0"
    "lifecycle (sv_scanRequired S) v0 v" "update_file v e d = Inr (n, d1)" "n \<noteq> 0"
    "announces R (v\<lparr>m_Version := e + 1\<rparr>) d1 d2"
  show "(rely R db_ok evolves \<longrightarrow> db_ok d2) \<and> (rely R db_ok evolves \<longrightarrow> evolves d d2) \<and>
      (rely R db_ok evolves \<longrightarrow> holds d2 (v\<lparr>m_Version := e + 1\<rparr>))"
    using change_keeps_ok [OF _ _ a(3-6)] a(1,2) by blast
qed (auto intro: evolves_refl holds_read holds_stable elim: evolves_trans simp: rely_def)

subsection \<open>The outbox announces every row\<close>

text \<open>The outbox row \<open>o\<close> carries the event that describes the file row \<open>r\<close>.\<close>

definition describes :: "'x runtime \<Rightarrow> OutboxRow \<Rightarrow> Metadata \<Rightarrow> bool" where
  "describes R ev r \<longleftrightarrow>
     (\<exists>i envelope. rt_new_envelope R (event_metadata i r) (event_file r) = Inr envelope \<and>
        rt_marshal R envelope = Inr (or_Envelope ev) \<and> or_ID ev = rt_event_id R envelope)"

definition announced :: "'x runtime \<Rightarrow> database \<Rightarrow> bool" where
  "announced R d \<longleftrightarrow>
     db_ok d \<and> (\<forall>r \<in> set (files d). \<exists>ev \<in> set (file_outbox_events d). describes R ev r)"

lemma announces_describes:
  assumes "announces R v d d'"
  shows "\<exists>ev. file_outbox_events d' = file_outbox_events d @ [ev] \<and> describes R ev v"
proof -
  from assms obtain i envelope encoded where
    ev: "rt_new_envelope R (event_metadata i v) (event_file v) = Inr envelope"
      "rt_marshal R envelope = Inr encoded"
    and ins: "insert_outbox (outbox_event (rt_event_id R envelope) encoded v) d = Inr ((), d')"
    unfolding announces_def by blast
  from ins obtain row where "file_outbox_events d' = file_outbox_events d @ [row]"
    "or_Envelope row = encoded" "or_ID row = rt_event_id R envelope"
    by (auto simp: insert_outbox_def outbox_event_def split: if_splits)
  with ev show ?thesis unfolding describes_def by blast
qed

lemma create_keeps_announced:
  assumes "announced R d" "fresh_row S v" "insert_file v d = Inr ((), d1)" "announces R v d1 d2"
  shows "announced R d2"
proof -
  obtain ev where ev: "file_outbox_events d2 = file_outbox_events d1 @ [ev]" "describes R ev v"
    using announces_describes [OF assms(4)] by blast
  have "db_ok d2" using create_keeps_ok(1) [OF _ assms(2-4)] assms(1) by (simp add: announced_def)
  then show ?thesis
    using assms(1) ev insert_file_tables(1,2) [OF assms(3)] announces_tables(1) [OF assms(4)]
    by (auto simp: announced_def)
qed

lemma change_keeps_announced:
  assumes "announced R d" "holds d v0" "lifecycle scan v0 v" "update_file v e d = Inr (n, d1)" "n \<noteq> 0"
    and "announces R (v\<lparr>m_Version := e + 1\<rparr>) d1 d2"
  shows "announced R d2"
proof -
  obtain ev where ev: "file_outbox_events d2 = file_outbox_events d1 @ [ev]"
    "describes R ev (v\<lparr>m_Version := e + 1\<rparr>)"
    using announces_describes [OF assms(6)] by blast
  have ok: "db_ok d" using assms(1) by (simp add: announced_def)
  then have ids: "distinct (map m_ID (files d))" by (simp add: db_ok_def)
  from assms(2) obtain r where r: "r \<in> set (files d)" "core r = core v0"
    by (auto simp: holds_def row_moves_def)
  note upd = update_replaces [OF ids r(1) r(2) [folded lifecycle_core [OF assms(3)]] assms(4,5)]
  have "db_ok d2" by (rule change_keeps_ok(1) [OF ok assms(2-6)])
  then show ?thesis
    using assms(1) ev upd(3,4) announces_tables(1) [OF assms(6)] by (auto simp: announced_def)
qed

interpretation outbox: store_discipline R S sc
    "\<lambda>d. rely R (announced R) evolves \<longrightarrow> announced R d"
    "\<lambda>d d'. rely R (announced R) evolves \<longrightarrow> evolves d d'"
    "\<lambda>d v. rely R (announced R) evolves \<longrightarrow> holds d v" for R S sc
proof unfold_locales
  fix d v d1 d2
  assume "rely R (announced R) evolves \<longrightarrow> announced R d" "fresh_row S v"
    "insert_file v d = Inr ((), d1)" "announces R v d1 d2"
  then show "(rely R (announced R) evolves \<longrightarrow> announced R d2) \<and>
      (rely R (announced R) evolves \<longrightarrow> evolves d d2)"
    using create_keeps_announced create_keeps_ok(2) announced_def by blast
next
  fix d v0 v e n d1 d2
  assume a: "rely R (announced R) evolves \<longrightarrow> announced R d" "rely R (announced R) evolves \<longrightarrow> holds d v0"
    "lifecycle (sv_scanRequired S) v0 v" "update_file v e d = Inr (n, d1)" "n \<noteq> 0"
    "announces R (v\<lparr>m_Version := e + 1\<rparr>) d1 d2"
  show "(rely R (announced R) evolves \<longrightarrow> announced R d2) \<and>
      (rely R (announced R) evolves \<longrightarrow> evolves d d2) \<and>
      (rely R (announced R) evolves \<longrightarrow> holds d2 (v\<lparr>m_Version := e + 1\<rparr>))"
    using change_keeps_announced [OF _ _ a(3-6)] change_keeps_ok(2,3) [OF _ _ a(3-6)] a(1,2)
    unfolding announced_def by blast
qed (auto intro: evolves_refl holds_read holds_stable elim: evolves_trans simp: rely_def announced_def)

subsection \<open>One event per version\<close>

definition versions :: "database \<Rightarrow> int" where
  "versions d = (\<Sum>r \<leftarrow> files d. sint (m_Version r))"

text \<open>The events of \<open>d'\<close> extend those of \<open>d\<close> by one for each version gained.\<close>

definition logs :: "database \<Rightarrow> database \<Rightarrow> bool" where
  "logs d d' \<longleftrightarrow> evolves d d' \<and>
     (\<exists>new. file_outbox_events d' = file_outbox_events d @ new \<and>
        versions d' = versions d + int (length new))"

lemma logs_refl: "logs d d"
  by (simp add: logs_def evolves_refl)

lemma logs_evolves: "logs d d' \<Longrightarrow> evolves d d'"
  by (simp add: logs_def)

lemma logs_trans: "logs c d \<Longrightarrow> logs d e \<Longrightarrow> logs c e"
  unfolding logs_def by (auto elim: evolves_trans)

lemma create_logs:
  assumes "fresh_row S v" "insert_file v d = Inr ((), d1)" "announces R v d1 d2" "db_ok d"
  shows "logs d d2"
  using create_keeps_ok(2) [OF assms(4,1-3)] announces_tables(1,2) [OF assms(3)]
    insert_file_tables(1,2) [OF assms(2)] assms(1)
  by (auto simp: logs_def versions_def fresh_row_def)

lemma sum_list_replace:
  fixes f :: "'a \<Rightarrow> int"
  assumes "distinct xs" "x \<in> set xs"
  shows "(\<Sum>y \<leftarrow> xs. if y = x then c else f y) = (\<Sum>y \<leftarrow> xs. f y) - f x + c"
  using assms
proof (induction xs)
  case (Cons y ys)
  then show ?case
    by (cases "y = x") (auto intro!: arg_cong [of _ _ sum_list] simp: map_idI cong: map_cong)
qed simp

lemma change_logs:
  assumes "db_ok d" "holds d v0" "lifecycle scan v0 v" "update_file v e d = Inr (n, d1)" "n \<noteq> 0"
    and "announces R (v\<lparr>m_Version := e + 1\<rparr>) d1 d2"
  shows "logs d d2"
proof -
  have ids: "distinct (map m_ID (files d))" using assms(1) by (simp add: db_ok_def)
  from assms(2) obtain r where r: "r \<in> set (files d)" "core r = core v0"
    by (auto simp: holds_def row_moves_def)
  note cr = r(2) [folded lifecycle_core [OF assms(3)]]
  note upd = update_replaces [OF ids r(1) cr assms(4,5)] and ann = announces_tables(1,2) [OF assms(6)]
  have e: "1 \<le> sint e" using assms(1) r(1) upd(1) by (auto simp: db_ok_def row_ok_def)
  have "(m_ID x = m_ID v) = (x = r)" if "x \<in> set (files d)" for x
    using ids r(1) that core_fields(1) [OF cr] by (auto simp: distinct_map inj_on_def)
  then have "versions d2 = (\<Sum>x \<leftarrow> files d. if x = r then sint (e + 1) else sint (m_Version x))"
    unfolding versions_def ann(1) upd(3) map_map comp_def
    by (intro arg_cong [of _ _ sum_list] map_cong) auto
  also have "\<dots> = versions d + 1"
    using sum_list_replace [of "files d" r "sint (e + 1)" "\<lambda>x. sint (m_Version x)"] ids r(1) upd(1)
      next_version [OF e upd(2)] by (simp add: versions_def distinct_map)
  finally show ?thesis
    using ann(2) upd(4) change_keeps_ok(2) [OF assms] by (auto simp: logs_def)
qed

lemma quiet_others [simp]: "quiet R \<Longrightarrow> fst (rt_others R d x) = d"
  by (simp add: quiet_def)

interpretation log: store_discipline R S sc "\<lambda>d. quiet R \<longrightarrow> db_ok d" "\<lambda>d d'. quiet R \<longrightarrow> logs d d'"
    "\<lambda>d v. quiet R \<longrightarrow> holds d v" for R S sc
proof unfold_locales
  fix d v d1 d2
  assume "quiet R \<longrightarrow> db_ok d" "fresh_row S v" "insert_file v d = Inr ((), d1)" "announces R v d1 d2"
  then show "(quiet R \<longrightarrow> db_ok d2) \<and> (quiet R \<longrightarrow> logs d d2)"
    using create_keeps_ok(1) create_logs by blast
next
  fix d v0 v e n d1 d2
  assume a: "quiet R \<longrightarrow> db_ok d" "quiet R \<longrightarrow> holds d v0" "lifecycle (sv_scanRequired S) v0 v"
    "update_file v e d = Inr (n, d1)" "n \<noteq> 0" "announces R (v\<lparr>m_Version := e + 1\<rparr>) d1 d2"
  show "(quiet R \<longrightarrow> db_ok d2) \<and> (quiet R \<longrightarrow> logs d d2) \<and>
      (quiet R \<longrightarrow> holds d2 (v\<lparr>m_Version := e + 1\<rparr>))"
    using change_logs [OF _ _ a(3-6)] change_keeps_ok(1,3) [OF _ _ a(3-6)] a(1,2) by blast
qed (auto intro: logs_refl holds_read holds_stable logs_evolves elim: logs_trans)

subsection \<open>The scan policy\<close>

text \<open>No row counts as scanned without a scan.\<close>

definition none_skipped :: "database \<Rightarrow> bool" where
  "none_skipped d \<longleftrightarrow> (\<forall>r \<in> set (files d). m_ScanStatus r \<noteq> ''skipped'')"

definition scan_enforced :: "'x runtime \<Rightarrow> 'x Service \<Rightarrow> bool" where
  "scan_enforced R S \<longleftrightarrow> sv_scanRequired S \<and> rely R none_skipped (\<lambda>_ _. True)"

lemma lifecycle_not_skipped:
  "lifecycle True v0 v \<Longrightarrow> m_ScanStatus v0 \<noteq> ''skipped'' \<Longrightarrow> m_ScanStatus v \<noteq> ''skipped''"
  by (cases rule: lifecycle.cases) (auto simp: stamp_def)

lemma update_file_rows:
  "update_file v e d = Inr (n, d1) \<Longrightarrow>
    files d1 = map (\<lambda>r. if update_hits v e r then set_columns v r else r) (files d)"
  by (auto simp: update_file_def split: if_splits)

interpretation scanning: store_discipline R S sc "\<lambda>d. scan_enforced R S \<longrightarrow> none_skipped d"
    "\<lambda>d d'. True" "\<lambda>d v. scan_enforced R S \<longrightarrow> m_ScanStatus v \<noteq> ''skipped''" for R S sc
proof unfold_locales
  fix d v d1 d2
  assume "scan_enforced R S \<longrightarrow> none_skipped d" "fresh_row S v" "insert_file v d = Inr ((), d1)"
    "announces R v d1 d2"
  then show "(scan_enforced R S \<longrightarrow> none_skipped d2) \<and> True"
    using insert_file_tables(1) announces_tables(1) by (fastforce simp: none_skipped_def fresh_row_def)
next
  fix d v0 v e n d1 d2
  assume a: "scan_enforced R S \<longrightarrow> none_skipped d" "scan_enforced R S \<longrightarrow> m_ScanStatus v0 \<noteq> ''skipped''"
    "lifecycle (sv_scanRequired S) v0 v" "update_file v e d = Inr (n, d1)" "n \<noteq> 0"
    "announces R (v\<lparr>m_Version := e + 1\<rparr>) d1 d2"
  have "none_skipped d2 \<and> m_ScanStatus v \<noteq> ''skipped''" if s: "scan_enforced R S"
  proof -
    have v: "m_ScanStatus v \<noteq> ''skipped''"
      using lifecycle_not_skipped a(2,3) s by (auto simp: scan_enforced_def)
    then show ?thesis using a(1) s announces_tables(1) [OF a(6)] update_file_rows [OF a(4)]
      by (auto simp: none_skipped_def set_columns_def)
  qed
  then show "(scan_enforced R S \<longrightarrow> none_skipped d2) \<and> True \<and>
      (scan_enforced R S \<longrightarrow> m_ScanStatus (v\<lparr>m_Version := e + 1\<rparr>) \<noteq> ''skipped'')" by simp
next
  fix d x assume "scan_enforced R S \<longrightarrow> none_skipped d"
  then show "(scan_enforced R S \<longrightarrow> none_skipped (fst (rt_others R d x))) \<and> True"
    by (auto simp: scan_enforced_def rely_def)
next
  fix d r assume "scan_enforced R S \<longrightarrow> none_skipped d" "r \<in> set (files d)"
  then show "scan_enforced R S \<longrightarrow> m_ScanStatus r \<noteq> ''skipped''" unfolding none_skipped_def by blast
qed blast+

subsection \<open>Isolation of the scopes\<close>

text \<open>The rows outside a set of keys, in table order.\<close>

definition outside :: "(string \<times> string \<times> string) set \<Rightarrow> database \<Rightarrow> Metadata list" where
  "outside sc d = List.filter (\<lambda>r. file_key r \<notin> sc) (files d)"

lemma filter_map_unseen:
  assumes "\<And>x. P (f x) = P x" "\<And>x. P x \<Longrightarrow> f x = x"
  shows "List.filter P (map f xs) = List.filter P xs"
  by (induction xs) (use assms in auto)

lemma update_outside:
  assumes "file_key v \<in> sc" "update_file v e d = Inr (n, d1)"
  shows "outside sc d1 = outside sc d"
  unfolding outside_def update_file_rows [OF assms(2)]
  by (rule filter_map_unseen) (use assms(1) in \<open>auto simp: update_hits_iff file_key_def\<close>)

interpretation scoped: store_discipline R S sc "\<lambda>d. True"
    "\<lambda>d d'. quiet R \<longrightarrow> outside sc d' = outside sc d" "\<lambda>d v. file_key v \<in> sc" for R S sc
proof unfold_locales
  fix d v d1 d2
  assume a: "file_key v \<in> sc" "insert_file v d = Inr ((), d1)" "announces R v d1 d2"
  show "True \<and> (quiet R \<longrightarrow> outside sc d2 = outside sc d)"
    using insert_file_tables(1) [OF a(2)] announces_tables(1) [OF a(3)] a(1)
    by (simp add: outside_def)
next
  fix d v0 v e n d1 d2
  assume a: "file_key v0 \<in> sc" "lifecycle (sv_scanRequired S) v0 v" "update_file v e d = Inr (n, d1)"
    "n \<noteq> 0" "announces R (v\<lparr>m_Version := e + 1\<rparr>) d1 d2"
  have v: "file_key v \<in> sc" using core_fields(8) [OF lifecycle_core [OF a(2)]] a(1) by simp
  have "outside sc d2 = outside sc d1" using announces_tables(1) [OF a(5)] by (simp add: outside_def)
  with update_outside [OF v a(3)] v
  show "True \<and> (quiet R \<longrightarrow> outside sc d2 = outside sc d) \<and>
      file_key (v\<lparr>m_Version := e + 1\<rparr>) \<in> sc" by (simp add: file_key_def)
qed (auto)

end
