(* ===== verification/Demo.thy ===== *)
theory Demo
  imports File_Protocol
begin

text \<open>
  A concrete instance of everything the model takes as a parameter, on which hypotheses can be
  checked by evaluation: an object store that answers every call (its state is a counter), a
  database driver without faults, a clock and an identifier generator that count, an event encoder
  that writes the event's id, the file's id, status and version, and no other active requests.
\<close>

definition demo_minio :: "nat minio" where
  "demo_minio =
     \<lparr>mc_PresignHeader = (\<lambda>verb bucket key ttl headers x. (Inr (''put:'' @ key), x)),
      mc_PresignedGetObject = (\<lambda>bucket key ttl x. (Inr (''get:'' @ key), x)),
      mc_Presign = (\<lambda>verb bucket key ttl args x. (Inr (''part:'' @ key), x)),
      mc_StatObject = (\<lambda>bucket key x. (((11, \<lambda>_. []), None), x)),
      mc_RemoveObject = (\<lambda>bucket key x. (None, x)),
      mc_NewMultipartUpload = (\<lambda>bucket key ct md x. (Inr ''upload'', x)),
      mc_CompleteMultipartUpload = (\<lambda>bucket key u ps x. (None, x)),
      mc_AbortMultipartUpload = (\<lambda>bucket key u x. (None, x))\<rparr>"

definition demo_cfg :: cfg_ObjectStorage where
  "demo_cfg =
     \<lparr>objectstorage_Enabled = True, objectstorage_Endpoint = ''s3'',
      objectstorage_PresignEndpoint = [], objectstorage_AccessKey = ''k'',
      objectstorage_SecretKey = ''s'', objectstorage_SessionToken = [],
      objectstorage_Bucket = ''files'', objectstorage_Region = [], objectstorage_UseSSL = True,
      objectstorage_PresignUseSSL = True, objectstorage_PresignTTL = 900,
      objectstorage_MaxUploadBytes = 1000000000, objectstorage_MultipartSessionTTL = 500,
      objectstorage_CleanupBatchSize = 10, objectstorage_CleanupSpec = [],
      objectstorage_ScanRequired = True\<rparr>"

definition demo_s3 :: "nat S3" where
  "demo_s3 = \<lparr>s3_client = Some demo_minio, s3_presignClient = Some demo_minio, s3_cfg = demo_cfg\<rparr>"

definition demo_rt :: "nat runtime" where
  "demo_rt =
     \<lparr>rt_others = (\<lambda>d x. (d, x)), rt_now = (\<lambda>x. (int x, x)),
      rt_uuid = (\<lambda>x. (replicate (Suc x) (CHR ''i''), Suc x)), rt_stmt = (\<lambda>x. (None, x)),
      rt_begin = (\<lambda>x. (None, x)), rt_commit = (\<lambda>x. (Committed, x)),
      rt_rollback = (\<lambda>x. (None, x)),
      rt_new_envelope = (\<lambda>m f. Inr (em_EventID m @ '':'' @ pb_Id f @ '':'' @ pb_Status f)),
      rt_event_id = (\<lambda>env. takeWhile (\<lambda>c. c \<noteq> CHR '':'') env), rt_marshal = Inr,
      rt_unicode_lower = (\<lambda>s. s), rt_lower_like = (\<lambda>column pat. True)\<rparr>"

definition demo_sv :: "nat Service" where
  "demo_sv = (NewService True (S3_Storage demo_s3))
     \<lparr>sv_scanRequired := True, sv_uploadSessionTTL := 500, sv_cleanupBatchSize := 10\<rparr>"

definition demo_user :: Principal where
  "demo_user = \<lparr>p_ID = ''u1'', p_Type = TypeUser, p_TenantID = ''t1''\<rparr>"

definition demo_ctx :: Ctx where
  "demo_ctx = \<lparr>ctx_principal = Some demo_user\<rparr>"

text \<open>The SHA-256 checksum every demo upload declares.\<close>

definition demo_sum :: string where
  "demo_sum = replicate 64 (CHR ''a'')"

definition demo_row :: Metadata where
  "demo_row =
     \<lparr>m_ID = ''f'', m_TenantID = ''t1'', m_ApplicationID = ''a1'', m_OwnerID = ''u1'',
      m_Bucket = ''files'', m_ObjectKey = ''t1/a1/f/n.txt'', m_Filename = ''n.txt'',
      m_ContentType = ''text/plain'', m_Size = 11, m_ChecksumSHA256 = demo_sum,
      m_Status = ''pending_upload'', m_ScanStatus = ''pending'', m_IdempotencyKey = ''k1'',
      m_UploadMode = ''single'', m_MultipartUploadID = [], m_PartSize = 0, m_PartCount = 0,
      m_UploadExpiresAt = Some 500, m_Version = 1, m_CreatedAt = 0, m_UpdatedAt = 0,
      m_CreatedBy = ''u1'', m_UpdatedBy = ''u1''\<rparr>"

definition demo_event :: OutboxRow where
  "demo_event =
     \<lparr>or_ID = ''e'', or_Subject = ''platform.file.status.changed.v1'',
      or_Envelope = ''e:f:pending_upload'', or_Attempts = 0, or_AvailableAt = 0,
      or_PublishedAt = None, or_LastError = [], or_Version = 1, or_CreatedAt = 0,
      or_UpdatedAt = 0, or_CreatedBy = ''u1'', or_UpdatedBy = ''u1''\<rparr>"

definition demo_db :: database where
  "demo_db = \<lparr>files = [demo_row], file_outbox_events = [demo_event]\<rparr>"

definition demo_world :: "nat world" where
  "demo_world = \<lparr>w_db = demo_db, w_ext = 7\<rparr>"

definition demo_complete :: request where
  "demo_complete = ReqCompleteUpload ''f'' ''t1'' ''a1'' demo_sum 1"

definition demo_upload :: request where
  "demo_upload =
     ReqInitiateUpload ''t1'' ''a1'' ''report.pdf'' ''text/plain'' 11 demo_sum ''k2''"

definition demo_clean :: "nat world" where
  "demo_clean = \<lparr>w_db = \<lparr>files = [demo_row\<lparr>m_Status := ''ready'', m_ScanStatus := ''clean'',
     m_Version := 3\<rparr>], file_outbox_events = []\<rparr>, w_ext = 7\<rparr>"

definition demo_multipart :: "nat world" where
  "demo_multipart = \<lparr>w_db = \<lparr>files = [demo_row\<lparr>m_UploadMode := ''multipart'',
     m_MultipartUploadID := ''u'', m_Size := 12000000, m_PartSize := 8388608, m_PartCount := 2\<rparr>],
     file_outbox_events = []\<rparr>, w_ext = 7\<rparr>"

definition demo_scan :: "nat world" where
  "demo_scan = \<lparr>w_db = \<lparr>files = [demo_row\<lparr>m_Status := ''ready'', m_Version := 2\<rparr>],
     file_outbox_events = []\<rparr>, w_ext = 7\<rparr>"

definition demo_one_part :: "nat world" where
  "demo_one_part = \<lparr>w_db = \<lparr>files = [demo_row\<lparr>m_UploadMode := ''multipart'',
     m_MultipartUploadID := ''u'', m_PartSize := 8388608, m_PartCount := 1\<rparr>],
     file_outbox_events = []\<rparr>, w_ext = 7\<rparr>"

definition demo_deleted :: "nat world" where
  "demo_deleted = \<lparr>w_db = \<lparr>files = [demo_row\<lparr>m_Status := ''deleted'', m_Version := 3\<rparr>],
     file_outbox_events = []\<rparr>, w_ext = 7\<rparr>"

definition demo_filter :: ListFilter where
  "demo_filter = \<lparr>lf_TenantID = '' t1'', lf_ApplicationID = ''a1'', lf_Keyword = [], lf_Status = [],
     lf_ScanStatus = ''PENDING'', lf_ContentType = [], lf_OwnerID = [], lf_Page = 0, lf_PageSize = 0\<rparr>"

definition demo_overdue :: "nat world" where
  "demo_overdue = \<lparr>w_db = \<lparr>files = [demo_row\<lparr>m_UploadExpiresAt := Some 5\<rparr>], file_outbox_events = []\<rparr>,
     w_ext = 7\<rparr>"

lemma demo_quiet: "quiet demo_rt"
  by (simp add: quiet_def demo_rt_def)

end
