(* ===== verification/File_Theorems.thy ===== *)
theory File_Theorems
  imports File_Invariants Demo
begin

text \<open>
  What holds of every call of the file service, whatever the storage, the driver, the clock and
  the other replicas do: the protocol, the consistency of the tables, the outbox, the scan policy
  and the isolation of the scopes; and what holds of every sequence of calls.
\<close>

text \<open>A sequence of calls, each with its own context, one after the other.\<close>

fun serve_all :: "'x runtime \<Rightarrow> 'x Service \<Rightarrow> (Ctx \<times> request) list \<Rightarrow> 'x world \<Rightarrow> 'x world" where
  "serve_all R S [] w = w"
| "serve_all R S ((ctx, req) # rest) w =
     serve_all R S rest (snd (run_state (serve R S ctx req) w))"

definition empty_db :: database where
  "empty_db = \<lparr>files = [], file_outbox_events = []\<rparr>"

subsection \<open>Facts about the demo instance\<close>

lemma rely_quiet: "quiet R \<Longrightarrow> (\<And>d. I d \<Longrightarrow> G d d) \<Longrightarrow> rely R I G"
  by (simp add: rely_def)

lemma demo_rely: "rely demo_rt db_ok evolves" "rely demo_rt (announced demo_rt) evolves"
  "rely demo_rt none_skipped (\<lambda>_ _. True)"
  by (rule rely_quiet [OF demo_quiet]; simp add: evolves_refl)+

lemma demo_row_ok: "row_ok demo_row"
  unfolding row_ok_def core_ok_def geometry_ok_def clean_text_def by code_simp

lemma demo_db_ok: "db_ok demo_db"
  by (simp add: db_ok_def demo_db_def demo_row_ok)

lemma demo_announced: "announced demo_rt demo_db"
proof -
  have "describes demo_rt demo_event demo_row"
    unfolding describes_def
    by (rule exI [of _ "''e''"])
      (simp add: demo_rt_def demo_event_def demo_row_def event_metadata_def event_file_def)
  then show ?thesis by (simp add: announced_def demo_db_ok) (simp add: demo_db_def)
qed

lemma serve_world: "session_at R S (scope req) (w_db w) {} (w_db (snd (run_state (serve R S ctx req) w)))"
  by (rule serve_session [of R S ctx req w]) (simp add: prod_eq_iff)

subsection \<open>Every call\<close>

text \<open>
  C1. Every call of every method, on every branch, changes the database only by steps of the
  protocol: what others commit, creating one well-formed pending upload together with its event, or
  moving a row that this very call has read or written along the life cycle under an expected
  version, together with its event. The rows read and written are in the scope the call names.
\<close>

theorem serve_follows_protocol:
  "\<exists>K. (svc_step R S (scope req))\<^sup>*\<^sup>* (w_db w, {}) (w_db (snd (run_state (serve R S ctx req) w)), K)"
  using serve_world [of R S req w ctx] unfolding session_at_def by blast

text \<open>
  C2. If the other replicas keep the tables consistent and let rows only evolve, then every call
  keeps them consistent and lets rows only evolve. Consistent: ids, (bucket, object key) and
  (tenant, application, idempotency key) are unique, every row has a known status and scan status,
  a version of at least 1 that is 1 exactly while the upload is pending, an object key built from its tenant,
  application and id, and an exact part geometry. Evolve: rows are never removed, their immutable columns never change,
  versions never decrease and the same version is the same row.
\<close>

theorem serve_keeps_tables:
  assumes "rely R db_ok evolves" "db_ok (w_db w)"
  shows "db_ok (w_db (snd (run_state (serve R S ctx req) w))) \<and>
    evolves (w_db w) (w_db (snd (run_state (serve R S ctx req) w)))"
  using tables.session_keeps [OF serve_world] assms by blast

theorem serve_keeps_tables_witness:
  "db_ok demo_db \<and> db_ok (w_db (snd (run_state (serve demo_rt demo_sv demo_ctx demo_complete) demo_world))) \<and>
    evolves demo_db (w_db (snd (run_state (serve demo_rt demo_sv demo_ctx demo_complete) demo_world)))"
  using serve_keeps_tables [OF demo_rely(1), of demo_world demo_sv demo_ctx demo_complete] demo_db_ok
  by (simp add: demo_world_def)



text \<open>
  C4. No event is lost or repeated: while no other request is active, a call appends to the outbox
  exactly as many events as it advances row versions (a created row counts from 0 to 1).
\<close>

theorem serve_logs_each_version_once:
  assumes "quiet R" "db_ok (w_db w)"
  shows "\<exists>new. file_outbox_events (w_db (snd (run_state (serve R S ctx req) w))) =
      file_outbox_events (w_db w) @ new \<and>
    versions (w_db (snd (run_state (serve R S ctx req) w))) = versions (w_db w) + int (length new)"
  using log.session_keeps [OF serve_world] assms unfolding logs_def by blast

theorem serve_logs_each_version_once_witness:
  "\<exists>new. file_outbox_events (w_db (snd (run_state (serve demo_rt demo_sv demo_ctx demo_complete) demo_world))) =
      [demo_event] @ new \<and>
    versions (w_db (snd (run_state (serve demo_rt demo_sv demo_ctx demo_complete) demo_world))) =
      1 + int (length new)"
  using serve_logs_each_version_once [OF demo_quiet, of demo_world demo_sv demo_ctx demo_complete]
    demo_db_ok by (simp add: demo_world_def demo_db_def versions_def demo_row_def)

text \<open>
  C9. The scan policy: with a scan required (here and at the other replicas), no call ever makes a
  row whose scan status is skipped, so that only a reported scan result can make a file clean.
\<close>

theorem serve_never_skips_scan:
  assumes "sv_scanRequired S" "rely R none_skipped (\<lambda>_ _. True)" "none_skipped (w_db w)"
  shows "none_skipped (w_db (snd (run_state (serve R S ctx req) w)))"
  using scanning.session_keeps [OF serve_world] assms unfolding scan_enforced_def by blast

theorem serve_never_skips_scan_witness:
  "sv_scanRequired demo_sv \<and>
    none_skipped (w_db (snd (run_state (serve demo_rt demo_sv demo_ctx demo_complete) demo_world)))"
  using serve_never_skips_scan [OF _ demo_rely(3), of demo_sv demo_world demo_ctx demo_complete]
  by (simp add: demo_sv_def none_skipped_def demo_world_def demo_db_def demo_row_def)

text \<open>
  C8. A call touches nothing outside the scope it names: while no other request is active, the rows
  of every other id, tenant and application are the same, in the same order, after it.
\<close>

theorem serve_touches_only_its_scope:
  assumes "quiet R"
  shows "outside (scope req) (w_db (snd (run_state (serve R S ctx req) w))) = outside (scope req) (w_db w)"
  using scoped.session_keeps [OF serve_world] assms by blast

theorem serve_touches_only_its_scope_witness:
  "outside (scope demo_upload) (w_db (snd (run_state (serve demo_rt demo_sv demo_ctx demo_upload) demo_world))) =
    outside (scope demo_upload) (w_db demo_world)"
  by (rule serve_touches_only_its_scope [OF demo_quiet])

subsection \<open>Every sequence of calls\<close>

lemma serve_all_keeps:
  assumes "\<And>ctx req w. I (w_db w) \<Longrightarrow> I (w_db (snd (run_state (serve R S ctx req) w)))"
    and "I (w_db w)"
  shows "I (w_db (serve_all R S calls w))"
  using assms(2)
proof (induction calls arbitrary: w)
  case (Cons c calls)
  obtain ctx req where c: "c = (ctx, req)" by (cases c)
  show ?case unfolding c serve_all.simps by (rule Cons.IH, rule assms(1), rule Cons.prems)
qed simp

lemma announced_empty: "announced R empty_db"
  by (simp add: announced_def db_ok_def empty_db_def)

text \<open>
  Every database the service can reach from the empty one, by any sequence of calls interleaved
  with the other replicas, is consistent and has an event for every row.
\<close>

lemma reachable_databases_announced:
  assumes "rely R (announced R) evolves" "w_db w = empty_db"
  shows "announced R (w_db (serve_all R S calls w))"
proof (rule serve_all_keeps [where I = "announced R"])
  fix ctx req and v :: "'a world" assume "announced R (w_db v)"
  then show "announced R (w_db (snd (run_state (serve R S ctx req) v)))"
    using outbox.session_keeps [OF serve_world, of R v S ctx req] assms(1) by blast
qed (simp add: assms(2) announced_empty)

lemma reachable_databases_announced_witness:
  "announced demo_rt (w_db (serve_all demo_rt demo_sv [(demo_ctx, demo_upload), (demo_ctx, demo_complete)]
    \<lparr>w_db = empty_db, w_ext = 0\<rparr>))"
  by (rule reachable_databases_announced [OF demo_rely(2)]) simp

end
