(* ===== verification/File_Methods.thy ===== *)
theory File_Methods
  imports File_Invariants Demo
begin

text \<open>
  What the single methods of the service promise: who may call them, which file a download or an
  upload URL is for, what an accepted multipart completion hands to the storage, when a retry
  finds its earlier result, what a version conflict does, and that a deletion which reports success
  has removed the object and recorded it.

  The triples here start from a known database: \<open>answers f a\<close> says that the outside call
  \<open>f\<close> can have returned \<open>a\<close>, and \<open>written\<close> what a committed status transaction
  has done.
\<close>

definition answers :: "('x, 'a) ext_op \<Rightarrow> 'a \<Rightarrow> bool" where
  "answers f a \<longleftrightarrow> (\<exists>x x'. f x = (a, x'))"

definition written :: "'x runtime \<Rightarrow> Metadata \<Rightarrow> int64 \<Rightarrow> database \<Rightarrow> database \<Rightarrow> bool" where
  "written R v e d d' \<longleftrightarrow>
     (\<exists>n d1. update_file v e d = Inr (n, d1) \<and> n \<noteq> 0 \<and> announces R (v\<lparr>m_Version := e + 1\<rparr>) d1 d')"

text \<open>The tables a query or a transaction that starts after \<open>d\<close> may see.\<close>

definition sees :: "'x runtime \<Rightarrow> database \<Rightarrow> database \<Rightarrow> bool" where
  "sees R d d' \<longleftrightarrow> (\<exists>x. d' = fst (rt_others R d x))"

text \<open>The tenant a request names.\<close>

fun req_tenant :: "request \<Rightarrow> string option" where
  "req_tenant (ReqInitiateUpload t a f ct sz cs k) = Some t"
| "req_tenant (ReqInitiateMultipart t a f ct sz cs k ps) = Some t"
| "req_tenant (ReqAuthorizeUploadPart i t a n) = Some t"
| "req_tenant (ReqCompleteUpload i t a cs e) = Some t"
| "req_tenant (ReqCompleteMultipart i t a cs ps e) = Some t"
| "req_tenant (ReqAbortMultipart i t a e) = Some t"
| "req_tenant ReqCleanup = None"
| "req_tenant (ReqGet i t a) = Some t"
| "req_tenant (ReqList flt) = Some (lf_TenantID flt)"
| "req_tenant (ReqAuthorizeDownload i t a) = Some t"
| "req_tenant (ReqReportScanResult i t a s e) = Some t"
| "req_tenant (ReqDelete i t a e) = Some t"

text \<open>A caller the service must turn away: nobody, or a user of another tenant.\<close>

definition turned_away :: "Ctx \<Rightarrow> string \<Rightarrow> bool" where
  "turned_away ctx t \<longleftrightarrow>
     (case ctx_principal ctx of
        None \<Rightarrow> True
      | Some p \<Rightarrow> p_Type p = TypeUser \<and> p_TenantID p \<noteq> TrimSpace t)"

subsection \<open>Access\<close>

text \<open>An error that tells the caller to go away: 400, 401 or 403.\<close>

definition refusal :: "go_error \<Rightarrow> bool" where
  "refusal e \<longleftrightarrow> ae_HTTPStatus e \<in> {400, 401, 403}"

definition refused :: "('x world, 'a \<times> go_error option) state \<Rightarrow> 'x world \<Rightarrow> bool" where
  "refused m w \<longleftrightarrow> (\<exists>a e. run_state m w = ((a, Some e), w) \<and> refusal e)"

lemma authorize_turned_away:
  assumes "turned_away ctx t"
  shows "\<exists>e. run_state (authorize S ctx t a) w = (Inl e, w) \<and> refusal e"
  using assms
  by (auto simp: turned_away_def authorize_def enforceTenant_def refusal_def apperror_defs
      split: option.splits)

lemma turned_away_trim: "turned_away ctx (TrimSpace t) = turned_away ctx t"
  by (simp add: turned_away_def TrimSpace_idem split: option.splits)

lemma refused_answering: "refused m w \<Longrightarrow> refused (answering f m) w"
  unfolding refused_def answering_def by fastforce

lemma check_upload_refusal: "check_upload R S t a f ct sz cs k = Inl e \<Longrightarrow> refusal e"
  by (auto simp: check_upload_def Let_def refusal_def apperror_defs split: if_splits sum.splits)

lemma geometry_refusal: "multipart_geometry sz ps = Inl e \<Longrightarrow> refusal e"
  by (auto simp: multipart_geometry_def Let_def refusal_def apperror_defs split: if_splits)

lemma uploads_turned_away:
  assumes "turned_away ctx t"
  shows "refused (Service_InitiateUpload R S ctx t a f ct sz cs k) w"
    and "refused (validateUpload R S ctx t a f ct sz cs k) w"
proof -
  obtain e where e: "run_state (authorize S ctx (TrimSpace t) (TrimSpace a)) w = (Inl e, w)" "refusal e"
    using authorize_turned_away assms turned_away_trim by metis
  have "refused (Service_InitiateUpload R S ctx t a f ct sz cs k) w \<and>
    refused (validateUpload R S ctx t a f ct sz cs k) w"
  proof (cases "check_upload R S t a f ct sz cs k")
    case (Inl err)
    then show ?thesis
      by (simp add: refused_def Service_InitiateUpload_def validateUpload_def check_upload_refusal [OF Inl])
  next
    case (Inr b)
    obtain t' a' f' ct' cs' k' where b: "b = (t', a', f', ct', cs', k')" by (cases b)
    note eq = check_upload_ok(1,2) [OF Inr [unfolded b]]
    show ?thesis
      using e by (simp add: refused_def Service_InitiateUpload_def validateUpload_def Inr b eq)
  qed
  then show "refused (Service_InitiateUpload R S ctx t a f ct sz cs k) w"
    "refused (validateUpload R S ctx t a f ct sz cs k) w" by blast+
qed

lemma multipart_turned_away:
  assumes "turned_away ctx t"
  shows "refused (Service_InitiateMultipartUpload R S ctx t a f ct sz cs k ps) w"
proof (cases "multipart_geometry sz ps")
  case (Inl e)
  then show ?thesis
    by (simp add: refused_def Service_InitiateMultipartUpload_def geometry_refusal [OF Inl])
next
  case (Inr g)
  from uploads_turned_away(2) [OF assms, of R S a f ct sz cs k w] show ?thesis
    by (cases g) (auto simp: refused_def Service_InitiateMultipartUpload_def Inr)
qed

lemma methods_turned_away:
  assumes "turned_away ctx t"
  shows "refused (Service_AuthorizeUploadPart R S ctx i t a n) w"
    "refused (Service_CompleteUpload R S ctx i t a cs e) w"
    "refused (Service_CompleteMultipartUpload R S ctx i t a cs ps e) w"
    "refused (Service_AbortMultipartUpload R S ctx i t a e) w"
    "refused (Service_Get R S ctx i t a) w"
    "refused (Service_AuthorizeDownload R S ctx i t a) w"
    "refused (Service_Delete R S ctx i t a e) w"
  using authorize_turned_away [OF assms, of S a w]
  by (auto simp: refused_def Service_AuthorizeUploadPart_def Service_CompleteUpload_def
      Service_CompleteMultipartUpload_def Service_AbortMultipartUpload_def Service_Get_def
      Service_AuthorizeDownload_def Service_Delete_def)

lemma list_turned_away:
  assumes "turned_away ctx (lf_TenantID flt)"
  shows "refused (Service_List R S ctx flt) w"
  using authorize_turned_away [of ctx "TrimSpace (lf_TenantID flt)" S "TrimSpace (lf_ApplicationID flt)" w]
    assms turned_away_trim
  by (auto simp: refused_def Service_List_def normal_filter_def Let_def)

lemma scan_turned_away:
  assumes "turned_away ctx t"
  shows "refused (Service_ReportScanResult R S ctx i t a s e) w"
  using assms
  by (auto simp: refused_def Service_ReportScanResult_def turned_away_def enforceTenant_def refusal_def
      apperror_defs split: option.splits)

lemma serve_turned_away:
  assumes "req_tenant req = Some t" "turned_away ctx t"
  shows "refused (serve R S ctx req) w"
  using assms by (cases req) (auto intro!: refused_answering uploads_turned_away
    multipart_turned_away methods_turned_away list_turned_away scan_turned_away)

text \<open>
  C7. Authentication and tenant isolation: a call by nobody, or by a user whose tenant is not the one
  the call names, is answered with 400, 401 or 403, and has no effect whatsoever: no statement
  reaches the database, no call reaches the storage or any other outside party.
\<close>

theorem turned_away_no_effect:
  assumes "req_tenant req = Some t" "turned_away ctx t"
  shows "\<exists>a e. run_state (serve R S ctx req) w = ((a, Some e), w) \<and> ae_HTTPStatus e \<in> {400, 401, 403}"
  using serve_turned_away [OF assms] by (simp add: refused_def refusal_def)

theorem turned_away_no_effect_witness:
  "\<exists>a e. run_state (serve demo_rt demo_sv demo_ctx (ReqDelete ''f'' ''t2'' ''a1'' 1)) demo_world =
    ((a, Some e), demo_world) \<and> ae_HTTPStatus e \<in> {400, 401, 403}"
  by (rule turned_away_no_effect [where t = "''t2''"]) (simp, code_simp)

subsection \<open>Triples from a known database\<close>

text \<open>The caller \<open>p\<close> passed authentication, the tenant check and the application grant.\<close>

definition allowed :: "'x Service \<Rightarrow> Ctx \<Rightarrow> string \<Rightarrow> string \<Rightarrow> Principal \<Rightarrow> bool" where
  "allowed S ctx t a p \<longleftrightarrow>
     ctx_principal ctx = Some p \<and> (p_Type p = TypeUser \<longrightarrow> p_TenantID p = TrimSpace t) \<and>
     TrimSpace t \<noteq> [] \<and> TrimSpace a \<noteq> [] \<and>
     answers (sv_applications S (TrimSpace t) (TrimSpace a)) None"

lemma triple_ext_answers:
  assumes "\<And>a. answers f a \<Longrightarrow> triple w_db P (g a) Q"
  shows "triple w_db P (ext_call f \<bind> g) Q"
proof (rule tripleI)
  fix w b w' assume p: "P (w_db w)" and run: "run_state (ext_call f \<bind> g) w = (b, w')"
  obtain a x where a: "f (w_ext w) = (a, x)" by fastforce
  then have ans: "answers f a" unfolding answers_def by blast
  have g: "run_state (g a) (w\<lparr>w_ext := x\<rparr>) = (b, w')" using run a by (simp add: run_ext_call)
  show "Q b (w_db w')" by (rule tripleD [OF assms [OF ans] _ g]) (use p in simp)
qed

lemma verifyApplication_ok:
  assumes "run_state (verifyApplication S t a) w = (None, w')"
  shows "TrimSpace t \<noteq> [] \<and> TrimSpace a \<noteq> [] \<and> answers (sv_applications S (TrimSpace t) (TrimSpace a)) None"
  using assms
  by (auto simp: verifyApplication_def Let_def run_ext_call answers_def split: if_splits prod.splits
      option.splits)

lemma authorize_ok:
  assumes "run_state (authorize S ctx t a) w = (Inr p, w')"
  shows "allowed S ctx t a p"
proof -
  obtain err w1 where v: "run_state (verifyApplication S t a) w = (err, w1)" by fastforce
  with assms have "ctx_principal ctx = Some p" "enforceTenant p t = None" "err = None"
    by (auto simp: authorize_def split: option.splits)
  with verifyApplication_ok [of S t a w w1] v show ?thesis
    by (auto simp: allowed_def enforceTenant_def split: if_splits)
qed

lemma triple_authorize_ok:
  assumes "\<And>e. triple w_db P (g (Inl e)) Q" "\<And>p. allowed S ctx t a p \<Longrightarrow> triple w_db P (g (Inr p)) Q"
  shows "triple w_db P (authorize S ctx t a \<bind> g) Q"
proof (rule tripleI)
  fix w b w' assume p: "P (w_db w)" and run: "run_state (authorize S ctx t a \<bind> g) w = (b, w')"
  obtain r w1 where r: "run_state (authorize S ctx t a) w = (r, w1)" by fastforce
  have db: "w_db w1 = w_db w" by (rule silentD [OF silent_authorize r])
  have g: "run_state (g r) w1 = (b, w')" using run r by simp
  show "Q b (w_db w')"
  proof (cases r)
    case (Inl e)
    then show ?thesis using tripleD [OF assms(1)] g p db by metis
  next
    case (Inr c)
    then show ?thesis using tripleD [OF assms(2)] authorize_ok r g p db by metis
  qed
qed

lemma run_Get:
  assumes "run_state (SQLRepository_Get R i t a) w = ((v, err), w')"
  shows "sees R (w_db w) (w_db w')" "err = None \<Longrightarrow> v \<in> set (files (w_db w')) \<and> row_is i t a v"
    "err \<noteq> None \<Longrightarrow> v = zero_Metadata"
proof -
  obtain answer w1 where q: "run_state (sql_query R (select_by_id i t a)) w = (answer, w1)" by fastforce
  have r: "one_row answer = (v, err)" "w1 = w'" using assms q by (auto simp: SQLRepository_Get_def)
  show "sees R (w_db w) (w_db w')"
    using q r(2)
    by (auto simp: sees_def sql_query_def run_db_prims split: prod.splits option.splits
        dest!: arg_cong [of _ _ fst])
  have sel: "b = select_by_id i t a (w_db w1)" if "answer = Inr b" for b
    using q that by (auto simp: sql_query_def run_db_prims split: prod.splits option.splits)
  show "v \<in> set (files (w_db w')) \<and> row_is i t a v" if "err = None"
  proof -
    have "answer = Inr (Some v)" using r(1) that by (auto simp: one_row_def split: sum.splits option.splits)
    then have "find (row_is i t a) (files (w_db w')) = Some v"
      using sel r(2) by (simp add: select_by_id_def)
    then show ?thesis by (metis find_Some_iff nth_mem)
  qed
  show "v = zero_Metadata" if "err \<noteq> None"
    using r(1) that by (auto simp: one_row_def split: sum.splits option.splits)
qed

lemma triple_Get_at:
  assumes "\<And>d e. sees R d0 d \<Longrightarrow> triple w_db (\<lambda>c. c = d) (f zero_Metadata (Some e)) Q"
    and "\<And>d v. sees R d0 d \<Longrightarrow> v \<in> set (files d) \<Longrightarrow> row_is i t a v \<Longrightarrow>
      triple w_db (\<lambda>c. c = d) (f v None) Q"
  shows "triple w_db (\<lambda>c. c = d0) (SQLRepository_Get R i t a \<bind> (\<lambda>(v, err). f v err)) Q"
proof (rule tripleI)
  fix w b w' assume p: "w_db w = d0"
    and run: "run_state (SQLRepository_Get R i t a \<bind> (\<lambda>(v, err). f v err)) w = (b, w')"
  obtain v err w1 where g: "run_state (SQLRepository_Get R i t a) w = ((v, err), w1)"
    by (metis prod.collapse)
  note get = run_Get [OF g] and rest = run [simplified g, simplified]
  have f: "run_state (f v err) w1 = (b, w')" using run g by simp
  show "Q b (w_db w')"
  proof (cases err)
    case None
    show ?thesis
      by (rule tripleD [OF assms(2) [of "w_db w1" v] _ f [unfolded None]]) (use get None p in auto)
  next
    case (Some e)
    have f': "run_state (f zero_Metadata (Some e)) w1 = (b, w')" using f get(3) Some by simp
    show ?thesis by (rule tripleD [OF assms(1) [of "w_db w1" e] _ f']) (use get(1) p in auto)
  qed
qed

lemma update_body_value:
  assumes "run_state (update_body R v e) w = ((err, b), w')"
  shows "b = v \<or> b = v\<lparr>m_Version := e + 1\<rparr>"
  using assms by (auto simp: update_body_def split: prod.splits option.splits)

lemma triple_save_at:
  assumes "\<And>d err b. b = v \<or> b = v\<lparr>m_Version := e + 1\<rparr> \<Longrightarrow> triple w_db (\<lambda>c. c = d0 \<or> sees R d0 c \<or> (\<exists>d. sees R d0 d \<and> written R v e d c))
      (f (Some err) b) Q"
    and "\<And>d. sees R d0 d \<Longrightarrow> triple w_db (written R v e d) (f None (v\<lparr>m_Version := e + 1\<rparr>)) Q"
  shows "triple w_db (\<lambda>c. c = d0) (save_status R S v e \<bind> (\<lambda>(err, b). f err b)) Q"
proof (rule tripleI)
  fix w r w' assume p: "w_db w = d0"
    and run: "run_state (save_status R S v e \<bind> (\<lambda>(err, b). f err b)) w = (r, w')"
  obtain err b w1 where s: "run_state (save_status R S v e) w = ((err, b), w1)"
    by (metis prod.collapse)
  have f: "run_state (f err b) w1 = (r, w')" using run s by simp
  have out: "(err \<noteq> None \<longrightarrow> w_db w1 = d0 \<or> sees R d0 (w_db w1) \<or>
        (\<exists>d. sees R d0 d \<and> written R v e d (w_db w1))) \<and> (b = v \<or> b = v\<lparr>m_Version := e + 1\<rparr>) \<and>
      (err = None \<longrightarrow> b = v\<lparr>m_Version := e + 1\<rparr> \<and> (\<exists>d. sees R d0 d \<and> written R v e d (w_db w1)))"
    using s unfolding save_status_def
  proof (cases rule: Within_cases)
    case (applied w2 w3)
    have "written R v e (w_db w2) (w_db w1)" "b = v\<lparr>m_Version := e + 1\<rparr>"
      using run_update_body [OF applied(1)] applied(2) by (auto simp: written_def)
    then show ?thesis using applied(3) p by (auto simp: sees_def)
  next
    case (rolled_back w2 e2 fe w3)
    then show ?thesis using p update_body_value [OF rolled_back(1)] by (auto simp: sees_def)
  qed (use p in \<open>auto simp: sees_def\<close>)
  show "Q r (w_db w')"
  proof (cases err)
    case None
    with out obtain d where d: "sees R d0 d" "written R v e d (w_db w1)" and b: "b = v\<lparr>m_Version := e + 1\<rparr>"
      by auto
    show ?thesis by (rule tripleD [where s = w1, OF assms(2) [OF d(1)] d(2) f [unfolded None b]])
  next
    case (Some e')
    show ?thesis by (rule tripleD [where s = w1, OF assms(1) _ f [unfolded Some]]) (use out Some in simp_all)
  qed
qed

lemma translate_Some [simp]: "translate (Some e) \<noteq> None" "None \<noteq> translate (Some e)"
  by (simp_all add: translate_def)

lemma translate_iff [simp]: "translate err = None \<longleftrightarrow> err = None"
  by (cases err) (simp_all, simp add: translate_def)

lemma triple_inl: "triple obs P (f a) Q \<Longrightarrow> triple obs P (case Inl a of Inl x \<Rightarrow> f x | Inr y \<Rightarrow> g y) Q"
  and triple_inr: "triple obs P (g b) Q \<Longrightarrow> triple obs P (case Inr b of Inl x \<Rightarrow> f x | Inr y \<Rightarrow> g y) Q"
  by simp_all

lemma triple_result: "(\<And>d. P d \<Longrightarrow> Q a d) \<Longrightarrow> triple w_db P (State_Monad.return a) Q"
  by (rule triple_return)

lemmas known_rules = triple_result triple_none triple_some triple_ext_answers triple_authorize_ok
  triple_inl triple_inr triple_let triple_if triple_option triple_sum triple_Get_at triple_save_at

subsection \<open>Downloads\<close>

lemma triple_AuthorizeDownload:
  "triple w_db (\<lambda>c. c = d0) (Service_AuthorizeDownload R S ctx i t a)
    (\<lambda>r _. snd r = None \<longrightarrow> (let f = a_File (fst r) in
       (\<exists>d. sees R d0 d \<and> f \<in> set (files d)) \<and> row_is i t a f \<and> m_Status f = ''ready'' \<and>
       m_ScanStatus f \<in> {''clean'', ''skipped''} \<and>
       answers (st_PresignDownload (sv_storage S) (m_ObjectKey f)) (Inr (a_URL (fst r))) \<and>
       (\<exists>p. allowed S ctx t a p)))"
  unfolding Service_AuthorizeDownload_def Let_def
  by (rule known_rules | force)+

lemma run_triple: "triple w_db (\<lambda>c. c = w_db w) m Q \<Longrightarrow> run_state m w = (r, w') \<Longrightarrow> Q r (w_db w')"
  by (erule tripleD) auto

text \<open>
  C10. A download URL is only issued for a file that the caller may see and that is ready and scanned:
  a successful \<open>AuthorizeDownload\<close> returns a row of the table with the id, tenant and
  application asked for, whose status is ready and whose scan status is clean or skipped, with a URL the
  storage made for its object key, to a caller of that tenant whose application is granted.
\<close>

theorem download_only_ready_and_scanned:
  assumes "run_state (Service_AuthorizeDownload R S ctx i t a) w = ((auth, None), w')"
  shows "(\<exists>d. sees R (w_db w) d \<and> a_File auth \<in> set (files d)) \<and> row_is i t a (a_File auth) \<and>
    m_Status (a_File auth) = ''ready'' \<and> m_ScanStatus (a_File auth) \<in> {''clean'', ''skipped''} \<and>
    answers (st_PresignDownload (sv_storage S) (m_ObjectKey (a_File auth))) (Inr (a_URL auth)) \<and>
    (\<exists>p. allowed S ctx t a p)"
  using run_triple [OF triple_AuthorizeDownload assms] by (simp add: Let_def)

theorem download_only_ready_and_scanned_witness:
  "\<exists>auth w'. run_state (Service_AuthorizeDownload demo_rt demo_sv demo_ctx ''f'' ''t1'' ''a1'') demo_clean =
      ((auth, None), w') \<and> m_Status (a_File auth) = ''ready'' \<and> row_is ''f'' ''t1'' ''a1'' (a_File auth)"
proof -
  obtain auth err w' where run: "run_state (Service_AuthorizeDownload demo_rt demo_sv demo_ctx ''f'' ''t1'' ''a1'')
    demo_clean = ((auth, err), w')" by (metis prod.collapse)
  have "snd (fst (run_state (Service_AuthorizeDownload demo_rt demo_sv demo_ctx ''f'' ''t1'' ''a1'') demo_clean)) = None"
    by code_simp
  then have run': "run_state (Service_AuthorizeDownload demo_rt demo_sv demo_ctx ''f'' ''t1'' ''a1'') demo_clean =
    ((auth, None), w')" using run by simp
  show ?thesis using download_only_ready_and_scanned [OF run'] run' by blast
qed

subsection \<open>Parts and completion\<close>

lemma triple_AuthorizeUploadPart:
  "triple w_db (\<lambda>c. c = d0) (Service_AuthorizeUploadPart R S ctx i t a n)
    (\<lambda>r _. snd r = None \<longrightarrow> (let f = a_File (fst r) in
       (\<exists>d. sees R d0 d \<and> f \<in> set (files d)) \<and> row_is i t a f \<and> m_Status f = ''pending_upload'' \<and>
       m_UploadMode f = ''multipart'' \<and> 1 \<le> sint n \<and> sint n \<le> sint (m_PartCount f) \<and>
       (\<exists>now deadline. answers (rt_now R) now \<and> m_UploadExpiresAt f = Some deadline \<and> now < deadline) \<and>
       answers (st_PresignUploadPart (sv_storage S) (m_ObjectKey f) (m_MultipartUploadID f) (sint n))
         (Inr (a_URL (fst r)))))"
  unfolding Service_AuthorizeUploadPart_def Let_def
  by (rule known_rules | force)+

text \<open>
  A URL for a part is only issued while the multipart upload is pending and, by the clock's answer,
  before its deadline, for a part number from 1 to the part count of the row.
\<close>

lemma part_url_only_for_open_upload:
  assumes "run_state (Service_AuthorizeUploadPart R S ctx i t a n) w = ((auth, None), w')"
  shows "(\<exists>d. sees R (w_db w) d \<and> a_File auth \<in> set (files d)) \<and> row_is i t a (a_File auth) \<and>
    m_Status (a_File auth) = ''pending_upload'' \<and> m_UploadMode (a_File auth) = ''multipart'' \<and>
    1 \<le> sint n \<and> sint n \<le> sint (m_PartCount (a_File auth)) \<and>
    (\<exists>now deadline. answers (rt_now R) now \<and> m_UploadExpiresAt (a_File auth) = Some deadline \<and> now < deadline) \<and>
    answers (st_PresignUploadPart (sv_storage S) (m_ObjectKey (a_File auth))
      (m_MultipartUploadID (a_File auth)) (sint n)) (Inr (a_URL auth))"
  using run_triple [OF triple_AuthorizeUploadPart assms] by (simp add: Let_def)

lemma part_url_only_for_open_upload_witness:
  "\<exists>auth w'. run_state (Service_AuthorizeUploadPart demo_rt demo_sv demo_ctx ''f'' ''t1'' ''a1'' 2) demo_multipart =
      ((auth, None), w') \<and> m_Status (a_File auth) = ''pending_upload''"
proof -
  let ?m = "Service_AuthorizeUploadPart demo_rt demo_sv demo_ctx ''f'' ''t1'' ''a1'' 2"
  obtain auth err w' where run: "run_state ?m demo_multipart = ((auth, err), w')" by (metis prod.collapse)
  have "snd (fst (run_state ?m demo_multipart)) = None" by code_simp
  then have run': "run_state ?m demo_multipart = ((auth, None), w')" using run by simp
  show ?thesis using part_url_only_for_open_upload [OF run'] run' by blast
qed

text \<open>Under the rely condition, what a session sees is consistent and still has its rows.\<close>

lemma sees_ok:
  assumes "rely R db_ok evolves" "db_ok d" "sees R d d'"
  shows "db_ok d'" "evolves d d'" "holds d v \<Longrightarrow> holds d' v"
  using assms by (auto simp: rely_def sees_def intro: holds_stable)

lemma written_ok:
  assumes "db_ok d" "holds d v0" "lifecycle scan v0 v" "written R v e d d'"
  shows "db_ok d'" "evolves d d'" "v\<lparr>m_Version := e + 1\<rparr> \<in> set (files d')"
    "\<exists>r \<in> set (files d). core r = core v \<and> m_Version r = e"
proof -
  from assms(4) obtain n d1 where u: "update_file v e d = Inr (n, d1)" "n \<noteq> 0"
    and ann: "announces R (v\<lparr>m_Version := e + 1\<rparr>) d1 d'" unfolding written_def by blast
  show "db_ok d'" "evolves d d'" using change_keeps_ok [OF assms(1-3) u ann] by blast+
  from assms(2) obtain r where r: "r \<in> set (files d)" "core r = core v"
    using lifecycle_core [OF assms(3)] by (auto simp: holds_def row_moves_def)
  have "distinct (map m_ID (files d))" using assms(1) by (simp add: db_ok_def)
  note upd = update_replaces [OF this r u]
  show "v\<lparr>m_Version := e + 1\<rparr> \<in> set (files d')"
    using upd(3) announces_tables(1) [OF ann] r core_fields(1) [OF r(2)] by auto
  show "\<exists>r \<in> set (files d). core r = core v \<and> m_Version r = e" using r upd(1) by blast
qed

text \<open>Completing: the row as it was read, the row as it is written, and the evidence in between.\<close>

definition completed_from ::
  "'x runtime \<Rightarrow> 'x Service \<Rightarrow> string \<Rightarrow> int64 \<Rightarrow> Metadata \<Rightarrow> Metadata \<Rightarrow> bool" where
  "completed_from R S checksum e v0 v \<longleftrightarrow>
     m_Status v0 \<noteq> ''ready'' \<and> core v = core v0 \<and> m_Status v = ''ready'' \<and> m_Version v = e + 1 \<and>
     m_ScanStatus v = (if sv_scanRequired S then ''pending'' else ''skipped'') \<and>
     ToLower (rt_unicode_lower R) (TrimSpace checksum) = m_ChecksumSHA256 v0 \<and>
     (\<exists>info. answers (st_Stat (sv_storage S) (m_ObjectKey v0)) (info, None) \<and>
        oi_Size info = m_Size v0 \<and> oi_ChecksumSHA256 info \<in> {[], m_ChecksumSHA256 v0})"

lemma triple_known: "(\<And>c. P c \<Longrightarrow> triple obs (\<lambda>d. d = c) m Q) \<Longrightarrow> triple obs P m Q"
  by (rule tripleI) (metis (mono_tags, lifting) tripleD)

definition complete_post ::
  "'x runtime \<Rightarrow> 'x Service \<Rightarrow> string \<Rightarrow> string \<Rightarrow> string \<Rightarrow> string \<Rightarrow> int64 \<Rightarrow> database \<Rightarrow>
    Metadata \<times> go_error option \<Rightarrow> database \<Rightarrow> bool" where
  "complete_post R S i t a checksum e d0 r d \<longleftrightarrow>
     (snd r = None \<longrightarrow>
        fst r \<in> set (files d) \<and> row_is i t a (fst r) \<and> m_Status (fst r) = ''ready'' \<and>
        (\<exists>d1 v0. sees R d0 d1 \<and> v0 \<in> set (files d1) \<and>
           (fst r = v0 \<or> completed_from R S checksum e v0 (fst r))))"

lemma complete_post_error [simp]:
  "complete_post R S i t a checksum e d0 (v, Some err) d"
  "complete_post R S i t a checksum e d0 (v, translate (Some err)) d"
  by (simp_all add: complete_post_def)

lemma complete_post_already:
  "sees R d0 d \<Longrightarrow> v \<in> set (files d) \<Longrightarrow> row_is i t a v \<Longrightarrow> m_Status v = ''ready'' \<Longrightarrow>
    complete_post R S i t a checksum e d0 (v, None) d"
  by (auto simp: complete_post_def)

lemma complete_post_written:
  assumes "rely R db_ok evolves" "db_ok d0" "sees R d0 d1" "v0 \<in> set (files d1)" "row_is i t a v0"
    and "m_Status v0 \<noteq> ''ready''" "answers (st_Stat (sv_storage S) (m_ObjectKey v0)) (info, None)"
    and "\<not> (oi_Size info \<noteq> m_Size v0 \<or>
      ToLower (rt_unicode_lower R) (TrimSpace checksum) \<noteq> m_ChecksumSHA256 v0 \<or>
      oi_ChecksumSHA256 info \<noteq> [] \<and> oi_ChecksumSHA256 info \<noteq> m_ChecksumSHA256 v0)"
    and "sees R d1 d2"
    and "written R (v0\<lparr>m_Status := ''ready'',
      m_ScanStatus := (if sv_scanRequired S then ''pending'' else ''skipped''),
      m_UpdatedAt := now, m_UpdatedBy := by\<rparr>) e d2 d3"
  shows "complete_post R S i t a checksum e d0
    (v0\<lparr>m_Status := ''ready'', m_ScanStatus := (if sv_scanRequired S then ''pending'' else ''skipped''),
      m_UpdatedAt := now, m_UpdatedBy := by, m_Version := e + 1, m_Version := e + 1\<rparr>, translate None) d3"
proof -
  define v where "v = v0\<lparr>m_Status := ''ready'',
      m_ScanStatus := (if sv_scanRequired S then ''pending'' else ''skipped''),
      m_UpdatedAt := now, m_UpdatedBy := by\<rparr>"
  note ok1 = sees_ok [OF assms(1-3)]
  note ok2 = sees_ok [OF assms(1) ok1(1) assms(9)]
  have lc: "lifecycle (sv_scanRequired S) v0 v"
    unfolding v_def stamp_fields by (rule lifecycle.complete [OF assms(6)])
  have mem: "v\<lparr>m_Version := e + 1\<rparr> \<in> set (files d3)"
    by (rule written_ok(3) [OF ok2(1) ok2(3) [OF holds_read [OF ok1(1) assms(4)]] lc])
      (use assms(10) in \<open>simp add: v_def\<close>)
  have "completed_from R S checksum e v0 (v\<lparr>m_Version := e + 1\<rparr>)"
    unfolding completed_from_def using assms(6,7,8) by (auto simp: v_def core_def)
  moreover have "row_is i t a (v\<lparr>m_Version := e + 1\<rparr>)" "m_Status (v\<lparr>m_Version := e + 1\<rparr>) = ''ready''"
    using assms(5) by (simp_all add: v_def row_is_def)
  ultimately have "complete_post R S i t a checksum e d0 (v\<lparr>m_Version := e + 1\<rparr>, None) d3"
    using mem assms(3,4) unfolding complete_post_def fst_conv snd_conv by blast
  then show ?thesis by (simp add: v_def translate_def)
qed

lemma triple_CompleteUpload:
  assumes "rely R db_ok evolves" "db_ok d0"
  shows "triple w_db (\<lambda>c. c = d0) (Service_CompleteUpload R S ctx i t a checksum e)
    (complete_post R S i t a checksum e d0)"
  unfolding Service_CompleteUpload_def
  by (rule known_rules triple_prod complete_post_error
      | (erule ssubst, rule complete_post_already; assumption)
      | (rule complete_post_written [OF assms]; (assumption | simp)))+

text \<open>
  C11. A file becomes ready only on the storage's word. When \<open>CompleteUpload\<close> succeeds, the row it
  returns is in the table and ready; it was ready before, or the storage reported an object under
  its key with the declared size and, if it keeps one, the declared checksum, the caller repeated
  the declared checksum, and the row is the one read, at the expected version plus one, awaiting its
  scan when one is required.
\<close>

theorem complete_needs_the_object:
  assumes "rely R db_ok evolves" "db_ok (w_db w)"
    and "run_state (Service_CompleteUpload R S ctx i t a checksum e) w = ((v, None), w')"
  shows "v \<in> set (files (w_db w')) \<and> row_is i t a v \<and> m_Status v = ''ready'' \<and>
    (\<exists>d v0. sees R (w_db w) d \<and> v0 \<in> set (files d) \<and> (v = v0 \<or> completed_from R S checksum e v0 v))"
  using run_triple [OF triple_CompleteUpload [OF assms(1,2)] assms(3)] by (simp add: complete_post_def)

lemma demo_rely_ok: "rely demo_rt db_ok evolves"
  using demo_quiet by (simp add: rely_def evolves_refl)

lemma demo_world_ok: "db_ok (w_db demo_world)"
proof -
  have "row_ok demo_row"
    unfolding row_ok_def core_ok_def geometry_ok_def clean_text_def by code_simp
  then show ?thesis by (simp add: db_ok_def demo_world_def demo_db_def)
qed

theorem complete_needs_the_object_witness:
  "\<exists>v w'. run_state (Service_CompleteUpload demo_rt demo_sv demo_ctx ''f'' ''t1'' ''a1'' demo_sum 1) demo_world =
      ((v, None), w') \<and> v \<in> set (files (w_db w')) \<and> m_Status v = ''ready''"
proof -
  let ?m = "Service_CompleteUpload demo_rt demo_sv demo_ctx ''f'' ''t1'' ''a1'' demo_sum 1"
  obtain v err w' where run: "run_state ?m demo_world = ((v, err), w')" by (metis prod.collapse)
  have "snd (fst (run_state ?m demo_world)) = None" by code_simp
  then have run': "run_state ?m demo_world = ((v, None), w')" using run by simp
  show ?thesis using complete_needs_the_object [OF demo_rely_ok demo_world_ok run'] run' by blast
qed

subsection \<open>Deletion\<close>

text \<open>
  What a successful deletion leaves: the row is recorded as deleted; and unless it was found so,
  the storage has reported the removal of its object.
\<close>

definition delete_post ::
  "'x runtime \<Rightarrow> 'x Service \<Rightarrow> string \<Rightarrow> string \<Rightarrow> string \<Rightarrow> database \<Rightarrow>
    Metadata \<times> go_error option \<Rightarrow> database \<Rightarrow> bool" where
  "delete_post R S i t a d0 r d \<longleftrightarrow>
     (snd r = None \<longrightarrow>
        fst r \<in> set (files d) \<and> row_is i t a (fst r) \<and> m_Status (fst r) = ''deleted'' \<and>
        ((\<exists>d1. sees R d0 d1 \<and> fst r \<in> set (files d1)) \<or>
         answers (st_Delete (sv_storage S) (m_ObjectKey (fst r))) None)) \<and>
     (snd r \<noteq> None \<and> m_Status (fst r) = ''deleting'' \<longrightarrow>
        fst r \<in> set (files d) \<and> row_is i t a (fst r))"

lemma delete_post_error [simp]:
  "delete_post R S i t a d0 (zero_Metadata, Some err) d"
  "delete_post R S i t a d0 (zero_Metadata, translate (Some err)) d"
  by (simp_all add: delete_post_def zero_Metadata_def)

lemma delete_post_retry:
  "v \<in> set (files d) \<Longrightarrow> row_is i t a v \<Longrightarrow> delete_post R S i t a d0 (v, Some err) d"
  by (simp add: delete_post_def)

lemma delete_post_unrecorded:
  "b = u \<or> b = u\<lparr>m_Version := k\<rparr> \<Longrightarrow> m_Status u = ''deleted'' \<Longrightarrow>
    delete_post R S i t a d0 (b\<lparr>m_Version := n\<rparr>, translate (Some err)) d"
  by (auto simp: delete_post_def)

lemma delete_post_already:
  "sees R d0 d \<Longrightarrow> v \<in> set (files d) \<Longrightarrow> row_is i t a v \<Longrightarrow> m_Status v = ''deleted'' \<Longrightarrow>
    delete_post R S i t a d0 (v, None) d"
  by (auto simp: delete_post_def)

lemma delete_post_written:
  assumes "rely R db_ok evolves" "db_ok d1" "holds d1 v" "row_is i t a v" "m_Status v = ''deleting''"
    and "answers (st_Delete (sv_storage S) (m_ObjectKey v)) None" "sees R d1 d2"
    and "written R (v\<lparr>m_Status := ''deleted'', m_UpdatedAt := now, m_UpdatedBy := by\<rparr>) e d2 d3"
  shows "delete_post R S i t a d0 (v\<lparr>m_Status := ''deleted'', m_UpdatedAt := now, m_UpdatedBy := by,
    m_Version := e + 1, m_Version := e + 1\<rparr>, translate None) d3"
proof -
  define u where "u = v\<lparr>m_Status := ''deleted'', m_UpdatedAt := now, m_UpdatedBy := by\<rparr>"
  note ok2 = sees_ok [OF assms(1,2,7)]
  have lc: "lifecycle (sv_scanRequired S) v u"
    unfolding u_def stamp_fields by (rule lifecycle.end_delete [OF assms(5)])
  have "u\<lparr>m_Version := e + 1\<rparr> \<in> set (files d3)"
    by (rule written_ok(3) [OF ok2(1) ok2(3) [OF assms(3)] lc]) (use assms(8) in \<open>simp add: u_def\<close>)
  then show ?thesis using assms(4,6) by (simp add: delete_post_def u_def row_is_def translate_def)
qed

lemma triple_finish_delete:
  assumes "rely R db_ok evolves" "db_ok d1" "v \<in> set (files d1)" "row_is i t a v"
    "m_Status v = ''deleting''"
  shows "triple w_db (\<lambda>c. c = d1) (finish_delete R S caller v) (delete_post R S i t a d0)"
  unfolding finish_delete_def
  by (rule known_rules
      | (erule ssubst, rule delete_post_retry [OF assms(3,4)])
      | (erule delete_post_unrecorded, simp)
      | (rule delete_post_written [OF assms(1,2) holds_read [OF assms(2,3)] assms(4,5)];
         (assumption | simp)))+

lemma triple_Delete:
  assumes "rely R db_ok evolves" "db_ok d0"
  shows "triple w_db (\<lambda>c. c = d0) (Service_Delete R S ctx i t a e) (delete_post R S i t a d0)"
proof -
  have first: "triple w_db (written R (v\<lparr>m_Status := ''deleting'', m_UpdatedAt := now, m_UpdatedBy := by\<rparr>) e d2)
      (finish_delete R S caller (v\<lparr>m_Status := ''deleting'', m_UpdatedAt := now, m_UpdatedBy := by,
        m_Version := e + 1\<rparr>)) (delete_post R S i t a d0)"
    if "sees R d0 d1" "v \<in> set (files d1)" "row_is i t a v" "m_Status v \<noteq> ''deleted''"
      "m_Status v \<noteq> ''deleting''" "sees R d1 d2" for d1 d2 v now "by" caller
  proof (rule triple_known)
    fix d3
    define u where "u = v\<lparr>m_Status := ''deleting'', m_UpdatedAt := now, m_UpdatedBy := by\<rparr>"
    assume "written R (v\<lparr>m_Status := ''deleting'', m_UpdatedAt := now, m_UpdatedBy := by\<rparr>) e d2 d3"
    then have wr: "written R u e d2 d3" by (simp add: u_def)
    note ok1 = sees_ok [OF assms that(1)]
    note ok2 = sees_ok [OF assms(1) ok1(1) that(6)]
    have lc: "lifecycle (sv_scanRequired S) v u"
      unfolding u_def stamp_fields by (rule lifecycle.start_delete [OF that(4,5)])
    note w = written_ok [OF ok2(1) ok2(3) [OF holds_read [OF ok1(1) that(2)]] lc wr]
    have "triple w_db (\<lambda>c. c = d3) (finish_delete R S caller (u\<lparr>m_Version := e + 1\<rparr>))
        (delete_post R S i t a d0)"
      by (rule triple_finish_delete [OF assms(1) w(1,3)])
        (use that(3) in \<open>simp_all add: u_def row_is_def\<close>)
    then show "triple w_db (\<lambda>c. c = d3) (finish_delete R S caller (v\<lparr>m_Status := ''deleting'',
        m_UpdatedAt := now, m_UpdatedBy := by, m_Version := e + 1\<rparr>)) (delete_post R S i t a d0)"
      by (simp add: u_def)
  qed
  have retry: "triple w_db (\<lambda>c. c = d1) (finish_delete R S caller v) (delete_post R S i t a d0)"
    if "sees R d0 d1" "v \<in> set (files d1)" "row_is i t a v" "m_Status v = ''deleting''" for d1 v caller
    by (rule triple_finish_delete [OF assms(1) sees_ok(1) [OF assms that(1)] that(2-4)])
  show ?thesis unfolding Service_Delete_def
    by (rule known_rules delete_post_error
        | (erule ssubst, rule delete_post_already; assumption)
        | (rule first; assumption) | (rule retry; (assumption | simp)))+
qed



subsection \<open>Version conflicts\<close>

text \<open>A call that fails and leaves the tables as they were.\<close>

definition rejects :: "database \<Rightarrow> 'a \<times> go_error option \<Rightarrow> database \<Rightarrow> bool" where
  "rejects d0 r d \<longleftrightarrow> d = d0 \<and> snd r \<noteq> None"

lemma sees_quiet: "quiet R \<Longrightarrow> sees R d d' \<longleftrightarrow> d' = d"
  by (auto simp: sees_def)

lemma row_is_unique:
  "db_ok d \<Longrightarrow> v \<in> set (files d) \<Longrightarrow> r \<in> set (files d) \<Longrightarrow> row_is i t a v \<Longrightarrow> row_is i t a r \<Longrightarrow> v = r"
  by (auto simp: db_ok_def row_is_def distinct_map inj_on_def)

lemma stale_not_written:
  assumes "db_ok d" "r \<in> set (files d)" "row_is i t a r" "m_Version r \<noteq> e"
    and "m_ID v = i" "m_TenantID v = t" "m_ApplicationID v = a"
  shows "\<not> written R v e d d'"
proof
  assume "written R v e d d'"
  then obtain n d1 where u: "update_file v e d = Inr (n, d1)" "n \<noteq> 0" unfolding written_def by blast
  then obtain x where "x \<in> set (files d)" "update_hits v e x"
    by (auto simp: update_file_def filter_empty_conv split: if_splits)
  then have "x = r" using row_is_unique [OF assms(1) _ assms(2) _ assms(3), of x] assms(5-7)
    by (simp add: update_hits_def)
  then show False using \<open>update_hits v e x\<close> assms(4) by (simp add: update_hits_def)
qed

text \<open>The status transaction on a stale version: it fails, and nothing is written.\<close>

lemma triple_save_stale:
  assumes "quiet R" "db_ok d0" "r \<in> set (files d0)" "row_is i t a r" "m_Version r \<noteq> e"
    and "m_ID v = i" "m_TenantID v = t" "m_ApplicationID v = a"
    and "\<And>err b. triple w_db (\<lambda>c. c = d0) (f (Some err) b) Q"
  shows "triple w_db (\<lambda>c. c = d0) (save_status R S v e \<bind> (\<lambda>(err, b). f err b)) Q"
proof (rule triple_save_at)
  note no = stale_not_written [OF assms(2-8), of R]
  show "triple w_db (\<lambda>c. c = d0 \<or> sees R d0 c \<or> (\<exists>d. sees R d0 d \<and> written R v e d c)) (f (Some err) b) Q"
    for err b
    by (rule triple_weaken [OF assms(9)]) (use no assms(1) in \<open>auto simp: sees_quiet\<close>)
  show "triple w_db (written R v e d) (f None (v\<lparr>m_Version := e + 1\<rparr>)) Q" if "sees R d0 d" for d
    by (rule tripleI) (use no that assms(1) in \<open>simp add: sees_quiet\<close>)
qed

lemma triple_Get_row:
  assumes "quiet R" "db_ok d0" "r \<in> set (files d0)" "row_is i t a r"
    and "\<And>e. triple w_db (\<lambda>c. c = d0) (f zero_Metadata (Some e)) Q"
    and "triple w_db (\<lambda>c. c = d0) (f r None) Q"
  shows "triple w_db (\<lambda>c. c = d0) (SQLRepository_Get R i t a \<bind> (\<lambda>(v, err). f v err)) Q"
proof (rule triple_Get_at)
  fix d v assume "sees R d0 d" "v \<in> set (files d)" "row_is i t a v"
  then have "d = d0" "v = r" using assms(1) row_is_unique [OF assms(2) _ assms(3) _ assms(4)]
    by (auto simp: sees_quiet)
  then show "triple w_db (\<lambda>c. c = d) (f v None) Q" using assms(6) by simp
qed (use assms(1,5) in \<open>simp add: sees_quiet\<close>)

lemma rejects_error [simp]:
  "rejects d0 (v, Some err) d0" "rejects d0 (v, translate (Some err)) d0"
  by (simp_all add: rejects_def)

lemma stale_methods:
  assumes "quiet R" "db_ok d0" "r \<in> set (files d0)" "row_is i t a r" "m_Version r \<noteq> e"
  shows "m_Status r \<noteq> ''ready'' \<Longrightarrow>
      triple w_db (\<lambda>c. c = d0) (Service_CompleteUpload R S ctx i t a cs e) (rejects d0)"
    and "triple w_db (\<lambda>c. c = d0) (Service_ReportScanResult R S ctx i t a sc e) (rejects d0)"
    and "m_Status r \<noteq> ''deleted'' \<Longrightarrow> m_Status r \<noteq> ''deleting'' \<Longrightarrow>
      triple w_db (\<lambda>c. c = d0) (Service_Delete R S ctx i t a e) (rejects d0)"
    and "m_Status r \<noteq> ''deleted'' \<Longrightarrow>
      triple w_db (\<lambda>c. c = d0) (Service_AbortMultipartUpload R S ctx i t a e) (rejects d0)"
  unfolding Service_CompleteUpload_def Service_ReportScanResult_def Service_Delete_def
    Service_AbortMultipartUpload_def
  by (rule triple_result triple_none triple_some triple_ext_bind triple_authorize_bind
        triple_verify_bind triple_inl triple_inr triple_let triple_if triple_option triple_sum triple_prod
        triple_Get_row [OF assms(1-4)] triple_save_stale [OF assms]
      | (simp; fail) | (use assms(4) in \<open>simp add: row_is_def\<close>; fail))+



subsection \<open>Scan results\<close>

definition scan_post ::
  "'x runtime \<Rightarrow> 'x Service \<Rightarrow> Ctx \<Rightarrow> string \<Rightarrow> string \<Rightarrow> string \<Rightarrow> string \<Rightarrow> int64 \<Rightarrow> database \<Rightarrow>
    Metadata \<times> go_error option \<Rightarrow> database \<Rightarrow> bool" where
  "scan_post R S ctx i t a s e d0 r d \<longleftrightarrow>
     (snd r = None \<longrightarrow>
        fst r \<in> set (files d) \<and> row_is i t a (fst r) \<and> s \<in> {''clean'', ''infected''} \<and>
        m_ScanStatus (fst r) = s \<and> m_Version (fst r) = e + 1 \<and>
        (\<exists>d1 v0. sees R d0 d1 \<and> v0 \<in> set (files d1) \<and> m_Status v0 = ''ready'' \<and>
           m_ScanStatus v0 = ''pending'' \<and> core v0 = core (fst r)))"

lemma scan_post_error [simp]:
  "scan_post R S ctx i t a s e d0 (v, Some err) d"
  "scan_post R S ctx i t a s e d0 (v, translate (Some err)) d"
  by (simp_all add: scan_post_def)

lemma scan_post_written:
  assumes "rely R db_ok evolves" "db_ok d0" "\<not> (s \<noteq> ''clean'' \<and> s \<noteq> ''infected'')" "sees R d0 d1"
    and "v0 \<in> set (files d1)" "row_is i t a v0" "\<not> (m_Status v0 \<noteq> ''ready'' \<or> m_ScanStatus v0 \<noteq> ''pending'')"
    and "sees R d1 d2"
    and "written R (v0\<lparr>m_ScanStatus := s, m_UpdatedAt := now, m_UpdatedBy := by\<rparr>) e d2 d3"
  shows "scan_post R S ctx i t a s e d0 (v0\<lparr>m_ScanStatus := s, m_UpdatedAt := now, m_UpdatedBy := by,
    m_Version := e + 1, m_Version := e + 1\<rparr>, translate None) d3"
proof -
  define v where "v = v0\<lparr>m_ScanStatus := s, m_UpdatedAt := now, m_UpdatedBy := by\<rparr>"
  note ok1 = sees_ok [OF assms(1,2,4)]
  note ok2 = sees_ok [OF assms(1) ok1(1) assms(8)]
  have lc: "lifecycle (sv_scanRequired S) v0 v"
    unfolding v_def stamp_fields by (rule lifecycle.scanned) (use assms(3,7) in auto)
  have mem: "v\<lparr>m_Version := e + 1\<rparr> \<in> set (files d3)"
    by (rule written_ok(3) [OF ok2(1) ok2(3) [OF holds_read [OF ok1(1) assms(5)]] lc])
      (use assms(9) in \<open>simp add: v_def\<close>)
  have "core v0 = core (v\<lparr>m_Version := e + 1\<rparr>)" by (simp add: v_def core_def)
  moreover have "row_is i t a (v\<lparr>m_Version := e + 1\<rparr>)" "m_ScanStatus (v\<lparr>m_Version := e + 1\<rparr>) = s"
    "m_Version (v\<lparr>m_Version := e + 1\<rparr>) = e + 1"
    using assms(6) by (simp_all add: v_def row_is_def)
  ultimately have "scan_post R S ctx i t a s e d0 (v\<lparr>m_Version := e + 1\<rparr>, None) d3"
    using mem assms(3,4,5,7) unfolding scan_post_def fst_conv snd_conv by blast
  then show ?thesis by (simp add: v_def translate_def)
qed

lemma triple_ReportScanResult:
  assumes "rely R db_ok evolves" "db_ok d0"
  shows "triple w_db (\<lambda>c. c = d0) (Service_ReportScanResult R S ctx i t a s e)
    (scan_post R S ctx i t a s e d0)"
  unfolding Service_ReportScanResult_def
  by (rule triple_result triple_none triple_some triple_ext_answers triple_verify_bind triple_if
        triple_option triple_Get_at triple_save_at scan_post_error
      | (rule scan_post_written [OF assms]; (assumption | simp)))+

text \<open>
  A scan result is recorded once: a successful \<open>ReportScanResult\<close> reports clean or infected,
  found the file ready and awaiting its scan, and leaves exactly that result in the table, at the expected version
  plus one.
\<close>

lemma scan_result_recorded_once:
  assumes "rely R db_ok evolves" "db_ok (w_db w)"
    and "run_state (Service_ReportScanResult R S ctx i t a s e) w = ((v, None), w')"
  shows "v \<in> set (files (w_db w')) \<and> row_is i t a v \<and> s \<in> {''clean'', ''infected''} \<and>
    m_ScanStatus v = s \<and> m_Version v = e + 1 \<and>
    (\<exists>d v0. sees R (w_db w) d \<and> v0 \<in> set (files d) \<and> m_Status v0 = ''ready'' \<and>
       m_ScanStatus v0 = ''pending'' \<and> core v0 = core v)"
  using run_triple [OF triple_ReportScanResult [OF assms(1,2)] assms(3)] by (simp add: scan_post_def)

lemma demo_scan_ok: "db_ok (w_db demo_scan)"
proof -
  have "row_ok (demo_row\<lparr>m_Status := ''ready'', m_Version := 2\<rparr>)"
    unfolding row_ok_def core_ok_def geometry_ok_def clean_text_def by code_simp
  then show ?thesis by (simp add: db_ok_def demo_scan_def)
qed

lemma scan_result_recorded_once_witness:
  "\<exists>v w'. run_state (Service_ReportScanResult demo_rt demo_sv demo_ctx ''f'' ''t1'' ''a1'' ''clean'' 2) demo_scan =
      ((v, None), w') \<and> v \<in> set (files (w_db w')) \<and> m_ScanStatus v = ''clean''"
proof -
  let ?m = "Service_ReportScanResult demo_rt demo_sv demo_ctx ''f'' ''t1'' ''a1'' ''clean'' 2"
  obtain v err w' where run: "run_state ?m demo_scan = ((v, err), w')" by (metis prod.collapse)
  have "snd (fst (run_state ?m demo_scan)) = None" by code_simp
  then have run': "run_state ?m demo_scan = ((v, None), w')" using run by simp
  show ?thesis using scan_result_recorded_once [OF demo_rely_ok demo_scan_ok run'] run' by blast
qed

end
