(* ===== verification/File_Uploads.thy ===== *)
theory File_Uploads
  imports File_Methods "HOL-Library.Multiset"
begin

text \<open>
  Uploads in detail: the part geometry against a reference in unbounded integers, the parts a
  multipart completion hands to the storage, retries under the same idempotency key, and competing
  writers at the repository.
\<close>

text \<open>The reference geometry: part size and number of parts of an upload of \<open>sz\<close> bytes.\<close>

definition geometry_ref :: "int \<Rightarrow> int \<Rightarrow> (int \<times> int) option" where
  "geometry_ref sz requested =
     (let partSize = (if requested = 0 then 8 * 2 ^ 20 else requested);
          partCount = - ((- sz) div partSize)
      in if 5 * 2 ^ 20 \<le> partSize \<and> partSize \<le> 5 * 2 ^ 30 \<and> 0 < sz \<and> partCount \<le> 10000
         then Some (partSize, partCount) else None)"

subsection \<open>Part geometry\<close>

lemma ceiling_div:
  assumes "0 < (p :: int)"
  shows "(s + p - 1) div p = - ((- s) div p)"
proof (rule int_div_pos_eq)
  have "- s = p * ((- s) div p) + (- s) mod p" by simp
  then show "s + p - 1 = p * - (- s div p) + (p - 1 - (- s) mod p)" by (simp add: algebra_simps)
  show "0 \<le> p - 1 - (- s) mod p" "p - 1 - (- s) mod p < p"
    using pos_mod_bound [OF assms, of "- s"] pos_mod_sign [OF assms, of "- s"] by linarith+
qed

lemma geometry_accepts:
  assumes "5242880 \<le> sint ps" "sint ps \<le> 5368709120" "0 < sint sz"
    and "(sint sz + sint ps - 1) div sint ps \<le> 10000"
  shows "sint (go_div64 (sz + ps - 1) ps) = (sint sz + sint ps - 1) div sint ps"
    and "1 \<le> (sint sz + sint ps - 1) div sint ps"
proof -
  let ?x = "sint sz + sint ps - 1"
  have "sint ps * (?x div sint ps) \<le> sint ps * 10000"
    by (rule mult_left_mono) (use assms in auto)
  moreover have "?x = sint ps * (?x div sint ps) + ?x mod sint ps" by simp
  moreover have "?x mod sint ps < sint ps" by (rule pos_mod_bound) (use assms(1) in simp)
  ultimately have "?x < 10001 * sint ps" by linarith
  then have bound: "sint sz + sint ps - 1 < 2 ^ 62" using assms(2) by simp
  have sum: "sint (sz + ps - 1) = sint sz + sint ps - 1"
    unfolding sint64_plus_minus using bound assms by (subst mod_pos_pos_trivial) auto
  have "sint (go_div64 (sz + ps - 1) ps) = (sint sz + sint ps - 1) sdiv sint ps"
    using sint_go_div64 [of ps "sz + ps - 1"] assms(1) sum by simp
  also have "\<dots> = (sint sz + sint ps - 1) div sint ps"
    using assms by (simp add: signed_divide_int_def sgn_if)
  finally show "sint (go_div64 (sz + ps - 1) ps) = (sint sz + sint ps - 1) div sint ps" .
  show "1 \<le> (sint sz + sint ps - 1) div sint ps"
    using assms by (simp add: pos_imp_zdiv_pos_iff int_one_le_iff_zero_less)
qed

text \<open>
  C13. The part geometry that the code computes in wrapping 64-bit arithmetic is the reference: the requested
  part size (8 MiB when zero) if it is between 5 MiB and 5 GiB, and the size divided by it, rounded
  up, if that is at most 10000; and it is rejected exactly when the reference rejects it.
\<close>

theorem multipart_geometry_is_reference:
  "(case multipart_geometry sz requested of
      Inl e \<Rightarrow> None | Inr (partSize, partCount) \<Rightarrow> Some (sint partSize, sint partCount)) =
    geometry_ref (sint sz) (sint requested)"
proof -
  define ps :: int64 where "ps = (if requested = 0 then 8388608 else requested)"
  have ps: "sint ps = (if sint requested = 0 then 8 * 2 ^ 20 else sint requested)"
    by (auto simp: ps_def) (metis signed_0 signed_word_eqI)
  show ?thesis
  proof (cases "multipart_geometry sz requested")
    case (Inr g)
    obtain p c where g: "g = (p, c)" by (cases g)
    note ex = multipart_geometry_exact [OF Inr [unfolded g]]
    have "p = ps" using Inr g by (auto simp: multipart_geometry_def Let_def ps_def split: if_splits)
    moreover have "sint c = - ((- sint sz) div sint p)" using ceiling_div [of "sint p" "sint sz"] ex(1,4) by simp
    ultimately show ?thesis using ex ps Inr g by (simp add: geometry_ref_def Let_def)
  next
    case (Inl e)
    have "\<not> (5242880 \<le> sint ps \<and> sint ps \<le> 5368709120 \<and> 0 < sint sz \<and>
        (sint sz + sint ps - 1) div sint ps \<le> 10000)"
    proof
      assume a: "5242880 \<le> sint ps \<and> sint ps \<le> 5368709120 \<and> 0 < sint sz \<and>
        (sint sz + sint ps - 1) div sint ps \<le> 10000"
      with geometry_accepts [of ps sz]
      have "1 \<le> sint (go_div64 (sz + ps - 1) ps)" "sint (go_div64 (sz + ps - 1) ps) \<le> 10000" by auto
      with a Inl show False
        by (simp add: multipart_geometry_def Let_def ps_def [symmetric] split: if_splits)
    qed
    then show ?thesis using Inl ps ceiling_div [of "sint ps" "sint sz"]
      by (auto simp: geometry_ref_def Let_def)
  qed
qed

subsection \<open>The parts of a completion\<close>

lemma check_parts_ok:
  assumes "check_parts n seen parts = Inr sps"
  shows "map sp_PartNumber sps = map (\<lambda>p. sint (cp_PartNumber p)) parts"
    and "distinct (map cp_PartNumber parts)" and "set seen \<inter> cp_PartNumber ` set parts = {}"
    and "\<forall>p \<in> set parts. 1 \<le> sint (cp_PartNumber p) \<and> sint (cp_PartNumber p) \<le> sint n"
    and "map sp_ETag sps = map (\<lambda>p. clean_etag (cp_ETag p)) parts" "\<forall>q \<in> set sps. sp_ETag q \<noteq> []"
  using assms
  by (induction n seen parts arbitrary: sps rule: check_parts.induct)
    (auto simp: Let_def split: if_splits sum.splits)

lemma sorted_enumerates:
  fixes xs :: "int list"
  assumes "sorted xs" "distinct xs" "set xs \<subseteq> {1..n}" "int (length xs) = n"
  shows "xs = [1..n]"
proof (rule sorted_distinct_set_unique [OF assms(1,2)])
  have "card (set xs) = card {1..n}" using assms(2,4) by (simp add: distinct_card)
  then show "set xs = set [1..n]" using card_subset_eq [OF _ assms(3)] by simp
qed simp_all

lemma checked_part_count:
  assumes "check_parts n seen parts = Inr sps" "word_of_nat (length parts) = n"
  shows "int (length parts) = sint n"
proof -
  note ok = check_parts_ok [OF assms(1)]
  have "inj_on (sint :: int32 \<Rightarrow> int) (cp_PartNumber ` set parts)"
    by (auto intro!: inj_onI signed_word_eqI)
  then have "distinct (map (\<lambda>p. sint (cp_PartNumber p)) parts)"
    using ok(2) by (simp add: distinct_map comp_inj_on [unfolded comp_def])
  then have "length parts = card ((\<lambda>p. sint (cp_PartNumber p)) ` set parts)"
    by (metis distinct_card length_map list.set_map)
  also have "\<dots> \<le> card {1..sint n}" by (rule card_mono) (use ok(4) in auto)
  finally have "length parts \<le> nat (sint n)" by simp
  then have small: "int (length parts) < 2 ^ 31"
    using sint_less [of n] by (auto simp: le_nat_iff)
  have "sint (word_of_int (int (length parts)) :: int32) = int (length parts)"
    unfolding sint_of_int32 using small by (simp add: signed_take_bit_int_eq_self)
  then show ?thesis using assms(2) by simp
qed

text \<open>The list the storage gets: all parts from 1 to the count, once each, in order.\<close>

lemma checked_parts_complete:
  assumes "check_parts n [] parts = Inr sps" "word_of_nat (length parts) = n"
  shows "map sp_PartNumber (sort_key sp_PartNumber sps) = [1..sint n]"
proof (rule sorted_enumerates)
  note ok = check_parts_ok [OF assms(1)]
  have len: "length sps = length parts" using ok(1) by (metis length_map)
  have "inj_on (sint :: int32 \<Rightarrow> int) (cp_PartNumber ` set parts)"
    by (auto intro!: inj_onI signed_word_eqI)
  then have dist: "distinct (map sp_PartNumber sps)"
    unfolding ok(1) using ok(2) by (simp add: distinct_map comp_inj_on [unfolded comp_def])
  show "sorted (map sp_PartNumber (sort_key sp_PartNumber sps))" by simp
  show "distinct (map sp_PartNumber (sort_key sp_PartNumber sps))"
    using dist by (simp add: distinct_map)
  show "set (map sp_PartNumber (sort_key sp_PartNumber sps)) \<subseteq> {1..sint n}"
    using arg_cong [OF ok(1), of set] ok(4) by auto
  show "int (length (map sp_PartNumber (sort_key sp_PartNumber sps))) = sint n"
    using checked_part_count [OF assms] len by simp
qed

text \<open>
  An accepted completion names every part exactly once: when the parts of a request pass the checks
  and their number, as an int32, is the part count, then what the storage is handed, sorted, is
  numbered 1, 2, ... up to the count, with a non-empty entity tag for each, whatever the order and
  however many parts the request lists.
\<close>

lemma checked_parts_are_all_parts:
  assumes "check_parts partCount [] parts = Inr storageParts"
    and "word_of_nat (length parts) = partCount"
  shows "map sp_PartNumber (sort_key sp_PartNumber storageParts) = [1..sint partCount] \<and>
    int (length parts) = sint partCount \<and> (\<forall>q \<in> set storageParts. sp_ETag q \<noteq> []) \<and>
    mset (map sp_ETag (sort_key sp_PartNumber storageParts)) = mset (map (\<lambda>p. clean_etag (cp_ETag p)) parts)"
proof -
  have "mset (map sp_ETag (sort_key sp_PartNumber storageParts)) = mset (map sp_ETag storageParts)" by simp
  then show ?thesis
    using checked_parts_complete [OF assms] checked_part_count [OF assms] check_parts_ok(5,6) [OF assms(1)]
    by metis
qed

lemma checked_parts_are_all_parts_witness:
  "map sp_PartNumber (sort_key sp_PartNumber
     [\<lparr>sp_PartNumber = 2, sp_ETag = ''b''\<rparr>, \<lparr>sp_PartNumber = 1, sp_ETag = ''a''\<rparr>]) = [1..sint (2 :: int32)]"
proof -
  have "check_parts 2 [] [\<lparr>cp_PartNumber = 2, cp_ETag = ''b''\<rparr>, \<lparr>cp_PartNumber = 1, cp_ETag = '' a''\<rparr>] =
    Inr [\<lparr>sp_PartNumber = 2, sp_ETag = ''b''\<rparr>, \<lparr>sp_PartNumber = 1, sp_ETag = ''a''\<rparr>]" by code_simp
  from checked_parts_are_all_parts [OF this] show ?thesis by simp
qed

subsection \<open>Completing a multipart upload\<close>

definition assemble_post ::
  "'x runtime \<Rightarrow> 'x Service \<Rightarrow> string \<Rightarrow> string \<Rightarrow> string \<Rightarrow> int64 \<Rightarrow> database \<Rightarrow>
    Metadata \<times> go_error option \<Rightarrow> database \<Rightarrow> bool" where
  "assemble_post R S i t a e d0 r d \<longleftrightarrow>
     (snd r = None \<longrightarrow>
        fst r \<in> set (files d) \<and> row_is i t a (fst r) \<and> m_Status (fst r) = ''ready'' \<and>
        (\<exists>d1 v parts. sees R d0 d1 \<and> v \<in> set (files d1) \<and> row_is i t a v \<and>
           m_Status v = ''pending_upload'' \<and> m_UploadMode v = ''multipart'' \<and> m_Version v = e \<and>
           answers (st_CompleteMultipart (sv_storage S) (m_ObjectKey v) (m_MultipartUploadID v) parts) None \<and>
           map sp_PartNumber parts = [1..sint (m_PartCount v)]))"

lemma assemble_post_error [simp]:
  "assemble_post R S i t a e d0 (v, Some err) d"
  "assemble_post R S i t a e d0 (v, translate (Some err)) d"
  by (simp_all add: assemble_post_def)

lemma triple_CompleteMultipartUpload:
  assumes "rely R db_ok evolves" "db_ok d0"
  shows "triple w_db (\<lambda>c. c = d0) (Service_CompleteMultipartUpload R S ctx i t a checksum parts e)
    (assemble_post R S i t a e d0)"
proof -
  have last: "triple w_db (\<lambda>c. c = d1) (Service_CompleteUpload R S ctx i t a checksum e)
      (assemble_post R S i t a e d0)"
    if "sees R d0 d1" "v \<in> set (files d1)" "row_is i t a v"
      "\<not> (m_UploadMode v \<noteq> ''multipart'' \<or> m_Status v \<noteq> ''pending_upload'' \<or>
        word_of_nat (length parts) \<noteq> m_PartCount v \<or> e \<noteq> m_Version v)"
      "check_parts (m_PartCount v) [] parts = Inr sps"
      "answers (st_CompleteMultipart (sv_storage S) (m_ObjectKey v) (m_MultipartUploadID v)
        (sort_key sp_PartNumber sps)) None" for d1 v sps
  proof (rule triple_weaken [OF triple_CompleteUpload [OF assms(1) sees_ok(1) [OF assms that(1)]]])
    fix r d assume "complete_post R S i t a checksum e d1 r d"
    moreover have "map sp_PartNumber (sort_key sp_PartNumber sps) = [1..sint (m_PartCount v)]"
      using checked_parts_complete [OF that(5)] that(4) by blast
    ultimately show "assemble_post R S i t a e d0 r d"
      unfolding assemble_post_def complete_post_def using that by blast
  qed
  show ?thesis unfolding Service_CompleteMultipartUpload_def
    by (rule triple_result triple_none triple_some triple_ext_answers triple_authorize_bind triple_if
          triple_option triple_sum triple_Get_at assemble_post_error
        | (rule last; (assumption | simp)))+
qed

text \<open>
  C12. When \<open>CompleteMultipartUpload\<close> succeeds, the row it returns is in the table and ready; it had found
  the upload pending at the expected version, and the storage has accepted the assembly of all
  its parts, numbered 1 to the part count, under the row's key and upload id.
\<close>

theorem multipart_completion_assembles_all_parts:
  assumes "rely R db_ok evolves" "db_ok (w_db w)"
    and "run_state (Service_CompleteMultipartUpload R S ctx i t a checksum parts e) w = ((v, None), w')"
  shows "v \<in> set (files (w_db w')) \<and> row_is i t a v \<and> m_Status v = ''ready'' \<and>
    (\<exists>d v0 storageParts. sees R (w_db w) d \<and> v0 \<in> set (files d) \<and> row_is i t a v0 \<and>
       m_Status v0 = ''pending_upload'' \<and> m_UploadMode v0 = ''multipart'' \<and> m_Version v0 = e \<and>
       answers (st_CompleteMultipart (sv_storage S) (m_ObjectKey v0) (m_MultipartUploadID v0) storageParts) None \<and>
       map sp_PartNumber storageParts = [1..sint (m_PartCount v0)])"
  using run_triple [OF triple_CompleteMultipartUpload [OF assms(1,2)] assms(3)]
  by (simp add: assemble_post_def)

lemma demo_one_part_ok: "db_ok (w_db demo_one_part)"
proof -
  have "row_ok (demo_row\<lparr>m_UploadMode := ''multipart'', m_MultipartUploadID := ''u'',
      m_PartSize := 8388608, m_PartCount := 1\<rparr>)"
    unfolding row_ok_def core_ok_def geometry_ok_def clean_text_def by code_simp
  then show ?thesis by (simp add: db_ok_def demo_one_part_def)
qed

theorem multipart_completion_assembles_all_parts_witness:
  "\<exists>v w'. run_state (Service_CompleteMultipartUpload demo_rt demo_sv demo_ctx ''f'' ''t1'' ''a1'' demo_sum
      [\<lparr>cp_PartNumber = 1, cp_ETag = ''x''\<rparr>] 1) demo_one_part = ((v, None), w') \<and>
    v \<in> set (files (w_db w')) \<and> m_Status v = ''ready''"
proof -
  let ?m = "Service_CompleteMultipartUpload demo_rt demo_sv demo_ctx ''f'' ''t1'' ''a1'' demo_sum
      [\<lparr>cp_PartNumber = 1, cp_ETag = ''x''\<rparr>] 1"
  obtain v err w' where run: "run_state ?m demo_one_part = ((v, err), w')" by (metis prod.collapse)
  have "snd (fst (run_state ?m demo_one_part)) = None" by code_simp
  then have run': "run_state ?m demo_one_part = ((v, None), w')" using run by simp
  show ?thesis
    using multipart_completion_assembles_all_parts [OF demo_rely_ok demo_one_part_ok run'] run' by blast
qed

subsection \<open>Retries under the same idempotency key\<close>

text \<open>A driver whose faults are not mistaken for the repository's own answer \<open>ErrNotFound\<close>.\<close>

definition driver_sane :: "'x runtime \<Rightarrow> bool" where
  "driver_sane R \<longleftrightarrow> (\<forall>e. answers (rt_stmt R) (Some e) \<longrightarrow> \<not> errors_Is e ErrNotFound)"

lemma run_GetByKey:
  assumes "quiet R" "driver_sane R" "select_by_key t a k (w_db w) = Some r"
    and "run_state (SQLRepository_GetByKey R t a k) w = ((v, err), w')"
  shows "w_db w' = w_db w \<and>
    (v = r \<and> err = None \<or> v = zero_Metadata \<and> (\<exists>e. err = Some e \<and> \<not> errors_Is e ErrNotFound))"
proof -
  obtain d x where o: "rt_others R (w_db w) (w_ext w) = (d, x)" by fastforce
  have d: "d = w_db w" using quiet_others [OF assms(1), of "w_db w" "w_ext w"] unfolding o by simp
  obtain fault y where f: "rt_stmt R x = (fault, y)" by fastforce
  note step = SQLRepository_GetByKey_def sql_query_def run_db_prims o d f
  show ?thesis
  proof (cases fault)
    case None
    then show ?thesis using assms(3,4) by (auto simp: step one_row_def)
  next
    case (Some e)
    then have "\<not> errors_Is e ErrNotFound" using assms(2) f unfolding driver_sane_def answers_def by blast
    then show ?thesis using assms(4) Some by (auto simp: step one_row_def)
  qed
qed

lemma triple_GetByKey_found:
  assumes "quiet R" "driver_sane R" "select_by_key t a k d0 = Some r"
    and "\<And>e. \<not> errors_Is e ErrNotFound \<Longrightarrow> triple w_db (\<lambda>c. c = d0) (f zero_Metadata (Some e)) Q"
    and "triple w_db (\<lambda>c. c = d0) (f r None) Q"
  shows "triple w_db (\<lambda>c. c = d0) (SQLRepository_GetByKey R t a k \<bind> (\<lambda>(v, err). f v err)) Q"
proof (rule tripleI)
  fix w b w' assume d0: "w_db w = d0"
    and run: "run_state (SQLRepository_GetByKey R t a k \<bind> (\<lambda>(v, err). f v err)) w = (b, w')"
  obtain v err w1 where g: "run_state (SQLRepository_GetByKey R t a k) w = ((v, err), w1)"
    by (metis prod.collapse)
  have f: "run_state (f v err) w1 = (b, w')" using run g by simp
  from run_GetByKey [OF assms(1,2) assms(3) [folded d0] g] d0
  consider "w_db w1 = d0" "v = r" "err = None"
    | e where "w_db w1 = d0" "v = zero_Metadata" "err = Some e" "\<not> errors_Is e ErrNotFound" by blast
  then show "Q b (w_db w')"
  proof cases
    case 1
    then show ?thesis using tripleD [OF assms(5), of w1] f by simp
  next
    case (2 e)
    then show ?thesis using tripleD [OF assms(4) [OF 2(4)], of w1] f by simp
  qed
qed

lemma triple_if_true: "b \<Longrightarrow> triple obs P m Q \<Longrightarrow> triple obs P (if b then m else n) Q"
  by simp

definition replay_post :: "'x Service \<Rightarrow> Metadata \<Rightarrow> database \<Rightarrow> Authorization \<times> go_error option \<Rightarrow>
    database \<Rightarrow> bool" where
  "replay_post S r d0 b d \<longleftrightarrow> d = d0 \<and> (snd b = None \<longrightarrow> a_File (fst b) = r \<and>
     answers (st_PresignUpload (sv_storage S) (m_ObjectKey r) (m_ContentType r) (m_Size r) (m_ChecksumSHA256 r))
       (Inr (a_URL (fst b))))"

lemma triple_InitiateUpload_replay:
  assumes "quiet R" "driver_sane R" "select_by_key t' a' k' d0 = Some r"
    and "check_upload R S t a f ct sz cs k = Inr (t', a', f', ct', cs', k')"
  shows "triple w_db (\<lambda>c. c = d0) (Service_InitiateUpload R S ctx t a f ct sz cs k) (replay_post S r d0)"
  unfolding Service_InitiateUpload_def assms(4) sum.case prod.case
  by (rule triple_result triple_none triple_some triple_ext_answers triple_authorize_bind triple_sum
        triple_GetByKey_found [OF assms(1-3)]
      | (rule triple_if_true, assumption) | (simp add: replay_post_def; fail))+

definition multipart_replay_post :: "Metadata \<Rightarrow> database \<Rightarrow> MultipartAuthorization \<times> go_error option \<Rightarrow>
    database \<Rightarrow> bool" where
  "multipart_replay_post r d0 b d \<longleftrightarrow> d = d0 \<and> (snd b = None \<longrightarrow> fst b = multipartAuthorization r \<and>
     m_Status r = ''pending_upload'' \<and> m_UploadMode r = ''multipart'')"

lemma triple_InitiateMultipart_replay:
  assumes "quiet R" "driver_sane R" "select_by_key t' a' k' d0 = Some r"
    and "check_upload R S t a f ct sz cs k = Inr (t', a', f', ct', cs', k')"
  shows "triple w_db (\<lambda>c. c = d0) (Service_InitiateMultipartUpload R S ctx t a f ct sz cs k ps)
    (multipart_replay_post r d0)"
  unfolding Service_InitiateMultipartUpload_def
  by (rule triple_result triple_none triple_some triple_sum triple_prod triple_validateUpload_bind
        triple_if triple_GetByKey_found [OF assms(1,2), where r = r]
      | (simp add: multipart_replay_post_def; fail) | (use assms(3,4) in simp; fail))+


lemma demo_driver: "driver_sane demo_rt"
  by (simp add: driver_sane_def answers_def demo_rt_def)


subsection \<open>Competing writers\<close>

lemma run_Update:
  assumes "run_state (SQLRepository_Update R v e) w = (err, w')"
  shows "err = None \<and> (\<exists>n. n \<noteq> 0 \<and> update_file v e (w_db w) = Inr (n, w_db w')) \<or>
    err \<noteq> None \<and> (w_db w' = w_db w \<or> update_file v e (w_db w) = Inr (0, w_db w'))"
proof -
  obtain answer w1 where u: "run_state (tx_exec R (update_file v e)) w = (answer, w1)" by fastforce
  from assms u have "w1 = w'" and err: "err = (case answer of Inl err \<Rightarrow> Some err
      | Inr n \<Rightarrow> if n = 0 then Some ErrStaleVersion else None)"
    by (simp_all add: SQLRepository_Update_def)
  with run_tx_exec [OF u] show ?thesis by (auto split: sum.splits if_splits)
qed

text \<open>
  Of two writers that expect the same version of the same file only the first can succeed: after a successful
  \<open>Update\<close> every other one with the same id, tenant, application and expected version is an
  error and changes no row.
\<close>

lemma competing_update_loses:
  assumes "ids_distinct (w_db w)" "run_state (SQLRepository_Update R v e) w = (None, w1)"
    and "file_key v' = file_key v" "run_state (SQLRepository_Update R v' e) w1 = (err, w2)"
  shows "err \<noteq> None \<and> file_map (w_db w2) = file_map (w_db w1)"
proof -
  from run_Update [OF assms(2)] obtain n where u: "n \<noteq> 0" "update_file v e (w_db w) = Inr (n, w_db w1)"
    by auto
  have ids: "ids_distinct (w_db w1)" by (rule files_table.update_wf [OF assms(1) u(2)])
  from run_Update [OF assms(4)] files_table.single_winner [OF assms(1) u(2,1) assms(3)]
  have "err \<noteq> None" "w_db w2 = w_db w1 \<or> update_file v' e (w_db w1) = Inr (0, w_db w2)" by auto
  then show ?thesis using files_table.update_miss [OF ids] by auto
qed

lemma competing_update_loses_witness:
  "fst (run_state (SQLRepository_Update demo_rt (demo_row\<lparr>m_Status := ''deleting''\<rparr>) 1)
     (snd (run_state (SQLRepository_Update demo_rt (demo_row\<lparr>m_Status := ''ready''\<rparr>) 1) demo_world))) \<noteq> None"
proof -
  let ?w1 = "snd (run_state (SQLRepository_Update demo_rt (demo_row\<lparr>m_Status := ''ready''\<rparr>) 1) demo_world)"
  have "fst (run_state (SQLRepository_Update demo_rt (demo_row\<lparr>m_Status := ''ready''\<rparr>) 1) demo_world) = None"
    by code_simp
  then have one: "run_state (SQLRepository_Update demo_rt (demo_row\<lparr>m_Status := ''ready''\<rparr>) 1) demo_world = (None, ?w1)"
    by (simp add: prod_eq_iff)
  have ids: "ids_distinct (w_db demo_world)" by (simp add: ids_distinct_def demo_world_def demo_db_def)
  obtain err w2 where two:
    "run_state (SQLRepository_Update demo_rt (demo_row\<lparr>m_Status := ''deleting''\<rparr>) 1) ?w1 = (err, w2)" by fastforce
  have "err \<noteq> None \<and> file_map (w_db w2) = file_map (w_db ?w1)"
    by (rule competing_update_loses [OF ids one _ two]) (simp add: file_key_def)
  then show ?thesis using two by simp
qed

subsection \<open>Two behaviours the status checks do not exclude\<close>

lemma run_succeeds:
  "snd (fst (run_state m w)) = None \<Longrightarrow> P (fst (fst (run_state m w))) \<Longrightarrow>
    \<exists>a w'. run_state m w = ((a, None), w') \<and> P a"
  by (cases "run_state m w", cases "fst (run_state m w)") auto

text \<open>
  \<open>CompleteUpload\<close> has no check that the upload is still pending: a file that was marked deleted or
  expired becomes ready again when an object with the declared size is found under its key.
\<close>

lemma deleted_file_can_become_ready:
  "\<exists>v w'. run_state (Service_CompleteUpload demo_rt demo_sv demo_ctx ''f'' ''t1'' ''a1'' demo_sum 3) demo_deleted =
    ((v, None), w') \<and> m_Status v = ''ready''"
  by (rule run_succeeds; code_simp)

text \<open>
  \<open>InitiateUpload\<close> does not look at the state of the row it finds under the idempotency key: a
  presigned \<^verbatim>\<open>PUT\<close> URL is issued for a file that is ready and has passed its scan.
\<close>

lemma upload_url_for_scanned_file:
  "\<exists>auth w'. run_state (Service_InitiateUpload demo_rt demo_sv demo_ctx ''t1'' ''a1'' ''n.txt'' ''text/plain''
      11 demo_sum ''k1'') demo_clean = ((auth, None), w') \<and>
    a_URL auth = ''put:t1/a1/f/n.txt'' \<and> m_Status (a_File auth) = ''ready'' \<and> m_ScanStatus (a_File auth) = ''clean''"
proof -
  let ?m = "Service_InitiateUpload demo_rt demo_sv demo_ctx ''t1'' ''a1'' ''n.txt'' ''text/plain'' 11 demo_sum ''k1''"
  have eval: "fst (run_state ?m demo_clean) =
      (\<lparr>a_File = demo_row\<lparr>m_Status := ''ready'', m_ScanStatus := ''clean'', m_Version := 3\<rparr>,
        a_URL = ''put:t1/a1/f/n.txt'', a_Headers = uploadHeaders ''text/plain'' 11 demo_sum,
        a_ExpiresAt = 907\<rparr>, None)"
    by code_simp
  show ?thesis by (rule run_succeeds; unfold eval; simp)
qed

end
