(* ===== verification/File_Lifecycle.thy ===== *)
theory File_Lifecycle
  imports File_Uploads
begin

text \<open>
  That the service does its work: with dependencies that answer, a well-formed request of an entitled
  caller succeeds, through the whole life of a file. The other theories of the service show that it
  does nothing wrong; this one excludes that it does nothing.
\<close>

subsection \<open>Working dependencies\<close>

text \<open>An operation that has a result as wanted, and takes back no identifier issued before.\<close>

definition succeeds :: "('x \<Rightarrow> string set) \<Rightarrow> ('x, 'a) ext_op \<Rightarrow> ('a \<Rightarrow> bool) \<Rightarrow> bool" where
  "succeeds issued f ok \<longleftrightarrow> (\<forall>x. ok (fst (f x)) \<and> issued x \<subseteq> issued (snd (f x)))"

text \<open>
  The database, the clock, the event encoder, the object storage and the application service work, no
  other request is active, and identifiers are new: \<open>issued x\<close> are those given out before \<open>x\<close>.
\<close>

definition healthy :: "('x \<Rightarrow> string set) \<Rightarrow> 'x runtime \<Rightarrow> 'x Service \<Rightarrow> bool" where
  "healthy issued R S \<longleftrightarrow>
     quiet R \<and> sv_transactor S \<and> (\<forall>d. succeeds issued (rt_others R d) (\<lambda>_. True)) \<and>
     succeeds issued (rt_stmt R) (\<lambda>e. e = None) \<and> succeeds issued (rt_begin R) (\<lambda>e. e = None) \<and>
     succeeds issued (rt_commit R) (\<lambda>r. r = Committed) \<and> succeeds issued (rt_now R) (\<lambda>_. True) \<and>
     (\<forall>x. fst (rt_uuid R x) \<notin> issued x \<and> CHR ''/'' \<notin> set (fst (rt_uuid R x)) \<and>
       insert (fst (rt_uuid R x)) (issued x) \<subseteq> issued (snd (rt_uuid R x))) \<and>
     (\<forall>m f. \<exists>env enc. rt_new_envelope R m f = Inr env \<and> rt_event_id R env = em_EventID m \<and> rt_marshal R env = Inr enc) \<and>
     (\<forall>t a. succeeds issued (sv_applications S t a) (\<lambda>e. e = None)) \<and>
     (\<forall>key ct sz cs. succeeds issued (st_PresignUpload (sv_storage S) key ct sz cs) (\<lambda>u. \<not> isl u)) \<and>
     (\<forall>key. succeeds issued (st_PresignDownload (sv_storage S) key) (\<lambda>u. \<not> isl u)) \<and>
     (\<forall>key. succeeds issued (st_Delete (sv_storage S) key) (\<lambda>e. e = None))"

text \<open>The client has stored what it declared.\<close>

definition object_stored :: "('x \<Rightarrow> string set) \<Rightarrow> 'x Service \<Rightarrow> int64 \<Rightarrow> string \<Rightarrow> bool" where
  "object_stored issued S sz checksum \<longleftrightarrow>
     (\<forall>key. succeeds issued (st_Stat (sv_storage S) key)
       (\<lambda>(info, err). err = None \<and> oi_Size info = sz \<and> oi_ChecksumSHA256 info \<in> {[], checksum}))"

text \<open>The files are \<open>fs\<close>, and the identifiers in the tables and those of \<open>X\<close> have been given out.\<close>

definition used_ids :: "database \<Rightarrow> string set" where
  "used_ids d = m_ID ` set (files d) \<union> or_ID ` set (file_outbox_events d)"

definition tables :: "('x \<Rightarrow> string set) \<Rightarrow> string set \<Rightarrow> Metadata list \<Rightarrow> 'x world \<Rightarrow> bool" where
  "tables issued X fs w \<longleftrightarrow> files (w_db w) = fs \<and> used_ids (w_db w) \<union> X \<subseteq> issued (w_ext w)"

abbreviation ensures :: "('x world \<Rightarrow> bool) \<Rightarrow> ('x world, 'a) state \<Rightarrow> ('a \<Rightarrow> 'x world \<Rightarrow> bool) \<Rightarrow> bool" where
  "ensures \<equiv> triple (\<lambda>w. w)"

lemma tables_ext: "tables issued X fs w \<Longrightarrow> issued (w_ext w) \<subseteq> issued x \<Longrightarrow> tables issued X fs (w\<lparr>w_ext := x\<rparr>)"
  by (auto simp: tables_def)

lemma ensures_step:
  assumes "ensures P m (\<lambda>r w. r = a \<and> M w)" "ensures M (k a) Q"
  shows "ensures P (m \<bind> k) Q"
  by (rule triple_bind [OF assms(1)], rule tripleI) (use assms(2) in \<open>auto dest: tripleD\<close>)

lemma ensures_ext_bind:
  assumes "succeeds issued f ok" "\<And>r. ok r \<Longrightarrow> ensures (tables issued X fs) (k r) Q"
  shows "ensures (tables issued X fs) (ext_call f \<bind> k) Q"
proof (rule tripleI)
  fix w r w' assume w: "tables issued X fs w" "run_state (ext_call f \<bind> k) w = (r, w')"
  obtain a x where a: "f (w_ext w) = (a, x)" by fastforce
  have "ok a" "issued (w_ext w) \<subseteq> issued x" using assms(1) a unfolding succeeds_def by (metis fst_conv snd_conv)+
  moreover have "run_state (k a) (w\<lparr>w_ext := x\<rparr>) = (r, w')" using w(2) a by (simp add: run_db_prims)
  ultimately show "Q r w'" using tripleD [OF assms(2)] tables_ext [OF w(1)] by blast
qed

lemma healthy_uuid:
  assumes "healthy issued R S" "rt_uuid R x = (i, x')"
  shows "i \<notin> issued x" "CHR ''/'' \<notin> set i" "insert i (issued x) \<subseteq> issued x'"
  using assms unfolding healthy_def by (metis fst_conv snd_conv)+

lemma ensures_uuid_bind:
  assumes "healthy issued R S"
    and "\<And>i. i \<notin> m_ID ` set fs \<Longrightarrow> CHR ''/'' \<notin> set i \<Longrightarrow> ensures (tables issued {i} fs) (k i) Q"
  shows "ensures (tables issued X fs) (ext_call (rt_uuid R) \<bind> k) Q"
proof (rule tripleI)
  fix w r w' assume w: "tables issued X fs w" "run_state (ext_call (rt_uuid R) \<bind> k) w = (r, w')"
  obtain i x where i: "rt_uuid R (w_ext w) = (i, x)" by fastforce
  note new = healthy_uuid [OF assms(1) i]
  have "i \<notin> m_ID ` set fs" "tables issued {i} fs (w\<lparr>w_ext := x\<rparr>)"
    using w(1) new(1,3) by (auto simp: tables_def used_ids_def)
  moreover have "run_state (k i) (w\<lparr>w_ext := x\<rparr>) = (r, w')" using w(2) i by (simp add: run_db_prims)
  ultimately show "Q r w'" using tripleD [OF assms(2) [OF _ new(2)]] by blast
qed

subsection \<open>The database\<close>

lemma ensures_interfere:
  assumes "healthy issued R S"
  shows "ensures (tables issued X fs) (interfere R) (\<lambda>_. tables issued X fs)"
proof (rule tripleI)
  fix w r w' assume w: "tables issued X fs w" "run_state (interfere R) w = (r, w')"
  obtain d x where o: "rt_others R (w_db w) (w_ext w) = (d, x)" by fastforce
  have d: "d = w_db w" "issued (w_ext w) \<subseteq> issued x"
    using assms o unfolding healthy_def quiet_def succeeds_def by (metis fst_conv snd_conv)+
  moreover have "w' = w\<lparr>w_ext := x\<rparr>" using w(2) o d(1) by (cases w) (simp add: run_interfere)
  ultimately show "tables issued X fs w'" using tables_ext [OF w(1)] by simp
qed

lemma ensures_query:
  assumes "healthy issued R S" "\<And>d. files d = fs \<Longrightarrow> q d = a"
  shows "ensures (tables issued X fs) (sql_query R q) (\<lambda>r w. r = Inr a \<and> tables issued X fs w)"
  unfolding sql_query_def
proof (rule triple_bind [OF ensures_interfere [OF assms(1)]], rule ensures_ext_bind)
  show "succeeds issued (rt_stmt R) (\<lambda>e. e = None)" using assms(1) by (simp add: healthy_def)
qed (use assms(2) in \<open>auto intro!: tripleI simp: run_read_db tables_def\<close>)

lemma ensures_exec:
  assumes "healthy issued R S"
    and "\<And>d. files d = fs \<Longrightarrow> \<exists>d'. f d = Inr (a, d') \<and> files d' = fs' \<and> used_ids d' \<subseteq> used_ids d \<union> X"
  shows "ensures (tables issued X fs) (tx_exec R f) (\<lambda>r w. r = Inr a \<and> tables issued X fs' w)"
  unfolding tx_exec_def
proof (rule ensures_ext_bind)
  show "succeeds issued (rt_stmt R) (\<lambda>e. e = None)" using assms(1) by (simp add: healthy_def)
  fix e :: "go_error option" assume "e = None"
  moreover have "\<exists>d'. f (w_db w) = Inr (a, d') \<and> tables issued X fs' (w\<lparr>w_db := d'\<rparr>)" if "tables issued X fs w" for w
    using that assms(2) [of "w_db w"] by (fastforce simp: tables_def)
  ultimately show "ensures (tables issued X fs) (case e of
      Some err \<Rightarrow> State_Monad.return (Inl err)
    | None \<Rightarrow> State (\<lambda>w. case f (w_db w) of Inl err \<Rightarrow> (Inl err, w) | Inr (a, d) \<Rightarrow> (Inr a, w\<lparr>w_db := d\<rparr>)))
    (\<lambda>r w. r = Inr a \<and> tables issued X fs' w)"
    by (fastforce intro!: tripleI)
qed

lemma ensures_Within:
  assumes "healthy issued R S" "ensures (tables issued X fs) fn (\<lambda>r w. r = (None, b) \<and> tables issued X fs' w)"
  shows "ensures (tables issued X fs) (Within R (sv_transactor S) a fn) (\<lambda>r w. r = (None, b) \<and> tables issued X fs' w)"
proof -
  have h: "sv_transactor S" "succeeds issued (rt_begin R) (\<lambda>e. e = None)"
    "succeeds issued (rt_commit R) (\<lambda>r. r = Committed)"
    using assms(1) by (simp_all add: healthy_def)
  have body: "ensures (tables issued X fs) (do {
      (fn_err, a') \<leftarrow> fn;
      case fn_err of
        Some err \<Rightarrow> do {
          restore_db saved;
          rollback_err \<leftarrow> ext_call (rt_rollback R);
          State_Monad.return (Some (case rollback_err of Some r \<Rightarrow> Wrapf ''rollback transaction'' r | None \<Rightarrow> err), a')
        }
      | None \<Rightarrow> do {
          outcome \<leftarrow> ext_call (rt_commit R);
          case outcome of
            Committed \<Rightarrow> State_Monad.return (None, a')
          | Commit_lost err \<Rightarrow> do {
              restore_db saved;
              State_Monad.return (Some (Wrapf ''commit transaction'' err), a')
            }
          | Commit_unknown err \<Rightarrow> State_Monad.return (Some (Wrapf ''commit transaction'' err), a')
        } }) (\<lambda>r w. r = (None, b) \<and> tables issued X fs' w)" for saved
    by (rule ensures_step [OF assms(2)], simp only: prod.case option.case, rule ensures_ext_bind [OF h(3)])
      (auto intro!: tripleI)
  show ?thesis unfolding Within_def using h(1)
    apply (simp only: not_True_eq_False if_False)
    apply (rule ensures_ext_bind [OF h(2)], simp only: option.case)
    apply (rule triple_bind [OF ensures_interfere [OF assms(1)]])
    apply (rule triple_bind_silent [OF silentI], simp add: run_read_db)
    apply (rule body)
    done
qed

lemma ensures_Get:
  assumes "healthy issued R S" "find (row_is i t a) fs = Some v"
  shows "ensures (tables issued X fs) (SQLRepository_Get R i t a) (\<lambda>r w. r = (v, None) \<and> tables issued X fs w)"
  unfolding SQLRepository_Get_def
  by (rule ensures_step [OF ensures_query [OF assms(1), where a = "Some v"]])
    (use assms(2) in \<open>auto intro!: tripleI simp: one_row_def select_by_id_def\<close>)

text \<open>The identifier of the event is new, so the outbox takes it.\<close>

lemma ensures_event:
  assumes "healthy issued R S"
  shows "ensures (tables issued X fs) (addStatusEvent R v) (\<lambda>r w. r = None \<and> tables issued X fs w)"
proof (rule tripleI)
  fix w r w' assume w: "tables issued X fs w" and run: "run_state (addStatusEvent R v) w = (r, w')"
  obtain i x where i: "rt_uuid R (w_ext w) = (i, x)" by fastforce
  note new = healthy_uuid [OF assms i]
  obtain env enc where env: "rt_new_envelope R (event_metadata i v) (event_file v) = Inr env" "rt_event_id R env = i"
    "rt_marshal R env = Inr enc"
    using assms unfolding healthy_def by (metis EventMetadata.select_convs(1) event_metadata_def)
  obtain y where y: "rt_stmt R x = (None, y)" "issued x \<subseteq> issued y"
    using assms unfolding healthy_def succeeds_def by (metis prod.collapse)
  have free: "\<not> list_ex (\<lambda>r. or_ID r = i) (file_outbox_events (w_db w))"
    using w new(1) by (auto simp: tables_def used_ids_def list_ex_iff)
  have "r = None" "w_ext w' = y" "files (w_db w') = files (w_db w)" "used_ids (w_db w') = insert i (used_ids (w_db w))"
    using run i env y(1) free
    by (auto simp: addStatusEvent_def SQLRepository_AddOutbox_def tx_exec_def insert_outbox_def outbox_event_def
        run_db_prims used_ids_def)
  then show "r = None \<and> tables issued X fs w'" using w new(3) y(2) by (auto simp: tables_def)
qed

lemma ensures_save:
  assumes h: "healthy issued R S" and ids: "distinct (map m_ID fs)"
    and row: "find (row_is (m_ID v) (m_TenantID v) (m_ApplicationID v)) fs = Some r"
    and version: "m_Version r = expected" "expected \<noteq> max_bigint"
  shows "ensures (tables issued X fs) (save_status R S v expected)
    (\<lambda>res w. res = (None, v\<lparr>m_Version := expected + 1\<rparr>) \<and>
      tables issued X (map (\<lambda>r. if update_hits v expected r then set_columns v r else r) fs) w)"
proof -
  let ?fs = "map (\<lambda>r. if update_hits v expected r then set_columns v r else r) fs"
  have hit: "filter (update_hits v expected) fs \<noteq> []"
    using row version(1) by (auto simp: filter_empty_conv update_hits_def find_Some_iff)
  have update: "ensures (tables issued X fs) (SQLRepository_Update R v expected) (\<lambda>r w. r = None \<and> tables issued X ?fs w)"
    unfolding SQLRepository_Update_def
  proof (rule ensures_step [OF ensures_exec [OF h]])
    fix d :: database assume d: "files d = fs"
    have "map m_ID ?fs = map m_ID fs" by simp
    then have "m_ID ` set ?fs = m_ID ` set fs" by (metis list.set_map)
    then have "used_ids (d\<lparr>files := ?fs\<rparr>) = used_ids d" using d by (simp only: used_ids_def) simp
    then show "\<exists>d'. update_file v expected d = Inr (length (filter (update_hits v expected) fs), d') \<and>
        files d' = ?fs \<and> used_ids d' \<subseteq> used_ids d \<union> X"
      using d version(2) by (auto simp: update_file_def list_ex_iff update_hits_def)
  qed (use hit in \<open>auto intro!: tripleI\<close>)
  show ?thesis unfolding save_status_def
    by (rule ensures_Within [OF h], unfold update_body_def, rule ensures_step [OF update], simp only: option.case,
        rule ensures_step [OF ensures_event [OF h]]) (auto intro!: tripleI)
qed

lemma ensures_create:
  assumes h: "healthy issued R S" and "\<not> list_ex (conflicts v) fs" "m_ApplicationID v \<noteq> []" "m_ID v \<in> X"
  shows "ensures (tables issued X fs) (create_file R S v) (\<lambda>r w. r = (None, v) \<and> tables issued X (fs @ [v]) w)"
proof -
  have "ensures (tables issued X fs) (SQLRepository_Insert R v) (\<lambda>r w. r = None \<and> tables issued X (fs @ [v]) w)"
    unfolding SQLRepository_Insert_def
    by (rule ensures_step [OF ensures_exec [OF h, where a = "()" and fs' = "fs @ [v]"]])
      (use assms(2-4) in \<open>auto intro!: tripleI simp: insert_file_def used_ids_def\<close>)
  then show ?thesis unfolding create_file_def
    by (intro ensures_Within [OF h], unfold insert_body_def, rule_tac ensures_step, assumption, simp only: option.case)
      (rule ensures_step [OF ensures_event [OF h]], auto intro!: tripleI)
qed

subsection \<open>The methods\<close>

text \<open>A caller of the tenant, with an application named.\<close>

definition entitled :: "Ctx \<Rightarrow> Principal \<Rightarrow> string \<Rightarrow> string \<Rightarrow> bool" where
  "entitled ctx p t a \<longleftrightarrow> ctx_principal ctx = Some p \<and> enforceTenant p t = None \<and> TrimSpace t \<noteq> [] \<and> TrimSpace a \<noteq> []"

lemma ensures_application:
  assumes "healthy issued R S" "entitled ctx p t a"
  shows "ensures (tables issued X fs) (verifyApplication S t a) (\<lambda>r w. r = None \<and> tables issued X fs w)"
proof -
  have "succeeds issued (sv_applications S (TrimSpace t) (TrimSpace a)) (\<lambda>e. e = None)"
    using assms(1) by (simp add: healthy_def)
  note verified = ensures_ext_bind [OF this, where k = "\<lambda>err. State_Monad.return (case err of
      None \<Rightarrow> None
    | Some e \<Rightarrow> if errors_Is e ErrNotGranted then Some (Forbidden ''application access denied'')
        else Some (Unavailable ''application access verification unavailable'' (Some e)))"]
  have "verifyApplication S t a = do {
      err \<leftarrow> ext_call (sv_applications S (TrimSpace t) (TrimSpace a));
      State_Monad.return (case err of
        None \<Rightarrow> None
      | Some e \<Rightarrow> if errors_Is e ErrNotGranted then Some (Forbidden ''application access denied'')
          else Some (Unavailable ''application access verification unavailable'' (Some e))) }"
    using assms(2) by (simp add: verifyApplication_def entitled_def Let_def)
  then show ?thesis by (simp only:) (rule verified, auto intro!: tripleI)
qed

lemma ensures_authorize:
  assumes "healthy issued R S" "entitled ctx p t a"
  shows "ensures (tables issued X fs) (authorize S ctx t a) (\<lambda>r w. r = Inr p \<and> tables issued X fs w)"
proof -
  have "authorize S ctx t a = do {
      err \<leftarrow> verifyApplication S t a;
      State_Monad.return (case err of Some e \<Rightarrow> Inl e | None \<Rightarrow> Inr p) }"
    using assms(2) by (simp add: authorize_def entitled_def)
  then show ?thesis by (simp only:) (rule ensures_step [OF ensures_application [OF assms]], auto intro!: tripleI)
qed

text \<open>There is a file under the key, with the property \<open>P\<close>.\<close>

definition filed ::
    "('x \<Rightarrow> string set) \<Rightarrow> string \<Rightarrow> string \<Rightarrow> string \<Rightarrow> (Metadata \<Rightarrow> bool) \<Rightarrow> 'x world \<Rightarrow> bool" where
  "filed issued i t a P w \<longleftrightarrow> (\<exists>fs v. tables issued {} fs w \<and> distinct (map m_ID fs) \<and>
     find (row_is i t a) fs = Some v \<and> P v)"

lemma ensures_filed:
  assumes "\<And>fs v. distinct (map m_ID fs) \<Longrightarrow> find (row_is i t a) fs = Some v \<Longrightarrow> P v \<Longrightarrow>
    row_is i t a v \<Longrightarrow> ensures (tables issued {} fs) m Q"
  shows "ensures (filed issued i t a P) m Q"
proof (rule tripleI)
  fix w r w' assume "filed issued i t a P w" "run_state m w = (r, w')"
  then obtain fs v where f: "tables issued {} fs w" "distinct (map m_ID fs)" "find (row_is i t a) fs = Some v" "P v"
    by (auto simp: filed_def)
  moreover have "row_is i t a v" using f(3) by (auto simp: find_Some_iff)
  ultimately show "Q r w'" using assms tripleD \<open>run_state m w = (r, w')\<close> by metis
qed

text \<open>A change of status, as the methods make it: the row is the one that was found, changed.\<close>

lemma ensures_save_filed:
  assumes "healthy issued R S" "distinct (map m_ID fs)" "find (row_is i t a) fs = Some r" "m_Version r = e" "e \<noteq> max_bigint"
    and "row_is i t a v" "P (set_columns v r)"
  shows "ensures (tables issued {} fs) (save_status R S v e)
    (\<lambda>res w. res = (None, v\<lparr>m_Version := e + 1\<rparr>) \<and> filed issued i t a P w)"
proof -
  let ?fs = "map (\<lambda>r. if update_hits v e r then set_columns v r else r) fs"
  have r: "row_is i t a r" using assms(3) by (auto simp: find_Some_iff)
  have "find (row_is i t a) ?fs = map_option (\<lambda>r. if update_hits v e r then set_columns v r else r) (find (row_is i t a) fs)"
    by (rule find_map_cong) simp
  also have "\<dots> = Some (set_columns v r)" using assms(3,4,6) r by (auto simp: update_hits_def row_is_def)
  finally have "find (row_is i t a) ?fs = Some (set_columns v r)" .
  moreover have "map m_ID ?fs = map m_ID fs" by simp
  ultimately have post: "tables issued {} ?fs w \<Longrightarrow> filed issued i t a P w" for w
    using assms(2,7) unfolding filed_def by metis
  have "find (row_is (m_ID v) (m_TenantID v) (m_ApplicationID v)) fs = Some r" using assms(3,6) by (simp add: row_is_def)
  from ensures_save [OF assms(1,2) this assms(4,5)] show ?thesis
    by (rule triple_weaken) (use post in auto)
qed

lemma ensures_pair:
  "ensures P m (\<lambda>r w. r = a \<and> M w) \<Longrightarrow> (\<And>w. M w \<Longrightarrow> Q (g a) w) \<Longrightarrow> ensures P (m \<bind> (\<lambda>r. State_Monad.return (g r))) Q"
  by (erule ensures_step, rule tripleI) auto

lemma healthy_ops:
  assumes "healthy issued R S"
  shows "succeeds issued (rt_now R) (\<lambda>_. True)"
    "succeeds issued (st_PresignUpload (sv_storage S) key ct sz cs) (\<lambda>u. \<not> isl u)"
    "succeeds issued (st_PresignDownload (sv_storage S) key) (\<lambda>u. \<not> isl u)"
    "succeeds issued (st_Delete (sv_storage S) key) (\<lambda>e. e = None)"
  using assms by (simp_all add: healthy_def)

text \<open>Where a file stands: its status, its scan status and its version, with the declared size and checksum.\<close>

definition stage :: "string \<Rightarrow> string \<Rightarrow> int64 \<Rightarrow> int64 \<Rightarrow> string \<Rightarrow> Metadata \<Rightarrow> bool" where
  "stage status scan n sz checksum v \<longleftrightarrow> m_Status v = status \<and> m_ScanStatus v = scan \<and> m_Version v = n \<and>
     m_Size v = sz \<and> m_ChecksumSHA256 v = checksum"

definition after_upload :: "'x Service \<Rightarrow> string" where
  "after_upload S = (if sv_scanRequired S then ''pending'' else ''skipped'')"

text \<open>The last statements of a method: the clock, the change of status, and the answer.\<close>

lemma ensures_saved:
  assumes "healthy issued R S" "distinct (map m_ID fs)" "find (row_is i t a) fs = Some r" "m_Version r = e" "e \<noteq> max_bigint"
    and v: "\<And>now. row_is i t a (v now)" "\<And>now. P (set_columns (v now) r)"
    and k: "\<And>now. ensures (filed issued i t a P) (k (None, (v now)\<lparr>m_Version := e + 1\<rparr>)) Q"
  shows "ensures (tables issued {} fs) (ext_call (rt_now R) \<bind> (\<lambda>now. save_status R S (v now) e \<bind> k)) Q"
  by (rule ensures_ext_bind [OF healthy_ops(1) [OF assms(1)]])
    (rule ensures_step, rule ensures_save_filed [where P = P, OF assms(1-5) v], rule k)

lemma ensures_else: "\<not> c \<Longrightarrow> ensures P m Q \<Longrightarrow> ensures P (if c then m' else m) Q"
  by simp

lemma complete_succeeds:
  assumes h: "healthy issued R S" and e: "entitled ctx p t a" and obj: "object_stored issued S sz checksum"
    and given: "ToLower (rt_unicode_lower R) (TrimSpace cs) = checksum" "1 \<le> sint n" "n \<noteq> max_bigint"
  shows "ensures (filed issued i t a (stage ''pending_upload'' ''pending'' n sz checksum))
    (Service_CompleteUpload R S ctx i t a cs n)
    (\<lambda>(r, err) w. err = None \<and> m_Version r = n + 1 \<and> filed issued i t a (stage ''ready'' (after_upload S) (n + 1) sz checksum) w)"
proof (rule ensures_filed)
  fix fs v
  assume f: "distinct (map m_ID fs)" "find (row_is i t a) fs = Some v" "row_is i t a v"
    and v: "stage ''pending_upload'' ''pending'' n sz checksum v"
  have stat: "succeeds issued (st_Stat (sv_storage S) (m_ObjectKey v))
      (\<lambda>(info, err). err = None \<and> oi_Size info = sz \<and> oi_ChecksumSHA256 info \<in> {[], checksum})"
    using obj by (simp add: object_stored_def)
  show "ensures (tables issued {} fs) (Service_CompleteUpload R S ctx i t a cs n) (\<lambda>(r, err) w. err = None \<and>
      m_Version r = n + 1 \<and> filed issued i t a (stage ''ready'' (after_upload S) (n + 1) sz checksum) w)"
    unfolding Service_CompleteUpload_def
    apply (rule ensures_step [OF ensures_authorize [OF h e]], simp only: sum.case)
    apply (rule ensures_step [OF ensures_Get [OF h f(2)]], simp only: prod.case option.case)
    apply (rule ensures_else, use v in \<open>simp add: stage_def\<close>, rule ensures_else, use given(2) in simp)
    apply (rule ensures_ext_bind [OF stat])
    subgoal for answer
      apply (cases answer, simp only: prod.case, elim conjE, simp only: option.case)
      apply (rule ensures_else, (use v given(1) in \<open>auto simp: stage_def\<close>) [1])
      apply (rule ensures_saved [OF h f(1,2), where P = "stage ''ready'' (after_upload S) (n + 1) sz checksum"])
      using v f(3) given(3)
      by (auto simp: stage_def after_upload_def row_is_def set_columns_def translate_def intro!: triple_return)
    done
qed

lemma scan_succeeds:
  assumes h: "healthy issued R S" and e: "entitled ctx p t a" and n: "n \<noteq> max_bigint"
  shows "ensures (filed issued i t a (stage ''ready'' ''pending'' n sz checksum))
    (Service_ReportScanResult R S ctx i t a ''clean'' n)
    (\<lambda>(r, err) w. err = None \<and> m_Version r = n + 1 \<and> filed issued i t a (stage ''ready'' ''clean'' (n + 1) sz checksum) w)"
proof (rule ensures_filed)
  fix fs v
  assume f: "distinct (map m_ID fs)" "find (row_is i t a) fs = Some v" "row_is i t a v"
    and v: "stage ''ready'' ''pending'' n sz checksum v"
  have p: "ctx_principal ctx = Some p" "enforceTenant p t = None" using e by (simp_all add: entitled_def)
  show "ensures (tables issued {} fs) (Service_ReportScanResult R S ctx i t a ''clean'' n) (\<lambda>(r, err) w. err = None \<and>
      m_Version r = n + 1 \<and> filed issued i t a (stage ''ready'' ''clean'' (n + 1) sz checksum) w)"
    unfolding Service_ReportScanResult_def p option.case
    apply (rule ensures_else, simp)
    apply (rule ensures_step [OF ensures_application [OF h e]], simp only: option.case)
    apply (rule ensures_step [OF ensures_Get [OF h f(2)]], simp only: prod.case option.case)
    apply (rule ensures_else, use v in \<open>simp add: stage_def\<close>)
    apply (rule ensures_saved [OF h f(1,2), where P = "stage ''ready'' ''clean'' (n + 1) sz checksum"])
    using v f(3) n by (auto simp: stage_def row_is_def set_columns_def translate_def intro!: triple_return)
qed

lemma download_succeeds:
  assumes h: "healthy issued R S" and e: "entitled ctx p t a" and scan: "scan \<in> {''clean'', ''skipped''}"
  shows "ensures (filed issued i t a (stage ''ready'' scan n sz checksum)) (Service_AuthorizeDownload R S ctx i t a)
    (\<lambda>(d, err) w. err = None \<and> row_is i t a (a_File d) \<and> stage ''ready'' scan n sz checksum (a_File d) \<and>
      filed issued i t a (stage ''ready'' scan n sz checksum) w)"
proof (rule ensures_filed)
  fix fs v
  assume f: "distinct (map m_ID fs)" "find (row_is i t a) fs = Some v" "row_is i t a v"
    and v: "stage ''ready'' scan n sz checksum v"
  show "ensures (tables issued {} fs) (Service_AuthorizeDownload R S ctx i t a)
    (\<lambda>(d, err) w. err = None \<and> row_is i t a (a_File d) \<and> stage ''ready'' scan n sz checksum (a_File d) \<and>
      filed issued i t a (stage ''ready'' scan n sz checksum) w)"
    unfolding Service_AuthorizeDownload_def
    apply (rule ensures_step [OF ensures_authorize [OF h e]], simp only: sum.case)
    apply (rule ensures_step [OF ensures_Get [OF h f(2)]], simp only: prod.case option.case)
    apply (rule ensures_else, (use v scan in \<open>auto simp: stage_def\<close>) [1])
    apply (rule ensures_ext_bind [OF healthy_ops(3) [OF h]])
    subgoal for url
      apply (cases url, simp, simp only: sum.case)
      apply (rule ensures_ext_bind [OF healthy_ops(1) [OF h]], rule triple_return)
      using v f unfolding filed_def by auto
    done
qed

text \<open>Deletion marks the row, removes the object and closes the row: two versions further.\<close>

lemma finish_delete_succeeds:
  assumes h: "healthy issued R S" and n: "n \<noteq> max_bigint" and v: "row_is i t a v" "stage ''deleting'' scan n sz checksum v"
    and row: "\<And>r. P r \<Longrightarrow> stage ''deleting'' scan n sz checksum r"
  shows "ensures (filed issued i t a P) (finish_delete R S caller v)
    (\<lambda>(r, err) w. err = None \<and> m_Status r = ''deleted'' \<and> filed issued i t a (stage ''deleted'' scan (n + 1) sz checksum) w)"
proof (rule ensures_filed)
  fix fs r
  assume f: "distinct (map m_ID fs)" "find (row_is i t a) fs = Some r" "row_is i t a r" and r: "P r"
  show "ensures (tables issued {} fs) (finish_delete R S caller v)
    (\<lambda>(r, err) w. err = None \<and> m_Status r = ''deleted'' \<and> filed issued i t a (stage ''deleted'' scan (n + 1) sz checksum) w)"
    unfolding finish_delete_def
    apply (rule ensures_ext_bind [OF healthy_ops(4) [OF h]], simp only: option.case)
    apply (rule ensures_saved [OF h f(1,2), where P = "stage ''deleted'' scan (n + 1) sz checksum"])
    using v row [OF r] f(3) n by (auto simp: stage_def row_is_def set_columns_def translate_def intro!: triple_return)
qed

lemma delete_succeeds:
  assumes h: "healthy issued R S" and e: "entitled ctx p t a" and n: "1 \<le> sint n" "n \<noteq> max_bigint" "n + 1 \<noteq> max_bigint"
    and status: "status \<notin> {''deleted'', ''deleting''}"
  shows "ensures (filed issued i t a (stage status scan n sz checksum)) (Service_Delete R S ctx i t a n)
    (\<lambda>(r, err) w. err = None \<and> m_Status r = ''deleted'' \<and>
      filed issued i t a (stage ''deleted'' scan (n + 2) sz checksum) w)"
proof (rule ensures_filed)
  fix fs v
  assume f: "distinct (map m_ID fs)" "find (row_is i t a) fs = Some v" "row_is i t a v" and v: "stage status scan n sz checksum v"
  have two: "n + 2 = n + 1 + 1" by simp
  show "ensures (tables issued {} fs) (Service_Delete R S ctx i t a n) (\<lambda>(r, err) w. err = None \<and>
      m_Status r = ''deleted'' \<and> filed issued i t a (stage ''deleted'' scan (n + 2) sz checksum) w)"
    unfolding Service_Delete_def two
    apply (rule ensures_step [OF ensures_authorize [OF h e]], simp only: sum.case)
    apply (rule ensures_step [OF ensures_Get [OF h f(2)]], simp only: prod.case option.case)
    apply (rule ensures_else, (use v status in \<open>auto simp: stage_def\<close>) [1], rule ensures_else, use n in simp)
    apply (subst if_P, (use v status in \<open>auto simp: stage_def\<close>) [1])
    apply (rule ensures_saved [OF h f(1,2), where P = "stage ''deleting'' scan (n + 1) sz checksum"])
        apply ((use v f(3) n in \<open>auto simp: stage_def row_is_def set_columns_def\<close>) [4], simp only: prod.case option.case)
    apply (rule finish_delete_succeeds [OF h n(3)])
    using v f(3) by (auto simp: stage_def row_is_def)
qed

text \<open>The name part of an object key: what is read back of a key is the identifier it was made from.\<close>

definition base_name :: "string \<Rightarrow> bool" where
  "base_name f \<longleftrightarrow> f = ''/'' \<or> (f \<noteq> [] \<and> CHR ''/'' \<notin> set f)"

definition key_id :: "string \<Rightarrow> string" where
  "key_id k = (let r = rev k; rest = (if take 2 r = ''//'' then drop 2 r else tl (dropWhile (\<lambda>c. c \<noteq> CHR ''/'') r)) in
     rev (takeWhile (\<lambda>c. c \<noteq> CHR ''/'') rest))"

lemma key_id_object_key:
  assumes "CHR ''/'' \<notin> set i" "base_name f"
  shows "key_id (object_key t a i f) = i"
proof -
  have i: "takeWhile (\<lambda>c. c \<noteq> CHR ''/'') (rev i @ CHR ''/'' # y) = rev i" for y
    using assms(1) by (subst takeWhile_append2) auto
  show ?thesis
  proof (cases "f = ''/''")
    case True
    then show ?thesis using i by (simp add: key_id_def object_key_def)
  next
    case False
    then have f: "f \<noteq> []" "CHR ''/'' \<notin> set f" using assms(2) by (auto simp: base_name_def)
    have "dropWhile (\<lambda>c. c \<noteq> CHR ''/'') (rev f @ CHR ''/'' # y) = CHR ''/'' # y" for y
      using f(2) by (subst dropWhile_append2) auto
    moreover have "take 2 (rev f @ y) \<noteq> ''//''" for y using f by (cases f rule: rev_cases) auto
    ultimately show ?thesis using i by (simp add: key_id_def object_key_def)
  qed
qed

text \<open>The keys of the files are the service's own, and \<open>k\<close> is not yet used for the application.\<close>

definition own_keys :: "Metadata list \<Rightarrow> bool" where
  "own_keys fs \<longleftrightarrow> (\<forall>r \<in> set fs. CHR ''/'' \<notin> set (m_ID r) \<and> base_name (m_Filename r) \<and>
     m_ObjectKey r = object_key (m_TenantID r) (m_ApplicationID r) (m_ID r) (m_Filename r))"

definition unused_key :: "string \<Rightarrow> string \<Rightarrow> string \<Rightarrow> Metadata list \<Rightarrow> bool" where
  "unused_key t a k fs \<longleftrightarrow> (\<forall>r \<in> set fs. (m_TenantID r, m_ApplicationID r, m_IdempotencyKey r) \<noteq> (t, a, k))"

lemma checked_upload:
  assumes "check_upload R S tenant application filename contentType sz checksum key = Inr (t, a, f, ct, cs, k)"
  shows "base_name f" "a \<noteq> []" "cs = ToLower (rt_unicode_lower R) (TrimSpace checksum)"
  using assms filepath_Base_no_sep
  by (auto simp: check_upload_def Let_def base_name_def split: if_splits sum.splits)

lemma own_keys_new:
  assumes "own_keys fs" "unused_key (m_TenantID v) (m_ApplicationID v) (m_IdempotencyKey v) fs"
    and "m_ID v \<notin> m_ID ` set fs" "CHR ''/'' \<notin> set (m_ID v)" "base_name (m_Filename v)"
    and "m_ObjectKey v = object_key (m_TenantID v) (m_ApplicationID v) (m_ID v) (m_Filename v)"
  shows "\<not> list_ex (conflicts v) fs"
proof -
  have "m_ObjectKey r \<noteq> m_ObjectKey v" if "r \<in> set fs" for r
    using that assms(1,3-6) key_id_object_key unfolding own_keys_def by (metis image_eqI)
  moreover have "m_ID r \<noteq> m_ID v" if "r \<in> set fs" for r using that assms(3) by (metis image_eqI)
  ultimately show ?thesis using assms(2) by (auto simp: list_ex_iff conflicts_def unused_key_def)
qed

lemma ensures_GetByKey:
  assumes "healthy issued R S" "unused_key t a k fs"
  shows "ensures (tables issued X fs) (SQLRepository_GetByKey R t a k)
    (\<lambda>r w. r = (zero_Metadata, Some ErrNotFound) \<and> tables issued X fs w)"
  unfolding SQLRepository_GetByKey_def
  by (rule ensures_step [OF ensures_query [OF assms(1), where a = None]])
    (use assms(2) in \<open>auto intro!: tripleI simp: one_row_def select_by_key_def find_None_iff unused_key_def\<close>)

lemma filed_new:
  assumes "distinct (map m_ID fs)" "m_ID v \<notin> m_ID ` set fs" "tables issued X (fs @ [v]) w" "P v"
  shows "filed issued (m_ID v) (m_TenantID v) (m_ApplicationID v) P w"
proof -
  have "distinct (map m_ID (fs @ [v]))" using assms(1,2) by simp
  moreover have "find (row_is (m_ID v) (m_TenantID v) (m_ApplicationID v)) (fs @ [v]) = Some v"
    using find_distinct_id [OF calculation, of v] by (simp add: row_is_def)
  moreover have "tables issued {} (fs @ [v]) w" using assms(3) by (simp add: tables_def)
  ultimately show ?thesis using assms(4) unfolding filed_def by blast
qed

lemma initiate_succeeds:
  assumes h: "healthy issued R S" and e: "entitled ctx p t a"
    and c: "check_upload R S tenant application filename contentType sz checksum key = Inr (t, a, f, ct, cs, k)"
    and fs: "distinct (map m_ID fs)" "own_keys fs" "unused_key t a k fs"
  shows "ensures (tables issued X fs) (Service_InitiateUpload R S ctx tenant application filename contentType sz checksum key)
    (\<lambda>(u, err) w. err = None \<and> m_TenantID (a_File u) = t \<and> m_ApplicationID (a_File u) = a \<and>
      stage ''pending_upload'' ''pending'' 1 sz cs (a_File u) \<and>
      filed issued (m_ID (a_File u)) t a (stage ''pending_upload'' ''pending'' 1 sz cs) w)"
  unfolding Service_InitiateUpload_def c sum.case prod.case
  apply (rule ensures_step [OF ensures_authorize [OF h e]], simp only: sum.case)
  apply (rule ensures_step [OF ensures_GetByKey [OF h fs(3)]], simp only: prod.case option.case)
  apply (rule ensures_else, simp)
  apply (rule ensures_ext_bind [OF healthy_ops(1) [OF h]], rule ensures_uuid_bind [OF h], simp only: Let_def)
  subgoal for now i
    apply (rule ensures_step [OF ensures_create [OF h own_keys_new]])
    using fs(2,3) checked_upload [OF c] apply simp_all
    apply (rule ensures_ext_bind [OF healthy_ops(2) [OF h]])
    subgoal for url
      apply (cases url, simp, simp, rule triple_return)
      apply (frule filed_new [OF fs(1), rotated, where P = "stage ''pending_upload'' ''pending'' 1 sz cs"])
      by (simp_all add: stage_def)
    done
  done

subsection \<open>The life of a file\<close>

text \<open>
  What a client does with a file: it registers the upload (and stores the object), reports it
  complete, has it scanned where the service asks for that, fetches it, and deletes it, each call with
  the version the one before answered.
\<close>

definition upload_session :: "'x runtime \<Rightarrow> 'x Service \<Rightarrow> Ctx \<Rightarrow> string \<Rightarrow> string \<Rightarrow> string \<Rightarrow> string \<Rightarrow> int64 \<Rightarrow> string \<Rightarrow>
    string \<Rightarrow> ('x world, go_error + Authorization \<times> Authorization \<times> Metadata) state" where
  "upload_session R S ctx tenant application filename contentType sz checksum key = do {
     (upload, err) \<leftarrow> Service_InitiateUpload R S ctx tenant application filename contentType sz checksum key;
     case err of Some e \<Rightarrow> State_Monad.return (Inl e) | None \<Rightarrow> do {
       let i = m_ID (a_File upload);
       let t = m_TenantID (a_File upload);
       let a = m_ApplicationID (a_File upload);
       (v, err) \<leftarrow> Service_CompleteUpload R S ctx i t a checksum (m_Version (a_File upload));
       case err of Some e \<Rightarrow> State_Monad.return (Inl e) | None \<Rightarrow> do {
         (v, err) \<leftarrow> (if sv_scanRequired S then Service_ReportScanResult R S ctx i t a ''clean'' (m_Version v)
           else State_Monad.return (v, None));
         case err of Some e \<Rightarrow> State_Monad.return (Inl e) | None \<Rightarrow> do {
           (download, err) \<leftarrow> Service_AuthorizeDownload R S ctx i t a;
           case err of Some e \<Rightarrow> State_Monad.return (Inl e) | None \<Rightarrow> do {
             (gone, err) \<leftarrow> Service_Delete R S ctx i t a (m_Version v);
             State_Monad.return (case err of Some e \<Rightarrow> Inl e | None \<Rightarrow> Inr (upload, download, gone))
           } } } } }"

lemma ensures_call:
  assumes "ensures P m (\<lambda>(r, err) w. err = None \<and> A r w)" "\<And>r. ensures (A r) (k r) Q"
  shows "ensures P (m \<bind> (\<lambda>(r, err). case err of Some e \<Rightarrow> c e | None \<Rightarrow> k r)) Q"
  by (rule triple_bind [OF assms(1)], rule tripleI) (auto dest: tripleD [OF assms(2)])

lemma ensures_fact: "(c \<Longrightarrow> ensures P m Q) \<Longrightarrow> ensures (\<lambda>w. c \<and> P w) m Q"
  by (auto intro!: tripleI dest: tripleD)

lemma session_succeeds:
  assumes h: "healthy issued R S" and e: "entitled ctx p t a" and obj: "object_stored issued S sz cs"
    and c: "check_upload R S tenant application filename contentType sz checksum key = Inr (t, a, f, ct, cs, k)"
    and fs: "distinct (map m_ID fs)" "own_keys fs" "unused_key t a k fs"
  shows "ensures (tables issued X fs) (upload_session R S ctx tenant application filename contentType sz checksum key)
    (\<lambda>r w. \<exists>u d v. r = Inr (u, d, v) \<and> m_ID (a_File d) = m_ID (a_File u) \<and> m_Status (a_File d) = ''ready'' \<and>
      m_Status v = ''deleted'' \<and> (\<exists>row \<in> set (files (w_db w)). m_ID row = m_ID (a_File u) \<and> m_Status row = ''deleted''))"
proof -
  define scan where "scan = (if sv_scanRequired S then ''clean'' else ''skipped'')"
  define n :: int64 where "n = (if sv_scanRequired S then 3 else 2)"
  have n: "1 \<le> sint n" "n \<noteq> max_bigint" "n + 1 \<noteq> max_bigint" by (simp_all add: n_def max_bigint_def)
  have complete: "ensures (filed issued i t a (stage ''pending_upload'' ''pending'' 1 sz cs))
      (Service_CompleteUpload R S ctx i t a checksum 1)
      (\<lambda>(r, err) w. err = None \<and> m_Version r = 2 \<and> filed issued i t a (stage ''ready'' (after_upload S) 2 sz cs) w)" for i
    using complete_succeeds [OF h e obj checked_upload(3) [OF c, symmetric], where n = 1 and i = i]
    by (simp add: max_bigint_def)
  have gone: "\<exists>row \<in> set (files (w_db w)). m_ID row = i \<and> m_Status row = ''deleted''"
    if "filed issued i t a (stage ''deleted'' scan m sz cs) w" for i m w
    using that by (fastforce simp: filed_def tables_def stage_def row_is_def find_Some_iff)
  have scanned: "ensures (filed issued i t a (stage ''ready'' (after_upload S) 2 sz cs))
      (if sv_scanRequired S then Service_ReportScanResult R S ctx i t a ''clean'' (m_Version v) else State_Monad.return (v, None))
      (\<lambda>(r, err) w. err = None \<and> m_Version r = n \<and> filed issued i t a (stage ''ready'' scan n sz cs) w)"
    if "m_Version v = 2" for i v
    using scan_succeeds [OF h e, where n = 2 and i = i] that
    by (auto simp: after_upload_def n_def scan_def max_bigint_def intro!: triple_return)
  have fetched: "scan \<in> {''clean'', ''skipped''}" by (simp add: scan_def)
  show ?thesis unfolding upload_session_def
    apply (rule ensures_call [OF initiate_succeeds [OF h e c fs]], intro ensures_fact, simp only: Let_def)
    subgoal for u
      apply (subgoal_tac "m_Version (a_File u) = 1", simp only:)
       apply (rule ensures_call [OF complete], intro ensures_fact)
       apply (rule ensures_call [OF scanned], simp, intro ensures_fact, simp only:)
       apply (rule ensures_call [OF download_succeeds [OF h e fetched]], intro ensures_fact)
       apply (rule triple_bind [OF delete_succeeds [OF h e n]], simp)
       apply (rule tripleI, use gone in \<open>fastforce simp: row_is_def stage_def\<close>)
      by (simp add: stage_def)
    done
qed

text \<open>
  C5. A file lives its whole life. With working dependencies and no other request active, the upload
  that an entitled caller asks for, with arguments the service accepts and an idempotency key not yet
  used, is registered; once the object is stored as declared, the report that it is complete, the scan
  report where scans are required, the download and the deletion all succeed, and the row ends
  deleted. No error, no version conflict and no constraint of the tables gets in the way.
\<close>

theorem files_live_their_life:
  assumes "healthy issued R S" "entitled ctx p t a" "object_stored issued S sz cs"
    and "check_upload R S tenant application filename contentType sz checksum key = Inr (t, a, f, ct, cs, k)"
    and "distinct (map m_ID (files (w_db w)))" "own_keys (files (w_db w))" "unused_key t a k (files (w_db w))"
    and "used_ids (w_db w) \<subseteq> issued (w_ext w)"
  shows "\<exists>upload download gone w'.
    run_state (upload_session R S ctx tenant application filename contentType sz checksum key) w =
      (Inr (upload, download, gone), w') \<and>
    m_ID (a_File download) = m_ID (a_File upload) \<and> m_Status (a_File download) = ''ready'' \<and> m_Status gone = ''deleted'' \<and>
    (\<exists>row \<in> set (files (w_db w')). m_ID row = m_ID (a_File upload) \<and> m_Status row = ''deleted'')"
proof -
  obtain r w' where run: "run_state (upload_session R S ctx tenant application filename contentType sz checksum key) w = (r, w')"
    by fastforce
  have "tables issued {} (files (w_db w)) w" using assms(8) by (simp add: tables_def)
  from tripleD [OF session_succeeds [OF assms(1-7)] this run] show ?thesis using run by auto
qed

definition demo_issued :: "nat \<Rightarrow> string set" where
  "demo_issued x = {''e'', ''f''} \<union> (\<lambda>j. replicate (Suc j) (CHR ''i'')) ` {..<x}"

definition demo_plain_rt :: "nat runtime" where
  "demo_plain_rt = demo_rt\<lparr>rt_new_envelope := \<lambda>m f. Inr (em_EventID m), rt_event_id := \<lambda>env. env\<rparr>"

lemmas demo_dependencies = demo_plain_rt_def demo_rt_def demo_sv_def NewService_def S3_Storage_def S3_method_defs
  gate_def S3_Enabled_def demo_s3_def demo_minio_def demo_cfg_def allowAllApplications_def

lemma demo_issued_new:
  "replicate (Suc x) (CHR ''i'') \<notin> demo_issued x"
  "insert (replicate (Suc x) (CHR ''i'')) (demo_issued x) \<subseteq> demo_issued (Suc x)"
  by (auto simp: demo_issued_def Cons_replicate_eq lessThan_Suc dest: arg_cong [where f = length])

lemma demo_healthy: "healthy demo_issued demo_plain_rt demo_sv"
  unfolding healthy_def succeeds_def quiet_def using demo_issued_new by (simp add: demo_dependencies del: replicate.simps)

lemma demo_stored: "object_stored demo_issued demo_sv 11 demo_sum"
  by (simp add: object_stored_def succeeds_def demo_dependencies)

lemma demo_entitled: "entitled demo_ctx demo_user ''t1'' ''a1''"
  by (simp add: entitled_def demo_ctx_def demo_user_def enforceTenant_def) code_simp

lemma demo_tables:
  "distinct (map m_ID (files (w_db demo_world)))" "own_keys (files (w_db demo_world))"
  "unused_key ''t1'' ''a1'' ''k2'' (files (w_db demo_world))" "used_ids (w_db demo_world) \<subseteq> demo_issued (w_ext demo_world)"
  by (simp_all add: demo_world_def demo_db_def demo_row_def demo_event_def own_keys_def unused_key_def used_ids_def
      base_name_def object_key_def demo_issued_def)

theorem files_live_their_life_witness:
  "\<exists>upload download gone w'. run_state (upload_session demo_plain_rt demo_sv demo_ctx ''t1'' ''a1'' ''n.txt'' ''text/plain''
      11 demo_sum ''k2'') demo_world = (Inr (upload, download, gone), w') \<and> m_Status gone = ''deleted''"
proof -
  have c: "check_upload demo_plain_rt demo_sv ''t1'' ''a1'' ''n.txt'' ''text/plain'' 11 demo_sum ''k2'' =
      Inr (''t1'', ''a1'', ''n.txt'', ''text/plain'', demo_sum, ''k2'')"
    by code_simp
  show ?thesis using files_live_their_life [OF demo_healthy demo_entitled demo_stored c demo_tables] by auto
qed

end
