(* ===== verification/Multipart_Lifecycle.thy ===== *)
theory Multipart_Lifecycle
  imports File_Lifecycle
begin

text \<open>
  The same for uploads in parts: they are registered, each part gets its URL, and the completion that
  lists the parts assembles the file.
\<close>

subsection \<open>Working dependencies\<close>

text \<open>
  The storage takes uploads in parts, and the clock stays within the lifetime of an upload session, from
  \<open>t0\<close> on.
\<close>

definition takes_parts :: "('x \<Rightarrow> string set) \<Rightarrow> 'x Service \<Rightarrow> bool" where
  "takes_parts issued S \<longleftrightarrow>
     (\<forall>key ct cs. succeeds issued (st_InitiateMultipart (sv_storage S) key ct cs) (\<lambda>u. \<not> isl u)) \<and>
     (\<forall>key u n. succeeds issued (st_PresignUploadPart (sv_storage S) key u n) (\<lambda>u. \<not> isl u)) \<and>
     (\<forall>key u ps. succeeds issued (st_CompleteMultipart (sv_storage S) key u ps) (\<lambda>e. e = None))"

lemma takes_partsD:
  assumes "takes_parts issued S"
  shows "succeeds issued (st_InitiateMultipart (sv_storage S) key ct cs) (\<lambda>u. \<not> isl u)"
    "succeeds issued (st_PresignUploadPart (sv_storage S) key u n) (\<lambda>u. \<not> isl u)"
    "succeeds issued (st_CompleteMultipart (sv_storage S) key u ps) (\<lambda>e. e = None)"
  using assms by (simp_all add: takes_parts_def)

definition in_session :: "'x runtime \<Rightarrow> 'x Service \<Rightarrow> instant \<Rightarrow> bool" where
  "in_session R S t0 \<longleftrightarrow> (\<forall>x. t0 \<le> fst (rt_now R x) \<and> fst (rt_now R x) < t0 + sint (sv_uploadSessionTTL S))"

lemma session_clock:
  assumes "healthy issued R S" "in_session R S t0"
  shows "succeeds issued (rt_now R) (\<lambda>t. t0 \<le> t \<and> t < t0 + sint (sv_uploadSessionTTL S))"
  using assms healthy_ops(1) [OF assms(1)] by (simp add: in_session_def succeeds_def)

text \<open>An upload in \<open>parts\<close> parts that is open for the whole session.\<close>

definition open_parts :: "'x Service \<Rightarrow> instant \<Rightarrow> int32 \<Rightarrow> int64 \<Rightarrow> string \<Rightarrow> Metadata \<Rightarrow> bool" where
  "open_parts S t0 parts sz checksum v \<longleftrightarrow> stage ''pending_upload'' ''pending'' 1 sz checksum v \<and>
     m_UploadMode v = ''multipart'' \<and> m_PartCount v = parts \<and>
     (\<exists>t. m_UploadExpiresAt v = Some t \<and> t0 + sint (sv_uploadSessionTTL S) \<le> t)"

lemma open_partsD:
  assumes "open_parts S t0 parts sz checksum v"
  shows "stage ''pending_upload'' ''pending'' 1 sz checksum v" "m_Status v = ''pending_upload''" "m_Version v = 1"
    "m_UploadMode v = ''multipart''" "m_PartCount v = parts" "m_UploadExpiresAt v \<noteq> None"
    "t0 + sint (sv_uploadSessionTTL S) \<le> the (m_UploadExpiresAt v)"
  using assms by (auto simp: open_parts_def stage_def)

lemma ensures_refiled:
  assumes "distinct (map m_ID fs)" "find (row_is i t a) fs = Some v" "P v" "ensures (filed issued i t a P) m Q"
  shows "ensures (tables issued {} fs) m Q"
  by (rule triple_weaken [OF assms(4)]) (use assms(1-3) in \<open>auto simp: filed_def\<close>)

subsection \<open>The methods\<close>

lemma ensures_validate:
  assumes h: "healthy issued R S" and e: "entitled ctx p t a"
    and c: "check_upload R S tenant application filename contentType sz checksum key = Inr (t, a, f, ct, cs, k)"
  shows "ensures (tables issued X fs) (validateUpload R S ctx tenant application filename contentType sz checksum key)
    (\<lambda>r w. r = (zero_Metadata\<lparr>m_TenantID := t, m_ApplicationID := a, m_Filename := f, m_ContentType := ct, m_Size := sz,
      m_ChecksumSHA256 := cs, m_IdempotencyKey := k, m_CreatedBy := p_ID p, m_UpdatedBy := p_ID p\<rparr>, None) \<and> tables issued X fs w)"
  unfolding validateUpload_def c sum.case prod.case
  by (rule ensures_step [OF ensures_authorize [OF h e]]) (auto intro!: triple_return)

lemma initiate_multipart_succeeds:
  assumes h: "healthy issued R S" "takes_parts issued S" "in_session R S t0" and e: "entitled ctx p t a"
    and c: "check_upload R S tenant application filename contentType sz checksum key = Inr (t, a, f, ct, cs, k)"
    and g: "multipart_geometry sz partSize = Inr (ps, parts)"
    and fs: "distinct (map m_ID fs)" "own_keys fs" "unused_key t a k fs"
  shows "ensures (tables issued X fs)
    (Service_InitiateMultipartUpload R S ctx tenant application filename contentType sz checksum key partSize)
    (\<lambda>(m, err) w. err = None \<and> m_TenantID (ma_File m) = t \<and> m_ApplicationID (ma_File m) = a \<and>
      ma_PartCount m = to_int32 parts \<and> m_Version (ma_File m) = 1 \<and>
      filed issued (m_ID (ma_File m)) t a (open_parts S t0 (to_int32 parts) sz cs) w)"
  unfolding Service_InitiateMultipartUpload_def g sum.case prod.case
  apply (rule ensures_step [OF ensures_validate [OF h(1) e c]], simp only: prod.case option.case)
  apply (rule ensures_step [where a = "(zero_Metadata, Some ErrNotFound)" and M = "tables issued X fs"])
   apply (use ensures_GetByKey [OF h(1) fs(3)] in simp, simp only: prod.case option.case)
  apply (rule ensures_else, simp)
  apply (rule ensures_ext_bind [OF session_clock [OF h(1,3)]], rule ensures_uuid_bind [OF h(1)], simp only: Let_def)
  subgoal for now i
    apply (rule ensures_ext_bind [OF takes_partsD(1) [OF h(2)]])
    subgoal for upload
      apply (cases upload, simp, simp only: sum.case)
      apply (rule ensures_step [OF ensures_create [OF h(1) own_keys_new]])
      using fs(2,3) checked_upload [OF c] apply simp_all
      apply (rule triple_return)
      apply (frule filed_new [OF fs(1), rotated, where P = "open_parts S t0 (to_int32 parts) sz cs"])
      by (simp_all add: open_parts_def stage_def multipartAuthorization_def)
    done
  done

lemma part_succeeds:
  assumes h: "healthy issued R S" "takes_parts issued S" "in_session R S t0" and e: "entitled ctx p t a"
    and n: "1 \<le> sint n" "sint n \<le> sint parts"
  shows "ensures (filed issued i t a (open_parts S t0 parts sz cs)) (Service_AuthorizeUploadPart R S ctx i t a n)
    (\<lambda>(u, err) w. err = None \<and> filed issued i t a (open_parts S t0 parts sz cs) w)"
proof (rule ensures_filed)
  fix fs v
  assume f: "distinct (map m_ID fs)" "find (row_is i t a) fs = Some v" "row_is i t a v" and v: "open_parts S t0 parts sz cs v"
  show "ensures (tables issued {} fs) (Service_AuthorizeUploadPart R S ctx i t a n)
    (\<lambda>(u, err) w. err = None \<and> filed issued i t a (open_parts S t0 parts sz cs) w)"
    unfolding Service_AuthorizeUploadPart_def
    apply (rule ensures_step [OF ensures_authorize [OF h(1) e]], simp only: sum.case)
    apply (rule ensures_step [OF ensures_Get [OF h(1) f(2)]], simp only: prod.case option.case)
    apply (rule ensures_else, use open_partsD [OF v] n in simp)
    apply (rule ensures_ext_bind [OF session_clock [OF h(1,3)]], rule ensures_else, use open_partsD(7) [OF v] in simp)
    apply (rule ensures_ext_bind [OF takes_partsD(2) [OF h(2)]])
    subgoal for now u
      apply (cases u, simp, simp only: sum.case)
      apply (rule ensures_ext_bind [OF healthy_ops(1) [OF h(1)]], rule triple_return)
      using v f unfolding filed_def by auto
    done
qed

subsection \<open>The list of parts\<close>

lemma check_parts_accepts:
  assumes "distinct (map cp_PartNumber ps)" "set seen \<inter> cp_PartNumber ` set ps = {}"
    and "\<And>p. p \<in> set ps \<Longrightarrow> 1 \<le> sint (cp_PartNumber p) \<and> sint (cp_PartNumber p) \<le> sint n \<and> clean_etag (cp_ETag p) \<noteq> []"
  shows "\<exists>sps. check_parts n seen ps = Inr sps"
  using assms
proof (induction ps arbitrary: seen)
  case (Cons q ps)
  have "\<exists>sps. check_parts n (cp_PartNumber q # seen) ps = Inr sps" using Cons.prems by (intro Cons.IH) auto
  then show ?case using Cons.prems by (force simp: Let_def)
qed simp

definition all_parts :: "int32 \<Rightarrow> (nat \<Rightarrow> string) \<Rightarrow> CompletedPart list" where
  "all_parts parts etag = map (\<lambda>k. \<lparr>cp_PartNumber = word_of_nat k, cp_ETag = etag k\<rparr>) [1..<Suc (nat (sint parts))]"

lemma sint_part_number: "k < 2 ^ 31 \<Longrightarrow> sint (word_of_nat k :: int32) = int k"
  using sint_of_int32 [of "int k"] by (simp add: signed_take_bit_int_eq_self)

lemma all_parts_accepted:
  assumes "0 \<le> sint parts" "\<And>k. clean_etag (etag k) \<noteq> []"
  shows "\<exists>sps. check_parts parts [] (all_parts parts etag) = Inr sps" "word_of_nat (length (all_parts parts etag)) = parts"
proof -
  have small: "k < 2 ^ 31" if "k < Suc (nat (sint parts))" for k using that sint_less [of parts] by auto
  have "inj_on (word_of_nat :: nat \<Rightarrow> int32) (set [1..<Suc (nat (sint parts))])"
    by (rule inj_onI) (metis small sint_part_number atLeastLessThan_iff set_upt of_nat_eq_iff)
  then show "\<exists>sps. check_parts parts [] (all_parts parts etag) = Inr sps"
    using small sint_part_number assms
    by (intro check_parts_accepts) (auto simp: all_parts_def distinct_map comp_def)
  show "word_of_nat (length (all_parts parts etag)) = parts"
    using assms(1) by (simp add: all_parts_def del: upt_Suc)
qed

lemma complete_multipart_succeeds:
  assumes h: "healthy issued R S" "takes_parts issued S" and e: "entitled ctx p t a" and obj: "object_stored issued S sz checksum"
    and given: "ToLower (rt_unicode_lower R) (TrimSpace cs) = checksum" "0 \<le> sint parts" "\<And>k. clean_etag (etag k) \<noteq> []"
  shows "ensures (filed issued i t a (open_parts S t0 parts sz checksum))
    (Service_CompleteMultipartUpload R S ctx i t a cs (all_parts parts etag) 1)
    (\<lambda>(r, err) w. err = None \<and> m_Version r = 2 \<and> filed issued i t a (stage ''ready'' (after_upload S) 2 sz checksum) w)"
proof (rule ensures_filed)
  fix fs v
  assume f: "distinct (map m_ID fs)" "find (row_is i t a) fs = Some v" "row_is i t a v" and v: "open_parts S t0 parts sz checksum v"
  obtain sps where sps: "check_parts (m_PartCount v) [] (all_parts parts etag) = Inr sps"
    using all_parts_accepted(1) [OF given(2), where etag = etag] given(3) open_partsD(5) [OF v] by auto
  have complete: "ensures (filed issued i t a (stage ''pending_upload'' ''pending'' 1 sz checksum))
      (Service_CompleteUpload R S ctx i t a cs 1)
      (\<lambda>(r, err) w. err = None \<and> m_Version r = 2 \<and> filed issued i t a (stage ''ready'' (after_upload S) 2 sz checksum) w)"
    using complete_succeeds [OF h(1) e obj given(1), where n = 1 and i = i] by (simp add: max_bigint_def)
  show "ensures (tables issued {} fs) (Service_CompleteMultipartUpload R S ctx i t a cs (all_parts parts etag) 1)
    (\<lambda>(r, err) w. err = None \<and> m_Version r = 2 \<and> filed issued i t a (stage ''ready'' (after_upload S) 2 sz checksum) w)"
    unfolding Service_CompleteMultipartUpload_def
    apply (rule ensures_step [OF ensures_authorize [OF h(1) e]], simp only: sum.case)
    apply (rule ensures_step [OF ensures_Get [OF h(1) f(2)]], simp only: prod.case option.case)
    apply (rule ensures_else, use open_partsD [OF v] all_parts_accepted(2) [OF given(2), where etag = etag] given(3) in simp, simp only: sps sum.case)
    apply (rule ensures_ext_bind [OF takes_partsD(3) [OF h(2)]], simp only: option.case)
    by (rule ensures_refiled [OF f(1,2) open_partsD(1) [OF v] complete])
qed

subsection \<open>The life of an upload in parts\<close>

text \<open>
  The client registers the upload, asks for the URL of every part (and stores the parts), and reports them.
\<close>

fun authorize_parts :: "'x runtime \<Rightarrow> 'x Service \<Rightarrow> Ctx \<Rightarrow> string \<Rightarrow> string \<Rightarrow> string \<Rightarrow> int32 list \<Rightarrow>
    ('x world, go_error + Authorization list) state" where
  "authorize_parts R S ctx i t a [] = State_Monad.return (Inr [])"
| "authorize_parts R S ctx i t a (n # ns) = do {
     (u, err) \<leftarrow> Service_AuthorizeUploadPart R S ctx i t a n;
     case err of
       Some e \<Rightarrow> State_Monad.return (Inl e)
     | None \<Rightarrow> do {
         rest \<leftarrow> authorize_parts R S ctx i t a ns;
         State_Monad.return (map_sum (\<lambda>e. e) ((#) u) rest)
       } }"

definition multipart_session :: "'x runtime \<Rightarrow> 'x Service \<Rightarrow> Ctx \<Rightarrow> string \<Rightarrow> string \<Rightarrow> string \<Rightarrow> string \<Rightarrow> int64 \<Rightarrow> string \<Rightarrow>
    string \<Rightarrow> int64 \<Rightarrow> (nat \<Rightarrow> string) \<Rightarrow> ('x world, go_error + MultipartAuthorization \<times> Authorization list \<times> Metadata) state" where
  "multipart_session R S ctx tenant application filename contentType sz checksum key partSize etag = do {
     (m, err) \<leftarrow> Service_InitiateMultipartUpload R S ctx tenant application filename contentType sz checksum key partSize;
     case err of Some e \<Rightarrow> State_Monad.return (Inl e) | None \<Rightarrow> do {
       let i = m_ID (ma_File m);
       let t = m_TenantID (ma_File m);
       let a = m_ApplicationID (ma_File m);
       let parts = all_parts (ma_PartCount m) etag;
       urls \<leftarrow> authorize_parts R S ctx i t a (map cp_PartNumber parts);
       case urls of Inl e \<Rightarrow> State_Monad.return (Inl e) | Inr us \<Rightarrow> do {
         (v, err) \<leftarrow> Service_CompleteMultipartUpload R S ctx i t a checksum parts (m_Version (ma_File m));
         State_Monad.return (case err of Some e \<Rightarrow> Inl e | None \<Rightarrow> Inr (m, us, v))
       } } }"

lemma authorize_parts_succeeds:
  assumes h: "healthy issued R S" "takes_parts issued S" "in_session R S t0" and e: "entitled ctx p t a"
    and "\<And>n. n \<in> set ns \<Longrightarrow> 1 \<le> sint n \<and> sint n \<le> sint parts"
  shows "ensures (filed issued i t a (open_parts S t0 parts sz cs)) (authorize_parts R S ctx i t a ns)
    (\<lambda>r w. \<exists>us. r = Inr us \<and> length us = length ns \<and> filed issued i t a (open_parts S t0 parts sz cs) w)"
  using assms(5)
proof (induction ns)
  case (Cons n ns)
  have n: "1 \<le> sint n" "sint n \<le> sint parts" using Cons.prems by auto
  show ?case unfolding authorize_parts.simps
    by (rule ensures_call [OF part_succeeds [OF h e n]], rule triple_bind [OF Cons.IH])
      (use Cons.prems in \<open>auto intro!: tripleI\<close>)
qed (auto intro!: triple_return)

lemma multipart_session_succeeds:
  assumes h: "healthy issued R S" "takes_parts issued S" "in_session R S t0" and e: "entitled ctx p t a"
    and obj: "object_stored issued S sz cs" and tags: "\<And>k. clean_etag (etag k) \<noteq> []"
    and c: "check_upload R S tenant application filename contentType sz checksum key = Inr (t, a, f, ct, cs, k)"
    and g: "multipart_geometry sz partSize = Inr (ps, parts)"
    and fs: "distinct (map m_ID fs)" "own_keys fs" "unused_key t a k fs"
  shows "ensures (tables issued X fs)
    (multipart_session R S ctx tenant application filename contentType sz checksum key partSize etag)
    (\<lambda>r w. \<exists>m us v. r = Inr (m, us, v) \<and> int (length us) = sint parts \<and>
      (\<exists>row \<in> set (files (w_db w)). m_ID row = m_ID (ma_File m) \<and> m_Status row = ''ready'' \<and> m_Version row = 2))"
proof -
  note exact = multipart_geometry_exact [OF g]
  have pos: "0 \<le> sint (to_int32 parts)" using exact by simp
  have numbers: "1 \<le> sint n \<and> sint n \<le> sint (to_int32 parts)"
    if "n \<in> set (map cp_PartNumber (all_parts (to_int32 parts) etag))" for n
    using that exact(6,7) sint_part_number by (auto simp: all_parts_def simp del: upt_Suc)
  have len: "int (length (all_parts (to_int32 parts) etag)) = sint parts" using exact by (simp add: all_parts_def del: upt_Suc)
  have ready: "\<exists>row \<in> set (files (w_db w)). m_ID row = i \<and> m_Status row = ''ready'' \<and> m_Version row = 2"
    if "filed issued i t a (stage ''ready'' scan 2 sz cs) w" for i scan w
    using that by (fastforce simp: filed_def tables_def stage_def row_is_def find_Some_iff)
  show ?thesis unfolding multipart_session_def
    apply (rule ensures_call [OF initiate_multipart_succeeds [OF h e c g fs]], intro ensures_fact, simp only: Let_def)
    subgoal for m
      apply (rule triple_bind [OF authorize_parts_succeeds [OF h e numbers]], assumption)
      subgoal for urls
        apply (cases urls)
         apply (rule tripleI, simp)
        apply (simp only: sum.case sum.inject simp_thms ex_simps, simp)
        apply (rule ensures_fact)
        apply (rule triple_bind [OF complete_multipart_succeeds [OF h(1,2) e obj checked_upload(3) [OF c, symmetric] pos tags]])
        apply (rule tripleI, use ready len in \<open>fastforce\<close>)
        done
      done
    done
qed

text \<open>
  C6. An upload in parts goes through. With working dependencies, no other request active and the clock within the
  lifetime of the session, an upload in parts that an entitled caller asks for, with arguments and a part
  size the service accepts and an unused idempotency key, is registered; every one of its parts, as many as the size
  rounded up to whole parts, gets its URL; and the completion that lists the parts with their entity tags makes the
  file ready, in version 2.
\<close>

theorem multipart_uploads_complete:
  assumes "healthy issued R S" "takes_parts issued S" "in_session R S t0" "entitled ctx p t a"
    and "object_stored issued S sz cs" "\<And>k. clean_etag (etag k) \<noteq> []"
    and "check_upload R S tenant application filename contentType sz checksum key = Inr (t, a, f, ct, cs, k)"
    and "multipart_geometry sz partSize = Inr (ps, parts)"
    and "distinct (map m_ID (files (w_db w)))" "own_keys (files (w_db w))" "unused_key t a k (files (w_db w))"
    and "used_ids (w_db w) \<subseteq> issued (w_ext w)"
  shows "\<exists>upload urls v w'.
    run_state (multipart_session R S ctx tenant application filename contentType sz checksum key partSize etag) w =
      (Inr (upload, urls, v), w') \<and>
    int (length urls) = (sint sz + sint ps - 1) div sint ps \<and>
    (\<exists>row \<in> set (files (w_db w')). m_ID row = m_ID (ma_File upload) \<and> m_Status row = ''ready'' \<and> m_Version row = 2)"
proof -
  obtain r w' where run:
    "run_state (multipart_session R S ctx tenant application filename contentType sz checksum key partSize etag) w = (r, w')"
    by fastforce
  have "tables issued {} (files (w_db w)) w" using assms(12) by (simp add: tables_def)
  from tripleD [OF multipart_session_succeeds [OF assms(1-11)] this run] show ?thesis
    using run multipart_geometry_exact(4) [OF assms(8)] by auto
qed

definition demo_parts_rt :: "nat runtime" where
  "demo_parts_rt = demo_plain_rt\<lparr>rt_now := \<lambda>x. (0, x)\<rparr>"

definition demo_parts_sv :: "nat Service" where
  "demo_parts_sv = demo_sv\<lparr>sv_storage := (sv_storage demo_sv)
     \<lparr>st_Stat := \<lambda>key x. ((\<lparr>oi_Size = 12000000, oi_ChecksumSHA256 = []\<rparr>, None), x)\<rparr>\<rparr>"

lemma demo_takes_parts:
  "healthy demo_issued demo_parts_rt demo_parts_sv" "takes_parts demo_issued demo_parts_sv" "in_session demo_parts_rt demo_parts_sv 0"
  "object_stored demo_issued demo_parts_sv 12000000 demo_sum"
proof -
  show "healthy demo_issued demo_parts_rt demo_parts_sv" unfolding healthy_def succeeds_def quiet_def using demo_issued_new
    by (simp add: demo_parts_rt_def demo_parts_sv_def demo_dependencies del: replicate.simps)
qed (simp_all add: takes_parts_def in_session_def object_stored_def succeeds_def demo_parts_rt_def demo_parts_sv_def demo_dependencies)

theorem multipart_uploads_complete_witness:
  "\<exists>upload urls v w'. run_state (multipart_session demo_parts_rt demo_parts_sv demo_ctx ''t1'' ''a1'' ''n.txt'' ''text/plain''
      12000000 demo_sum ''k2'' 0 (\<lambda>k. ''etag'')) demo_world = (Inr (upload, urls, v), w') \<and> length urls = 2"
proof -
  have c: "check_upload demo_parts_rt demo_parts_sv ''t1'' ''a1'' ''n.txt'' ''text/plain'' 12000000 demo_sum ''k2'' =
      Inr (''t1'', ''a1'', ''n.txt'', ''text/plain'', demo_sum, ''k2'')"
  proof -
    have "check_upload demo_parts_rt demo_parts_sv = check_upload demo_plain_rt demo_sv"
    proof -
      have "rt_unicode_lower demo_parts_rt = rt_unicode_lower demo_plain_rt"
        "st_Enabled (sv_storage demo_parts_sv) = st_Enabled (sv_storage demo_sv)"
        "st_MaxUploadBytes (sv_storage demo_parts_sv) = st_MaxUploadBytes (sv_storage demo_sv)"
        by (simp_all add: demo_parts_rt_def demo_parts_sv_def)
      then show ?thesis by (intro ext) (simp only: check_upload_def)
    qed
    moreover have "check_upload demo_plain_rt demo_sv ''t1'' ''a1'' ''n.txt'' ''text/plain'' 12000000 demo_sum ''k2'' =
        Inr (''t1'', ''a1'', ''n.txt'', ''text/plain'', demo_sum, ''k2'')"
      by code_simp
    ultimately show ?thesis by simp
  qed
  have g: "multipart_geometry 12000000 0 = Inr (8388608, 2)" by code_simp
  have t: "clean_etag ''etag'' \<noteq> []" by code_simp
  show ?thesis using multipart_uploads_complete [OF demo_takes_parts(1-3) demo_entitled demo_takes_parts(4) t c g demo_tables] by auto
qed

end
