(* ===== verification/File_Listing.thy ===== *)
theory File_Listing
  imports File_Methods
begin

text \<open>
  Listing and the clean-up of expired uploads: what a page contains, that the pages of a
  filter partition its result, and what one run of the clean-up job does.
\<close>

text \<open>Newest first: by creation time, then by id, both descending.\<close>

definition newer_or_same :: "Metadata \<Rightarrow> Metadata \<Rightarrow> bool" where
  "newer_or_same a b \<longleftrightarrow> (m_CreatedAt b, m_ID b) \<le> (m_CreatedAt a, m_ID a)"

definition matching_rows :: "'x runtime \<Rightarrow> ListFilter \<Rightarrow> database \<Rightarrow> Metadata list" where
  "matching_rows R flt d = newest_first (List.filter (where_matches R flt) (files d))"

subsection \<open>Pages\<close>

lemma newest_first_sorted: "sorted_wrt newer_or_same (newest_first rows)"
  unfolding newest_first_def newer_or_same_def sorted_wrt_rev
  using sorted_sort_key [of "\<lambda>r. (m_CreatedAt r, m_ID r)" rows] by (simp add: sorted_map)

lemma set_newest_first [simp]: "set (newest_first rows) = set rows"
  by (simp add: newest_first_def)

lemma length_newest_first [simp]: "length (newest_first rows) = length rows"
  by (simp add: newest_first_def)

lemma run_sql_query:
  assumes "run_state (sql_query R q) w = (Inr a, w')"
  shows "sees R (w_db w) (w_db w')" "a = q (w_db w')"
  using assms by (auto simp: sql_query_def run_db_prims sees_def split: prod.splits option.splits
      dest!: arg_cong [of _ _ fst])

lemma run_List:
  assumes "quiet R" "run_state (SQLRepository_List R flt) w = ((rows, tot, None), w')"
  shows "w_db w' = w_db w" "tot = int (length (matching_rows R flt (w_db w)))"
    "select_page R flt (lf_PageSize flt) ((lf_Page flt - 1) * lf_PageSize flt) (w_db w) = Inr rows"
proof -
  let ?count = "\<lambda>d. int (length (List.filter (where_matches R flt) (files d)))"
  let ?page = "select_page R flt (lf_PageSize flt) ((lf_Page flt - 1) * lf_PageSize flt)"
  obtain c w1 where c: "run_state (sql_query R ?count) w = (c, w1)" by fastforce
  with assms(2) obtain n where n: "c = Inr n" by (cases c) (auto simp: SQLRepository_List_def)
  obtain p w2 where p: "run_state (sql_query R ?page) w1 = (p, w2)" by fastforce
  with assms(2) c n have eq: "p = Inr (Inr rows)" "tot = n" "w2 = w'"
    by (auto simp: SQLRepository_List_def split: sum.splits)
  note q1 = run_sql_query [OF c [unfolded n]] and q2 = run_sql_query [OF p [unfolded eq]]
  show "w_db w' = w_db w" using q1(1) q2(1) assms(1) eq(3) by (simp add: sees_quiet)
  then show "tot = int (length (matching_rows R flt (w_db w)))"
    "?page (w_db w) = Inr rows"
    using q1 q2 assms(1) eq by (auto simp: sees_quiet matching_rows_def)
qed

lemma select_page_rows:
  assumes "select_page R flt limit offset d = Inr rows"
  shows "rows = take (nat (sint limit)) (drop (nat (sint offset)) (matching_rows R flt d))"
  using assms by (auto simp: select_page_def matching_rows_def split: if_splits)

lemma run_Service_List:
  assumes "quiet R" "run_state (Service_List R S ctx flt) w = ((page, None), w')"
  defines "f \<equiv> page_defaults (normal_filter R flt)"
  shows "w_db w' = w_db w" "sint (lf_PageSize f) \<le> 100" "mp_Page page = lf_Page f"
    "mp_PageSize page = lf_PageSize f"
    "mp_Total page = int (length (matching_rows R f (w_db w)))"
    "mp_Files page = take (nat (sint (lf_PageSize f)))
      (drop (nat (sint ((lf_Page f - 1) * lf_PageSize f))) (matching_rows R f (w_db w)))"
proof -
  let ?n = "normal_filter R flt"
  obtain auth w1 where a: "run_state (authorize S ctx (lf_TenantID ?n) (lf_ApplicationID ?n)) w = (auth, w1)"
    by fastforce
  with assms(2) obtain caller where auth: "auth = Inr caller"
    by (cases auth) (auto simp: Service_List_def Let_def)
  have db: "w_db w1 = w_db w" by (rule silentD [OF silent_authorize a])
  show small: "sint (lf_PageSize f) \<le> 100"
    using assms(2) a auth by (auto simp: Service_List_def Let_def f_def split: if_splits)
  obtain rows tot err w2 where l: "run_state (SQLRepository_List R f) w1 = ((rows, tot, err), w2)"
    by (metis prod.collapse)
  have r: "err = None" "w2 = w'" "page = \<lparr>mp_Files = rows, mp_Total = tot, mp_Page = lf_Page f,
      mp_PageSize = lf_PageSize f\<rparr>"
    using assms(2) a auth small l by (auto simp: Service_List_def Let_def f_def [symmetric])
  note list = run_List [OF assms(1) l [unfolded r(1)]]
  show "w_db w' = w_db w" "mp_Page page = lf_Page f" "mp_PageSize page = lf_PageSize f"
    "mp_Total page = int (length (matching_rows R f (w_db w)))"
    "mp_Files page = take (nat (sint (lf_PageSize f)))
      (drop (nat (sint ((lf_Page f - 1) * lf_PageSize f))) (matching_rows R f (w_db w)))"
    using list select_page_rows [OF list(3)] r db by simp_all
qed

text \<open>
  C17. A page of \<open>List\<close> has at most 100 files, newest first, all of the tenant and application
  asked for and matching every filter; the total is the number of all matching files; and listing
  changes nothing. (Page numbers below 1 mean the first page, page sizes below 1 mean 20.)
\<close>

theorem list_returns_matching_page:
  assumes "quiet R" "run_state (Service_List R S ctx flt) w = ((page, None), w')"
  shows "w_db w' = w_db w \<and> length (mp_Files page) \<le> 100 \<and>
    sorted_wrt newer_or_same (mp_Files page) \<and>
    (\<forall>r \<in> set (mp_Files page). r \<in> set (files (w_db w)) \<and> m_TenantID r = TrimSpace (lf_TenantID flt) \<and>
       m_ApplicationID r = TrimSpace (lf_ApplicationID flt) \<and>
       where_matches R (page_defaults (normal_filter R flt)) r) \<and>
    mp_Total page = int (length (List.filter (where_matches R (page_defaults (normal_filter R flt)))
      (files (w_db w))))"
proof -
  let ?f = "page_defaults (normal_filter R flt)"
  note l = run_Service_List [OF assms]
  have len: "length (mp_Files page) \<le> 100" unfolding l(6) using l(2) by simp
  have sub: "set (mp_Files page) \<subseteq> set (matching_rows R ?f (w_db w))"
    unfolding l(6) by (meson in_set_dropD in_set_takeD subsetI)
  have "sorted_wrt newer_or_same (mp_Files page)"
    unfolding l(6) matching_rows_def by (intro sorted_wrt_take sorted_wrt_drop newest_first_sorted)
  then show ?thesis using l(1,5) len sub
    by (auto simp: matching_rows_def where_matches_def normal_filter_def page_defaults_def)
qed

theorem list_returns_matching_page_witness:
  "\<exists>page w'. run_state (Service_List demo_rt demo_sv demo_ctx demo_filter) demo_world = ((page, None), w') \<and>
    length (mp_Files page) \<le> 100 \<and> mp_Total page = 1"
proof -
  let ?m = "Service_List demo_rt demo_sv demo_ctx demo_filter"
  obtain page err w' where run: "run_state ?m demo_world = ((page, err), w')" by (metis prod.collapse)
  have "snd (fst (run_state ?m demo_world)) = None" by code_simp
  then have run': "run_state ?m demo_world = ((page, None), w')" using run by simp
  have "length (List.filter (where_matches demo_rt (page_defaults (normal_filter demo_rt demo_filter)))
      (files (w_db demo_world))) = 1" by code_simp
  then show ?thesis using list_returns_matching_page [OF demo_quiet run'] run' by auto
qed

lemma concat_pages: "concat (map (\<lambda>k. take p (drop (k * p) xs)) [0..<n]) = take (n * p) xs"
  by (induction n) (simp_all add: take_add [symmetric] add.commute)

lemma page_offset:
  fixes ps :: int64
  assumes "0 < sint ps" "int k * sint ps < 2 ^ 63"
  shows "nat (sint ((word_of_nat (Suc k) - 1) * ps)) = k * nat (sint ps)"
proof -
  have "(word_of_nat (Suc k) - 1) * ps = (word_of_int (int k * sint ps) :: int64)" by simp
  also have "sint \<dots> = int k * sint ps"
    by (rule sint64_exact) (use assms in \<open>auto intro: order_trans [of _ 0]\<close>)
  finally show ?thesis using assms(1) by (simp add: nat_mult_distrib)
qed

text \<open>
  C18. Paging loses and repeats nothing: while nothing changes, the pages 1 to n of a filter, put one after the
  other, are exactly the matching files, newest first, as soon as n pages can hold them all (and
  the offsets fit in 64 bits).
\<close>

theorem pages_partition_the_result:
  fixes flt :: ListFilter
  assumes "quiet R" "0 < sint (lf_PageSize flt)" "int n * sint (lf_PageSize flt) < 2 ^ 63"
    and "length (matching_rows R (normal_filter R flt) (w_db w)) \<le> n * nat (sint (lf_PageSize flt))"
    and "\<And>k. k < n \<Longrightarrow>
      run_state (Service_List R S ctx (flt\<lparr>lf_Page := word_of_nat (Suc k)\<rparr>)) w = ((page k, None), w' k)"
  shows "concat (map (\<lambda>k. mp_Files (page k)) [0..<n]) = matching_rows R (normal_filter R flt) (w_db w)"
proof -
  let ?ps = "lf_PageSize flt" and ?rows = "matching_rows R (normal_filter R flt) (w_db w)"
  have "mp_Files (page k) = take (nat (sint ?ps)) (drop (k * nat (sint ?ps)) ?rows)" if "k < n" for k
  proof -
    let ?f = "page_defaults (normal_filter R (flt\<lparr>lf_Page := word_of_nat (Suc k)\<rparr>))"
    have kn: "int k * sint ?ps < 2 ^ 63" "int (Suc k) < 2 ^ 63"
    proof -
      have "int (Suc k) * 1 \<le> int n * sint ?ps" by (rule mult_mono) (use that assms(2) in auto)
      then show "int (Suc k) < 2 ^ 63" using assms(3) by (simp only: mult_1_right)
      have "int k * sint ?ps \<le> int n * sint ?ps" by (rule mult_right_mono) (use that assms(2) in auto)
      then show "int k * sint ?ps < 2 ^ 63" using assms(3) by (rule le_less_trans)
    qed
    have "sint (word_of_int (int (Suc k)) :: int64) = int (Suc k)"
      by (rule sint64_exact) (use kn(2) in auto)
    then have "sint (word_of_nat (Suc k) :: int64) = int (Suc k)" by (simp only: of_int_of_nat_eq)
    then have page: "lf_Page ?f = word_of_nat (Suc k)" "lf_PageSize ?f = ?ps"
      using assms(2) by (simp_all add: page_defaults_def normal_filter_def)
    have same: "matching_rows R ?f (w_db w) = ?rows"
      unfolding matching_rows_def
      by (intro arg_cong [of _ _ newest_first] filter_cong refl)
        (simp add: where_matches_def page_defaults_def normal_filter_def)
    from run_Service_List(6) [OF assms(1) assms(5) [OF that]]
    show ?thesis unfolding page same page_offset [OF assms(2) kn(1)] .
  qed
  then have "concat (map (\<lambda>k. mp_Files (page k)) [0..<n]) =
      concat (map (\<lambda>k. take (nat (sint ?ps)) (drop (k * nat (sint ?ps)) ?rows)) [0..<n])"
    by (intro arg_cong [of _ _ concat] map_cong) auto
  then show ?thesis using assms(4) by (simp add: concat_pages)
qed

theorem pages_partition_the_result_witness:
  "concat (map (\<lambda>k. mp_Files (fst (fst (run_state (Service_List demo_rt demo_sv demo_ctx
      (demo_filter\<lparr>lf_PageSize := 5, lf_Page := word_of_nat (Suc k)\<rparr>)) demo_world)))) [0..<1]) =
    matching_rows demo_rt (normal_filter demo_rt (demo_filter\<lparr>lf_PageSize := 5\<rparr>)) (w_db demo_world)"
proof (rule pages_partition_the_result [OF demo_quiet])
  show "run_state (Service_List demo_rt demo_sv demo_ctx
      (demo_filter\<lparr>lf_PageSize := 5, lf_Page := word_of_nat (Suc k)\<rparr>)) demo_world =
    ((fst (fst (run_state (Service_List demo_rt demo_sv demo_ctx
      (demo_filter\<lparr>lf_PageSize := 5, lf_Page := word_of_nat (Suc k)\<rparr>)) demo_world)), None),
      snd (run_state (Service_List demo_rt demo_sv demo_ctx
      (demo_filter\<lparr>lf_PageSize := 5, lf_Page := word_of_nat (Suc k)\<rparr>)) demo_world))" if "k < 1" for k
  proof -
    have "snd (fst (run_state (Service_List demo_rt demo_sv demo_ctx
      (demo_filter\<lparr>lf_PageSize := 5, lf_Page := word_of_nat (Suc 0)\<rparr>)) demo_world)) = None" by code_simp
    then show ?thesis using that by (simp add: prod_eq_iff)
  qed
  show "length (matching_rows demo_rt (normal_filter demo_rt (demo_filter\<lparr>lf_PageSize := 5\<rparr>)) (w_db demo_world))
    \<le> 1 * nat (sint (lf_PageSize (demo_filter\<lparr>lf_PageSize := 5\<rparr>)))" by code_simp
qed simp_all

subsection \<open>Cleaning up expired uploads\<close>

text \<open>
  The state after the loop over \<open>vs\<close>, started with the counter \<open>n\<close> and the errors
  \<open>errs\<close> in the database \<open>d\<close>.
\<close>

definition cleanup_post ::
  "nat \<Rightarrow> go_error list \<Rightarrow> Metadata list \<Rightarrow> database \<Rightarrow> nat \<times> go_error list \<Rightarrow> database \<Rightarrow> bool" where
  "cleanup_post n errs vs d r d' \<longleftrightarrow>
     db_ok d' \<and> fst r + length (snd r) = n + length errs + length vs \<and> n \<le> fst r \<and>
     length errs \<le> length (snd r) \<and>
     (\<forall>x \<in> set (files d). m_ID x \<notin> m_ID ` set vs \<longrightarrow> x \<in> set (files d')) \<and>
     (length (snd r) = length errs \<longrightarrow>
        (\<forall>v \<in> set vs. \<exists>x \<in> set (files d'). core x = core v \<and> m_Status x = ''expired'' \<and>
           m_Version x = m_Version v + 1))"

lemma expire_written:
  assumes "db_ok d" "v \<in> set (files d)" "m_Status v = ''pending_upload''"
    and "written R (v\<lparr>m_Status := ''expired'', m_UpdatedAt := now, m_UpdatedBy := lifecycle_actor\<rparr>)
      (m_Version v) d d'"
  shows "db_ok d'" "\<forall>x \<in> set (files d). m_ID x \<noteq> m_ID v \<longrightarrow> x \<in> set (files d')"
    "\<exists>x \<in> set (files d'). core x = core v \<and> m_Status x = ''expired'' \<and> m_Version x = m_Version v + 1"
proof -
  define u where "u = v\<lparr>m_Status := ''expired'', m_UpdatedAt := now, m_UpdatedBy := lifecycle_actor\<rparr>"
  have lc: "lifecycle False v u" unfolding u_def stamp_fields by (rule lifecycle.expire [OF assms(3)])
  have wr: "written R u (m_Version v) d d'" using assms(4) by (simp add: u_def)
  note w = written_ok [OF assms(1) holds_read [OF assms(1,2)] lc wr]
  show "db_ok d'" by (rule w(1))
  show "\<exists>x \<in> set (files d'). core x = core v \<and> m_Status x = ''expired'' \<and> m_Version x = m_Version v + 1"
    by (rule bexI [OF _ w(3)]) (simp add: u_def core_def)
  from wr obtain n d1 where up: "update_file u (m_Version v) d = Inr (n, d1)" "n \<noteq> 0"
    "announces R (u\<lparr>m_Version := m_Version v + 1\<rparr>) d1 d'" unfolding written_def by blast
  have "core v = core u" by (simp add: u_def core_def)
  moreover have "distinct (map m_ID (files d))" using assms(1) by (simp add: db_ok_def)
  ultimately have "files d' = map (\<lambda>x. if m_ID x = m_ID u then u\<lparr>m_Version := m_Version v + 1\<rparr> else x) (files d)"
    using update_replaces(3) [OF _ assms(2) _ up(1,2)] announces_tables(1) [OF up(3)] by simp
  then show "\<forall>x \<in> set (files d). m_ID x \<noteq> m_ID v \<longrightarrow> x \<in> set (files d')" by (auto simp: u_def)
qed

text \<open>One failed and one successful round in front of the rest of the loop.\<close>

lemma cleanup_post_failed:
  assumes "cleanup_post n (errs @ [e]) vs d1 r d'" "\<forall>x \<in> set (files d). m_ID x \<noteq> m_ID v \<longrightarrow> x \<in> set (files d1)"
  shows "cleanup_post n errs (v # vs) d r d'"
  using assms unfolding cleanup_post_def by auto

lemma cleanup_post_cleaned:
  assumes "cleanup_post (Suc n) errs vs d1 r d'" "\<forall>x \<in> set (files d). m_ID x \<noteq> m_ID v \<longrightarrow> x \<in> set (files d1)"
    and "\<exists>x \<in> set (files d1). core x = core v \<and> m_Status x = ''expired'' \<and> m_Version x = m_Version v + 1"
    and "m_ID v \<notin> m_ID ` set vs"
  shows "cleanup_post n errs (v # vs) d r d'"
proof -
  from assms(3) obtain x where x: "x \<in> set (files d1)" "core x = core v" "m_Status x = ''expired''"
    "m_Version x = m_Version v + 1" by blast
  have "x \<in> set (files d')"
    using assms(1,4) x(1) core_fields(1) [OF x(2)] unfolding cleanup_post_def by auto
  with x assms(1,2) show ?thesis unfolding cleanup_post_def by auto
qed

lemma triple_cleanup_loop:
  assumes "quiet R" "db_ok d" "set vs \<subseteq> set (files d)" "distinct (map m_ID vs)"
    and "\<forall>v \<in> set vs. m_Status v = ''pending_upload''"
  shows "triple w_db (\<lambda>c. c = d) (cleanup_loop R S n errs vs) (cleanup_post n errs vs d)"
  using assms(2-5)
proof (induction vs arbitrary: n errs d)
  case Nil
  then show ?case by (auto intro!: triple_return simp: cleanup_post_def)
next
  case (Cons v vs)
  have v: "v \<in> set (files d)" "m_Status v = ''pending_upload''" "m_ID v \<notin> m_ID ` set vs"
    using Cons.prems by auto
  have rest: "triple w_db (\<lambda>c. c = c1) (cleanup_loop R S m es vs) (cleanup_post m es vs c1)"
    if "db_ok c1" "\<forall>x \<in> set (files d). m_ID x \<noteq> m_ID v \<longrightarrow> x \<in> set (files c1)" for c1 m es
  proof (rule Cons.IH [OF that(1)])
    show "set vs \<subseteq> set (files c1)"
    proof
      fix x assume "x \<in> set vs"
      then show "x \<in> set (files c1)" using that(2) Cons.prems(2) v(3) by (metis image_eqI insert_subset
        list.simps(15) subsetD)
    qed
  qed (use Cons.prems in auto)
  have failed: "triple w_db (\<lambda>c. c = c1) (cleanup_loop R S n (errs @ [e]) vs) (cleanup_post n errs (v # vs) d)"
    if "db_ok c1" "\<forall>x \<in> set (files d). m_ID x \<noteq> m_ID v \<longrightarrow> x \<in> set (files c1)" for c1 e
    by (rule triple_weaken [OF rest [OF that]]) (auto elim: cleanup_post_failed [OF _ that(2)])
  have cleaned: "triple w_db (written R (v\<lparr>m_Status := ''expired'', m_UpdatedAt := now,
        m_UpdatedBy := lifecycle_actor\<rparr>) (m_Version v) d)
      (cleanup_loop R S (Suc n) errs vs) (cleanup_post n errs (v # vs) d)" for now
  proof (rule triple_known)
    fix c1 assume "written R (v\<lparr>m_Status := ''expired'', m_UpdatedAt := now,
        m_UpdatedBy := lifecycle_actor\<rparr>) (m_Version v) d c1"
    note w = expire_written [OF Cons.prems(1) v(1,2) this]
    show "triple w_db (\<lambda>c. c = c1) (cleanup_loop R S (Suc n) errs vs) (cleanup_post n errs (v # vs) d)"
      by (rule triple_weaken [OF rest [OF w(1,2)]]) (auto elim: cleanup_post_cleaned [OF _ w(2,3) v(3)])
  qed
  have unsaved: "triple w_db (\<lambda>c. c = d \<or> sees R d c \<or> (\<exists>c0. sees R d c0 \<and>
        written R (v\<lparr>m_Status := ''expired'', m_UpdatedAt := now, m_UpdatedBy := lifecycle_actor\<rparr>)
          (m_Version v) c0 c))
      (cleanup_loop R S n (errs @ [e]) vs) (cleanup_post n errs (v # vs) d)" for now e
  proof (rule triple_known)
    fix c1 assume "c1 = d \<or> sees R d c1 \<or> (\<exists>c0. sees R d c0 \<and>
        written R (v\<lparr>m_Status := ''expired'', m_UpdatedAt := now, m_UpdatedBy := lifecycle_actor\<rparr>)
          (m_Version v) c0 c1)"
    then consider "c1 = d" | "written R (v\<lparr>m_Status := ''expired'', m_UpdatedAt := now,
        m_UpdatedBy := lifecycle_actor\<rparr>) (m_Version v) d c1" using assms(1) by (auto simp: sees_quiet)
    then show "triple w_db (\<lambda>c. c = c1) (cleanup_loop R S n (errs @ [e]) vs) (cleanup_post n errs (v # vs) d)"
      by cases (use failed Cons.prems(1) expire_written [OF Cons.prems(1) v(1,2)] in blast)+
  qed
  have pick: "silent w_db (if m_UploadMode v = ''multipart''
      then ext_call (st_AbortMultipart (sv_storage S) (m_ObjectKey v) (m_MultipartUploadID v))
      else ext_call (st_Delete (sv_storage S) (m_ObjectKey v)))" by simp
  show ?case unfolding cleanup_loop.simps
    by (rule triple_bind_silent [OF pick] triple_option triple_none triple_some triple_ext_bind
          triple_save_at unsaved cleaned failed [OF Cons.prems(1)]
        | (use assms(1) cleaned in \<open>simp add: sees_quiet\<close>; fail) | blast)+
qed

text \<open>The rows a run of the job works on: the pending uploads past their deadline, oldest first.\<close>

definition expired_rows :: "instant \<Rightarrow> int64 \<Rightarrow> database \<Rightarrow> Metadata list" where
  "expired_rows now limit d =
     (case select_expired now limit d of Inl _ \<Rightarrow> [] | Inr rows \<Rightarrow> rows)"

lemma distinct_ids_part:
  assumes "distinct (map m_ID xs)"
  shows "distinct (map m_ID (take n (sort_key f (List.filter P xs))))"
proof -
  have "distinct (map m_ID (List.filter P xs))" using assms by (rule distinct_map_filter)
  then have "distinct (map m_ID (sort_key f (List.filter P xs)))" by (simp add: distinct_map)
  then show ?thesis by (metis distinct_take take_map)
qed

lemma select_expired_rows:
  assumes "select_expired now limit d = Inr rows"
  shows "set rows \<subseteq> set (files d)" "length rows \<le> nat (sint limit)"
    "\<forall>v \<in> set rows. m_Status v = ''pending_upload'' \<and> (\<exists>t. m_UploadExpiresAt v = Some t \<and> t \<le> now)"
    "db_ok d \<Longrightarrow> distinct (map m_ID rows)"
proof -
  let ?p = "\<lambda>r. m_Status r = ''pending_upload'' \<and> m_UploadExpiresAt r \<noteq> None \<and> the (m_UploadExpiresAt r) \<le> now"
  have rows: "rows = take (nat (sint limit))
      (sort_key (\<lambda>r. (the (m_UploadExpiresAt r), m_ID r)) (List.filter ?p (files d)))"
    using assms by (auto simp: select_expired_def split: if_splits)
  then have sub: "set rows \<subseteq> set (List.filter ?p (files d))" by (auto dest: in_set_takeD)
  then show "set rows \<subseteq> set (files d)" by auto
  show "length rows \<le> nat (sint limit)" using rows by simp
  show "\<forall>v \<in> set rows. m_Status v = ''pending_upload'' \<and> (\<exists>t. m_UploadExpiresAt v = Some t \<and> t \<le> now)"
    using sub by fastforce
  show "distinct (map m_ID rows)" if "db_ok d"
    unfolding rows by (rule distinct_ids_part) (use that in \<open>simp add: db_ok_def\<close>)
qed

definition job_post :: "'x runtime \<Rightarrow> 'x Service \<Rightarrow> database \<Rightarrow> nat \<times> go_error option \<Rightarrow> database \<Rightarrow> bool" where
  "job_post R S d r d' \<longleftrightarrow> (\<exists>now rows. answers (rt_now R) now \<and>
     (rows = expired_rows now (sv_cleanupBatchSize S) d \<or> rows = [] \<and> snd r \<noteq> None) \<and>
     fst r \<le> length rows \<and> length rows \<le> nat (sint (sv_cleanupBatchSize S)) \<and>
     (\<forall>x \<in> set (files d). x \<notin> set rows \<longrightarrow> x \<in> set (files d')) \<and>
     (snd r = None \<longrightarrow> fst r = length rows \<and>
        (\<forall>v \<in> set rows. \<exists>x \<in> set (files d'). core x = core v \<and> m_Status x = ''expired'')))"

lemma run_ListExpired:
  assumes "quiet R" "run_state (SQLRepository_ListExpiredUploads R now limit) w = ((rows, err), w')"
  shows "w_db w' = w_db w" "err = None \<Longrightarrow> select_expired now limit (w_db w) = Inr rows"
proof -
  obtain q w1 where q: "run_state (sql_query R (select_expired now limit)) w = (q, w1)" by fastforce
  have w1: "w1 = w'" using assms(2) q by (simp add: SQLRepository_ListExpiredUploads_def)
  have "triple w_db (\<lambda>c. c = w_db w) (sql_query R (select_expired now limit)) (\<lambda>_ c. c = w_db w)"
    by (rule tripleI) (auto simp: sql_query_def run_db_prims quiet_others [OF assms(1)]
      split: prod.splits option.splits dest!: arg_cong [of _ _ fst])
  from run_triple [OF this q] w1 show db: "w_db w' = w_db w" by simp
  show "select_expired now limit (w_db w) = Inr rows" if e: "err = None"
  proof -
    have "q = Inr (Inr rows)"
      using assms(2) q e by (auto simp: SQLRepository_ListExpiredUploads_def split: sum.splits)
    with run_sql_query(2) [of R "select_expired now limit" w "Inr rows" w1] q db w1 show ?thesis by simp
  qed
qed

lemma job_post_loop:
  assumes "answers (rt_now R) now" "select_expired now (sv_cleanupBatchSize S) d = Inr rows" "db_ok d"
    and "cleanup_post 0 [] rows d (n, errs) d'"
  shows "job_post R S d (n, errors_Join errs) d'"
proof -
  note sel = select_expired_rows [OF assms(2)]
  have unique: "m_ID x \<notin> m_ID ` set rows" if "x \<in> set (files d)" "x \<notin> set rows" for x
  proof
    assume "m_ID x \<in> m_ID ` set rows"
    then obtain y where "y \<in> set rows" "m_ID y = m_ID x" by auto
    moreover have "inj_on m_ID (set (files d))" using assms(3) by (simp add: db_ok_def distinct_map)
    ultimately show False using that sel(1) by (metis inj_onD subsetD)
  qed
  have rows: "rows = expired_rows now (sv_cleanupBatchSize S) d" by (simp add: expired_rows_def assms(2))
  have keep: "\<forall>x \<in> set (files d). x \<notin> set rows \<longrightarrow> x \<in> set (files d')"
    using assms(4) unique unfolding cleanup_post_def by blast
  have "n \<le> length rows" using assms(4) unfolding cleanup_post_def fst_conv snd_conv by linarith
  moreover have "n = length rows \<and> (\<forall>v \<in> set rows. \<exists>x \<in> set (files d'). core x = core v \<and> m_Status x = ''expired'')"
    if "errors_Join errs = None"
  proof -
    have "errs = []" using that by (simp add: errors_Join_def split: if_splits)
    with assms(4) show ?thesis unfolding cleanup_post_def by auto
  qed
  ultimately show ?thesis unfolding job_post_def fst_conv snd_conv
    by (intro exI [of _ now] exI [of _ rows] conjI assms(1) keep sel(2) impI disjI1 rows) simp_all
qed

lemma run_Cleanup:
  assumes "quiet R" "db_ok (w_db w)" "run_state (Service_CleanupExpiredUploads R S) w = (r, w')"
  shows "job_post R S (w_db w) r (w_db w')"
proof -
  obtain now x where now: "rt_now R (w_ext w) = (now, x)" by fastforce
  have ans: "answers (rt_now R) now" unfolding answers_def using now by blast
  let ?w = "w\<lparr>w_ext := x\<rparr>"
  obtain rows err w1 where l: "run_state (SQLRepository_ListExpiredUploads R now (sv_cleanupBatchSize S)) ?w =
      ((rows, err), w1)" by (metis prod.collapse)
  note list = run_ListExpired [OF assms(1) l]
  show ?thesis
  proof (cases err)
    case (Some e)
    have "r = (0, translate (Some e))" "w' = w1"
      using assms(3) now l Some by (simp_all add: Service_CleanupExpiredUploads_def run_ext_call)
    then show ?thesis using ans list(1) unfolding job_post_def
      by (intro exI [of _ now] exI [of _ "[]"]) simp
  next
    case None
    obtain n errs w2 where c: "run_state (cleanup_loop R S 0 [] rows) w1 = ((n, errs), w2)"
      by (metis prod.collapse)
    have r: "r = (n, errors_Join errs)" "w' = w2"
      using assms(3) now l None c by (simp_all add: Service_CleanupExpiredUploads_def run_ext_call)
    have sel: "select_expired now (sv_cleanupBatchSize S) (w_db w) = Inr rows" using list(2) [OF None] by simp
    note rows = select_expired_rows [OF sel]
    have db: "w_db w1 = w_db w" using list(1) by simp
    have "cleanup_post 0 [] rows (w_db w) (n, errs) (w_db w2)"
      using run_triple [OF triple_cleanup_loop [OF assms(1), of "w_db w1" rows S 0 "[]"] c] rows assms(2)
      unfolding db by blast
    then show ?thesis unfolding r by (rule job_post_loop [OF ans sel assms(2)])
  qed
qed

text \<open>
  C19. One run of the clean-up job, while no other request is active, works on at most a batch of the pending uploads
  past their deadline and touches no other row. It counts at most those; and when it reports no error, it has
  counted all of them and every one is expired.
\<close>

theorem cleanup_expires_the_batch:
  assumes "quiet R" "db_ok (w_db w)" "run_state (Service_CleanupExpiredUploads R S) w = ((n, err), w')"
  shows "\<exists>now rows. answers (rt_now R) now \<and>
    (rows = expired_rows now (sv_cleanupBatchSize S) (w_db w) \<or> rows = [] \<and> err \<noteq> None) \<and>
    n \<le> length rows \<and> length rows \<le> nat (sint (sv_cleanupBatchSize S)) \<and>
    (\<forall>x \<in> set (files (w_db w)). x \<notin> set rows \<longrightarrow> x \<in> set (files (w_db w'))) \<and>
    (err = None \<longrightarrow> n = length rows \<and>
       (\<forall>v \<in> set rows. \<exists>x \<in> set (files (w_db w')). core x = core v \<and> m_Status x = ''expired''))"
  using run_Cleanup [OF assms] unfolding job_post_def fst_conv snd_conv .

theorem cleanup_expires_the_batch_witness:
  "\<exists>n w'. run_state (Service_CleanupExpiredUploads demo_rt demo_sv) demo_overdue = ((n, None), w') \<and>
    n \<le> 10"
proof -
  let ?w = demo_overdue
  obtain n err w' where run: "run_state (Service_CleanupExpiredUploads demo_rt demo_sv) ?w = ((n, err), w')"
    by (metis prod.collapse)
  have "snd (fst (run_state (Service_CleanupExpiredUploads demo_rt demo_sv) ?w)) = None" by code_simp
  then have run': "run_state (Service_CleanupExpiredUploads demo_rt demo_sv) ?w = ((n, None), w')"
    using run by simp
  have "row_ok (demo_row\<lparr>m_UploadExpiresAt := Some 5\<rparr>)"
    unfolding row_ok_def core_ok_def geometry_ok_def clean_text_def by code_simp
  then have "db_ok (w_db ?w)" by (simp add: db_ok_def demo_overdue_def)
  from cleanup_expires_the_batch [OF demo_quiet this run'] obtain rows :: "Metadata list"
    where "n \<le> length rows" "length rows \<le> nat (sint (sv_cleanupBatchSize demo_sv))" by blast
  then have "n \<le> nat (sint (sv_cleanupBatchSize demo_sv))" by simp
  then show ?thesis using run' by (simp add: demo_sv_def)
qed

end
