(* ===== verification/Platform.thy ===== *)
theory Platform
  imports Config_Types Database
begin

text \<open>
  The small services around the core: readiness (\<^verbatim>\<open>internal/health\<close>), the rate limiter
  (\<^verbatim>\<open>internal/ratelimit\<close>) and the distributed lock (\<^verbatim>\<open>internal/cache\<close>).
  Redis, the limiter library and the lock library are records of outside calls.
\<close>

subsection \<open>Health\<close>

record Dependency =
  dep_Status :: string
  dep_Latency :: string

record HealthStatus =
  hs_Status :: string
  hs_Dependencies :: "string \<rightharpoonup> Dependency"

text \<open>A ping returns its error and the time it took; a nil client is \<open>None\<close>.\<close>

record 'x HealthService =
  h_db :: "('x, go_error option \<times> string) ext_op option"
  h_redis :: "('x, go_error option \<times> string) ext_op option"

record health_result =
  hr_name :: string
  hr_dependency :: Dependency
  hr_ready :: bool

definition Health_Live :: HealthStatus where
  "Health_Live = \<lparr>hs_Status = ''up'', hs_Dependencies = Map.empty\<rparr>"

definition checkResult :: "string \<Rightarrow> string \<Rightarrow> go_error option \<Rightarrow> health_result" where
  "checkResult name latency err =
     (if err \<noteq> None
      then \<lparr>hr_name = name, hr_dependency = \<lparr>dep_Status = ''down'', dep_Latency = latency\<rparr>, hr_ready = False\<rparr>
      else \<lparr>hr_name = name, hr_dependency = \<lparr>dep_Status = ''up'', dep_Latency = latency\<rparr>, hr_ready = True\<rparr>)"

text \<open>\<open>checkDatabase\<close> and \<open>checkRedis\<close> have the same text but for the client and the name.\<close>

definition check_dependency ::
    "string \<Rightarrow> ('x, go_error option \<times> string) ext_op option \<Rightarrow> ('x, health_result) ext_op" where
  "check_dependency name client x =
     (case client of
        None \<Rightarrow> (\<lparr>hr_name = name, hr_dependency = \<lparr>dep_Status = ''disabled'', dep_Latency = []\<rparr>,
           hr_ready = True\<rparr>, x)
      | Some ping \<Rightarrow> (case ping x of ((err, latency), x') \<Rightarrow> (checkResult name latency err, x')))"

definition checkDatabase :: "'x HealthService \<Rightarrow> ('x, health_result) ext_op" where
  "checkDatabase s = check_dependency ''database'' (h_db s)"

definition checkRedis :: "'x HealthService \<Rightarrow> ('x, health_result) ext_op" where
  "checkRedis s = check_dependency ''redis'' (h_redis s)"

text \<open>The loop that receives the two results, in the order in which they arrive.\<close>

fun collect_results :: "health_result list \<Rightarrow> HealthStatus \<Rightarrow> bool \<Rightarrow> HealthStatus \<times> bool" where
  "collect_results [] status ready = (status, ready)"
| "collect_results (item # results) status ready =
     collect_results results
       (status\<lparr>hs_Dependencies := (hs_Dependencies status)(hr_name item \<mapsto> hr_dependency item)\<rparr>)
       (ready \<and> hr_ready item)"

text \<open>The two checks run concurrently; \<open>database_first\<close> is the order in which they finish.\<close>

definition Health_Ready :: "bool \<Rightarrow> 'x HealthService \<Rightarrow> ('x, HealthStatus \<times> bool) ext_op" where
  "Health_Ready database_first s x =
     (case checkDatabase s x of (d, x1) \<Rightarrow>
      case checkRedis s x1 of (r, x2) \<Rightarrow>
        (case collect_results (if database_first then [d, r] else [r, d])
              \<lparr>hs_Status = ''ready'', hs_Dependencies = Map.empty\<rparr> True of
           (status, ready) \<Rightarrow>
             ((if \<not> ready then status\<lparr>hs_Status := ''not_ready''\<rparr> else status, ready), x2)))"

subsection \<open>Rate limiting\<close>

record rate_Result =
  rate_Allowed :: bool
  rate_Limit :: int64
  rate_Remaining :: int64
  rate_RetryAfter :: duration

text \<open>What the limiter library answers: how many requests it admits, what remains, when to retry.\<close>

record redisrate_Result =
  rr_Allowed :: int64
  rr_Remaining :: int64
  rr_RetryAfter :: duration

record 'x Limiter =
  lim_enabled :: bool
  lim_failOpen :: bool
  lim_backend :: "(string \<Rightarrow> cfg_RateLimitRule \<Rightarrow> ('x, go_error + redisrate_Result) ext_op) option"

definition Limiter_New ::
    "(string \<Rightarrow> cfg_RateLimitRule \<Rightarrow> ('x, go_error + redisrate_Result) ext_op) option \<Rightarrow>
      cfg_Config \<Rightarrow> 'x Limiter" where
  "Limiter_New client cfg =
     \<lparr>lim_enabled = ratelimit_Enabled (config_RateLimit cfg),
      lim_failOpen = ratelimit_FailOpen (config_RateLimit cfg), lim_backend = client\<rparr>"

definition zero_Result :: rate_Result where
  "zero_Result = \<lparr>rate_Allowed = False, rate_Limit = 0, rate_Remaining = 0, rate_RetryAfter = 0\<rparr>"

definition Limiter_Allow ::
    "'x Limiter \<Rightarrow> string \<Rightarrow> cfg_RateLimitRule \<Rightarrow> ('x, go_error + rate_Result) ext_op" where
  "Limiter_Allow l key rule x =
     (if \<not> lim_enabled l then (Inr (zero_Result\<lparr>rate_Allowed := True\<rparr>), x)
      else case lim_backend l of
          None \<Rightarrow> (Inl (Errorf ''redis rate limiter is unavailable''), x)
        | Some allow \<Rightarrow>
            (case allow key rule x of
               (Inl err, x') \<Rightarrow> (Inl (Wrapf ''check redis rate limit'' err), x')
             | (Inr result, x') \<Rightarrow>
                 (Inr \<lparr>rate_Allowed = 0 < sint (rr_Allowed result), rate_Limit = ratelimitrule_Burst rule,
                       rate_Remaining = rr_Remaining result, rate_RetryAfter = rr_RetryAfter result\<rparr>, x')))"

subsection \<open>Locks\<close>

text \<open>
  The lock library: its errors, and one mutex with a name and an expiry. \<open>Taken\<close> is
  \<open>redsync.ErrTaken\<close>, \<open>Failed\<close> is \<open>redsync.ErrFailed\<close>.
\<close>

datatype redsync_error = Failed | Taken | RedisError go_error

definition redsync_text :: "redsync_error \<Rightarrow> go_error" where
  "redsync_text e =
     (case e of Failed \<Rightarrow> Errorf ''redsync: failed to acquire lock''
      | Taken \<Rightarrow> Errorf ''lock already taken'' | RedisError err \<Rightarrow> err)"

record 'x redsync =
  rs_TryLock :: "string \<Rightarrow> duration \<Rightarrow> ('x, redsync_error option) ext_op"
  rs_Lock :: "string \<Rightarrow> duration \<Rightarrow> duration \<Rightarrow> ('x, redsync_error option \<times> go_error option) ext_op"
  rs_Extend :: "string \<Rightarrow> ('x, bool \<times> go_error option) ext_op"
  rs_Unlock :: "string \<Rightarrow> ('x, bool \<times> go_error option) ext_op"

record Lock =
  lock_name :: string
  lock_ttl :: duration

definition lockKeyPrefix :: string where
  "lockKeyPrefix = ''lock:''"

definition isContention :: "redsync_error \<Rightarrow> bool" where
  "isContention e \<longleftrightarrow> e = Failed \<or> e = Taken"

definition newMutex :: "string \<Rightarrow> duration \<Rightarrow> go_error + Lock" where
  "newMutex key ttl =
     (if key = [] then Inl (Errorf ''lock key must not be empty'')
      else if sint ttl \<le> 0 then Inl (Errorf ''lock ttl must be positive'')
      else Inr \<lparr>lock_name = lockKeyPrefix @ key, lock_ttl = ttl\<rparr>)"

text \<open>The verb \<^verbatim>\<open>%q\<close> of the error texts is the argument \<open>q\<close>.\<close>

definition TryLock ::
    "(string \<Rightarrow> string) \<Rightarrow> 'x redsync \<Rightarrow> string \<Rightarrow> duration \<Rightarrow>
      ('x, Lock option \<times> bool \<times> go_error option) ext_op" where
  "TryLock q l key ttl x =
     (case newMutex key ttl of
        Inl err \<Rightarrow> ((None, False, Some err), x)
      | Inr mutex \<Rightarrow>
          (case rs_TryLock l (lock_name mutex) ttl x of
             (Some err, x') \<Rightarrow>
               if isContention err then ((None, False, None), x')
               else ((None, False, Some (Wrapf (''try redis lock '' @ q key) (redsync_text err))), x')
           | (None, x') \<Rightarrow> ((Some mutex, True, None), x')))"

definition Locker_Lock ::
    "(string \<Rightarrow> string) \<Rightarrow> 'x redsync \<Rightarrow> string \<Rightarrow> duration \<Rightarrow> duration \<Rightarrow> ('x, go_error + Lock) ext_op" where
  "Locker_Lock q l key ttl retryDelay x =
     (if sint retryDelay \<le> 0 then (Inl (Errorf ''lock retry delay must be positive''), x)
      else case newMutex key ttl of
          Inl err \<Rightarrow> (Inl err, x)
        | Inr mutex \<Rightarrow>
            (case rs_Lock l (lock_name mutex) ttl retryDelay x of
               ((Some err, ctxErr), x') \<Rightarrow>
                 (Inl (case ctxErr of
                     Some e \<Rightarrow> Wrapf (''wait for redis lock '' @ q key) e
                   | None \<Rightarrow> Wrapf (''acquire redis lock '' @ q key) (redsync_text err)), x')
             | ((None, ctxErr), x') \<Rightarrow> (Inr mutex, x')))"

definition owned_result ::
    "(string \<Rightarrow> string) \<Rightarrow> string \<Rightarrow> Lock \<Rightarrow> bool \<times> go_error option \<Rightarrow> go_error option" where
  "owned_result q verb l r =
     (case r of
        (ok, Some err) \<Rightarrow> Some (Wrapf (verb @ '' redis lock '' @ q (lock_name l)) err)
      | (ok, None) \<Rightarrow>
          if \<not> ok then Some (Errorf (verb @ '' redis lock '' @ q (lock_name l) @ '': lock is no longer owned''))
          else None)"

definition Lock_Extend ::
    "(string \<Rightarrow> string) \<Rightarrow> 'x redsync \<Rightarrow> Lock \<Rightarrow> ('x, go_error option) ext_op" where
  "Lock_Extend q l lock x =
     (case rs_Extend l (lock_name lock) x of (r, x') \<Rightarrow> (owned_result q ''extend'' lock r, x'))"

definition Lock_Unlock ::
    "(string \<Rightarrow> string) \<Rightarrow> 'x redsync \<Rightarrow> Lock \<Rightarrow> ('x, go_error option) ext_op" where
  "Lock_Unlock q l lock x =
     (case rs_Unlock l (lock_name lock) x of (r, x') \<Rightarrow> (owned_result q ''release'' lock r, x'))"

subsection \<open>Properties\<close>

definition answers_ping :: "('x, go_error option \<times> string) ext_op option \<Rightarrow> 'x \<Rightarrow> bool" where
  "answers_ping client x = (case client of None \<Rightarrow> True | Some ping \<Rightarrow> fst (fst (ping x)) = None)"

lemma check_dependency_ready:
  "hr_ready (fst (check_dependency name client x)) = answers_ping client x"
  "hr_name (fst (check_dependency name client x)) = name"
  by (auto simp: check_dependency_def answers_ping_def checkResult_def split: option.splits prod.splits)

text \<open>
  Readiness does not depend on how the two concurrent checks interleave, and it is exact: the
  service reports ready if and only if every configured dependency answers its ping; a dependency
  that is switched off counts as ready, and both are listed in every report.
\<close>

lemma readiness_is_exact:
  "Health_Ready first s x = Health_Ready (\<not> first) s x \<and>
    (snd (fst (Health_Ready first s x)) \<longleftrightarrow>
      answers_ping (h_db s) x \<and> answers_ping (h_redis s) (snd (checkDatabase s x))) \<and>
    hs_Status (fst (fst (Health_Ready first s x))) =
      (if snd (fst (Health_Ready first s x)) then ''ready'' else ''not_ready'') \<and>
    dom (hs_Dependencies (fst (fst (Health_Ready first s x)))) = {''database'', ''redis''}"
proof -
  obtain d x1 where d: "checkDatabase s x = (d, x1)" by (cases "checkDatabase s x")
  obtain r x2 where r: "checkRedis s x1 = (r, x2)" by (cases "checkRedis s x1")
  have n: "hr_name d = ''database''" "hr_name r = ''redis''"
    "hr_ready d = answers_ping (h_db s) x" "hr_ready r = answers_ping (h_redis s) x1"
    using check_dependency_ready [of "''database''" "h_db s" x] check_dependency_ready [of "''redis''" "h_redis s" x1]
      d r by (simp_all add: checkDatabase_def checkRedis_def)
  then have "hr_name d \<noteq> hr_name r" by simp
  then show ?thesis using n by (auto simp: Health_Ready_def d r fun_upd_twist)
qed

end
