(* ===== verification/Observability.thy ===== *)
theory Observability
  imports Object_Storage "HOL-Library.Monad_Syntax"
begin

text \<open>
  What the program tells about itself: \<^verbatim>\<open>internal/observability\<close> (the metrics and the setup of
  tracing), \<^verbatim>\<open>internal/logging\<close> and \<^verbatim>\<open>internal/buildinfo\<close>.

  The metrics library, the trace exporter, the file system and the clock are parameters. A panic of a
  library is a value: \<open>None\<close> where registering a collector panics, \<open>Panicked\<close> where a handler does.
\<close>

subsection \<open>Panics\<close>

datatype 'r outcome = Returned 'r | Panicked string

subsection \<open>Metrics\<close>

datatype collector = HTTPRequests | HTTPDuration | CronRuns | CronDuration | GRPCRequests | GRPCDuration
  | OutboundRequests | OutboundDuration

fun collector_name :: "collector \<Rightarrow> string" where
  "collector_name HTTPRequests = ''http_requests_total''"
| "collector_name HTTPDuration = ''http_request_duration_seconds''"
| "collector_name CronRuns = ''cron_runs_total''"
| "collector_name CronDuration = ''cron_run_duration_seconds''"
| "collector_name GRPCRequests = ''grpc_server_requests_total''"
| "collector_name GRPCDuration = ''grpc_server_duration_seconds''"
| "collector_name OutboundRequests = ''outbound_requests_total''"
| "collector_name OutboundDuration = ''outbound_request_duration_seconds''"

fun collector_labels :: "collector \<Rightarrow> string list" where
  "collector_labels HTTPRequests = [''method'', ''route'', ''status'']"
| "collector_labels HTTPDuration = [''method'', ''route'']"
| "collector_labels CronRuns = [''job'', ''status'']"
| "collector_labels CronDuration = [''job'']"
| "collector_labels GRPCRequests = [''method'', ''code'']"
| "collector_labels GRPCDuration = [''method'']"
| "collector_labels OutboundRequests = [''protocol'', ''client'', ''status'']"
| "collector_labels OutboundDuration = [''protocol'', ''client'']"

text \<open>
  The operations on a collector with its label values, the clock, and the names that the collectors
  of the library itself are registered under.
\<close>

record 'x prometheus =
  pr_Inc :: "collector \<Rightarrow> string list \<Rightarrow> ('x, unit) ext_op"
  pr_Observe :: "collector \<Rightarrow> string list \<Rightarrow> int \<Rightarrow> ('x, unit) ext_op"
  pr_now :: "('x, int) ext_op"
  pr_runtime :: "string list"
  pr_dbstats :: "string list"

record 'x Metrics =
  mt_enabled :: bool
  mt_library :: "'x prometheus"
  mt_registry :: "string list"

text \<open>Registering a second collector of the same name panics.\<close>

fun MustRegister :: "string list \<Rightarrow> string list \<Rightarrow> string list option" where
  "MustRegister registry [] = Some registry"
| "MustRegister registry (n # ns) = (if n \<in> set registry then None else MustRegister (registry @ [n]) ns)"

definition redis_gauges :: "string list" where
  "redis_gauges = [''redis_pool_hits_total'', ''redis_pool_misses_total'', ''redis_pool_timeouts_total'',
     ''redis_pool_connections'', ''redis_pool_idle_connections'']"

definition registerRedisMetrics :: "string list \<Rightarrow> string list option" where
  "registerRedisMetrics registry = MustRegister registry redis_gauges"

definition own_collectors :: "collector list" where
  "own_collectors = [HTTPRequests, HTTPDuration, CronRuns, CronDuration, GRPCRequests, GRPCDuration,
     OutboundRequests, OutboundDuration]"

definition NewMetrics :: "'x prometheus \<Rightarrow> cfg_Config \<Rightarrow> bool \<Rightarrow> bool \<Rightarrow> 'x Metrics option" where
  "NewMetrics P cfg db client = do {
     r \<leftarrow> MustRegister [] (pr_runtime P @ map collector_name own_collectors);
     r \<leftarrow> (if db then MustRegister r (pr_dbstats P) else Some r);
     r \<leftarrow> (if client then registerRedisMetrics r else Some r);
     Some \<lparr>mt_enabled = observability_MetricsEnabled (config_Observability cfg), mt_library = P, mt_registry = r\<rparr>
   }"

text \<open>Counting an event and, from the time it started, observing how long it took.\<close>

definition count_and_time ::
    "'x Metrics \<Rightarrow> collector \<Rightarrow> string list \<Rightarrow> collector \<Rightarrow> string list \<Rightarrow> int \<Rightarrow> ('x, unit) ext_op" where
  "count_and_time M counter labels histogram hlabels started x =
     (if \<not> mt_enabled M then ((), x)
      else case pr_Inc (mt_library M) counter labels x of
        (_, x1) \<Rightarrow> (case pr_now (mt_library M) x1 of
          (now, x2) \<Rightarrow> pr_Observe (mt_library M) histogram hlabels (now - started) x2))"

definition ObserveCron :: "'x Metrics \<Rightarrow> string \<Rightarrow> string \<Rightarrow> int \<Rightarrow> ('x, unit) ext_op" where
  "ObserveCron M job status started = count_and_time M CronRuns [job, status] CronDuration [job] started"

subsection \<open>Tracing\<close>

record trace_provider =
  tp_ServiceName :: string
  tp_ServiceVersion :: string
  tp_SampleRatio :: float64

text \<open>\<open>tr_provider\<close> is the provider that is installed globally and shut down at the end.\<close>

record Tracing =
  tr_enabled :: bool
  tr_provider :: "trace_provider option"

definition NewTracing :: "(string \<Rightarrow> ('x, go_error option) ext_op) \<Rightarrow> string \<Rightarrow> cfg_Config \<Rightarrow> ('x, go_error + Tracing) ext_op" where
  "NewTracing NewExporter version cfg x =
     (let o' = config_Observability cfg in
      if \<not> observability_TracingEnabled o' then (Inr \<lparr>tr_enabled = False, tr_provider = None\<rparr>, x)
      else case NewExporter (observability_TracingEndpoint o') x of
          (Some err, x1) \<Rightarrow> (Inl (Wrapf ''create OTLP trace exporter'' err), x1)
        | (None, x1) \<Rightarrow>
            (Inr \<lparr>tr_enabled = True, tr_provider = Some \<lparr>tp_ServiceName = app_Name (config_App cfg),
               tp_ServiceVersion = version, tp_SampleRatio = observability_TracingSampleRatio o'\<rparr>\<rparr>, x1))"

subsection \<open>Logging\<close>

text \<open>\<open>strconv.Atoi\<close>: an optional sign and decimal digits, within 64 bits.\<close>

definition digit_value :: "char \<Rightarrow> nat option" where
  "digit_value ch = (let n = of_char ch :: nat in if 48 \<le> n \<and> n \<le> 57 then Some (n - 48) else None)"

fun digits_value :: "nat \<Rightarrow> string \<Rightarrow> nat option" where
  "digits_value acc [] = Some acc"
| "digits_value acc (ch # s) = (case digit_value ch of None \<Rightarrow> None | Some d \<Rightarrow> digits_value (10 * acc + d) s)"

definition Atoi :: "string \<Rightarrow> go_error + int" where
  "Atoi s =
     (let negative = (s \<noteq> [] \<and> hd s = CHR ''-''); ds = (if s \<noteq> [] \<and> hd s \<in> {CHR ''+'', CHR ''-''} then tl s else s) in
      case (if ds = [] then None else digits_value 0 ds) of
        None \<Rightarrow> Inl (Errorf ''invalid syntax'')
      | Some n \<Rightarrow>
          let v = (if negative then - int n else int n) in
          if - (2 ^ 63) \<le> v \<and> v < 2 ^ 63 then Inr v else Inl (Errorf ''value out of range''))"

text \<open>\<open>slog.Level.UnmarshalText\<close> on a text that is in lower case already: a name and an offset.\<close>

definition parse_level :: "string \<Rightarrow> go_error + int" where
  "parse_level s =
     (let name = takeWhile (\<lambda>ch. ch \<notin> {CHR ''+'', CHR ''-''}) s; rest = drop (length name) s in
      case (if rest = [] then Inr 0 else Atoi rest) of
        Inl err \<Rightarrow> Inl err
      | Inr offset \<Rightarrow>
          if name = ''debug'' then Inr (- 4 + offset)
          else if name = ''info'' then Inr offset
          else if name = ''warn'' then Inr (4 + offset)
          else if name = ''error'' then Inr (8 + offset)
          else Inl (Errorf ''unknown name''))"

record rotator =
  ro_Filename :: string
  ro_MaxSize :: int64
  ro_MaxBackups :: int64
  ro_MaxAge :: int64
  ro_Compress :: bool

datatype log_format = TextHandler | JSONHandler

record Logger =
  lg_level :: int
  lg_format :: log_format
  lg_attrs :: "(string \<times> string) list"

text \<open>\<open>MkdirDir f\<close> creates the directory of the file \<open>f\<close>; the rotating file is opened by the first line written.\<close>

definition logging_New ::
    "(string \<Rightarrow> string) \<Rightarrow> (string \<Rightarrow> ('x, go_error option) ext_op) \<Rightarrow> cfg_Log \<Rightarrow> ('x, go_error + Logger \<times> rotator) ext_op" where
  "logging_New lower MkdirDir cfg x =
     (case MkdirDir (log_File cfg) x of
        (Some err, x1) \<Rightarrow> (Inl (Wrapf ''create log directory'' err), x1)
      | (None, x1) \<Rightarrow>
          (case parse_level (ToLower lower (log_Level cfg)) of
             Inl err \<Rightarrow> (Inl (Wrapf ''parse log level'' err), x1)
           | Inr level \<Rightarrow>
               (Inr (\<lparr>lg_level = level, lg_format = (if log_Format cfg = ''text'' then TextHandler else JSONHandler),
                   lg_attrs = []\<rparr>,
                  \<lparr>ro_Filename = log_File cfg, ro_MaxSize = log_MaxSizeMB cfg, ro_MaxBackups = log_MaxBackups cfg,
                   ro_MaxAge = log_MaxAgeDays cfg, ro_Compress = log_Compress cfg\<rparr>), x1)))"

subsection \<open>Build information\<close>

text \<open>The link-time variables, and the uptime as the rounded number of nanoseconds.\<close>

record build_vars =
  bv_Version :: string
  bv_Commit :: string
  bv_BuildTime :: string
  bv_startedAt :: int

record Info =
  bi_Version :: string
  bi_Commit :: string
  bi_BuildTime :: string
  bi_StartedAt :: int
  bi_Uptime :: int

text \<open>\<open>d.Round(time.Second)\<close>: to the nearest second, halves away from zero, saturating.\<close>

definition round_second :: "duration \<Rightarrow> int" where
  "round_second d =
     (let n = sint d; m = 1000000000; r = \<bar>n\<bar> mod m;
          rounded = (if r + r < m then \<bar>n\<bar> - r else \<bar>n\<bar> + m - r) in
      if n < 0 then max (- rounded) (- (2 ^ 63)) else min rounded (2 ^ 63 - 1))"

definition buildinfo_Current :: "build_vars \<Rightarrow> int \<Rightarrow> Info" where
  "buildinfo_Current v now =
     \<lparr>bi_Version = bv_Version v, bi_Commit = bv_Commit v, bi_BuildTime = bv_BuildTime v, bi_StartedAt = bv_startedAt v,
      bi_Uptime = round_second (word_of_int (max (- (2 ^ 63)) (min (2 ^ 63 - 1) (now - bv_startedAt v))))\<rparr>"

subsection \<open>Properties\<close>

lemma MustRegister_fresh:
  "distinct (registry @ ns) \<Longrightarrow> MustRegister registry ns = Some (registry @ ns)"
  by (induction ns arbitrary: registry) auto

text \<open>
  The program registers no metric twice: with whatever database and Redis it runs, building the
  metrics does not panic, provided the names of the library's own collectors are fresh.
\<close>

lemma NewMetrics_registers:
  assumes "distinct (pr_runtime P @ pr_dbstats P)"
    and "(set (pr_runtime P) \<union> set (pr_dbstats P)) \<inter> set (map collector_name own_collectors @ redis_gauges) = {}"
  shows "\<exists>M. NewMetrics P cfg db client = Some M \<and>
    mt_enabled M = observability_MetricsEnabled (config_Observability cfg) \<and>
    set (map collector_name own_collectors) \<subseteq> set (mt_registry M)"
proof -
  have own: "distinct (map collector_name own_collectors @ redis_gauges)"
    by (simp add: own_collectors_def redis_gauges_def)
  let ?a = "pr_runtime P @ map collector_name own_collectors" and ?b = "if db then pr_dbstats P else []"
    and ?c = "if client then redis_gauges else []"
  have "distinct (?a @ ?b @ ?c)" using assms own by (auto simp: own_collectors_def)
  then have "distinct ?a" "distinct (?a @ ?b)" "distinct ((?a @ ?b) @ ?c)"
    unfolding append_assoc [symmetric, of ?a ?b ?c] by (simp_all only: distinct_append)
  then have "MustRegister [] ?a = Some ?a" "MustRegister ?a ?b = Some (?a @ ?b)"
    "MustRegister (?a @ ?b) ?c = Some (?a @ ?b @ ?c)"
    by (simp_all only: MustRegister_fresh append_Nil append_assoc)
  then show ?thesis
    by (cases db; cases client) (auto simp: NewMetrics_def registerRedisMetrics_def)
qed

text \<open>The levels the configuration may name are understood, in any case of their letters.\<close>

lemma parse_level_names:
  "parse_level ''debug'' = Inr (- 4)" "parse_level ''info'' = Inr 0" "parse_level ''warn'' = Inr 4"
  "parse_level ''error'' = Inr 8" "parse_level ''info+2'' = Inr 2"
  by code_simp+

end
