(* ===== verification/HTTP_Handlers.thy ===== *)
theory HTTP_Handlers
  imports File_Protocol Platform Observability
begin

text \<open>
  The HTTP handlers, \<^verbatim>\<open>internal/transport/http/handler.go\<close> and
  \<^verbatim>\<open>response.go\<close>: the request and body structs, \<open>OK\<close>, \<open>Fail\<close> and one
  definition per handler.

  \<open>gin\<close> is the request context: the parts of the request the program reads, the values the
  middleware stores, and the response so far (its status, its headers and the unified JSON
  responses written to it). The first status written counts. Decoding a JSON body is the record
  \<open>binding\<close> (the web framework's decoder for each request type, and the validator's error for
  the names of missing fields); which fields are required is in the struct tags and so in the model:
  a required string is not empty, a required number not zero, a required list not nil.
\<close>

subsection \<open>Bodies\<close>

record FileBody =
  fb_ID :: string
  fb_TenantID :: string
  fb_ApplicationID :: string
  fb_OwnerID :: string
  fb_Filename :: string
  fb_ContentType :: string
  fb_Size :: int64
  fb_ChecksumSHA256 :: string
  fb_Status :: string
  fb_ScanStatus :: string
  fb_UploadMode :: string
  fb_PartSize :: int64
  fb_PartCount :: int32
  fb_UploadExpiresAt :: "instant option"
  fb_Version :: int64
  fb_CreatedAt :: instant
  fb_UpdatedAt :: instant
  fb_CreatedBy :: string
  fb_UpdatedBy :: string

record FileAuthorizationBody =
  fab_File :: FileBody
  fab_URL :: string
  fab_Headers :: "(string \<times> string) list"
  fab_ExpiresAt :: instant

record MultipartAuthorizationBody =
  mab_File :: FileBody
  mab_PartSize :: int64
  mab_PartCount :: int32
  mab_ExpiresAt :: instant

record FilePageBody =
  fpb_Files :: "FileBody list"
  fpb_Total :: int
  fpb_Page :: int64
  fpb_PageSize :: int64

definition fileBody :: "Metadata \<Rightarrow> FileBody" where
  "fileBody v =
     \<lparr>fb_ID = m_ID v, fb_TenantID = m_TenantID v, fb_ApplicationID = m_ApplicationID v,
      fb_OwnerID = m_OwnerID v, fb_Filename = m_Filename v, fb_ContentType = m_ContentType v,
      fb_Size = m_Size v, fb_ChecksumSHA256 = m_ChecksumSHA256 v, fb_Status = m_Status v,
      fb_ScanStatus = m_ScanStatus v, fb_UploadMode = m_UploadMode v, fb_PartSize = m_PartSize v,
      fb_PartCount = m_PartCount v, fb_UploadExpiresAt = m_UploadExpiresAt v,
      fb_Version = m_Version v, fb_CreatedAt = m_CreatedAt v, fb_UpdatedAt = m_UpdatedAt v,
      fb_CreatedBy = m_CreatedBy v, fb_UpdatedBy = m_UpdatedBy v\<rparr>"

definition authorizationBody :: "Authorization \<Rightarrow> FileAuthorizationBody" where
  "authorizationBody v =
     \<lparr>fab_File = fileBody (a_File v), fab_URL = a_URL v, fab_Headers = a_Headers v,
      fab_ExpiresAt = a_ExpiresAt v\<rparr>"

definition multipartAuthorizationBody :: "MultipartAuthorization \<Rightarrow> MultipartAuthorizationBody" where
  "multipartAuthorizationBody v =
     \<lparr>mab_File = fileBody (ma_File v), mab_PartSize = ma_PartSize v, mab_PartCount = ma_PartCount v,
      mab_ExpiresAt = ma_ExpiresAt v\<rparr>"

definition filePageBody :: "MetadataPage \<Rightarrow> FilePageBody" where
  "filePageBody v =
     \<lparr>fpb_Files = map fileBody (mp_Files v), fpb_Total = mp_Total v, fpb_Page = mp_Page v,
      fpb_PageSize = mp_PageSize v\<rparr>"

text \<open>The values the handlers put into \<open>Response.Body\<close>; \<open>BodyVersion\<close> is the build information.\<close>

datatype body =
  BodyNil
| BodyFile FileBody
| BodyAuthorization FileAuthorizationBody
| BodyMultipart MultipartAuthorizationBody
| BodyPage FilePageBody
| BodyHealth HealthStatus
| BodySubject "string option"
| BodyVersion Info

record Response =
  resp_Code :: app_code
  resp_Message :: string
  resp_Body :: body
  resp_RequestID :: string

subsection \<open>The request context\<close>

record gin =
  g_Method :: string
  g_FullPath :: string
  g_GetHeader :: "string \<Rightarrow> string"
  g_ContentLength :: int
  g_Body :: "go_error + string"
  g_ClientIP :: string
  g_TLS :: bool
  g_request_id :: string
  g_environment :: string
  g_subject :: "string option"
  g_principal :: "Principal option"
  g_credential :: "string option"
  g_idempotency :: "string option"
  g_Status :: nat
  g_Written :: bool
  g_Headers :: "(string \<times> string) list"
  g_Responses :: "Response list"

type_synonym 'x handler = "gin \<Rightarrow> ('x world, gin) state"

definition request_ctx :: "gin \<Rightarrow> Ctx" where
  "request_ctx c = \<lparr>ctx_principal = g_principal c\<rparr>"

text \<open>\<open>c.Header\<close>: a header is replaced.\<close>

definition set_header :: "string \<Rightarrow> string \<Rightarrow> gin \<Rightarrow> gin" where
  "set_header k v c = c\<lparr>g_Headers := filter (\<lambda>(k', _). k' \<noteq> k) (g_Headers c) @ [(k, v)]\<rparr>"

definition abort_status :: "nat \<Rightarrow> gin \<Rightarrow> gin" where
  "abort_status status c = c\<lparr>g_Status := (if g_Written c then g_Status c else status), g_Written := True\<rparr>"

definition write_json :: "nat \<Rightarrow> Response \<Rightarrow> gin \<Rightarrow> gin" where
  "write_json status r c = (abort_status status c)\<lparr>g_Responses := g_Responses c @ [r]\<rparr>"

definition OK :: "gin \<Rightarrow> body \<Rightarrow> gin" where
  "OK c b = write_json 200
     \<lparr>resp_Code = CodeOK, resp_Message = ''success'', resp_Body = b, resp_RequestID = g_request_id c\<rparr> c"

definition Fail :: "gin \<Rightarrow> go_error \<Rightarrow> gin" where
  "Fail c err =
     (let appErr = (case errors_As err of None \<Rightarrow> Internal (Some err) | Some e \<Rightarrow> e)
      in write_json (ae_HTTPStatus appErr)
           \<lparr>resp_Code = ae_Code appErr, resp_Message = ae_Message appErr, resp_Body = BodyNil,
            resp_RequestID = g_request_id c\<rparr> c)"

subsection \<open>Requests\<close>

record InitiateUploadRequest =
  iu_TenantID :: string
  iu_ApplicationID :: string
  iu_Filename :: string
  iu_ContentType :: string
  iu_Size :: int64
  iu_ChecksumSHA256 :: string
  iu_IdempotencyKey :: string

record CompleteUploadRequest =
  cu_ID :: string
  cu_TenantID :: string
  cu_ApplicationID :: string
  cu_ChecksumSHA256 :: string
  cu_ExpectedVersion :: int64

record InitiateMultipartUploadRequest =
  im_Base :: InitiateUploadRequest
  im_PartSize :: int64

record AuthorizeUploadPartRequest =
  ap_ID :: string
  ap_TenantID :: string
  ap_ApplicationID :: string
  ap_PartNumber :: int32

record CompletedPartRequest =
  pr_PartNumber :: int32
  pr_ETag :: string

record CompleteMultipartUploadRequest =
  cm_ID :: string
  cm_TenantID :: string
  cm_ApplicationID :: string
  cm_Parts :: "CompletedPartRequest list option"
  cm_ChecksumSHA256 :: string
  cm_ExpectedVersion :: int64

record ReportScanResultRequest =
  sr_ID :: string
  sr_TenantID :: string
  sr_ApplicationID :: string
  sr_ScanStatus :: string
  sr_ExpectedVersion :: int64

record FileIDRequest =
  fi_ID :: string
  fi_TenantID :: string
  fi_ApplicationID :: string

record ListFilesRequest =
  ls_TenantID :: string
  ls_ApplicationID :: string
  ls_Keyword :: string
  ls_Status :: string
  ls_ScanStatus :: string
  ls_ContentType :: string
  ls_OwnerID :: string
  ls_Page :: int64
  ls_PageSize :: int64

record DeleteFileRequest =
  df_ID :: string
  df_TenantID :: string
  df_ApplicationID :: string
  df_ExpectedVersion :: int64

record binding =
  bind_InitiateUpload :: "string \<Rightarrow> go_error + InitiateUploadRequest"
  bind_InitiateMultipart :: "string \<Rightarrow> go_error + InitiateMultipartUploadRequest"
  bind_AuthorizePart :: "string \<Rightarrow> go_error + AuthorizeUploadPartRequest"
  bind_CompleteMultipart :: "string \<Rightarrow> go_error + CompleteMultipartUploadRequest"
  bind_CompleteUpload :: "string \<Rightarrow> go_error + CompleteUploadRequest"
  bind_ReportScan :: "string \<Rightarrow> go_error + ReportScanResultRequest"
  bind_FileID :: "string \<Rightarrow> go_error + FileIDRequest"
  bind_ListFiles :: "string \<Rightarrow> go_error + ListFilesRequest"
  bind_DeleteFile :: "string \<Rightarrow> go_error + DeleteFileRequest"
  bind_required :: "string list \<Rightarrow> go_error"

definition absent :: "(string \<times> bool) list \<Rightarrow> string list" where
  "absent fs = map fst (filter snd fs)"

definition missing_InitiateUpload :: "InitiateUploadRequest \<Rightarrow> string list" where
  "missing_InitiateUpload r = absent
     [(''TenantID'', iu_TenantID r = []), (''ApplicationID'', iu_ApplicationID r = []),
      (''Filename'', iu_Filename r = []), (''ContentType'', iu_ContentType r = []),
      (''Size'', iu_Size r = 0), (''ChecksumSHA256'', iu_ChecksumSHA256 r = []),
      (''IdempotencyKey'', iu_IdempotencyKey r = [])]"

definition missing_CompleteUpload :: "CompleteUploadRequest \<Rightarrow> string list" where
  "missing_CompleteUpload r = absent
     [(''ID'', cu_ID r = []), (''TenantID'', cu_TenantID r = []),
      (''ApplicationID'', cu_ApplicationID r = []), (''ChecksumSHA256'', cu_ChecksumSHA256 r = []),
      (''ExpectedVersion'', cu_ExpectedVersion r = 0)]"

definition missing_AuthorizePart :: "AuthorizeUploadPartRequest \<Rightarrow> string list" where
  "missing_AuthorizePart r = absent
     [(''ID'', ap_ID r = []), (''TenantID'', ap_TenantID r = []),
      (''ApplicationID'', ap_ApplicationID r = []), (''PartNumber'', ap_PartNumber r = 0)]"

definition missing_CompleteMultipart :: "CompleteMultipartUploadRequest \<Rightarrow> string list" where
  "missing_CompleteMultipart r = absent
     [(''ID'', cm_ID r = []), (''TenantID'', cm_TenantID r = []),
      (''ApplicationID'', cm_ApplicationID r = []), (''Parts'', cm_Parts r = None),
      (''ChecksumSHA256'', cm_ChecksumSHA256 r = []), (''ExpectedVersion'', cm_ExpectedVersion r = 0)]"

definition missing_ReportScan :: "ReportScanResultRequest \<Rightarrow> string list" where
  "missing_ReportScan r = absent
     [(''ID'', sr_ID r = []), (''TenantID'', sr_TenantID r = []),
      (''ApplicationID'', sr_ApplicationID r = []), (''ScanStatus'', sr_ScanStatus r = []),
      (''ExpectedVersion'', sr_ExpectedVersion r = 0)]"

definition missing_FileID :: "FileIDRequest \<Rightarrow> string list" where
  "missing_FileID r = absent
     [(''ID'', fi_ID r = []), (''TenantID'', fi_TenantID r = []),
      (''ApplicationID'', fi_ApplicationID r = [])]"

definition missing_ListFiles :: "ListFilesRequest \<Rightarrow> string list" where
  "missing_ListFiles r = absent
     [(''TenantID'', ls_TenantID r = []), (''ApplicationID'', ls_ApplicationID r = [])]"

definition missing_DeleteFile :: "DeleteFileRequest \<Rightarrow> string list" where
  "missing_DeleteFile r = absent
     [(''ID'', df_ID r = []), (''TenantID'', df_TenantID r = []),
      (''ApplicationID'', df_ApplicationID r = []), (''ExpectedVersion'', df_ExpectedVersion r = 0)]"

text \<open>\<open>c.ShouldBindJSON\<close>: read the body, decode it, check the required fields.\<close>

definition ShouldBindJSON ::
    "binding \<Rightarrow> (string \<Rightarrow> go_error + 'r) \<Rightarrow> ('r \<Rightarrow> string list) \<Rightarrow> gin \<Rightarrow> go_error + 'r" where
  "ShouldBindJSON B decode missing c =
     (case g_Body c of
        Inl err \<Rightarrow> Inl err
      | Inr data \<Rightarrow>
          (case decode data of
             Inl err \<Rightarrow> Inl err
           | Inr r \<Rightarrow> if missing r \<noteq> [] then Inl (bind_required B (missing r)) else Inr r))"

text \<open>The shape all file handlers share: bind, call the service, answer.\<close>

definition bound :: "gin \<Rightarrow> go_error + 'r \<Rightarrow> ('r \<Rightarrow> ('x world, gin) state) \<Rightarrow> ('x world, gin) state" where
  "bound c r k =
     (case r of
        Inl err \<Rightarrow> State_Monad.return (Fail c (Invalid ''invalid json request'' (Some err)))
      | Inr v \<Rightarrow> k v)"

definition respond ::
    "gin \<Rightarrow> ('a \<Rightarrow> body) \<Rightarrow> ('x world, 'a \<times> go_error option) state \<Rightarrow> ('x world, gin) state" where
  "respond c f m = do {
     (v, err) \<leftarrow> m;
     State_Monad.return (case err of Some e \<Rightarrow> Fail c e | None \<Rightarrow> OK c (f v))
   }"

subsection \<open>Handlers\<close>

definition Handler_Live :: "'x handler" where
  "Handler_Live c = State_Monad.return (OK c (BodyHealth Health_Live))"

definition Handler_Ready :: "('x, bool) ext_op \<Rightarrow> 'x HealthService \<Rightarrow> 'x handler" where
  "Handler_Ready arrival health c = do {
     database_first \<leftarrow> ext_call arrival;
     (status, ready) \<leftarrow> ext_call (Health_Ready database_first health);
     State_Monad.return (if \<not> ready
       then write_json 503 \<lparr>resp_Code = CodeDependencyUnavailable, resp_Message = ''service is not ready'',
              resp_Body = BodyHealth status, resp_RequestID = g_request_id c\<rparr> c
       else OK c (BodyHealth status))
   }"

definition Handler_Me :: "'x handler" where
  "Handler_Me c = State_Monad.return (OK c (BodySubject (g_subject c)))"

definition Handler_Version :: "build_vars \<Rightarrow> ('x, int) ext_op \<Rightarrow> 'x handler" where
  "Handler_Version vars clock c = do {
     now \<leftarrow> ext_call clock;
     State_Monad.return (OK c (BodyVersion (buildinfo_Current vars now)))
   }"

definition Handler_InitiateUpload :: "'x runtime \<Rightarrow> 'x Service \<Rightarrow> binding \<Rightarrow> 'x handler" where
  "Handler_InitiateUpload R S B c =
     bound c (ShouldBindJSON B (bind_InitiateUpload B) missing_InitiateUpload c)
       (\<lambda>r. respond c (\<lambda>v. BodyAuthorization (authorizationBody v))
         (Service_InitiateUpload R S (request_ctx c) (iu_TenantID r) (iu_ApplicationID r) (iu_Filename r)
           (iu_ContentType r) (iu_Size r) (iu_ChecksumSHA256 r) (iu_IdempotencyKey r)))"

definition Handler_InitiateMultipartUpload :: "'x runtime \<Rightarrow> 'x Service \<Rightarrow> binding \<Rightarrow> 'x handler" where
  "Handler_InitiateMultipartUpload R S B c =
     bound c (ShouldBindJSON B (bind_InitiateMultipart B) (\<lambda>r. missing_InitiateUpload (im_Base r)) c)
       (\<lambda>r. respond c (\<lambda>v. BodyMultipart (multipartAuthorizationBody v))
         (Service_InitiateMultipartUpload R S (request_ctx c) (iu_TenantID (im_Base r))
           (iu_ApplicationID (im_Base r)) (iu_Filename (im_Base r)) (iu_ContentType (im_Base r))
           (iu_Size (im_Base r)) (iu_ChecksumSHA256 (im_Base r)) (iu_IdempotencyKey (im_Base r))
           (im_PartSize r)))"

definition Handler_AuthorizeUploadPart :: "'x runtime \<Rightarrow> 'x Service \<Rightarrow> binding \<Rightarrow> 'x handler" where
  "Handler_AuthorizeUploadPart R S B c =
     bound c (ShouldBindJSON B (bind_AuthorizePart B) missing_AuthorizePart c)
       (\<lambda>r. respond c (\<lambda>v. BodyAuthorization (authorizationBody v))
         (Service_AuthorizeUploadPart R S (request_ctx c) (ap_ID r) (ap_TenantID r) (ap_ApplicationID r)
           (ap_PartNumber r)))"

definition completed_part :: "CompletedPartRequest \<Rightarrow> CompletedPart" where
  "completed_part part = \<lparr>cp_PartNumber = pr_PartNumber part, cp_ETag = pr_ETag part\<rparr>"

definition part_list :: "CompletedPartRequest list option \<Rightarrow> CompletedPart list" where
  "part_list parts = (case parts of None \<Rightarrow> [] | Some ps \<Rightarrow> map completed_part ps)"

definition Handler_CompleteMultipartUpload :: "'x runtime \<Rightarrow> 'x Service \<Rightarrow> binding \<Rightarrow> 'x handler" where
  "Handler_CompleteMultipartUpload R S B c =
     bound c (ShouldBindJSON B (bind_CompleteMultipart B) missing_CompleteMultipart c)
       (\<lambda>r. respond c (\<lambda>v. BodyFile (fileBody v))
         (Service_CompleteMultipartUpload R S (request_ctx c) (cm_ID r) (cm_TenantID r)
           (cm_ApplicationID r) (cm_ChecksumSHA256 r) (part_list (cm_Parts r)) (cm_ExpectedVersion r)))"

definition Handler_AbortMultipartUpload :: "'x runtime \<Rightarrow> 'x Service \<Rightarrow> binding \<Rightarrow> 'x handler" where
  "Handler_AbortMultipartUpload R S B c =
     bound c (ShouldBindJSON B (bind_DeleteFile B) missing_DeleteFile c)
       (\<lambda>r. respond c (\<lambda>v. BodyFile (fileBody v))
         (Service_AbortMultipartUpload R S (request_ctx c) (df_ID r) (df_TenantID r) (df_ApplicationID r)
           (df_ExpectedVersion r)))"

definition Handler_CompleteUpload :: "'x runtime \<Rightarrow> 'x Service \<Rightarrow> binding \<Rightarrow> 'x handler" where
  "Handler_CompleteUpload R S B c =
     bound c (ShouldBindJSON B (bind_CompleteUpload B) missing_CompleteUpload c)
       (\<lambda>r. respond c (\<lambda>v. BodyFile (fileBody v))
         (Service_CompleteUpload R S (request_ctx c) (cu_ID r) (cu_TenantID r) (cu_ApplicationID r)
           (cu_ChecksumSHA256 r) (cu_ExpectedVersion r)))"

definition Handler_ReportScanResult :: "'x runtime \<Rightarrow> 'x Service \<Rightarrow> binding \<Rightarrow> 'x handler" where
  "Handler_ReportScanResult R S B c =
     bound c (ShouldBindJSON B (bind_ReportScan B) missing_ReportScan c)
       (\<lambda>r. respond c (\<lambda>v. BodyFile (fileBody v))
         (Service_ReportScanResult R S (request_ctx c) (sr_ID r) (sr_TenantID r) (sr_ApplicationID r)
           (sr_ScanStatus r) (sr_ExpectedVersion r)))"

definition Handler_GetFile :: "'x runtime \<Rightarrow> 'x Service \<Rightarrow> binding \<Rightarrow> 'x handler" where
  "Handler_GetFile R S B c =
     bound c (ShouldBindJSON B (bind_FileID B) missing_FileID c)
       (\<lambda>r. respond c (\<lambda>v. BodyFile (fileBody v))
         (Service_Get R S (request_ctx c) (fi_ID r) (fi_TenantID r) (fi_ApplicationID r)))"

definition list_filter :: "ListFilesRequest \<Rightarrow> ListFilter" where
  "list_filter r =
     \<lparr>lf_TenantID = ls_TenantID r, lf_ApplicationID = ls_ApplicationID r, lf_Keyword = ls_Keyword r,
      lf_Status = ls_Status r, lf_ScanStatus = ls_ScanStatus r, lf_ContentType = ls_ContentType r,
      lf_OwnerID = ls_OwnerID r, lf_Page = ls_Page r, lf_PageSize = ls_PageSize r\<rparr>"

definition Handler_ListFiles :: "'x runtime \<Rightarrow> 'x Service \<Rightarrow> binding \<Rightarrow> 'x handler" where
  "Handler_ListFiles R S B c =
     bound c (ShouldBindJSON B (bind_ListFiles B) missing_ListFiles c)
       (\<lambda>r. respond c (\<lambda>v. BodyPage (filePageBody v))
         (Service_List R S (request_ctx c) (list_filter r)))"

definition Handler_AuthorizeDownload :: "'x runtime \<Rightarrow> 'x Service \<Rightarrow> binding \<Rightarrow> 'x handler" where
  "Handler_AuthorizeDownload R S B c =
     bound c (ShouldBindJSON B (bind_FileID B) missing_FileID c)
       (\<lambda>r. respond c (\<lambda>v. BodyAuthorization (authorizationBody v))
         (Service_AuthorizeDownload R S (request_ctx c) (fi_ID r) (fi_TenantID r) (fi_ApplicationID r)))"

definition Handler_DeleteFile :: "'x runtime \<Rightarrow> 'x Service \<Rightarrow> binding \<Rightarrow> 'x handler" where
  "Handler_DeleteFile R S B c =
     bound c (ShouldBindJSON B (bind_DeleteFile B) missing_DeleteFile c)
       (\<lambda>r. respond c (\<lambda>v. BodyFile (fileBody v))
         (Service_Delete R S (request_ctx c) (df_ID r) (df_TenantID r) (df_ApplicationID r)
           (df_ExpectedVersion r)))"

end
