(* ===== verification/Go_Path.thy ===== *)
theory Go_Path
  imports Go_Strings App_Error
begin

text \<open>
  The standard library functions on slash-separated paths that the program uses: \<open>path.Match\<close>
  with the helpers of its implementation, the decoding of UTF-8 it needs, and
  \<open>filepath.Ext\<close>.

  A pattern is malformed independently of the name it is matched with
  (\<open>bad_pattern_uniform\<close>): this is why checking a pattern once, when the configuration is
  loaded, is enough. And a pattern without classes and escapes never lets a star or a question
  mark stand for a slash (\<open>Match_slashes\<close>).
\<close>

definition ErrBadPattern :: go_error where
  "ErrBadPattern = Errorf ''syntax error in pattern''"

definition in_range :: "nat \<Rightarrow> nat \<Rightarrow> nat \<Rightarrow> bool" where
  "in_range x lo hi \<longleftrightarrow> lo \<le> x \<and> x \<le> hi"

definition RuneError :: nat where
  "RuneError = 65533"

text \<open>\<open>utf8.DecodeRuneInString\<close>: the first rune and its width.\<close>

definition DecodeRune :: "string \<Rightarrow> nat \<times> nat" where
  "DecodeRune s =
     (let a = byte s 0; b = byte s 1; c = byte s 2; d = byte s 3 in
      if s = [] then (RuneError, 0)
      else if a < 128 then (a, 1)
      else if in_range a 194 223 \<and> in_range b 128 191
        then ((a - 192) * 64 + (b - 128), 2)
      else if in_range a 224 239 \<and> in_range c 128 191 \<and>
          in_range b (if a = 224 then 160 else 128) (if a = 237 then 159 else 191)
        then ((a - 224) * 4096 + (b - 128) * 64 + (c - 128), 3)
      else if in_range a 240 244 \<and> in_range c 128 191 \<and> in_range d 128 191 \<and>
          in_range b (if a = 240 then 144 else 128) (if a = 244 then 143 else 191)
        then ((a - 240) * 262144 + (b - 128) * 4096 + (c - 128) * 64 + (d - 128), 4)
      else (RuneError, 1))"

text \<open>The body of a chunk: up to the first star outside a class, and the rest of the pattern.\<close>

fun scan_body :: "bool \<Rightarrow> string \<Rightarrow> string \<times> string" where
  "scan_body inrange [] = ([], [])"
| "scan_body inrange (x # p) =
     (if x = CHR 0x5C then
        (case p of
           [] \<Rightarrow> ([x], [])
         | y # q \<Rightarrow> (case scan_body inrange q of (chunk, rest) \<Rightarrow> (x # y # chunk, rest)))
      else if x = CHR ''*'' \<and> \<not> inrange then ([], x # p)
      else
        (case scan_body (if x = CHR ''['' then True else if x = CHR '']'' then False else inrange) p of
           (chunk, rest) \<Rightarrow> (x # chunk, rest)))"

definition scanChunk :: "string \<Rightarrow> bool \<times> string \<times> string" where
  "scanChunk pattern =
     (case scan_body False (dropWhile (\<lambda>c. c = CHR ''*'') pattern) of
        (chunk, rest) \<Rightarrow> (pattern \<noteq> [] \<and> hd pattern = CHR ''*'', chunk, rest))"

definition getEsc :: "string \<Rightarrow> go_error + nat \<times> string" where
  "getEsc chunk =
     (if chunk = [] \<or> hd chunk = CHR ''-'' \<or> hd chunk = CHR '']'' then Inl ErrBadPattern
      else
        let chunk = (if hd chunk = CHR 0x5C then tl chunk else chunk) in
        if chunk = [] then Inl ErrBadPattern
        else case DecodeRune chunk of
            (r, n) \<Rightarrow>
              if r = RuneError \<and> n = 1 \<or> drop n chunk = [] then Inl ErrBadPattern
              else Inr (r, drop n chunk))"

lemma DecodeRune_width: "s \<noteq> [] \<Longrightarrow> 1 \<le> snd (DecodeRune s)"
  by (simp add: DecodeRune_def Let_def)

lemma getEsc_shorter:
  assumes "getEsc chunk = Inr (r, rest)"
  shows "length rest < length chunk" "rest \<noteq> []"
proof -
  define c where "c = (if hd chunk = CHR 0x5C then tl chunk else chunk)"
  obtain q n where d: "DecodeRune c = (q, n)" by fastforce
  from assms d have c: "c \<noteq> []" "chunk \<noteq> []" "rest = drop n c" "drop n c \<noteq> []"
    by (auto simp: getEsc_def Let_def c_def [symmetric] split: if_splits)
  have "length c \<le> length chunk" by (simp add: c_def)
  moreover have "1 \<le> n" using DecodeRune_width [OF c(1)] d by simp
  moreover have "length c \<noteq> 0" using c(1) by simp
  ultimately show "length rest < length chunk" unfolding c(3) by (cases c) auto
  show "rest \<noteq> []" using c by simp
qed

text \<open>
  The loop over the ranges of a class, after the bracket and the optional caret: whether some range
  contains the rune \<open>r\<close>, and the chunk behind the class.
\<close>

function class_ranges :: "nat \<Rightarrow> bool \<Rightarrow> bool \<Rightarrow> string \<Rightarrow> go_error + bool \<times> string" where
  "class_ranges r some match chunk =
     (if chunk \<noteq> [] \<and> hd chunk = CHR '']'' \<and> some then Inr (match, tl chunk)
      else case getEsc chunk of
          Inl e \<Rightarrow> Inl e
        | Inr (lo, chunk1) \<Rightarrow>
            if hd chunk1 = CHR ''-'' then
              (case getEsc (tl chunk1) of
                 Inl e \<Rightarrow> Inl e
               | Inr (hi, chunk2) \<Rightarrow> class_ranges r True (match \<or> lo \<le> r \<and> r \<le> hi) chunk2)
            else class_ranges r True (match \<or> lo = r) chunk1)"
  by pat_completeness auto
termination
proof (relation "measure (\<lambda>(r, some, match, chunk). length chunk)")
  fix r :: nat and some match :: bool and chunk :: string and x :: "nat \<times> string"
  fix lo hi :: nat and chunk1 chunk2 :: string and y :: "nat \<times> string"
  assume e: "getEsc chunk = Inr x" "(lo, chunk1) = x" "getEsc (tl chunk1) = Inr y" "(hi, chunk2) = y"
  then have "length chunk1 < length chunk" "length chunk2 < length (tl chunk1)"
    using getEsc_shorter(1) by blast+
  then show "((r, True, match \<or> lo \<le> r \<and> r \<le> hi, chunk2), r, some, match, chunk)
      \<in> measure (\<lambda>(r, some, match, chunk). length chunk)" by simp
next
  fix r :: nat and some match :: bool and chunk :: string and x :: "nat \<times> string"
  fix lo :: nat and chunk1 :: string
  assume "getEsc chunk = Inr x" "(lo, chunk1) = x"
  then have "length chunk1 < length chunk" using getEsc_shorter(1) by blast
  then show "((r, True, match \<or> lo = r, chunk1), r, some, match, chunk)
      \<in> measure (\<lambda>(r, some, match, chunk). length chunk)" by simp
qed simp

declare class_ranges.simps [simp del]

lemma class_ranges_shorter:
  "class_ranges r some match chunk = Inr (m, rest) \<Longrightarrow> length rest < length chunk"
proof (induction r some match chunk rule: class_ranges.induct)
  case (1 r some match chunk)
  show ?case
  proof (cases "chunk \<noteq> [] \<and> hd chunk = CHR '']'' \<and> some")
    case True
    then show ?thesis using "1.prems" unfolding class_ranges.simps [of r some match chunk] by auto
  next
    case False
    note step = "1.prems" [unfolded class_ranges.simps [of r some match chunk] if_not_P [OF False]]
    then obtain lo chunk1 where e: "getEsc chunk = Inr (lo, chunk1)" by (auto split: sum.splits)
    note lt = getEsc_shorter(1) [OF e]
    show ?thesis
    proof (cases "hd chunk1 = CHR ''-''")
      case dash: True
      with step e obtain hi chunk2 where e2: "getEsc (tl chunk1) = Inr (hi, chunk2)"
        by (auto split: sum.splits)
      have "class_ranges r True (match \<or> lo \<le> r \<and> r \<le> hi) chunk2 = Inr (m, rest)"
        using step e dash e2 by simp
      with "1.IH"(1) [OF False e refl dash e2 refl] getEsc_shorter(1) [OF e2] lt show ?thesis by simp
    next
      case no_dash: False
      have "class_ranges r True (match \<or> lo = r) chunk1 = Inr (m, rest)"
        using step e no_dash by simp
      with "1.IH"(2) [OF False e refl no_dash] lt show ?thesis by simp
    qed
  qed
qed

text \<open>The chunk after the caret of a negated class.\<close>

definition class_body :: "string \<Rightarrow> bool \<times> string" where
  "class_body chunk =
     (if chunk \<noteq> [] \<and> hd chunk = CHR ''^'' then (True, tl chunk) else (False, chunk))"

lemma class_body_length: "length (snd (class_body chunk)) \<le> length chunk"
  by (simp add: class_body_def)

lemma class_shorter:
  assumes "class_ranges r False False (snd (class_body (tl chunk))) = Inr (m, rest)"
  shows "length rest < length chunk"
proof -
  have "length rest < length (snd (class_body (tl chunk)))" by (rule class_ranges_shorter [OF assms])
  also have "\<dots> \<le> length (tl chunk)" by (rule class_body_length)
  finally show ?thesis by simp
qed

text \<open>
  \<open>matchChunk\<close>: an error, no match (\<open>Inr None\<close>) or the rest of the name. After a
  mismatch (\<open>failed\<close>) the loop goes on through the chunk to check its syntax.
\<close>

function matchChunk :: "bool \<Rightarrow> string \<Rightarrow> string \<Rightarrow> go_error + string option" where
  "matchChunk failed chunk s =
     (if chunk = [] then Inr (if failed then None else Some s)
      else
        let failed = (failed \<or> s = []) in
        if hd chunk = CHR ''['' then
          (case (if failed then (0, s) else (fst (DecodeRune s), drop (snd (DecodeRune s)) s)) of
             (r, s1) \<Rightarrow>
               (case class_ranges r False False (snd (class_body (tl chunk))) of
                  Inl e \<Rightarrow> Inl e
                | Inr (match, rest) \<Rightarrow>
                    matchChunk (failed \<or> match = fst (class_body (tl chunk))) rest s1))
        else if hd chunk = CHR ''?'' then
          matchChunk (failed \<or> hd s = CHR ''/'') (tl chunk)
            (if failed then s else drop (snd (DecodeRune s)) s)
        else if hd chunk = CHR 0x5C then
          (if tl chunk = [] then Inl ErrBadPattern
           else matchChunk (failed \<or> hd (tl chunk) \<noteq> hd s) (tl (tl chunk)) (if failed then s else tl s))
        else matchChunk (failed \<or> hd chunk \<noteq> hd s) (tl chunk) (if failed then s else tl s))"
  by pat_completeness auto
termination
  by (relation "measure (\<lambda>(failed, chunk, s). length chunk)")
    (auto dest!: class_shorter split: if_splits)

declare matchChunk.simps [simp del]

text \<open>The positions a star may skip to; \<open>final\<close> says that the chunk is the last of the pattern.\<close>

fun star_search :: "string \<Rightarrow> bool \<Rightarrow> string \<Rightarrow> go_error + string option" where
  "star_search chunk final [] = Inr None"
| "star_search chunk final (c # name) =
     (if c = CHR ''/'' then Inr None
      else case matchChunk False chunk name of
          Inl e \<Rightarrow> Inl e
        | Inr None \<Rightarrow> star_search chunk final name
        | Inr (Some t) \<Rightarrow> if final \<and> t \<noteq> [] then star_search chunk final name else Inr (Some t))"

lemma scan_body_append: "scan_body b p = (chunk, rest) \<Longrightarrow> p = chunk @ rest"
  by (induction b p arbitrary: chunk rest rule: scan_body.induct)
    (auto split: if_splits prod.splits list.splits)

lemma scanChunk_shorter:
  assumes "pattern \<noteq> []" "scanChunk pattern = (star, chunk, rest)"
  shows "length rest < length pattern"
proof -
  let ?p = "dropWhile (\<lambda>c. c = CHR ''*'') pattern"
  from assms(2) have sb: "scan_body False ?p = (chunk, rest)"
    by (auto simp: scanChunk_def split: prod.splits)
  note eq = scan_body_append [OF sb]
  show ?thesis
  proof (cases "hd pattern = CHR ''*''")
    case True
    then have "length ?p < length pattern" using assms(1)
      by (cases pattern) (auto intro: le_imp_less_Suc length_dropWhile_le)
    moreover have "length rest \<le> length ?p" using eq by (metis length_append le_add2)
    ultimately show ?thesis by linarith
  next
    case False
    then have p: "?p = pattern" using assms(1) by (cases pattern) auto
    then have "chunk \<noteq> []" using sb False assms(1)
      by (cases pattern) (auto split: if_splits prod.splits list.splits)
    then show ?thesis using eq p by (metis length_append length_greater_0_conv less_add_same_cancel2)
  qed
qed

text \<open>The check of the rest of a pattern before a mismatch is reported.\<close>

function rest_error :: "string \<Rightarrow> go_error option" where
  "rest_error pattern =
     (if pattern = [] then None
      else case scanChunk pattern of
          (star, chunk, rest) \<Rightarrow>
            (case matchChunk False chunk [] of Inl e \<Rightarrow> Some e | Inr _ \<Rightarrow> rest_error rest))"
  by pat_completeness auto
termination
  by (relation "measure length") (auto dest: scanChunk_shorter [OF _ sym])

declare rest_error.simps [simp del]

function path_Match :: "string \<Rightarrow> string \<Rightarrow> go_error + bool" where
  "path_Match pattern name =
     (if pattern = [] then Inr (name = [])
      else case scanChunk pattern of
          (star, chunk, rest) \<Rightarrow>
            if star \<and> chunk = [] then Inr (CHR ''/'' \<notin> set name)
            else
              (case matchChunk False chunk name of
                 Inl e \<Rightarrow> Inl e
               | Inr here \<Rightarrow>
                   (case (case here of
                       Some t \<Rightarrow> if t = [] \<or> rest \<noteq> [] then Inr (Some t)
                         else if star then star_search chunk (rest = []) name else Inr None
                     | None \<Rightarrow> if star then star_search chunk (rest = []) name else Inr None) of
                      Inl e \<Rightarrow> Inl e
                    | Inr (Some t) \<Rightarrow> path_Match rest t
                    | Inr None \<Rightarrow>
                        (case rest_error rest of Some e \<Rightarrow> Inl e | None \<Rightarrow> Inr False))))"
  by pat_completeness auto
termination
  by (relation "measure (\<lambda>(pattern, name). length pattern)") (auto dest: scanChunk_shorter [OF _ sym])

declare path_Match.simps [simp del]

subsection \<open>Malformed patterns\<close>

text \<open>Where a class ends, and whether it is well formed, does not depend on the rune.\<close>

lemma class_ranges_uniform:
  "map_sum id snd (class_ranges r some m chunk) = map_sum id snd (class_ranges r' some m' chunk)"
proof (induction r some m chunk arbitrary: m' rule: class_ranges.induct)
  case (1 r some m chunk)
  show ?case
  proof (cases "chunk \<noteq> [] \<and> hd chunk = CHR '']'' \<and> some")
    case True
    then show ?thesis unfolding class_ranges.simps [of _ some _ chunk] by simp
  next
    case False
    note step = class_ranges.simps [of _ some _ chunk, unfolded if_not_P [OF False]]
    show ?thesis
    proof (cases "getEsc chunk")
      case (Inl e)
      then show ?thesis unfolding step by simp
    next
      case (Inr x)
      obtain lo chunk1 where x: "x = (lo, chunk1)" by (cases x)
      show ?thesis
      proof (cases "hd chunk1 = CHR ''-''")
        case True
        then show ?thesis
          using "1.IH"(1) [OF False Inr x [symmetric] True]
          by (cases "getEsc (tl chunk1)") (auto simp: step Inr x)
      next
        case no: False
        then show ?thesis using "1.IH"(2) [OF False Inr x [symmetric] no] by (simp add: step Inr x)
      qed
    qed
  qed
qed

lemma map_sum_snd_Inl: "map_sum id snd (Inl e) = map_sum id snd c \<Longrightarrow> \<exists>e'. c = Inl e'"
  by (cases c) auto

lemma map_sum_snd_Inr: "map_sum id snd (Inr (m, rest)) = map_sum id snd c \<Longrightarrow> \<exists>m'. c = Inr (m', rest)"
  by (cases c) auto

lemma matchChunk_uniform: "isl (matchChunk f chunk s) = isl (matchChunk f' chunk s')"
proof (induction chunk arbitrary: f s f' s' rule: length_induct)
  case (1 chunk)
  have IH: "isl (matchChunk g c u) = isl (matchChunk g' c u')" if "length c < length chunk" for c g u g' u'
    using "1" that by blast
  show ?case
  proof (cases "chunk = []")
    case True
    then show ?thesis by (simp add: matchChunk.simps)
  next
    case ne: False
    then have short: "length (tl chunk) < length chunk" "length (tl (tl chunk)) < length chunk"
      by (cases chunk; simp)+
    show ?thesis
    proof (cases "hd chunk = CHR ''[''")
      case True
      have cls: "isl (matchChunk g chunk u) =
          (case class_ranges 0 False False (snd (class_body (tl chunk))) of
             Inl e \<Rightarrow> True | Inr (m, rest) \<Rightarrow> isl (matchChunk True rest []))" for g u
      proof -
        let ?f = "g \<or> u = []"
        define r where "r = (if ?f then 0 else fst (DecodeRune u))"
        define u1 where "u1 = (if ?f then u else drop (snd (DecodeRune u)) u)"
        have run: "matchChunk g chunk u = (case class_ranges r False False (snd (class_body (tl chunk))) of
            Inl e \<Rightarrow> Inl e
          | Inr (match, rest) \<Rightarrow> matchChunk (?f \<or> match = fst (class_body (tl chunk))) rest u1)"
          unfolding matchChunk.simps [of g chunk u] r_def u1_def Let_def if_not_P [OF ne] if_P [OF True]
          by (cases ?f) (simp_all only: if_True if_False prod.case)
        have uni: "map_sum id snd (class_ranges r False False (snd (class_body (tl chunk)))) =
            map_sum id snd (class_ranges 0 False False (snd (class_body (tl chunk))))"
          by (rule class_ranges_uniform)
        show ?thesis
        proof (cases "class_ranges r False False (snd (class_body (tl chunk)))")
          case (Inl e)
          moreover obtain e' where "class_ranges 0 False False (snd (class_body (tl chunk))) = Inl e'"
            using uni [unfolded Inl] by (blast dest: map_sum_snd_Inl)
          ultimately show ?thesis using run by simp
        next
          case (Inr x)
          obtain m rest where x: "x = (m, rest)" by (cases x)
          obtain m0 where z: "class_ranges 0 False False (snd (class_body (tl chunk))) = Inr (m0, rest)"
            using uni [unfolded Inr x] by (blast dest: map_sum_snd_Inr)
          show ?thesis using run Inr x z IH [OF class_shorter [OF z]] by simp
        qed
      qed
      show ?thesis unfolding cls ..
    next
      case no_class: False
      have next_chunk: "\<exists>g' u'. matchChunk g chunk u = matchChunk g'
          (if hd chunk = CHR 0x5C then tl (tl chunk) else tl chunk) u'"
        if "\<not> (hd chunk = CHR 0x5C \<and> tl chunk = [])" for g u
      proof -
        note step = matchChunk.simps [of g chunk u, unfolded Let_def if_not_P [OF ne] if_not_P [OF no_class]]
        show ?thesis
        proof (cases "hd chunk = CHR ''?''")
          case True
          then show ?thesis unfolding step if_P [OF True] by auto
        next
          case noq: False
          show ?thesis unfolding step if_not_P [OF noq] using that by (cases "hd chunk = CHR 0x5C") auto
        qed
      qed
      show ?thesis
      proof (cases "hd chunk = CHR 0x5C \<and> tl chunk = []")
        case True
        then show ?thesis using ne unfolding matchChunk.simps [of _ chunk] by (simp add: Let_def)
      next
        case False
        have "length (if hd chunk = CHR 0x5C then tl (tl chunk) else tl chunk) < length chunk"
          using short by simp
        with IH next_chunk [OF False] show ?thesis by metis
      qed
    qed
  qed
qed

lemma star_search_good:
  assumes "\<not> isl (matchChunk False chunk [])"
  shows "\<not> isl (star_search chunk final name)"
proof (induction name)
  case (Cons c name)
  have "\<not> isl (matchChunk False chunk name)" using assms matchChunk_uniform by metis
  then obtain r where "matchChunk False chunk name = Inr r" by (cases "matchChunk False chunk name") auto
  then show ?case using Cons by (cases r) auto
qed simp

lemma scan_empty_chunk:
  assumes "scanChunk pattern = (star, [], rest)" "pattern \<noteq> []"
  shows "rest = []"
proof -
  let ?p = "dropWhile (\<lambda>c. c = CHR ''*'') pattern"
  from assms(1) have sb: "scan_body False ?p = ([], rest)" by (auto simp: scanChunk_def split: prod.splits)
  show ?thesis
  proof (cases ?p)
    case Nil
    then show ?thesis using sb unfolding Nil by simp
  next
    case (Cons x q)
    then have "x \<noteq> CHR ''*''" using hd_dropWhile [of "\<lambda>c. c = CHR ''*''" pattern] by simp
    then have "fst (scan_body False (x # q)) \<noteq> []"
      unfolding scan_body.simps(2) by (simp split: prod.split list.split del: scan_body.simps)
    then show ?thesis using sb unfolding Cons by simp
  qed
qed

lemma bad_pattern_uniform: "isl (path_Match pattern name) \<longleftrightarrow> rest_error pattern \<noteq> None"
proof (induction pattern name rule: path_Match.induct)
  case (1 pattern name)
  show ?case
  proof (cases "pattern = []")
    case True
    then show ?thesis by (simp add: path_Match.simps [of "[]"] rest_error.simps)
  next
    case ne: False
    obtain star chunk rest where sc: "scanChunk pattern = (star, chunk, rest)" by (metis prod.collapse)
    have re: "rest_error pattern = (case matchChunk False chunk [] of Inl e \<Rightarrow> Some e | Inr _ \<Rightarrow> rest_error rest)"
      unfolding rest_error.simps [of pattern] using ne sc by simp
    show ?thesis
    proof (cases "star \<and> chunk = []")
      case True
      then have "rest = []" using scan_empty_chunk sc ne by blast
      then show ?thesis unfolding re path_Match.simps [of pattern] using ne sc True
        by (simp add: matchChunk.simps rest_error.simps)
    next
      case no: False
      show ?thesis
      proof (cases "matchChunk False chunk name")
        case (Inl e)
        then have "isl (matchChunk False chunk [])" using matchChunk_uniform [of False chunk name False "[]"] by simp
        then show ?thesis unfolding re path_Match.simps [of pattern] using ne sc no Inl
          by (auto split: sum.splits)
      next
        case (Inr here)
        then have good: "\<not> isl (matchChunk False chunk [])"
          using matchChunk_uniform [of False chunk name False "[]"] by simp
        then have re': "rest_error pattern = rest_error rest" unfolding re by (auto split: sum.splits)
        define found where "found = (case here of
            Some t \<Rightarrow> if t = [] \<or> rest \<noteq> [] then Inr (Some t)
              else if star then star_search chunk (rest = []) name else Inr None
          | None \<Rightarrow> if star then star_search chunk (rest = []) name else Inr None)"
        have "\<not> isl found" unfolding found_def using star_search_good [OF good] by (auto split: option.splits)
        then obtain o' where o: "found = Inr o'" by (cases found) auto
        have run: "path_Match pattern name = (case o' of
            Some t \<Rightarrow> path_Match rest t
          | None \<Rightarrow> (case rest_error rest of Some e \<Rightarrow> Inl e | None \<Rightarrow> Inr False))"
          unfolding path_Match.simps [of pattern] using ne sc no Inr o [unfolded found_def]
          by (auto split: option.splits)
        show ?thesis
        proof (cases o')
          case (Some t)
          have "isl (path_Match rest t) \<longleftrightarrow> rest_error rest \<noteq> None"
            by (rule "1.IH" [OF ne sc [symmetric] refl no Inr o [unfolded found_def] Some])
          then show ?thesis unfolding run re' Some by simp
        next
          case None
          then show ?thesis unfolding run re' None by (auto split: option.splits)
        qed
      qed
    qed
  qed
qed

subsection \<open>Literal patterns\<close>

text \<open>A pattern without special characters matches its own text only.\<close>

definition literal_pattern :: "string \<Rightarrow> bool" where
  "literal_pattern p \<longleftrightarrow> list_all (\<lambda>c. c \<notin> {CHR ''*'', CHR ''?'', CHR ''['', CHR 0x5C}) p"

lemma literal_scan: "literal_pattern p \<Longrightarrow> scanChunk p = (False, p, [])"
proof -
  assume lit: "literal_pattern p"
  then have "scan_body False p = (p, [])" by (induction p) (auto simp: literal_pattern_def)
  moreover have "dropWhile (\<lambda>c. c = CHR ''*'') p = p" using lit by (cases p) (auto simp: literal_pattern_def)
  moreover have "p \<noteq> [] \<Longrightarrow> hd p \<noteq> CHR ''*''" using lit by (cases p) (auto simp: literal_pattern_def)
  ultimately show ?thesis by (auto simp: scanChunk_def)
qed

lemma literal_chunk:
  "literal_pattern p \<Longrightarrow> matchChunk failed p s =
    Inr (if \<not> failed \<and> take (length p) s = p then Some (drop (length p) s) else None)"
proof (induction p arbitrary: failed s)
  case (Cons c p)
  then show ?case by (subst matchChunk.simps, cases s) (auto simp: literal_pattern_def Let_def)
qed (simp add: matchChunk.simps)

lemma literal_Match: "literal_pattern p \<Longrightarrow> path_Match p name = Inr (name = p)"
proof (cases "p = []")
  case False
  assume lit: "literal_pattern p"
  have eq: "take (length p) name = p \<and> drop (length p) name = [] \<longleftrightarrow> name = p"
    by (metis append_take_drop_id append_Nil2 take_all drop_all order_refl)
  show ?thesis using False eq
    by (subst path_Match.simps)
      (auto simp: literal_scan [OF lit] literal_chunk [OF lit] rest_error.simps path_Match.simps [of "[]"] split: option.splits)
qed (simp add: path_Match.simps)

subsection \<open>Path separators\<close>

definition slashes :: "string \<Rightarrow> nat" where
  "slashes s = count_list s (CHR ''/'')"

definition plain_pattern :: "string \<Rightarrow> bool" where
  "plain_pattern p \<longleftrightarrow> CHR ''['' \<notin> set p \<and> CHR 0x5C \<notin> set p"

lemma slashes_simps [simp]:
  "slashes [] = 0"
  "slashes (c # s) = (if c = CHR ''/'' then 1 else 0) + slashes s"
  "slashes (s @ t) = slashes s + slashes t"
  by (simp_all add: slashes_def)

text \<open>A rune that does not start with a slash byte contains none.\<close>

lemma byte_high_not_slash: "128 \<le> byte s i \<Longrightarrow> i < length s \<and> s ! i \<noteq> CHR ''/''"
  by (auto simp: byte_def split: if_splits)

lemma slashes_take: "(\<And>i. i < n \<Longrightarrow> i < length s \<and> s ! i \<noteq> CHR ''/'') \<Longrightarrow> slashes (drop n s) = slashes s"
proof (induction n arbitrary: s)
  case (Suc n)
  show ?case
  proof (cases s)
    case (Cons c t)
    have "slashes (drop n t) = slashes t"
      using Suc.prems Cons by (intro Suc.IH) fastforce
    moreover have "c \<noteq> CHR ''/''" using Suc.prems [of 0] Cons by simp
    ultimately show ?thesis using Cons by simp
  qed simp
qed simp

lemma DecodeRune_bytes:
  assumes "DecodeRune s = (r, n)" "s \<noteq> []" "hd s \<noteq> CHR ''/''" "i < n"
  shows "i < length s \<and> s ! i \<noteq> CHR ''/''"
proof (cases i)
  case 0
  then show ?thesis using assms(2,3) by (cases s) auto
next
  case (Suc j)
  then have "i = 1 \<or> i = 2 \<or> i = 3" "1 < n" and le: "n \<le> 4"
    using assms by (auto simp: DecodeRune_def Let_def split: if_splits)
  moreover have "128 \<le> byte s i"
    using assms(1) calculation assms(4) unfolding DecodeRune_def Let_def in_range_def
    by (auto split: if_splits)
  ultimately show ?thesis using byte_high_not_slash by blast
qed

lemma slashes_drop_rune:
  assumes "s \<noteq> []" "hd s \<noteq> CHR ''/''"
  shows "slashes (drop (snd (DecodeRune s)) s) = slashes s"
  by (rule slashes_take, rule DecodeRune_bytes [OF prod.collapse [symmetric] assms])

lemma matchChunk_failed: "matchChunk True chunk s \<noteq> Inr (Some t)"
proof (induction chunk arbitrary: s rule: length_induct)
  case (1 chunk)
  have IH: "matchChunk True c u \<noteq> Inr (Some t)" if "length c < length chunk" for c u
    using "1" that by blast
  show ?case
  proof (cases chunk)
    case Nil
    then show ?thesis by (simp add: matchChunk.simps)
  next
    case (Cons x c)
    have cls: "matchChunk True rest u \<noteq> Inr (Some t)"
      if "class_ranges r False False (snd (class_body c)) = Inr (m, rest)" for r m rest u
      using class_shorter [of r chunk m rest] that Cons by (intro IH) simp
    have one: "matchChunk True c u \<noteq> Inr (Some t)" for u using Cons by (intro IH) simp
    have two: "matchChunk True (tl c) u \<noteq> Inr (Some t)" for u
      using Cons by (intro IH) (simp add: less_Suc_eq_le)
    show ?thesis unfolding Cons matchChunk.simps [of True "x # c"]
      by (auto split: sum.split simp: cls one two)
  qed
qed

lemma matchChunk_slashes:
  assumes "matchChunk False chunk s = Inr (Some t)" "plain_pattern chunk"
  shows "slashes s = slashes chunk + slashes t"
  using assms
proof (induction chunk arbitrary: s)
  case Nil
  then show ?case by (simp add: matchChunk.simps)
next
  case (Cons x c)
  have x: "x \<noteq> CHR ''[''" "x \<noteq> CHR 0x5C" and c: "plain_pattern c" using Cons.prems(2) by (auto simp: plain_pattern_def)
  show ?case
  proof (cases "s = []")
    case True
    then show ?thesis using Cons.prems(1) x matchChunk_failed
      unfolding matchChunk.simps [of False "x # c"] by (auto split: if_splits)
  next
    case s: False
    show ?thesis
    proof (cases "x = CHR ''?''")
      case True
      with Cons.prems(1) s have run: "matchChunk (hd s = CHR ''/'') c (drop (snd (DecodeRune s)) s) = Inr (Some t)"
        unfolding matchChunk.simps [of False "x # c"] by simp
      then have ns: "hd s \<noteq> CHR ''/''" using matchChunk_failed by auto
      with run Cons.IH [OF _ c] slashes_drop_rune [OF s ns] True show ?thesis by simp
    next
      case False
      with Cons.prems(1) s x have run: "matchChunk (x \<noteq> hd s) c (tl s) = Inr (Some t)"
        unfolding matchChunk.simps [of False "x # c"] by simp
      then have "x = hd s" by (cases "x = hd s") (auto simp: matchChunk_failed)
      with run Cons.IH [OF _ c, of "tl s"] s show ?thesis by (cases s) auto
    qed
  qed
qed

lemma star_search_slashes:
  "star_search chunk final name = Inr (Some t) \<Longrightarrow> plain_pattern chunk \<Longrightarrow>
     slashes name = slashes chunk + slashes t"
  by (induction name) (auto split: if_splits sum.splits option.splits dest: matchChunk_slashes)

lemma scanChunk_split:
  assumes "scanChunk pattern = (star, chunk, rest)"
  shows "slashes pattern = slashes chunk + slashes rest"
    "plain_pattern pattern \<Longrightarrow> plain_pattern chunk \<and> plain_pattern rest"
proof -
  let ?star = "\<lambda>c. c = CHR ''*''"
  have "dropWhile ?star pattern = chunk @ rest"
    using assms by (auto simp: scanChunk_def split: prod.splits dest: scan_body_append)
  then have eq: "pattern = takeWhile ?star pattern @ chunk @ rest" by (metis takeWhile_dropWhile_id)
  have "slashes (takeWhile ?star pattern) = 0" by (induction pattern) auto
  then show "slashes pattern = slashes chunk + slashes rest" by (subst eq) simp
  show "plain_pattern pattern \<Longrightarrow> plain_pattern chunk \<and> plain_pattern rest"
    by (subst (asm) eq) (auto simp: plain_pattern_def)
qed

lemma Match_slashes:
  assumes "path_Match pattern name = Inr True" "plain_pattern pattern"
  shows "slashes name = slashes pattern"
  using assms
proof (induction pattern name rule: path_Match.induct)
  case (1 pattern name)
  show ?case
  proof (cases "pattern = []")
    case True
    then show ?thesis using "1.prems"(1) by (simp add: path_Match.simps [of "[]"])
  next
    case ne: False
    obtain star chunk rest where sc: "scanChunk pattern = (star, chunk, rest)" by (metis prod.collapse)
    note split = scanChunk_split [OF sc]
    note plain = split(2) [OF "1.prems"(2)]
    show ?thesis
    proof (cases "star \<and> chunk = []")
      case True
      then have "rest = []" using scan_empty_chunk sc ne by blast
      moreover have "CHR ''/'' \<notin> set name"
        using "1.prems"(1) True unfolding path_Match.simps [of pattern] using ne sc by simp
      ultimately show ?thesis using split(1) True by (simp add: slashes_def count_list_0_iff)
    next
      case no: False
      obtain here where here: "matchChunk False chunk name = Inr here"
        using "1.prems"(1) ne sc no unfolding path_Match.simps [of pattern] by (auto split: sum.splits)
      define found where "found = (case here of
          Some t \<Rightarrow> if t = [] \<or> rest \<noteq> [] then Inr (Some t)
            else if star then star_search chunk (rest = []) name else Inr None
        | None \<Rightarrow> if star then star_search chunk (rest = []) name else Inr None)"
      have "path_Match pattern name = (case found of
          Inl e \<Rightarrow> Inl e
        | Inr (Some t) \<Rightarrow> path_Match rest t
        | Inr None \<Rightarrow> (case rest_error rest of Some e \<Rightarrow> Inl e | None \<Rightarrow> Inr False))"
        unfolding path_Match.simps [of pattern] found_def using ne sc no here by auto
      with "1.prems"(1) obtain t where t: "found = Inr (Some t)" "path_Match rest t = Inr True"
        by (auto split: sum.splits option.splits)
      have "slashes name = slashes chunk + slashes t"
        using t(1) here plain unfolding found_def
        by (auto split: option.splits if_splits intro: matchChunk_slashes star_search_slashes)
      moreover have "slashes t = slashes rest"
        by (rule "1.IH" [OF ne sc [symmetric] refl no here t(1) [unfolded found_def] refl t(2)]) (simp add: plain)
      ultimately show ?thesis using split(1) by simp
    qed
  qed
qed

subsection \<open>Extensions\<close>

text \<open>\<open>filepath.Ext\<close>: from the last dot of the last path element.\<close>

definition filepath_Ext :: "string \<Rightarrow> string" where
  "filepath_Ext path =
     (let stem = dropWhile (\<lambda>c. c \<noteq> CHR ''.'' \<and> c \<noteq> CHR ''/'') (rev path) in
      if stem \<noteq> [] \<and> hd stem = CHR ''.''
      then CHR ''.'' # rev (takeWhile (\<lambda>c. c \<noteq> CHR ''.'' \<and> c \<noteq> CHR ''/'') (rev path))
      else [])"

lemma filepath_Ext_suffix: "\<exists>stem. path = stem @ filepath_Ext path"
proof -
  let ?P = "\<lambda>c. c \<noteq> CHR ''.'' \<and> c \<noteq> CHR ''/''"
  have eq: "path = rev (dropWhile ?P (rev path)) @ rev (takeWhile ?P (rev path))"
    by (metis rev_append rev_rev_ident takeWhile_dropWhile_id)
  show ?thesis
  proof (cases "dropWhile ?P (rev path) \<noteq> [] \<and> hd (dropWhile ?P (rev path)) = CHR ''.''")
    case True
    then obtain u where u: "dropWhile ?P (rev path) = CHR ''.'' # u" by (metis list.collapse)
    then have "path = rev u @ filepath_Ext path"
      using eq by (simp add: filepath_Ext_def Let_def)
    then show ?thesis by blast
  next
    case False
    show ?thesis unfolding filepath_Ext_def Let_def if_not_P [OF False] by simp
  qed
qed

lemma filepath_Ext_no_slash: "CHR ''/'' \<notin> set (filepath_Ext path)"
  by (auto simp: filepath_Ext_def Let_def dest: set_takeWhileD)

end
