(* ===== verification/Auth.thy ===== *)
theory Auth
  imports Config_Types Go_Path File_Model
begin

text \<open>
  The package \<^verbatim>\<open>internal/auth\<close>: route patterns, the pre-shared key, and the service
  that issues and checks the tokens; and \<^verbatim>\<open>internal/requestid\<close>.

  The JWT library and the verifier of the identity service are the record \<open>jwt_library\<close>:
  signing with a key, parsing with a function from the token's algorithm to the key, the rounding of
  timestamps, and \<open>VerifyBearer\<close> of a configured verifier. Clock readings and random bytes are
  arguments. \<open>ConstantTimeCompare\<close> returns 1 exactly for equal byte strings.
\<close>

subsection \<open>Patterns and the pre-shared key\<close>

fun MatchesAny :: "string \<Rightarrow> string list \<Rightarrow> bool" where
  "MatchesAny value [] = False"
| "MatchesAny value (pattern # patterns) =
     (case path_Match pattern value of
        Inr True \<Rightarrow> True
      | _ \<Rightarrow> MatchesAny value patterns)"

definition VerifyPSK :: "string \<Rightarrow> string \<Rightarrow> bool" where
  "VerifyPSK authorization expected =
     (case Cut authorization (CHR '' '') of
        (scheme, supplied, found) \<Rightarrow>
          if \<not> found \<or> \<not> EqualFold scheme ''PSK'' \<or> supplied = [] \<or> length supplied \<noteq> length expected
          then False
          else supplied = expected)"

subsection \<open>Tokens\<close>

record Claims =
  cl_Issuer :: string
  cl_Subject :: string
  cl_ID :: string
  cl_IssuedAt :: instant
  cl_NotBefore :: instant
  cl_ExpiresAt :: instant

record jwt_library =
  jl_NewNumericDate :: "instant \<Rightarrow> instant"
  jl_SignedString :: "string \<Rightarrow> Claims \<Rightarrow> string \<Rightarrow> go_error + string"
  jl_ParseWithClaims ::
    "string \<Rightarrow> (string \<Rightarrow> go_error + string) \<Rightarrow> string \<Rightarrow> instant \<Rightarrow> go_error + Claims \<times> bool"

type_synonym verifier = "instant \<Rightarrow> string \<Rightarrow> go_error + Principal"

record AuthService =
  as_issuer :: string
  as_secret :: string
  as_ttl :: duration
  as_clientID :: string
  as_clientSecret :: string
  as_verifier :: "verifier option"

definition Auth_New :: "cfg_Config \<Rightarrow> AuthService" where
  "Auth_New cfg =
     \<lparr>as_issuer = jwt_Issuer (config_JWT cfg), as_secret = jwt_Secret (config_JWT cfg),
      as_ttl = jwt_TTL (config_JWT cfg), as_clientID = auth_ClientID (config_Auth cfg),
      as_clientSecret = auth_ClientSecret (config_Auth cfg), as_verifier = None\<rparr>"

text \<open>\<open>new_verifier\<close> is \<open>authn.NewJWKSVerifier\<close> for a URL, an issuer and an audience.\<close>

definition Auth_NewRuntime ::
    "(string \<Rightarrow> string \<Rightarrow> string \<Rightarrow> go_error + verifier) \<Rightarrow> cfg_Config \<Rightarrow> go_error + AuthService" where
  "Auth_NewRuntime new_verifier cfg =
     (let s = Auth_New cfg; a = config_Auth cfg in
      if auth_JWKSURL a = [] then Inr s
      else case new_verifier (auth_JWKSURL a) (auth_Issuer a) (auth_Audience a) of
          Inl err \<Rightarrow> Inl (Wrapf ''configure identity token verifier'' err)
        | Inr v \<Rightarrow> Inr (s\<lparr>as_verifier := Some v\<rparr>))"

definition Auth_Enabled :: "AuthService \<Rightarrow> bool" where
  "Auth_Enabled s \<longleftrightarrow> 32 \<le> length (as_secret s) \<and> as_clientID s \<noteq> [] \<and> as_clientSecret s \<noteq> []"

definition Auth_Authenticate :: "AuthService \<Rightarrow> string \<Rightarrow> string \<Rightarrow> bool" where
  "Auth_Authenticate s clientID clientSecret =
     (if \<not> Auth_Enabled s then False
      else clientID = as_clientID s \<and> clientSecret = as_clientSecret s)"

text \<open>\<open>base64.RawURLEncoding\<close>.\<close>

definition base64_url :: "nat \<Rightarrow> char" where
  "base64_url n =
     (if n < 26 then char_of (65 + n) else if n < 52 then char_of (71 + n)
      else if n < 62 then char_of (n - 4) else if n = 62 then CHR ''-'' else CHR ''_'')"

fun RawURLEncoding :: "string \<Rightarrow> string" where
  "RawURLEncoding [] = []"
| "RawURLEncoding [a] =
     (let x = of_char a :: nat in [base64_url (x div 4), base64_url (x mod 4 * 16)])"
| "RawURLEncoding [a, b] =
     (let x = of_char a :: nat; y = of_char b :: nat in
      [base64_url (x div 4), base64_url (x mod 4 * 16 + y div 16), base64_url (y mod 16 * 4)])"
| "RawURLEncoding (a # b # c # s) =
     (let x = of_char a :: nat; y = of_char b :: nat; z = of_char c :: nat in
      [base64_url (x div 4), base64_url (x mod 4 * 16 + y div 16),
       base64_url (y mod 16 * 4 + z div 64), base64_url (z mod 64)] @ RawURLEncoding s)"

text \<open>\<open>bytes\<close> is what \<open>rand.Read\<close> returns for a buffer of 16 bytes.\<close>

definition randomID :: "go_error + string \<Rightarrow> go_error + string" where
  "randomID bytes = (case bytes of Inl err \<Rightarrow> Inl err | Inr b \<Rightarrow> Inr (RawURLEncoding b))"

definition not_configured :: go_error where
  "not_configured = Errorf ''authentication is not configured''"

definition Auth_Issue ::
    "jwt_library \<Rightarrow> instant \<Rightarrow> go_error + string \<Rightarrow> AuthService \<Rightarrow> string \<Rightarrow> go_error + string" where
  "Auth_Issue J now bytes s subject =
     (if \<not> Auth_Enabled s then Inl not_configured
      else case randomID bytes of
          Inl err \<Rightarrow> Inl (Wrapf ''create token id'' err)
        | Inr jti \<Rightarrow>
            jl_SignedString J ''HS256''
              \<lparr>cl_Issuer = as_issuer s, cl_Subject = subject, cl_ID = jti,
               cl_IssuedAt = jl_NewNumericDate J now, cl_NotBefore = jl_NewNumericDate J now,
               cl_ExpiresAt = jl_NewNumericDate J (now + sint (as_ttl s))\<rparr>
              (as_secret s))"

definition key_func :: "AuthService \<Rightarrow> string \<Rightarrow> go_error + string" where
  "key_func s alg =
     (if alg \<noteq> ''HS256'' then Inl (Errorf (''unexpected signing method '' @ alg))
      else Inr (as_secret s))"

definition Auth_Parse ::
    "jwt_library \<Rightarrow> instant \<Rightarrow> AuthService \<Rightarrow> string \<Rightarrow> go_error + Claims" where
  "Auth_Parse J now s raw =
     (if \<not> Auth_Enabled s then Inl not_configured
      else case jl_ParseWithClaims J raw (key_func s) (as_issuer s) now of
          Inl err \<Rightarrow> Inl (Wrapf ''parse jwt'' err)
        | Inr (claims, valid) \<Rightarrow>
            if \<not> valid then Inl (Errorf ''invalid jwt claims'') else Inr claims)"

definition Auth_Verify ::
    "jwt_library \<Rightarrow> instant \<Rightarrow> AuthService \<Rightarrow> string \<Rightarrow> go_error + Principal" where
  "Auth_Verify J now s raw =
     (case as_verifier s of
        Some v \<Rightarrow> v now raw
      | None \<Rightarrow>
          (case Auth_Parse J now s raw of
             Inl err \<Rightarrow> Inl err
           | Inr claims \<Rightarrow> Inr \<lparr>p_ID = cl_Subject claims, p_Type = TypeUser, p_TenantID = []\<rparr>))"

subsection \<open>Request identifiers\<close>

text \<open>
  The loop over the runes of a header: a byte above 127 belongs to a rune that is not allowed, so
  the check of the bytes is the check of the runes.
\<close>

definition allowedCharacter :: "char \<Rightarrow> bool" where
  "allowedCharacter c =
     (let n = of_char c :: nat in
      97 \<le> n \<and> n \<le> 122 \<or> 65 \<le> n \<and> n \<le> 90 \<or> 48 \<le> n \<and> n \<le> 57 \<or>
      c = CHR ''-'' \<or> c = CHR ''_'' \<or> c = CHR ''.'')"

definition requestid_Valid :: "string \<Rightarrow> bool" where
  "requestid_Valid value = (if value = [] \<or> 128 < length value then False
     else list_all allowedCharacter value)"

definition hex_lower :: "nat \<Rightarrow> char" where
  "hex_lower n = (if n < 10 then char_of (48 + n) else char_of (87 + n))"

definition hex_EncodeToString :: "string \<Rightarrow> string" where
  "hex_EncodeToString b =
     concat (map (\<lambda>c. let n = of_char c :: nat in [hex_lower (n div 16), hex_lower (n mod 16)]) b)"

text \<open>\<open>bytes\<close> is what \<open>rand.Read\<close> returns for 16 bytes, \<open>nanos\<close> the clock.\<close>

definition requestid_Generate :: "go_error + string \<Rightarrow> int \<Rightarrow> string" where
  "requestid_Generate bytes nanos =
     (case bytes of
        Inl err \<Rightarrow> ''fallback-'' @ itoa nanos
      | Inr value \<Rightarrow> hex_EncodeToString value)"

subsection \<open>Properties\<close>

lemma MatchesAny_iff: "MatchesAny value patterns \<longleftrightarrow> (\<exists>p \<in> set patterns. path_Match p value = Inr True)"
  by (induction patterns) (auto split: sum.splits bool.splits)

lemma VerifyPSK_key: "VerifyPSK authorization expected \<Longrightarrow> expected \<noteq> [] \<and> suffix expected authorization"
proof -
  assume v: "VerifyPSK authorization expected"
  then have sp: "CHR '' '' \<in> set authorization" and e: "expected \<noteq> []"
    "expected = tl (dropWhile (\<lambda>x. x \<noteq> CHR '' '') authorization)"
    by (auto simp: VerifyPSK_def Cut_def split: if_splits)
  let ?d = "dropWhile (\<lambda>x. x \<noteq> CHR '' '') authorization"
  have "?d \<noteq> []" using sp by (auto simp: dropWhile_eq_Nil_conv)
  then have "?d = hd ?d # expected" unfolding e(2) by simp
  then have "suffix expected ?d" by (metis suffix_def append_Cons append_Nil)
  then have "suffix expected authorization" using suffix_dropWhile suffix_order.trans by blast
  with e(1) show ?thesis by blast
qed

text \<open>
  What the service relies on of the JWT library: a timestamp is rounded down by less than a second,
  and a token parses back to its claims when the key function gives the key it was signed with, the
  issuer is the expected one, and the time is within its validity.
\<close>

definition jwt_sound :: "jwt_library \<Rightarrow> bool" where
  "jwt_sound J \<longleftrightarrow>
     (\<forall>t. jl_NewNumericDate J t \<le> t \<and> t < jl_NewNumericDate J t + 1000000000) \<and>
     (\<forall>claims key token keyfunc t.
        jl_SignedString J ''HS256'' claims key = Inr token \<and> keyfunc ''HS256'' = Inr key \<and>
        cl_IssuedAt claims \<le> t \<and> cl_NotBefore claims \<le> t \<and> t < cl_ExpiresAt claims \<longrightarrow>
        jl_ParseWithClaims J token keyfunc (cl_Issuer claims) t = Inr (claims, True))"

lemma issued_token_verifies:
  assumes J: "jwt_sound J" and local: "as_verifier s = None" and issue: "Auth_Issue J now bytes s subject = Inr token"
    and t: "now \<le> t" "t + 1000000000 \<le> now + sint (as_ttl s)"
  shows "Auth_Verify J t s token = Inr \<lparr>p_ID = subject, p_Type = TypeUser, p_TenantID = []\<rparr>"
proof -
  from issue obtain jti where enabled: "Auth_Enabled s"
    and signed: "jl_SignedString J ''HS256''
      \<lparr>cl_Issuer = as_issuer s, cl_Subject = subject, cl_ID = jti,
       cl_IssuedAt = jl_NewNumericDate J now, cl_NotBefore = jl_NewNumericDate J now,
       cl_ExpiresAt = jl_NewNumericDate J (now + sint (as_ttl s))\<rparr> (as_secret s) = Inr token" (is "jl_SignedString J _ ?cl _ = _")
    by (auto simp: Auth_Issue_def split: if_splits sum.splits)
  have "jl_NewNumericDate J now \<le> now"
    "now + sint (as_ttl s) < jl_NewNumericDate J (now + sint (as_ttl s)) + 1000000000"
    using J by (simp_all add: jwt_sound_def)
  with t have "cl_IssuedAt ?cl \<le> t \<and> cl_NotBefore ?cl \<le> t \<and> t < cl_ExpiresAt ?cl" by simp
  moreover have "key_func s ''HS256'' = Inr (as_secret s)" by (simp add: key_func_def)
  ultimately have "jl_ParseWithClaims J token (key_func s) (cl_Issuer ?cl) t = Inr (?cl, True)"
    using J signed unfolding jwt_sound_def by blast
  then show ?thesis using local enabled by (simp add: Auth_Verify_def Auth_Parse_def)
qed

text \<open>A request id is short and safe to put into a header, whether it was received or made.\<close>

lemma hex_lower_allowed: "n < 16 \<Longrightarrow> allowedCharacter (hex_lower n)"
  by (auto simp: hex_lower_def allowedCharacter_def Let_def)

lemma Generate_Valid:
  assumes "length b = 16"
  shows "requestid_Valid (requestid_Generate (Inr b) nanos)"
proof -
  have "length (hex_EncodeToString b) = 2 * length b"
    by (induction b) (simp_all add: hex_EncodeToString_def Let_def)
  moreover have "list_all allowedCharacter (hex_EncodeToString b)"
  proof (induction b)
    case (Cons c b)
    have "(of_char c :: nat) div 16 < 16" by (simp add: div_less_iff_less_mult)
    then have "allowedCharacter (hex_lower (of_char c div 16))" "allowedCharacter (hex_lower (of_char c mod 16))"
      by (simp_all add: hex_lower_allowed)
    then show ?case using Cons by (simp add: hex_EncodeToString_def Let_def)
  qed (simp add: hex_EncodeToString_def)
  ultimately show ?thesis using assms by (auto simp: requestid_Valid_def requestid_Generate_def)
qed

end
