(* ===== verification/HTTP_Server.thy ===== *)
theory HTTP_Server
  imports HTTP_Handlers Auth
begin

text \<open>
  The HTTP server, \<^verbatim>\<open>internal/transport/http/middleware.go\<close> and
  \<^verbatim>\<open>server.go\<close>. A middleware takes the handler that \<open>c.Next()\<close> runs; one that
  aborts does not call it. The composition follows \<open>NewServer\<close>: the middleware of the
  router, then that of the group \<^verbatim>\<open>/api/v1\<close>, then the handler of the route. The router of
  the web framework has set \<open>g_FullPath\<close> to the route it matched, or to the empty string.

  \<open>http_env\<close> collects the objects \<open>NewServer\<close> is given and what is outside the
  repository: the clock, the random source, the idempotency manager, the authorizer, SHA-256, and
  the end points of other packages (metrics, profiles, API description), the log and the span the
  tracing middleware has put into the context.
\<close>

subsection \<open>The environment\<close>

datatype idem_state = StateAcquired | StateProcessing | StateCompleted | StateFailed | StateConflict
  | StateOther string

record Failure =
  f_Code :: app_code
  f_Message :: string
  f_HTTPStatus :: nat

text \<open>\<open>d_Response\<close> is the stored response, or the error of decoding it.\<close>

record Decision =
  d_State :: idem_state
  d_Owner :: string
  d_Response :: "go_error + Response"
  d_Failure :: Failure

record 'x idem_manager =
  idm_Enabled :: bool
  idm_Begin :: "string \<Rightarrow> string \<Rightarrow> ('x, go_error + Decision) ext_op"
  idm_Complete :: "string \<Rightarrow> string \<Rightarrow> Response \<Rightarrow> ('x, go_error option) ext_op"
  idm_Fail :: "string \<Rightarrow> string \<Rightarrow> Failure \<Rightarrow> ('x, go_error option) ext_op"

datatype authz_scope = ScopePrincipal | ScopePlatform

record Requirement =
  rq_Resource :: string
  rq_Action :: string
  rq_Scope :: authz_scope

text \<open>A line of the log: about a request, or about a panic.\<close>

record http_line =
  hl_request_id :: string
  hl_trace_id :: string
  hl_span_id :: string
  hl_method :: string
  hl_path :: string
  hl_status :: nat
  hl_duration :: int
  hl_client_ip :: string

datatype http_log = RequestLine http_line | PanicLine string string

text \<open>\<open>he_broken\<close>: the framework answers no request whose connection is gone, as it tells from the panic.\<close>

record 'x http_env =
  he_cfg :: cfg_Config
  he_runtime :: "'x runtime"
  he_files :: "'x Service"
  he_binding :: binding
  he_health :: "'x HealthService"
  he_arrival :: "('x, bool) ext_op"
  he_build :: build_vars
  he_random :: "('x, go_error + string) ext_op"
  he_nanos :: "('x, int) ext_op"
  he_expired :: "('x, bool) ext_op"
  he_jwt :: jwt_library
  he_auth :: AuthService
  he_enforce :: "Principal option \<Rightarrow> string option \<Rightarrow> Requirement \<Rightarrow> ('x, go_error option) ext_op"
  he_limiter :: "'x Limiter"
  he_idempotency :: "'x idem_manager option"
  he_valid_key :: "string \<Rightarrow> bool"
  he_sha256 :: "string \<Rightarrow> string"
  he_metrics :: "'x Metrics"
  he_span :: "('x, string \<times> string) ext_op"
  he_log :: "http_log \<Rightarrow> ('x, unit) ext_op"
  he_broken :: "string \<Rightarrow> bool"
  he_assets :: "string \<Rightarrow> gin \<Rightarrow> ('x, gin) ext_op"

type_synonym 'x middleware = "'x handler \<Rightarrow> 'x handler"

subsection \<open>Middleware of the router\<close>

definition mw_RequestID :: "'x http_env \<Rightarrow> 'x middleware" where
  "mw_RequestID E nxt c = do {
     i \<leftarrow> (if requestid_Valid (g_GetHeader c ''X-Request-ID'')
           then State_Monad.return (g_GetHeader c ''X-Request-ID'')
           else do {
             bytes \<leftarrow> ext_call (he_random E);
             nanos \<leftarrow> ext_call (he_nanos E);
             State_Monad.return (requestid_Generate bytes nanos)
           });
     nxt (set_header ''X-Request-ID'' i (c\<lparr>g_request_id := i\<rparr>))
   }"

definition mw_Environment :: "string \<Rightarrow> 'x middleware" where
  "mw_Environment profile nxt c = nxt (c\<lparr>g_environment := profile\<rparr>)"

definition mw_IdempotencyKey :: "'x http_env \<Rightarrow> 'x middleware" where
  "mw_IdempotencyKey E nxt c =
     (let key = g_GetHeader c ''Idempotency-Key'' in
      if key = [] then nxt c
      else if \<not> he_valid_key E key
        then State_Monad.return (Fail c (Invalid ''invalid Idempotency-Key'' None))
      else nxt (set_header ''Idempotency-Key'' key (c\<lparr>g_idempotency := Some key\<rparr>)))"

definition mw_RequestLogger :: "'x http_env \<Rightarrow> 'x middleware" where
  "mw_RequestLogger E nxt c = do {
     started \<leftarrow> ext_call (rt_now (he_runtime E));
     c' \<leftarrow> nxt c;
     (trace, span) \<leftarrow> ext_call (he_span E);
     now \<leftarrow> ext_call (rt_now (he_runtime E));
     ext_call (he_log E (RequestLine \<lparr>hl_request_id = g_request_id c', hl_trace_id = trace, hl_span_id = span,
       hl_method = g_Method c', hl_path = g_FullPath c', hl_status = g_Status c', hl_duration = now - started,
       hl_client_ip = g_ClientIP c'\<rparr>));
     State_Monad.return c'
   }"

definition mw_HTTPMetrics :: "'x Metrics \<Rightarrow> 'x middleware" where
  "mw_HTTPMetrics M nxt c = do {
     started \<leftarrow> ext_call (pr_now (mt_library M));
     c' \<leftarrow> nxt c;
     (let route = (if g_FullPath c' = [] then ''unmatched'' else g_FullPath c') in
      ext_call (count_and_time M HTTPRequests [g_Method c', route, itoa (int (g_Status c'))]
        HTTPDuration [g_Method c', route] started));
     State_Monad.return c'
   }"

text \<open>
  \<open>Recovery\<close> runs a handler that may panic: the handler leaves the context, and the value of its panic
  if there was one.
\<close>

type_synonym 'x panicking = "gin \<Rightarrow> ('x world, gin \<times> string option) state"

definition mw_Recovery :: "'x http_env \<Rightarrow> 'x panicking \<Rightarrow> 'x handler" where
  "mw_Recovery E nxt c = do {
     (c', panic) \<leftarrow> nxt c;
     case panic of
       None \<Rightarrow> State_Monad.return c'
     | Some recovered \<Rightarrow>
         if he_broken E recovered then State_Monad.return c'
         else do {
           ext_call (he_log E (PanicLine (g_request_id c') recovered));
           State_Monad.return (write_json 500
             \<lparr>resp_Code = CodeInternal, resp_Message = ''internal server error'', resp_Body = BodyNil,
              resp_RequestID = g_request_id c'\<rparr> c')
         }
   }"

text \<open>The handlers of this program are total: they return.\<close>

definition returning :: "'x handler \<Rightarrow> 'x panicking" where
  "returning h c = do { c' \<leftarrow> h c; State_Monad.return (c', None) }"

definition mw_Timeout :: "'x http_env \<Rightarrow> 'x middleware" where
  "mw_Timeout E nxt c = do {
     c' \<leftarrow> nxt c;
     expired \<leftarrow> ext_call (he_expired E);
     State_Monad.return (if expired \<and> \<not> g_Written c' then Fail c' RequestTimeout else c')
   }"

definition mw_MaxBody :: "int64 \<Rightarrow> 'x middleware" where
  "mw_MaxBody limit nxt c =
     nxt (c\<lparr>g_Body := (case g_Body c of
         Inl err \<Rightarrow> Inl err
       | Inr b \<Rightarrow> if sint limit < int (length b) then Inl (Errorf ''http: request body too large'') else Inr b)\<rparr>)"

definition mw_RequireJSON :: "'x http_env \<Rightarrow> 'x middleware" where
  "mw_RequireJSON E nxt c =
     (if g_Method c = ''POST'' \<and> g_ContentLength c \<noteq> 0 \<and>
         ParseMediaType (rt_unicode_lower (he_runtime E)) (g_GetHeader c ''Content-Type'') \<noteq> Inr ''application/json''
      then State_Monad.return (write_json 415
        \<lparr>resp_Code = CodeInvalidArgument, resp_Message = ''content type must be application/json'',
         resp_Body = BodyNil, resp_RequestID = g_request_id c\<rparr> c)
      else nxt c)"

definition mw_SecurityHeaders :: "'x middleware" where
  "mw_SecurityHeaders nxt c =
     (let c = set_header ''X-Content-Type-Options'' ''nosniff'' c;
          c = set_header ''X-Frame-Options'' ''DENY'' c;
          c = set_header ''Referrer-Policy'' ''no-referrer'' c;
          c = set_header ''Content-Security-Policy''
                (''default-src '' @ [CHR 0x27] @ ''none'' @ [CHR 0x27] @ ''; frame-ancestors '' @
                 [CHR 0x27] @ ''none'' @ [CHR 0x27]) c;
          c = set_header ''Cache-Control'' ''no-store'' c
      in nxt (if g_TLS c
              then set_header ''Strict-Transport-Security'' ''max-age=31536000; includeSubDomains'' c
              else c))"

fun join_with :: "string \<Rightarrow> string list \<Rightarrow> string" where
  "join_with sep [] = []"
| "join_with sep [v] = v"
| "join_with sep (v # w # vs) = v @ sep @ join_with sep (w # vs)"

text \<open>The maximal age is printed in whole seconds.\<close>

definition mw_CORS :: "cfg_CORS \<Rightarrow> 'x middleware" where
  "mw_CORS cfg nxt c =
     (let origin = g_GetHeader c ''Origin'' in
      if \<not> cors_Enabled cfg \<or> origin = [] then nxt c
      else if origin \<notin> set (cors_AllowedOrigins cfg)
        then State_Monad.return (write_json 403
          \<lparr>resp_Code = CodeForbidden, resp_Message = ''origin is not allowed'', resp_Body = BodyNil,
           resp_RequestID = g_request_id c\<rparr> c)
      else
        let c = set_header ''Access-Control-Allow-Origin'' origin c;
            c = set_header ''Vary'' ''Origin'' c;
            c = set_header ''Access-Control-Allow-Methods'' ''POST, GET, OPTIONS'' c;
            c = set_header ''Access-Control-Allow-Headers'' (join_with '', '' (cors_AllowedHeaders cfg)) c;
            c = set_header ''Access-Control-Expose-Headers'' (join_with '', '' (cors_ExposedHeaders cfg)) c;
            c = set_header ''Access-Control-Max-Age'' (itoa (sint (cors_MaxAge cfg) sdiv 1000000000)) c
        in if g_Method c = ''OPTIONS'' then State_Monad.return (abort_status 204 c) else nxt c)"

subsection \<open>Middleware of the API group\<close>

definition retry_seconds :: "duration \<Rightarrow> int" where
  "retry_seconds d = max 1 (round_second d sdiv 1000000000)"

definition mw_RateLimit ::
    "'x Limiter \<Rightarrow> cfg_RateLimitRule \<Rightarrow> string \<Rightarrow> (gin \<Rightarrow> string) \<Rightarrow> 'x middleware" where
  "mw_RateLimit limiter rule dimension keyFunc nxt c =
     (if \<not> lim_enabled limiter then nxt c
      else
        let key = keyFunc c in
        if key = [] then nxt c
        else do {
          answer \<leftarrow> ext_call (Limiter_Allow limiter (''rate:'' @ dimension @ '':'' @ key) rule);
          case answer of
            Inl err \<Rightarrow>
              if lim_failOpen limiter then nxt c
              else State_Monad.return (Fail c (Unavailable ''rate limiter unavailable'' (Some err)))
          | Inr result \<Rightarrow>
              let c = set_header ''X-RateLimit-Limit'' (itoa (sint (rate_Limit result))) c;
                  c = set_header ''X-RateLimit-Remaining'' (itoa (sint (rate_Remaining result))) c
              in if \<not> rate_Allowed result
                 then State_Monad.return
                   (Fail (set_header ''Retry-After'' (itoa (retry_seconds (rate_RetryAfter result))) c)
                      TooManyRequests)
                 else nxt c
        })"

definition bearer :: "string \<Rightarrow> string option" where
  "bearer header =
     (case Cut header (CHR '' '') of
        (scheme, raw, found) \<Rightarrow>
          if \<not> found \<or> \<not> EqualFold scheme ''Bearer'' \<or> raw = [] then None else Some raw)"

definition mw_JWT :: "'x http_env \<Rightarrow> 'x middleware" where
  "mw_JWT E nxt c =
     (case bearer (g_GetHeader c ''Authorization'') of
        None \<Rightarrow> State_Monad.return (Fail c (Unauthorized ''missing bearer token''))
      | Some raw \<Rightarrow> do {
          now \<leftarrow> ext_call (rt_now (he_runtime E));
          (case Auth_Verify (he_jwt E) now (he_auth E) raw of
             Inl err \<Rightarrow> State_Monad.return (Fail c (Unauthorized ''invalid or expired token''))
           | Inr caller \<Rightarrow>
               nxt (c\<lparr>g_subject := Some (p_ID caller), g_principal := Some caller,
                 g_credential := Some (g_GetHeader c ''Authorization'')\<rparr>))
        })"

definition psk_principal :: Principal where
  "psk_principal = \<lparr>p_ID = ''file-service:psk'', p_Type = TypeServiceAccount, p_TenantID = []\<rparr>"

definition mw_Authentication :: "'x http_env \<Rightarrow> 'x middleware" where
  "mw_Authentication E nxt c =
     (let cfg = config_Auth (he_cfg E); psk = auth_PSK cfg in
      if psk_Enabled psk \<and> MatchesAny (g_FullPath c) (psk_HTTPPaths psk) then
        (if \<not> VerifyPSK (g_GetHeader c ''Authorization'') (psk_Key psk)
         then State_Monad.return (Fail c (Unauthorized ''missing or invalid PSK''))
         else nxt (c\<lparr>g_subject := Some ''psk'', g_principal := Some psk_principal,
                g_credential := Some (g_GetHeader c ''Authorization'')\<rparr>))
      else if MatchesAny (g_FullPath c) (auth_SkipHTTPPaths cfg) then nxt c
      else mw_JWT E nxt c)"

definition file_requirement :: "string \<Rightarrow> string \<Rightarrow> authz_scope \<Rightarrow> Requirement" where
  "file_requirement resource action s = \<lparr>rq_Resource = resource, rq_Action = action, rq_Scope = s\<rparr>"

definition fileHTTPRequirement :: "string \<Rightarrow> Requirement option" where
  "fileHTTPRequirement = map_of
     [(''/api/v1/files/uploads/initiate'', file_requirement ''file.object'' ''upload'' ScopePrincipal),
      (''/api/v1/files/uploads/multipart/initiate'', file_requirement ''file.object'' ''upload'' ScopePrincipal),
      (''/api/v1/files/uploads/multipart/authorize-part'', file_requirement ''file.object'' ''upload'' ScopePrincipal),
      (''/api/v1/files/uploads/multipart/complete'', file_requirement ''file.object'' ''upload'' ScopePrincipal),
      (''/api/v1/files/uploads/multipart/abort'', file_requirement ''file.object'' ''upload'' ScopePrincipal),
      (''/api/v1/files/uploads/complete'', file_requirement ''file.object'' ''upload'' ScopePrincipal),
      (''/api/v1/files/scans/report'', file_requirement ''file.scan'' ''report'' ScopePlatform),
      (''/api/v1/files/metadata/get'', file_requirement ''file.object'' ''read'' ScopePrincipal),
      (''/api/v1/files/metadata/list'', file_requirement ''file.object'' ''list'' ScopePrincipal),
      (''/api/v1/files/downloads/authorize'', file_requirement ''file.object'' ''download'' ScopePrincipal),
      (''/api/v1/files/delete'', file_requirement ''file.object'' ''delete'' ScopePrincipal)]"

definition mw_Authorization :: "'x http_env \<Rightarrow> 'x middleware" where
  "mw_Authorization E nxt c =
     (if \<not> authorization_Enabled (config_Authorization (he_cfg E)) then nxt c
      else case fileHTTPRequirement (g_FullPath c) of
          None \<Rightarrow> nxt c
        | Some requirement \<Rightarrow> do {
            err \<leftarrow> ext_call (he_enforce E (g_principal c) (g_credential c) requirement);
            case err of
              None \<Rightarrow> nxt c
            | Some e \<Rightarrow> State_Monad.return (Fail c
                (if errors_Is e ErrDecisionUnavailable
                 then Unavailable ''authorization decision is unavailable'' (Some e)
                 else Forbidden ''permission denied''))
          })"

subsection \<open>Idempotent execution\<close>

definition subject_text :: "string option \<Rightarrow> string" where
  "subject_text s = (case s of None \<Rightarrow> ''<nil>'' | Some t \<Rightarrow> t)"

definition idempotencyFingerprint :: "'x http_env \<Rightarrow> gin \<Rightarrow> go_error + string" where
  "idempotencyFingerprint E c =
     (case g_Body c of
        Inl err \<Rightarrow> Inl err
      | Inr b \<Rightarrow>
          Inr (hex_EncodeToString (he_sha256 E
            (subject_text (g_subject c) @ [CHR 0x00] @ g_Method c @ [CHR 0x00] @ g_FullPath c @
             [CHR 0x00] @ b))))"

text \<open>
  After the handler: the captured body is one unified response, or it does not decode and nothing is
  stored. The request id is not stored.
\<close>

definition persist_outcome :: "'x idem_manager \<Rightarrow> string \<Rightarrow> Decision \<Rightarrow> nat \<Rightarrow> gin \<Rightarrow> ('x world, unit) state" where
  "persist_outcome m key decision earlier c' =
     (case drop earlier (g_Responses c') of
        [response] \<Rightarrow> do {
          _ \<leftarrow> (if 400 \<le> g_Status c'
             then ext_call (idm_Fail m key (d_Owner decision)
               \<lparr>f_Code = resp_Code response, f_Message = resp_Message response, f_HTTPStatus = g_Status c'\<rparr>)
             else ext_call (idm_Complete m key (d_Owner decision) (response\<lparr>resp_RequestID := []\<rparr>)));
          State_Monad.return ()
        }
      | _ \<Rightarrow> State_Monad.return ())"

definition run_decision :: "'x idem_manager \<Rightarrow> string \<Rightarrow> Decision \<Rightarrow> 'x middleware" where
  "run_decision m key decision nxt c =
     (case d_State decision of
        StateCompleted \<Rightarrow> State_Monad.return
          (case d_Response decision of
             Inl err \<Rightarrow> Fail c (Unavailable ''idempotency response is unavailable'' (Some err))
           | Inr response \<Rightarrow> write_json 200 (response\<lparr>resp_RequestID := g_request_id c\<rparr>) c)
      | StateFailed \<Rightarrow> State_Monad.return
          (write_json (f_HTTPStatus (d_Failure decision))
            \<lparr>resp_Code = f_Code (d_Failure decision), resp_Message = f_Message (d_Failure decision),
             resp_Body = BodyNil, resp_RequestID = g_request_id c\<rparr> c)
      | StateProcessing \<Rightarrow> State_Monad.return (Fail c RequestInProgress)
      | StateConflict \<Rightarrow> State_Monad.return
          (Fail c (Conflict ''idempotency key belongs to a different request'' None))
      | StateOther s \<Rightarrow> State_Monad.return
          (Fail c (Unavailable ''idempotency state is invalid'' None))
      | StateAcquired \<Rightarrow> do {
          c' \<leftarrow> nxt c;
          persist_outcome m key decision (length (g_Responses c)) c';
          State_Monad.return c'
        })"

definition mw_IdempotencyExecution :: "'x http_env \<Rightarrow> string list \<Rightarrow> 'x middleware" where
  "mw_IdempotencyExecution E paths nxt c =
     (case (g_idempotency c, he_idempotency E) of
        (Some key, Some m) \<Rightarrow>
          if \<not> idm_Enabled m \<or> g_Method c \<noteq> ''POST'' \<or> \<not> MatchesAny (g_FullPath c) paths then nxt c
          else
            (case idempotencyFingerprint E c of
               Inl err \<Rightarrow> State_Monad.return (Fail c (Invalid ''read idempotent request'' (Some err)))
             | Inr fingerprint \<Rightarrow> do {
                 answer \<leftarrow> ext_call (idm_Begin m key fingerprint);
                 case answer of
                   Inl err \<Rightarrow> State_Monad.return (Fail c (Unavailable ''idempotency is unavailable'' (Some err)))
                 | Inr decision \<Rightarrow> run_decision m key decision nxt c
               })
      | _ \<Rightarrow> nxt c)"

subsection \<open>The server\<close>

definition mw_pprofAuth :: "string \<Rightarrow> 'x middleware" where
  "mw_pprofAuth expected nxt c =
     (case Cut (g_GetHeader c ''Authorization'') (CHR '' '') of
        (scheme, token, found) \<Rightarrow>
          if \<not> found \<or> \<not> EqualFold scheme ''Bearer'' \<or> token \<noteq> expected
          then State_Monad.return (abort_status 401 c)
          else nxt c)"

definition registerPprof :: "string \<Rightarrow> (string \<times> string) list" where
  "registerPprof g =
     [(''GET'', g @ ''/''), (''GET'', g @ ''/cmdline''), (''GET'', g @ ''/profile''),
      (''POST'', g @ ''/symbol''), (''GET'', g @ ''/symbol''), (''GET'', g @ ''/trace'')] @
     map (\<lambda>profile. (''GET'', g @ ''/'' @ profile))
       [''allocs'', ''block'', ''goroutine'', ''heap'', ''mutex'', ''threadcreate'']"

definition api_routes :: "'x http_env \<Rightarrow> (string \<times> 'x handler) list" where
  "api_routes E =
     (let R = he_runtime E; S = he_files E; B = he_binding E in
      [(''/api/v1/version'', Handler_Version (he_build E) (rt_now (he_runtime E))),
       (''/api/v1/me'', Handler_Me),
       (''/api/v1/files/uploads/initiate'', Handler_InitiateUpload R S B),
       (''/api/v1/files/uploads/multipart/initiate'', Handler_InitiateMultipartUpload R S B),
       (''/api/v1/files/uploads/multipart/authorize-part'', Handler_AuthorizeUploadPart R S B),
       (''/api/v1/files/uploads/multipart/complete'', Handler_CompleteMultipartUpload R S B),
       (''/api/v1/files/uploads/multipart/abort'', Handler_AbortMultipartUpload R S B),
       (''/api/v1/files/uploads/complete'', Handler_CompleteUpload R S B),
       (''/api/v1/files/scans/report'', Handler_ReportScanResult R S B),
       (''/api/v1/files/metadata/get'', Handler_GetFile R S B),
       (''/api/v1/files/metadata/list'', Handler_ListFiles R S B),
       (''/api/v1/files/downloads/authorize'', Handler_AuthorizeDownload R S B),
       (''/api/v1/files/delete'', Handler_DeleteFile R S B)])"

definition api_group :: "'x http_env \<Rightarrow> 'x middleware" where
  "api_group E h =
     (let limits = config_RateLimit (he_cfg E); limiter = he_limiter E in
      mw_RateLimit limiter (ratelimit_IP limits) ''ip'' g_ClientIP
       (mw_RateLimit limiter (ratelimit_API limits) ''api'' g_FullPath
         (mw_Authentication E
           (mw_Authorization E
             (mw_RateLimit limiter (ratelimit_User limits) ''user''
                 (\<lambda>c. case g_subject c of None \<Rightarrow> [] | Some s \<Rightarrow> s)
               (mw_IdempotencyExecution E (idempotency_HTTPPaths (config_Idempotency (he_cfg E))) h))))))"

text \<open>The framework's answer when no route matches.\<close>

definition no_route :: "'x handler" where
  "no_route c = State_Monad.return (abort_status 404 c)"

text \<open>An end point of another package: it may do anything but touch the tables.\<close>

definition asset :: "'x http_env \<Rightarrow> 'x handler" where
  "asset E c = ext_call (he_assets E (g_FullPath c) c)"

definition router :: "'x http_env \<Rightarrow> 'x handler" where
  "router E c =
     (let path = g_FullPath c; cfg = he_cfg E in
      if path = ''/live'' then Handler_Live c
      else if path = ''/ready'' then Handler_Ready (he_arrival E) (he_health E) c
      else if path = ''/metrics'' then (if mt_enabled (he_metrics E) then asset E c else no_route c)
      else if path \<in> snd ` set (registerPprof ''/debug/pprof'')
        then (if observability_PprofEnabled (config_Observability cfg)
              then mw_pprofAuth (observability_PprofToken (config_Observability cfg)) (asset E) c
              else no_route c)
      else if path = ''/swagger/*any''
        then (if \<not> swagger_Enabled (config_Swagger cfg) then no_route c
              else if swagger_RequireAuth (config_Swagger cfg) then mw_JWT E (asset E) c
              else asset E c)
      else case map_of (api_routes E) path of
          Some h \<Rightarrow> api_group E h c
        | None \<Rightarrow> no_route c)"

text \<open>What is outside the recovery of panics, and what is inside it.\<close>

definition outer_middleware :: "'x http_env \<Rightarrow> 'x panicking \<Rightarrow> 'x handler" where
  "outer_middleware E h =
     mw_RequestID E
       (mw_IdempotencyKey E
         (mw_Environment (runtime_ActiveProfile (config_Runtime (he_cfg E)))
           (mw_RequestLogger E
             (mw_Recovery E h))))"

definition inner_middleware :: "'x http_env \<Rightarrow> 'x middleware" where
  "inner_middleware E h =
     (let http = config_HTTP (he_cfg E) in
      mw_HTTPMetrics (he_metrics E)
       (mw_SecurityHeaders
         (mw_CORS (http_CORS http)
           (mw_MaxBody (http_MaxBodyBytes http)
             (mw_Timeout E
               (mw_RequireJSON E h))))))"

definition http_serve :: "'x http_env \<Rightarrow> 'x handler" where
  "http_serve E = outer_middleware E (returning (inner_middleware E (router E)))"

end
