(* ===== verification/Frontend.thy ===== *)
theory Frontend
  imports File_Theorems File_Methods
begin

text \<open>
  What the transports and the scheduler have in common. A front end turns a request into at most one
  call of the file service, and does nothing else to the tables (locale \<open>frontend\<close>); so
  everything proved of the calls holds of the requests. A middleware runs the next handler at most
  once, on a context related to the one it was given (locale \<open>gate\<close>); gates compose.
\<close>

definition effect_of_call :: "'x runtime \<Rightarrow> 'x Service \<Rightarrow> 'x world \<Rightarrow> 'x world \<Rightarrow> bool" where
  "effect_of_call R S w w' \<longleftrightarrow>
     (\<exists>ctx req w1 a w2. w_db w1 = w_db w \<and> run_state (serve R S ctx req) w1 = (a, w2) \<and> w_db w' = w_db w2)"

locale frontend =
  fixes R :: "'x runtime" and S :: "'x Service" and handle :: "'q \<Rightarrow> ('x world, 'r) state"
  assumes one_call: "run_state (handle q) w = (r, w') \<Longrightarrow> w_db w' = w_db w \<or> effect_of_call R S w w'"
begin

lemma keeps:
  assumes "\<And>ctx req w. I (w_db w) \<Longrightarrow> I (w_db (snd (run_state (serve R S ctx req) w)))"
    and "I (w_db w)"
  shows "I (w_db (snd (run_state (handle q) w)))"
proof -
  obtain r w' where run: "run_state (handle q) w = (r, w')" by (cases "run_state (handle q) w")
  have "I (w_db w')" using one_call [OF run]
  proof
    assume "effect_of_call R S w w'"
    then obtain ctx req w1 a w2 where e: "w_db w1 = w_db w" "run_state (serve R S ctx req) w1 = (a, w2)"
      "w_db w' = w_db w2" unfolding effect_of_call_def by blast
    with assms(1) [of w1 ctx req] assms(2) show ?thesis by simp
  qed (use assms(2) in simp)
  with run show ?thesis by simp
qed

lemma keeps_announced:
  assumes "rely R (announced R) evolves" "announced R (w_db w)"
  shows "announced R (w_db (snd (run_state (handle q) w)))"
  by (rule keeps [where I = "announced R", OF _ assms(2)]) (use outbox.session_keeps [OF serve_world] assms(1) in blast)

lemma keeps_scan_policy:
  assumes "sv_scanRequired S" "rely R none_skipped (\<lambda>_ _. True)" "none_skipped (w_db w)"
  shows "none_skipped (w_db (snd (run_state (handle q) w)))"
  by (rule keeps [where I = none_skipped, OF _ assms(3)])
    (use scanning.session_keeps [OF serve_world] assms(1,2) in \<open>unfold scan_enforced_def, blast\<close>)

end

text \<open>The database is untouched, or the handler \<open>nxt\<close> made the change, on a context that \<open>step\<close> allows.\<close>

definition passes_on ::
    "('c \<Rightarrow> 'c \<Rightarrow> bool) \<Rightarrow> ('c \<Rightarrow> ('x world, 'r) state) \<Rightarrow> 'c \<Rightarrow> 'x world \<Rightarrow> 'x world \<Rightarrow> bool" where
  "passes_on step nxt c w w' \<longleftrightarrow>
     w_db w' = w_db w \<or>
     (\<exists>c1 w1 c2 w2. step c c1 \<and> w_db w1 = w_db w \<and> run_state (nxt c1) w1 = (c2, w2) \<and> w_db w' = w_db w2)"

lemma passes_now:
  "step c c1 \<Longrightarrow> run_state (nxt c1) w = (c2, w') \<Longrightarrow> passes_on step nxt c w w'"
  unfolding passes_on_def by blast

lemma passes_stop: "w_db w' = w_db w \<Longrightarrow> passes_on step nxt c w w'"
  unfolding passes_on_def by blast

locale gate =
  fixes mw :: "('c \<Rightarrow> ('x world, 'r) state) \<Rightarrow> 'c \<Rightarrow> ('x world, 's) state" and step :: "'c \<Rightarrow> 'c \<Rightarrow> bool"
  assumes passes: "run_state (mw nxt c) w = (r, w') \<Longrightarrow> passes_on step nxt c w w'"
begin

text \<open>Composition with what is known of the inner handler.\<close>

lemma compose:
  assumes "run_state (mw nxt c) w = (r, w')"
    and "\<And>c1 w1 r1 w2. step c c1 \<Longrightarrow> w_db w1 = w_db w \<Longrightarrow> run_state (nxt c1) w1 = (r1, w2) \<Longrightarrow>
      w_db w2 = w_db w1 \<or> Q c1 w1 w2"
  shows "w_db w' = w_db w \<or> (\<exists>c1 w1 w2. step c c1 \<and> w_db w1 = w_db w \<and> Q c1 w1 w2 \<and> w_db w' = w_db w2)"
  using passes [OF assms(1)] assms(2) unfolding passes_on_def by metis

end

lemma gate_compose:
  assumes "gate m1 s1" "gate m2 s2"
  shows "gate (\<lambda>h. m1 (m2 h)) (s1 OO s2)"
proof
  fix nxt c w r w' assume "run_state (m1 (m2 nxt) c) w = (r, w')"
  from gate.passes [OF assms(1) this] show "passes_on (s1 OO s2) nxt c w w'"
    unfolding passes_on_def
  proof
    assume "\<exists>c1 w1 c2 w2. s1 c c1 \<and> w_db w1 = w_db w \<and> run_state (m2 nxt c1) w1 = (c2, w2) \<and> w_db w' = w_db w2"
    then obtain c1 w1 c2 w2 where g: "s1 c c1" "w_db w1 = w_db w" "run_state (m2 nxt c1) w1 = (c2, w2)"
      "w_db w' = w_db w2" by blast
    from gate.passes [OF assms(2) g(3)] g show "w_db w' = w_db w \<or> (\<exists>c1 w1 c2 w2. (s1 OO s2) c c1 \<and>
        w_db w1 = w_db w \<and> run_state (nxt c1) w1 = (c2, w2) \<and> w_db w' = w_db w2)"
      unfolding passes_on_def relcompp.simps by metis
  qed simp
qed

lemma gate_weaken:
  assumes "gate m s" "\<And>c c1. s c c1 \<Longrightarrow> s' c c1"
  shows "gate m s'"
proof
  fix nxt c w r w' assume "run_state (m nxt c) w = (r, w')"
  from gate.passes [OF assms(1) this] assms(2) show "passes_on s' nxt c w w'"
    unfolding passes_on_def by blast
qed

end
