(* ===== verification/HTTP_Theorems.thy ===== *)
theory HTTP_Theorems
  imports HTTP_Server Frontend
begin

text \<open>
  The HTTP server as a front end of the file service: every middleware is a gate, every handler makes
  one call, and so a request changes the tables only for an authenticated and authorized caller,
  by one call of the service.
\<close>

subsection \<open>Gates\<close>

text \<open>What no middleware but authentication changes of a request: its route, its headers, its caller.\<close>

definition kept :: "gin \<Rightarrow> gin \<Rightarrow> bool" where
  "kept c c1 \<longleftrightarrow> g_FullPath c1 = g_FullPath c \<and> g_GetHeader c1 = g_GetHeader c \<and>
     g_principal c1 = g_principal c \<and> g_credential c1 = g_credential c"

lemma kept_trans: "kept a b \<Longrightarrow> kept b c \<Longrightarrow> kept a c"
  by (simp add: kept_def)

lemma kept_simps [simp]:
  "kept c c" "kept c (set_header k v c1) = kept c c1" "kept c (c1\<lparr>g_request_id := i\<rparr>) = kept c c1"
  "kept c (c1\<lparr>g_environment := e\<rparr>) = kept c c1" "kept c (c1\<lparr>g_idempotency := key\<rparr>) = kept c c1"
  "kept c (c1\<lparr>g_Body := b\<rparr>) = kept c c1"
  by (simp_all add: kept_def set_header_def)

lemma ext_keeps_db: "w_db (w\<lparr>w_ext := x\<rparr>) = w_db w"
  by simp

lemma run_return_bind:
  "run_state (m \<bind> f) w = (r, w') \<Longrightarrow> \<exists>a v. run_state m w = (a, v) \<and> run_state (f a) v = (r, w')"
  by (auto split: prod.splits)

interpretation request_id: gate "mw_RequestID E" kept for E :: "'x http_env"
proof
  fix nxt and c :: gin and w :: "'x world" and r w'
  assume run: "run_state (mw_RequestID E nxt c) w = (r, w')"
  from run [unfolded mw_RequestID_def] obtain i v where
    i: "run_state (if requestid_Valid (g_GetHeader c ''X-Request-ID'')
       then State_Monad.return (g_GetHeader c ''X-Request-ID'')
       else do { bytes \<leftarrow> ext_call (he_random E); nanos \<leftarrow> ext_call (he_nanos E);
                 State_Monad.return (requestid_Generate bytes nanos) }) w = (i, v)"
    and n: "run_state (nxt (set_header ''X-Request-ID'' i (c\<lparr>g_request_id := i\<rparr>))) v = (r, w')"
    by (blast dest: run_return_bind)
  have "w_db v = w_db w" using i by (auto simp: run_db_prims split: if_splits prod.splits)
  with n show "passes_on kept nxt c w w'" unfolding passes_on_def by (metis kept_simps(1,2,3))
qed

interpretation environment: gate "mw_Environment profile" kept for profile
  by unfold_locales (auto simp: mw_Environment_def intro: passes_now [where step = kept, rotated])

interpretation idempotency_key: gate "mw_IdempotencyKey E" kept for E :: "'x http_env"
  by unfold_locales
    (auto simp: mw_IdempotencyKey_def Let_def split: if_splits
      intro: passes_stop passes_now [where step = kept, rotated])

interpretation timeout: gate "mw_Timeout E" kept for E :: "'x http_env"
proof
  fix nxt and c :: gin and w :: "'x world" and r w'
  assume "run_state (mw_Timeout E nxt c) w = (r, w')"
  then obtain c' v where "run_state (nxt c) w = (c', v)" "w_db w' = w_db v"
    by (auto simp: mw_Timeout_def run_db_prims split: prod.splits)
  then show "passes_on kept nxt c w w'" unfolding passes_on_def by (metis kept_simps(1))
qed

text \<open>A middleware that only looks at the context the next handler leaves.\<close>

definition observes :: "'x middleware \<Rightarrow> bool" where
  "observes mw \<longleftrightarrow> (\<forall>nxt c w c' w'. run_state (mw nxt c) w = (c', w') \<longrightarrow>
     (\<exists>v v'. w_db v = w_db w \<and> run_state (nxt c) v = (c', v') \<and> w_db w' = w_db v'))"

lemma observesD:
  assumes "observes mw" "run_state (mw nxt c) w = (c', w')"
  obtains v v' where "w_db v = w_db w" "run_state (nxt c) v = (c', v')" "w_db w' = w_db v'"
  using assms unfolding observes_def by blast

lemma observes_gate: "observes mw \<Longrightarrow> gate mw kept"
  by (unfold_locales, erule (1) observesD) (unfold passes_on_def, metis kept_simps(1))

lemma observers:
  "observes (mw_RequestLogger E)" "observes (mw_HTTPMetrics M)" "observes (\<lambda>h. mw_Recovery E (returning h))"
proof -
  show "observes (mw_RequestLogger E)"
    unfolding observes_def mw_RequestLogger_def
    by (auto simp: run_db_prims split: prod.splits) (metis ext_keeps_db)
  show "observes (mw_HTTPMetrics M)"
    unfolding observes_def mw_HTTPMetrics_def Let_def
    by (auto simp: run_db_prims split: prod.splits) (metis ext_keeps_db)+
  show "observes (\<lambda>h. mw_Recovery E (returning h))"
    unfolding observes_def mw_Recovery_def returning_def by (auto split: prod.splits)
qed

interpretation request_logger: gate "mw_RequestLogger E" kept for E :: "'x http_env"
  by (rule observes_gate [OF observers(1)])

interpretation http_metrics: gate "mw_HTTPMetrics M" kept for M :: "'x Metrics"
  by (rule observes_gate [OF observers(2)])

interpretation recovery: gate "\<lambda>h. mw_Recovery E (returning h)" kept for E :: "'x http_env"
  by (rule observes_gate [OF observers(3)])

interpretation max_body: gate "mw_MaxBody limit" kept for limit
  by unfold_locales (auto simp: mw_MaxBody_def intro: passes_now [where step = kept, rotated])

interpretation require_json: gate "mw_RequireJSON E" kept for E :: "'x http_env"
  by unfold_locales
    (auto simp: mw_RequireJSON_def split: if_splits intro: passes_stop passes_now [where step = kept, rotated])

interpretation security_headers: gate mw_SecurityHeaders kept
  by unfold_locales
    (auto simp: mw_SecurityHeaders_def Let_def split: if_splits
      intro: passes_now [where step = kept, rotated])

interpretation cors: gate "mw_CORS cfg" kept for cfg
  by unfold_locales
    (auto simp: mw_CORS_def Let_def split: if_splits
      intro: passes_stop passes_now [where step = kept, rotated])

interpretation rate_limit: gate "mw_RateLimit limiter rule dimension keyFunc" kept
  for limiter :: "'x Limiter" and rule dimension keyFunc
proof
  fix nxt and c :: gin and w :: "'x world" and r w'
  assume "run_state (mw_RateLimit limiter rule dimension keyFunc nxt c) w = (r, w')"
  then have "w_db w' = w_db w \<or> (\<exists>c1 v. kept c c1 \<and> w_db v = w_db w \<and> run_state (nxt c1) v = (r, w'))"
    unfolding mw_RateLimit_def Let_def
    by (auto simp: run_db_prims split: if_splits prod.splits sum.splits)
  then show "passes_on kept nxt c w w'" unfolding passes_on_def by blast
qed

text \<open>Who a request is from: the holder of the pre-shared key on its routes, or of a valid token.\<close>

definition http_caller :: "'x http_env \<Rightarrow> gin \<Rightarrow> Principal \<Rightarrow> bool" where
  "http_caller E c p \<longleftrightarrow>
     (let psk = auth_PSK (config_Auth (he_cfg E)); header = g_GetHeader c ''Authorization'' in
      psk_Enabled psk \<and> MatchesAny (g_FullPath c) (psk_HTTPPaths psk) \<and> VerifyPSK header (psk_Key psk) \<and>
        p = psk_principal \<or>
      (\<exists>raw now. bearer header = Some raw \<and> Auth_Verify (he_jwt E) now (he_auth E) raw = Inr p))"

definition authenticates :: "'x http_env \<Rightarrow> gin \<Rightarrow> gin \<Rightarrow> bool" where
  "authenticates E c c1 \<longleftrightarrow>
     g_FullPath c1 = g_FullPath c \<and> g_GetHeader c1 = g_GetHeader c \<and>
     (g_principal c1 = g_principal c \<or>
      (\<exists>p. g_principal c1 = Some p \<and> http_caller E c p \<and>
        g_credential c1 = Some (g_GetHeader c ''Authorization'')))"

definition authorizes :: "'x http_env \<Rightarrow> gin \<Rightarrow> gin \<Rightarrow> bool" where
  "authorizes E c c1 \<longleftrightarrow>
     kept c c1 \<and>
     (authorization_Enabled (config_Authorization (he_cfg E)) \<longrightarrow>
       (\<forall>q. fileHTTPRequirement (g_FullPath c) = Some q \<longrightarrow>
         answers (he_enforce E (g_principal c) (g_credential c) q) None))"

lemma authenticates_known:
  "g_principal c1 = Some p \<Longrightarrow> http_caller E c p \<Longrightarrow> g_FullPath c1 = g_FullPath c \<Longrightarrow>
    g_GetHeader c1 = g_GetHeader c \<Longrightarrow> g_credential c1 = Some (g_GetHeader c ''Authorization'') \<Longrightarrow>
    authenticates E c c1"
  by (simp add: authenticates_def)

lemma authenticates_same [simp]: "authenticates E c c"
  by (simp add: authenticates_def)

interpretation jwt: gate "mw_JWT E" "authenticates E" for E :: "'x http_env"
proof
  fix nxt and c :: gin and w :: "'x world" and r w'
  assume run: "run_state (mw_JWT E nxt c) w = (r, w')"
  show "passes_on (authenticates E) nxt c w w'"
  proof (cases "bearer (g_GetHeader c ''Authorization'')")
    case None
    then show ?thesis using run by (auto simp: mw_JWT_def intro: passes_stop)
  next
    case (Some raw)
    obtain now x where now: "rt_now (he_runtime E) (w_ext w) = (now, x)" by fastforce
    show ?thesis
    proof (cases "Auth_Verify (he_jwt E) now (he_auth E) raw")
      case (Inl e)
      then show ?thesis using run now Some by (auto simp: mw_JWT_def run_db_prims intro!: passes_stop)
    next
      case (Inr p)
      let ?c = "c\<lparr>g_subject := Some (p_ID p), g_principal := Some p,
        g_credential := Some (g_GetHeader c ''Authorization'')\<rparr>"
      have "run_state (nxt ?c) (w\<lparr>w_ext := x\<rparr>) = (r, w')"
        using run now Some Inr by (simp add: mw_JWT_def run_db_prims)
      moreover have "authenticates E c ?c"
        by (rule authenticates_known [of _ p]) (use Some Inr in \<open>auto simp: http_caller_def Let_def\<close>)
      moreover have "w_db (w\<lparr>w_ext := x\<rparr>) = w_db w" by simp
      ultimately show ?thesis unfolding passes_on_def by metis
    qed
  qed
qed

interpretation authentication: gate "mw_Authentication E" "authenticates E" for E :: "'x http_env"
proof
  fix nxt and c :: gin and w :: "'x world" and r w'
  assume run: "run_state (mw_Authentication E nxt c) w = (r, w')"
  let ?psk = "auth_PSK (config_Auth (he_cfg E))" and ?h = "g_GetHeader c ''Authorization''"
  consider (bad) "run_state (State_Monad.return (Fail c (Unauthorized ''missing or invalid PSK''))) w = (r, w')"
    | (psk) "psk_Enabled ?psk" "MatchesAny (g_FullPath c) (psk_HTTPPaths ?psk)" "VerifyPSK ?h (psk_Key ?psk)"
      "run_state (nxt (c\<lparr>g_subject := Some ''psk'', g_principal := Some psk_principal, g_credential := Some ?h\<rparr>)) w = (r, w')"
    | (skip) "run_state (nxt c) w = (r, w')"
    | (token) "run_state (mw_JWT E nxt c) w = (r, w')"
    using run unfolding mw_Authentication_def Let_def by (auto split: if_splits)
  then show "passes_on (authenticates E) nxt c w w'"
  proof cases
    case bad
    then show ?thesis by (auto intro: passes_stop)
  next
    case psk
    have "authenticates E c
        (c\<lparr>g_subject := Some ''psk'', g_principal := Some psk_principal, g_credential := Some ?h\<rparr>)"
      by (rule authenticates_known [of _ psk_principal])
        (use psk(1-3) in \<open>auto simp: http_caller_def Let_def\<close>)
    with psk(4) show ?thesis unfolding passes_on_def by blast
  next
    case skip
    then show ?thesis unfolding passes_on_def using authenticates_same by blast
  next
    case token
    then show ?thesis by (rule jwt.passes)
  qed
qed

interpretation authorization: gate "mw_Authorization E" "authorizes E" for E :: "'x http_env"
proof
  fix nxt and c :: gin and w :: "'x world" and r w'
  assume run: "run_state (mw_Authorization E nxt c) w = (r, w')"
  show "passes_on (authorizes E) nxt c w w'"
  proof (cases "authorization_Enabled (config_Authorization (he_cfg E)) \<and> fileHTTPRequirement (g_FullPath c) \<noteq> None")
    case False
    then have "run_state (nxt c) w = (r, w')" using run by (auto simp: mw_Authorization_def split: if_splits)
    moreover have "authorizes E c c" using False by (auto simp: authorizes_def)
    ultimately show ?thesis unfolding passes_on_def by blast
  next
    case True
    then obtain q where q: "fileHTTPRequirement (g_FullPath c) = Some q" by auto
    obtain err x where e: "he_enforce E (g_principal c) (g_credential c) q (w_ext w) = (err, x)" by fastforce
    show ?thesis
    proof (cases err)
      case None
      then have "authorizes E c c" using e q by (auto simp: authorizes_def answers_def)
      moreover have "run_state (nxt c) (w\<lparr>w_ext := x\<rparr>) = (r, w')"
        using run True q e None by (simp add: mw_Authorization_def run_db_prims)
      moreover have "w_db (w\<lparr>w_ext := x\<rparr>) = w_db w" by simp
      ultimately show ?thesis unfolding passes_on_def by metis
    next
      case (Some f)
      then show ?thesis using run True q e
        by (auto simp: mw_Authorization_def run_db_prims intro!: passes_stop)
    qed
  qed
qed

lemma persist_silent: "silent w_db (persist_outcome m key decision n c')"
  unfolding persist_outcome_def by (auto intro!: silentI simp: run_db_prims split: list.splits prod.splits if_splits)

interpretation idempotency: gate "mw_IdempotencyExecution E paths" kept for E :: "'x http_env" and paths
proof
  fix nxt and c :: gin and w :: "'x world" and r w'
  assume run: "run_state (mw_IdempotencyExecution E paths nxt c) w = (r, w')"
  have dec: "w_db v' = w_db v \<or> (\<exists>c2 v2. run_state (nxt c) v = (c2, v2) \<and> w_db v' = w_db v2)"
    if "run_state (run_decision m key d nxt c) v = (r, v')" for m key d v v'
    using that
    by (auto simp: run_decision_def split: idem_state.splits prod.splits
        dest!: silentD [OF persist_silent])
  have "w_db w' = w_db w \<or>
      (\<exists>v c2 v2. w_db v = w_db w \<and> run_state (nxt c) v = (c2, v2) \<and> w_db w' = w_db v2)"
    using run unfolding mw_IdempotencyExecution_def
    by (auto simp: run_db_prims split: option.splits if_splits sum.splits prod.splits dest!: dec)
      (metis ext_keeps_db)
  then show "passes_on kept nxt c w w'" unfolding passes_on_def by (metis kept_simps(1))
qed

subsection \<open>Handlers\<close>

text \<open>One call of the service as the caller \<open>p\<close>, on behalf of some tenant, made the change.\<close>

definition call_as :: "'x runtime \<Rightarrow> 'x Service \<Rightarrow> Principal option \<Rightarrow> 'x world \<Rightarrow> 'x world \<Rightarrow> bool" where
  "call_as R S p w w' \<longleftrightarrow>
     (\<exists>req t w1 a w2. req_tenant req = Some t \<and> w_db w1 = w_db w \<and>
       run_state (serve R S \<lparr>ctx_principal = p\<rparr> req) w1 = (a, w2) \<and> w_db w' = w_db w2)"

lemma call_as_effect: "call_as R S p w w' \<Longrightarrow> effect_of_call R S w w'"
  unfolding call_as_def effect_of_call_def by blast

lemma call_as_shift:
  "call_as R S p w1 w2 \<Longrightarrow> w_db w1 = w_db w \<Longrightarrow> w_db w' = w_db w2 \<Longrightarrow> call_as R S p w w'"
  unfolding call_as_def by metis

lemma call_as_nobody: "call_as R S None w w' \<Longrightarrow> w_db w' = w_db w"
proof -
  assume "call_as R S None w w'"
  then obtain req t w1 a w2 where c: "req_tenant req = Some t" "w_db w1 = w_db w"
    "run_state (serve R S \<lparr>ctx_principal = None\<rparr> req) w1 = (a, w2)" "w_db w' = w_db w2"
    unfolding call_as_def by blast
  have "turned_away \<lparr>ctx_principal = None\<rparr> t" by (simp add: turned_away_def)
  from serve_turned_away [OF c(1) this, of R S w1] c(2-4) show ?thesis by (auto simp: refused_def)
qed

lemma bound_call:
  assumes "run_state (bound c x (\<lambda>r. respond c f (m r))) w = (c', w')"
    and "\<And>r. serve R S (request_ctx c) (rq r) = answering g (m r)" "\<And>r. req_tenant (rq r) = Some (tn r)"
  shows "w_db w' = w_db w \<or> call_as R S (g_principal c) w w'"
proof (cases x)
  case (Inl e)
  then show ?thesis using assms(1) by (simp add: bound_def)
next
  case (Inr r)
  then obtain v err where "run_state (m r) w = ((v, err), w')"
    using assms(1) by (auto simp: bound_def respond_def split: prod.splits)
  then have "run_state (serve R S (request_ctx c) (rq r)) w = ((g v, err), w')"
    by (simp add: assms(2) answering_def)
  then show ?thesis using assms(3) unfolding call_as_def request_ctx_def by blast
qed

text \<open>The requests the handlers make of their input.\<close>

lemma upload_handlers_call:
  "run_state (Handler_InitiateUpload R S B c) w = (c', w') \<Longrightarrow>
     w_db w' = w_db w \<or> call_as R S (g_principal c) w w'"
  "run_state (Handler_InitiateMultipartUpload R S B c) w = (c', w') \<Longrightarrow>
     w_db w' = w_db w \<or> call_as R S (g_principal c) w w'"
  "run_state (Handler_AuthorizeUploadPart R S B c) w = (c', w') \<Longrightarrow>
     w_db w' = w_db w \<or> call_as R S (g_principal c) w w'"
  "run_state (Handler_CompleteMultipartUpload R S B c) w = (c', w') \<Longrightarrow>
     w_db w' = w_db w \<or> call_as R S (g_principal c) w w'"
  "run_state (Handler_AbortMultipartUpload R S B c) w = (c', w') \<Longrightarrow>
     w_db w' = w_db w \<or> call_as R S (g_principal c) w w'"
  "run_state (Handler_CompleteUpload R S B c) w = (c', w') \<Longrightarrow>
     w_db w' = w_db w \<or> call_as R S (g_principal c) w w'"
  unfolding Handler_InitiateUpload_def Handler_InitiateMultipartUpload_def Handler_AuthorizeUploadPart_def
    Handler_CompleteMultipartUpload_def Handler_AbortMultipartUpload_def Handler_CompleteUpload_def
  by (erule bound_call [where rq = "\<lambda>r. ReqInitiateUpload (iu_TenantID r) (iu_ApplicationID r)
        (iu_Filename r) (iu_ContentType r) (iu_Size r) (iu_ChecksumSHA256 r) (iu_IdempotencyKey r)"]
      bound_call [where rq = "\<lambda>r. ReqInitiateMultipart (iu_TenantID (im_Base r)) (iu_ApplicationID (im_Base r))
        (iu_Filename (im_Base r)) (iu_ContentType (im_Base r)) (iu_Size (im_Base r))
        (iu_ChecksumSHA256 (im_Base r)) (iu_IdempotencyKey (im_Base r)) (im_PartSize r)"]
      bound_call [where rq = "\<lambda>r. ReqAuthorizeUploadPart (ap_ID r) (ap_TenantID r) (ap_ApplicationID r) (ap_PartNumber r)"]
      bound_call [where rq = "\<lambda>r. ReqCompleteMultipart (cm_ID r) (cm_TenantID r) (cm_ApplicationID r)
        (cm_ChecksumSHA256 r) (part_list (cm_Parts r)) (cm_ExpectedVersion r)"]
      bound_call [where rq = "\<lambda>r. ReqAbortMultipart (df_ID r) (df_TenantID r) (df_ApplicationID r) (df_ExpectedVersion r)"]
      bound_call [where rq = "\<lambda>r. ReqCompleteUpload (cu_ID r) (cu_TenantID r) (cu_ApplicationID r)
        (cu_ChecksumSHA256 r) (cu_ExpectedVersion r)"]; simp)+

lemma file_handlers_call:
  "run_state (Handler_ReportScanResult R S B c) w = (c', w') \<Longrightarrow>
     w_db w' = w_db w \<or> call_as R S (g_principal c) w w'"
  "run_state (Handler_GetFile R S B c) w = (c', w') \<Longrightarrow>
     w_db w' = w_db w \<or> call_as R S (g_principal c) w w'"
  "run_state (Handler_ListFiles R S B c) w = (c', w') \<Longrightarrow>
     w_db w' = w_db w \<or> call_as R S (g_principal c) w w'"
  "run_state (Handler_AuthorizeDownload R S B c) w = (c', w') \<Longrightarrow>
     w_db w' = w_db w \<or> call_as R S (g_principal c) w w'"
  "run_state (Handler_DeleteFile R S B c) w = (c', w') \<Longrightarrow>
     w_db w' = w_db w \<or> call_as R S (g_principal c) w w'"
  unfolding Handler_ReportScanResult_def Handler_GetFile_def Handler_ListFiles_def
    Handler_AuthorizeDownload_def Handler_DeleteFile_def
  by (erule bound_call [where rq = "\<lambda>r. ReqReportScanResult (sr_ID r) (sr_TenantID r) (sr_ApplicationID r)
        (sr_ScanStatus r) (sr_ExpectedVersion r)"]
      bound_call [where rq = "\<lambda>r. ReqGet (fi_ID r) (fi_TenantID r) (fi_ApplicationID r)"]
      bound_call [where rq = "\<lambda>r. ReqList (list_filter r)"]
      bound_call [where rq = "\<lambda>r. ReqAuthorizeDownload (fi_ID r) (fi_TenantID r) (fi_ApplicationID r)"]
      bound_call [where rq = "\<lambda>r. ReqDelete (df_ID r) (df_TenantID r) (df_ApplicationID r) (df_ExpectedVersion r)"];
      simp)+

lemma other_handlers_silent:
  "silent w_db (Handler_Live c)" "silent w_db (Handler_Ready arrival health c)" "silent w_db (Handler_Me c)"
  "silent w_db (Handler_Version vars clock c)" "silent w_db (no_route c)" "silent w_db (asset E c)"
  by (auto intro!: silentI simp: Handler_Live_def Handler_Ready_def Handler_Me_def Handler_Version_def
      no_route_def asset_def run_db_prims split: prod.splits)

lemma silent_call:
  "silent w_db m \<Longrightarrow> run_state m w = (r, w') \<Longrightarrow> w_db w' = w_db w \<or> Q"
  by (blast dest: silentD)

lemma api_handlers_call:
  assumes "map_of (api_routes E) path = Some h" "run_state (h c) w = (c', w')"
  shows "w_db w' = w_db w \<or> call_as (he_runtime E) (he_files E) (g_principal c) w w'"
proof -
  from assms(1) have "h \<in> set (map snd (api_routes E))"
    by (metis image_eqI list.set_map map_of_SomeD snd_conv)
  then have "h \<in> {Handler_Version (he_build E) (rt_now (he_runtime E)), Handler_Me} \<or>
      h \<in> (\<lambda>f. f (he_runtime E) (he_files E) (he_binding E)) ` {Handler_InitiateUpload,
        Handler_InitiateMultipartUpload, Handler_AuthorizeUploadPart, Handler_CompleteMultipartUpload,
        Handler_AbortMultipartUpload, Handler_CompleteUpload, Handler_ReportScanResult, Handler_GetFile,
        Handler_ListFiles, Handler_AuthorizeDownload, Handler_DeleteFile}"
    by (simp add: api_routes_def Let_def)
  then show ?thesis using assms(2)
    by (auto elim!: upload_handlers_call [elim_format] file_handlers_call [elim_format]
        dest: silentD [OF other_handlers_silent(3)] silentD [OF other_handlers_silent(4)])
qed

subsection \<open>The server\<close>

text \<open>
  The context a handler of the API runs on: the caller is the one of the request, or authentication
  found a caller and, where authorization is on, the decision was in favour.
\<close>

definition admitted :: "'x http_env \<Rightarrow> gin \<Rightarrow> gin \<Rightarrow> bool" where
  "admitted E c c1 \<longleftrightarrow>
     g_principal c1 = g_principal c \<or>
     (\<exists>p. g_principal c1 = Some p \<and> http_caller E c p \<and>
       (authorization_Enabled (config_Authorization (he_cfg E)) \<longrightarrow>
         (\<forall>q. fileHTTPRequirement (g_FullPath c) = Some q \<longrightarrow>
           answers (he_enforce E (Some p) (Some (g_GetHeader c ''Authorization'')) q) None)))"

lemma kept_caller: "kept c c1 \<Longrightarrow> http_caller E c1 = http_caller E c"
  by (simp add: kept_def http_caller_def fun_eq_iff)

interpretation api: gate "api_group E" "admitted E" for E :: "'x http_env"
proof (rule gate_weaken)
  let ?l = "config_RateLimit (he_cfg E)" and ?r = "mw_RateLimit (he_limiter E)"
  show "gate (api_group E) (kept OO (kept OO (authenticates E OO (authorizes E OO (kept OO kept)))))"
    unfolding api_group_def Let_def
    by (rule gate_compose [OF rate_limit.gate_axioms gate_compose [OF rate_limit.gate_axioms
        gate_compose [OF authentication.gate_axioms gate_compose [OF authorization.gate_axioms
        gate_compose [OF rate_limit.gate_axioms idempotency.gate_axioms]]]]])
  fix c c1 assume "(kept OO (kept OO (authenticates E OO (authorizes E OO (kept OO kept))))) c c1"
  then obtain a b d where k: "kept c a" "authenticates E a b" "authorizes E b d" "kept d c1"
    by (elim relcomppE) (metis that kept_trans)
  show "admitted E c c1"
  proof (cases "g_principal b = g_principal a")
    case True
    then show ?thesis using k by (auto simp: admitted_def kept_def authorizes_def)
  next
    case False
    with k(2) obtain p where p: "g_principal b = Some p" "http_caller E a p"
      "g_credential b = Some (g_GetHeader a ''Authorization'')" "g_FullPath b = g_FullPath a"
      by (auto simp: authenticates_def)
    then show ?thesis using k(1,3,4) kept_caller [OF k(1), of E]
      by (auto simp: admitted_def kept_def authorizes_def)
  qed
qed

interpretation pprof: gate "mw_pprofAuth expected" kept for expected
  by unfold_locales
    (auto simp: mw_pprofAuth_def split: if_splits prod.splits
      intro: passes_stop passes_now [where step = kept, rotated])

lemma passes_silent:
  "passes_on step nxt c w w' \<Longrightarrow> (\<And>c. silent w_db (nxt c)) \<Longrightarrow> w_db w' = w_db w"
  unfolding passes_on_def by (metis silentD)

lemma router_call:
  assumes "run_state (router E c) w = (c', w')"
  shows "w_db w' = w_db w \<or> (\<exists>c1. admitted E c c1 \<and>
    call_as (he_runtime E) (he_files E) (g_principal c1) w w')"
proof -
  consider (quiet) m where "silent w_db m" "run_state m w = (c', w')"
    | (profile) token where "run_state (mw_pprofAuth token (asset E) c) w = (c', w')"
    | (swagger) "run_state (mw_JWT E (asset E) c) w = (c', w')"
    | (group) h where "map_of (api_routes E) (g_FullPath c) = Some h" "run_state (api_group E h c) w = (c', w')"
    using assms other_handlers_silent unfolding router_def Let_def by (simp split: if_splits option.splits) blast+
  then show ?thesis
  proof cases
    case quiet
    then show ?thesis by (blast dest: silentD)
  next
    case profile
    show ?thesis using passes_silent [OF pprof.passes [OF profile]] other_handlers_silent(6) by blast
  next
    case swagger
    show ?thesis using passes_silent [OF jwt.passes [OF swagger]] other_handlers_silent(6) by blast
  next
    case group
    have "w_db w' = w_db w \<or> (\<exists>c1 w1 w2. admitted E c c1 \<and> w_db w1 = w_db w \<and>
        call_as (he_runtime E) (he_files E) (g_principal c1) w1 w2 \<and> w_db w' = w_db w2)"
      by (rule api.compose [OF group(2)]) (rule api_handlers_call [OF group(1)])
    then show ?thesis using call_as_shift by blast
  qed
qed

text \<open>The whole stack: the routes, the headers and the caller of a request reach the router unchanged.\<close>

interpretation inner: gate "inner_middleware E" kept for E :: "'x http_env"
proof (rule gate_weaken)
  show "gate (inner_middleware E) (kept OO (kept OO (kept OO (kept OO (kept OO kept)))))"
    unfolding inner_middleware_def Let_def
    by (rule gate_compose [OF http_metrics.gate_axioms gate_compose [OF security_headers.gate_axioms
        gate_compose [OF cors.gate_axioms gate_compose [OF max_body.gate_axioms
        gate_compose [OF timeout.gate_axioms require_json.gate_axioms]]]]])
  fix c c1 assume "(kept OO (kept OO (kept OO (kept OO (kept OO kept))))) c c1"
  then show "kept c c1" by (elim relcomppE) (metis kept_trans)
qed

interpretation outer: gate "\<lambda>h. outer_middleware E (returning h)" kept for E :: "'x http_env"
proof (rule gate_weaken)
  show "gate (\<lambda>h. outer_middleware E (returning h)) (kept OO (kept OO (kept OO (kept OO kept))))"
    unfolding outer_middleware_def
    by (rule gate_compose [OF request_id.gate_axioms gate_compose [OF idempotency_key.gate_axioms
        gate_compose [OF environment.gate_axioms gate_compose [OF request_logger.gate_axioms recovery.gate_axioms]]]])
  fix c c1 assume "(kept OO (kept OO (kept OO (kept OO kept)))) c c1"
  then show "kept c c1" by (elim relcomppE) (metis kept_trans)
qed

interpretation stack: gate "\<lambda>h. outer_middleware E (returning (inner_middleware E h))" kept for E :: "'x http_env"
  by (rule gate_weaken [OF gate_compose [OF outer.gate_axioms inner.gate_axioms]]) (elim relcomppE, metis kept_trans)

lemma http_call:
  assumes "run_state (http_serve E c) w = (c', w')"
  shows "w_db w' = w_db w \<or> (\<exists>c1. admitted E c c1 \<and>
    call_as (he_runtime E) (he_files E) (g_principal c1) w w')"
proof -
  let ?Q = "\<lambda>c1 w1 w2. \<exists>c2. admitted E c1 c2 \<and> call_as (he_runtime E) (he_files E) (g_principal c2) w1 w2"
  have adm: "admitted E c c2" if "kept c c1" "admitted E c1 c2" for c1 c2
    using that kept_caller [OF that(1), of E] by (auto simp: admitted_def kept_def)
  have "w_db w' = w_db w \<or> (\<exists>c1 w1 w2. kept c c1 \<and> w_db w1 = w_db w \<and> ?Q c1 w1 w2 \<and> w_db w' = w_db w2)"
    by (rule stack.compose [OF assms [unfolded http_serve_def]]) (rule router_call)
  then show ?thesis using adm call_as_shift by blast
qed

interpretation http: frontend "he_runtime E" "he_files E" "http_serve E" for E :: "'x http_env"
proof
  fix c :: gin and w :: "'x world" and r w'
  assume "run_state (http_serve E c) w = (r, w')"
  from http_call [OF this] show "w_db w' = w_db w \<or> effect_of_call (he_runtime E) (he_files E) w w'"
    using call_as_effect by blast
qed

text \<open>
  C24. No HTTP request changes the tables unless it comes from an authenticated caller: the holder
  of the pre-shared key on a route that takes it, or the holder of a token the verifier accepts;
  where authorization is switched on, the decision service allowed this caller the action of the
  route; and the change is that of one call of the file service made as this caller. This holds
  also for routes whose patterns skip authentication.
\<close>

theorem http_changes_need_a_caller:
  assumes "run_state (http_serve E c) w = (c', w')" "w_db w' \<noteq> w_db w" "g_principal c = None"
  shows "\<exists>p. http_caller E c p \<and>
    (authorization_Enabled (config_Authorization (he_cfg E)) \<longrightarrow>
      (\<forall>q. fileHTTPRequirement (g_FullPath c) = Some q \<longrightarrow>
        answers (he_enforce E (Some p) (Some (g_GetHeader c ''Authorization'')) q) None)) \<and>
    call_as (he_runtime E) (he_files E) (Some p) w w'"
proof -
  from http_call [OF assms(1)] assms(2) obtain c1 where c1: "admitted E c c1"
    "call_as (he_runtime E) (he_files E) (g_principal c1) w w'" by blast
  have "g_principal c1 \<noteq> None" using call_as_nobody c1(2) assms(2) by metis
  with c1 assms(3) show ?thesis unfolding admitted_def by auto
qed

end
