(* ===== verification/Config.thy ===== *)
theory Config
  imports Config_Types Go_Path
begin

text \<open>
  Loading and checking the configuration, \<^verbatim>\<open>internal/config/config.go\<close>: the
  defaults, the decode hook for lists, the profile file, \<open>Validate\<close> and
  \<open>LoadWithProfile\<close>.

  \<open>Validate\<close> returns the first error of a fixed sequence of checks; the model lists the
  checks in that order, in blocks of consecutive checks, and takes the first that fails. Where the
  code ranges over a map the list order stands for the iteration order; only the text of the error
  depends on it. The library that reads files and environment variables is the record
  \<open>viper\<close>, an argument of \<open>LoadWithProfile\<close>.
\<close>

subsection \<open>Text\<close>

text \<open>
  \<open>strconv.Quote\<close>, the verb \<^verbatim>\<open>%q\<close>: exact on ASCII strings; for the others the tables of
  printable runes are the argument \<open>uni\<close>.
\<close>

definition hex_digit :: "nat \<Rightarrow> char" where
  "hex_digit n = (if n < 10 then char_of (48 + n) else char_of (87 + n))"

definition quote_char :: "char \<Rightarrow> string" where
  "quote_char c =
     (let n = of_char c :: nat in
      if c = CHR 0x22 \<or> c = CHR 0x5C then [CHR 0x5C, c]
      else if n = 7 then [CHR 0x5C, CHR ''a'']
      else if n = 8 then [CHR 0x5C, CHR ''b'']
      else if n = 12 then [CHR 0x5C, CHR ''f'']
      else if n = 10 then [CHR 0x5C, CHR ''n'']
      else if n = 13 then [CHR 0x5C, CHR ''r'']
      else if n = 9 then [CHR 0x5C, CHR ''t'']
      else if n = 11 then [CHR 0x5C, CHR ''v'']
      else if n < 32 \<or> n = 127 then [CHR 0x5C, CHR ''x'', hex_digit (n div 16), hex_digit (n mod 16)]
      else [c])"

definition Quote :: "(string \<Rightarrow> string) \<Rightarrow> string \<Rightarrow> string" where
  "Quote uni s =
     (if is_ascii s then [CHR 0x22] @ concat (map quote_char s) @ [CHR 0x22] else uni s)"

text \<open>Character classes of the regular expressions.\<close>

definition lower_alnum :: "char \<Rightarrow> bool" where
  "lower_alnum c = (let n = of_char c :: nat in 97 \<le> n \<and> n \<le> 122 \<or> 48 \<le> n \<and> n \<le> 57)"

definition lower_alpha :: "char \<Rightarrow> bool" where
  "lower_alpha c = (let n = of_char c :: nat in 97 \<le> n \<and> n \<le> 122)"

definition validProfile :: "string \<Rightarrow> bool" where
  "validProfile s \<longleftrightarrow> s \<noteq> [] \<and> lower_alnum (hd s) \<and>
     list_all (\<lambda>c. lower_alnum c \<or> c = CHR ''_'' \<or> c = CHR ''-'') (tl s)"

definition validMigrationTable :: "string \<Rightarrow> bool" where
  "validMigrationTable s \<longleftrightarrow> s \<noteq> [] \<and> lower_alpha (hd s) \<and>
     list_all (\<lambda>c. lower_alnum c \<or> c = CHR ''_'') (tl s) \<and> length (tl s) \<le> 62"

definition profileConfigPath :: "string \<Rightarrow> string \<Rightarrow> string" where
  "profileConfigPath path profile =
     (let extension = filepath_Ext path;
          base = take (length path - length extension) path
      in base @ ''-'' @ profile @ extension)"

text \<open>\<open>strings.Trim\<close> with the cut set of both quotation marks.\<close>

definition trim_quotes :: "string \<Rightarrow> string" where
  "trim_quotes s =
     (let quote = (\<lambda>c. c = CHR 0x22 \<or> c = CHR 0x27)
      in rev (dropWhile quote (rev (dropWhile quote s))))"

text \<open>The decode hook, for a value that is a string where a list of strings is wanted.\<close>

definition stringToStringSliceHook :: "string \<Rightarrow> string list" where
  "stringToStringSliceHook data =
     (let raw = TrimSpace data;
          raw = (if prefix ''['' raw \<and> suffix '']'' raw
                 then TrimSpace (take (length raw - 2) (tl raw)) else raw)
      in if raw = [] then []
         else map (\<lambda>v. trim_quotes (TrimSpace v)) (Split raw (CHR '','')))"

subsection \<open>Defaults\<close>

definition seconds :: "nat \<Rightarrow> duration" where
  "seconds n = word_of_int (int n * 1000000000)"

definition milliseconds :: "nat \<Rightarrow> duration" where
  "milliseconds n = word_of_int (int n * 1000000)"

definition setRateLimitDefaults :: "int64 \<Rightarrow> int64 \<Rightarrow> cfg_RateLimitRule" where
  "setRateLimitDefaults rate burst =
     \<lparr>ratelimitrule_Rate = rate, ratelimitrule_Burst = burst, ratelimitrule_Period = seconds 60\<rparr>"

text \<open>The configuration that the defaults alone give: fields without a default are zero.\<close>

definition default_HTTP :: cfg_HTTP where
  "default_HTTP =
     \<lparr>http_Address = ''127.0.0.1:8080'', http_ReadTimeout = seconds 10,
      http_WriteTimeout = seconds 15, http_IdleTimeout = seconds 60,
      http_RequestTimeout = seconds 10, http_MaxBodyBytes = 1048576, http_TrustedProxies = [],
      http_CORS =
        \<lparr>cors_Enabled = False, cors_AllowedOrigins = [],
         cors_AllowedHeaders = [''Authorization'', ''Content-Type'', ''X-Request-ID''],
         cors_ExposedHeaders =
           [''X-Request-ID'', ''X-RateLimit-Limit'', ''X-RateLimit-Remaining'', ''Retry-After''],
         cors_MaxAge = seconds 43200\<rparr>\<rparr>"

definition default_GRPC :: cfg_GRPC where
  "default_GRPC =
     \<lparr>grpc_Enabled = True, grpc_Address = ''127.0.0.1:9090'', grpc_ReflectionEnabled = True,
      grpc_MaxReceiveBytes = 16777216,
      grpc_TLS = \<lparr>grpctls_Enabled = False, grpctls_CertFile = '''', grpctls_KeyFile = '''',
        grpctls_ClientCAFile = ''''\<rparr>\<rparr>"

definition default_Log :: cfg_Log where
  "default_Log =
     \<lparr>log_Level = ''info'', log_Format = ''json'', log_File = ''logs/app.log'',
      log_MaxSizeMB = 100, log_MaxBackups = 10, log_MaxAgeDays = 30, log_Compress = True\<rparr>"

definition default_Database :: cfg_Database where
  "default_Database =
     \<lparr>database_Enabled = False, database_Name = ''platform'', database_Schema = ''file'',
      database_Type = ''postgres'', database_DSN = '''', database_MaxOpenConns = 25,
      database_MaxIdleConns = 10, database_ConnMaxLifetime = seconds 300,
      database_ConnMaxIdleTime = seconds 60, database_PingTimeout = seconds 5\<rparr>"

definition default_Redis :: cfg_Redis where
  "default_Redis =
     \<lparr>redis_Enabled = False, redis_Address = ''127.0.0.1:6379'', redis_Username = '''',
      redis_Password = '''', redis_DB = 0, redis_DialTimeout = seconds 5,
      redis_ReadTimeout = seconds 3, redis_WriteTimeout = seconds 3\<rparr>"

definition default_RateLimit :: cfg_RateLimit where
  "default_RateLimit =
     \<lparr>ratelimit_Enabled = False, ratelimit_FailOpen = False,
      ratelimit_IP = setRateLimitDefaults 120 30, ratelimit_API = setRateLimitDefaults 10000 1000,
      ratelimit_User = setRateLimitDefaults 600 100, ratelimit_Login = setRateLimitDefaults 10 3\<rparr>"

text \<open>The sample ratio is the float64 nearest to 0.1.\<close>

definition default_Observability :: cfg_Observability where
  "default_Observability =
     \<lparr>observability_MetricsEnabled = True, observability_TracingEnabled = False,
      observability_TracingEndpoint = ''http://127.0.0.1:4318'',
      observability_TracingSampleRatio = Finite (3602879701896397 / 36028797018963968),
      observability_PprofEnabled = False, observability_PprofToken = ''''\<rparr>"

definition default_Auth :: cfg_Auth where
  "default_Auth =
     \<lparr>auth_JWKSURL = '''', auth_Issuer = ''identity-service'', auth_Audience = ''file-service'',
      auth_ClientID = '''', auth_ClientSecret = '''', auth_SkipHTTPPaths = [''/api/v1/version''],
      auth_SkipGRPCMethods = [''/grpc.health.v1.Health/*''],
      auth_PSK = \<lparr>psk_Enabled = False, psk_Key = '''', psk_HTTPPaths = [], psk_GRPCMethods = []\<rparr>\<rparr>"

definition default_Migration :: cfg_Migration where
  "default_Migration =
     \<lparr>migration_AutoUp = False, migration_CreateSchema = False,
      migration_Path = ''migrations/postgres'', migration_DatabaseURL = '''',
      migration_Table = ''file_schema_migrations'', migration_Schema = '''',
      migration_DatabaseName = ''''\<rparr>"

definition default_Idempotency :: cfg_Idempotency where
  "default_Idempotency =
     \<lparr>idempotency_Enabled = False, idempotency_HTTPPaths = [], idempotency_GRPCMethods = [],
      idempotency_ProcessingTTL = seconds 30, idempotency_ResultTTL = seconds 86400,
      idempotency_FailureTTL = seconds 300\<rparr>"

definition default_EventBus :: cfg_EventBus where
  "default_EventBus =
     \<lparr>eventbus_Enabled = False, eventbus_URLs = [''nats://127.0.0.1:4222''],
      eventbus_StreamName = ''PLATFORM_EVENTS'', eventbus_Subjects = [''platform.>''],
      eventbus_Storage = ''file'', eventbus_MaxAge = seconds 604800,
      eventbus_DuplicateWindow = seconds 600, eventbus_ConnectTimeout = seconds 5,
      eventbus_ReconnectWait = seconds 1, eventbus_PublishTimeout = seconds 5,
      eventbus_ConsumerAckWait = seconds 30, eventbus_ConsumerMaxDeliver = 10,
      eventbus_DispatchInterval = seconds 1, eventbus_DispatchBatchSize = 100,
      eventbus_DispatchLease = seconds 30, eventbus_DispatchRetryDelay = seconds 5,
      eventbus_PublishedRetention = seconds 604800, eventbus_CleanupInterval = seconds 3600,
      eventbus_CleanupBatchSize = 1000\<rparr>"

definition default_ObjectStorage :: cfg_ObjectStorage where
  "default_ObjectStorage =
     \<lparr>objectstorage_Enabled = False, objectstorage_Endpoint = ''127.0.0.1:9000'',
      objectstorage_PresignEndpoint = '''', objectstorage_AccessKey = '''',
      objectstorage_SecretKey = '''', objectstorage_SessionToken = '''',
      objectstorage_Bucket = ''platform-files'', objectstorage_Region = ''us-east-1'',
      objectstorage_UseSSL = False, objectstorage_PresignUseSSL = False,
      objectstorage_PresignTTL = seconds 900, objectstorage_MaxUploadBytes = 1073741824,
      objectstorage_MultipartSessionTTL = seconds 86400, objectstorage_CleanupBatchSize = 100,
      objectstorage_CleanupSpec = ''0 0 * * * *'', objectstorage_ScanRequired = False\<rparr>"

definition default_config :: cfg_Config where
  "default_config =
     \<lparr>config_Runtime = \<lparr>runtime_ActiveProfile = '''', runtime_ConfigFiles = []\<rparr>,
      config_App = \<lparr>app_Name = ''file-service'', app_Schema = '''', app_Env = ''development'',
        app_ShutdownTimeout = seconds 10\<rparr>,
      config_HTTP = default_HTTP, config_GRPC = default_GRPC, config_Log = default_Log,
      config_Database = default_Database, config_Redis = default_Redis,
      config_Health = \<lparr>health_DatabaseTimeout = seconds 2, health_RedisTimeout = seconds 2\<rparr>,
      config_RateLimit = default_RateLimit, config_Observability = default_Observability,
      config_Swagger = \<lparr>swagger_Enabled = True, swagger_RequireAuth = False\<rparr>,
      config_JWT = \<lparr>jwt_Issuer = ''file-service'', jwt_Secret = '''', jwt_TTL = seconds 7200\<rparr>,
      config_Auth = default_Auth,
      config_Authorization = \<lparr>authorization_Enabled = False\<rparr>,
      config_Cron = \<lparr>cron_Enabled = True, cron_Timezone = ''Asia/Shanghai'',
        cron_SampleSpec = ''0 */5 * * * *''\<rparr>,
      config_Migration = default_Migration,
      config_User = \<lparr>user_CacheTTL = seconds 300, user_LockTTL = seconds 10,
        user_LockRetryDelay = milliseconds 100\<rparr>,
      config_Idempotency = default_Idempotency,
      config_Outbound = \<lparr>outbound_HTTP = [], outbound_GRPC = []\<rparr>,
      config_EventBus = default_EventBus, config_ObjectStorage = default_ObjectStorage\<rparr>"

subsection \<open>Validate\<close>

definition fail_if :: "bool \<Rightarrow> string \<Rightarrow> go_error option" where
  "fail_if b message = (if b then Some (Errorf message) else None)"

text \<open>A sequence of checks returns the error of the first one that fails.\<close>

fun first_error :: "go_error option list \<Rightarrow> go_error option" where
  "first_error [] = None"
| "first_error (None # es) = first_error es"
| "first_error (Some e # es) = Some e"

definition positive :: "int64 \<Rightarrow> bool" where
  "positive x \<longleftrightarrow> 0 < sint x"

fun float64_less :: "float64 \<Rightarrow> float64 \<Rightarrow> bool" where
  "float64_less NaN y = False"
| "float64_less x NaN = False"
| "float64_less NegInf y = (y \<noteq> NegInf)"
| "float64_less x NegInf = False"
| "float64_less PosInf y = False"
| "float64_less x PosInf = True"
| "float64_less (Finite a) (Finite b) = (a < b)"

definition isDBType :: "string \<Rightarrow> bool" where
  "isDBType value \<longleftrightarrow> value = ''mysql'' \<or> value = ''postgres'' \<or> value = ''kingbase''"

definition production :: "cfg_Config \<Rightarrow> bool" where
  "production c \<longleftrightarrow> app_Env (config_App c) = ''production''"

text \<open>The loops over route patterns: HTTP paths are inside \<^verbatim>\<open>/api/\<close>, gRPC methods have two slashes.\<close>

definition check_http_path :: "(string \<Rightarrow> string) \<Rightarrow> string \<Rightarrow> string \<Rightarrow> go_error option" where
  "check_http_path uni key pattern =
     (if \<not> prefix ''/api/'' pattern
      then Some (Errorf (key @ '' contains path outside /api '' @ Quote uni pattern))
      else case path_Match pattern ''/validation/target'' of
          Inl err \<Rightarrow> Some (Wrapf (key @ '' contains invalid pattern '' @ Quote uni pattern) err)
        | Inr _ \<Rightarrow> None)"

definition check_grpc_method :: "(string \<Rightarrow> string) \<Rightarrow> string \<Rightarrow> string \<Rightarrow> go_error option" where
  "check_grpc_method uni key pattern =
     (if \<not> prefix ''/'' pattern \<or> slashes pattern \<noteq> 2
      then Some (Errorf (key @ '' contains invalid method pattern '' @ Quote uni pattern))
      else case path_Match pattern ''/validation/target'' of
          Inl err \<Rightarrow> Some (Wrapf (key @ '' contains invalid pattern '' @ Quote uni pattern) err)
        | Inr _ \<Rightarrow> None)"

definition validateObjectStoragePolicy :: "cfg_ObjectStorage \<Rightarrow> bool \<Rightarrow> go_error option" where
  "validateObjectStoragePolicy storage is_production =
     (if \<not> objectstorage_Enabled storage then None
      else first_error [
        fail_if (objectstorage_Endpoint storage = '''' \<or> objectstorage_AccessKey storage = '''' \<or>
            objectstorage_SecretKey storage = '''' \<or> objectstorage_Bucket storage = '''' \<or>
            \<not> positive (objectstorage_PresignTTL storage) \<or>
            \<not> positive (objectstorage_MaxUploadBytes storage) \<or>
            \<not> positive (objectstorage_MultipartSessionTTL storage) \<or>
            \<not> positive (objectstorage_CleanupBatchSize storage))
          ''enabled object_storage requires endpoint, credentials, bucket, and positive limits'',
        fail_if (objectstorage_PresignEndpoint storage \<noteq> '''' \<and> objectstorage_Region storage = '''')
          ''object_storage.region is required with presign_endpoint'',
        fail_if (is_production \<and> (\<not> objectstorage_UseSSL storage \<or>
            objectstorage_PresignEndpoint storage \<noteq> '''' \<and> \<not> objectstorage_PresignUseSSL storage))
          ''production object_storage and presigned URLs require TLS''])"

definition check_retry_method :: "string \<Rightarrow> string \<Rightarrow> go_error option" where
  "check_retry_method name pattern =
     (if \<not> prefix ''/'' pattern \<or> slashes pattern \<noteq> 2
      then Some (Errorf (''outbound '' @ name @ '' retry method pattern is invalid''))
      else case path_Match pattern ''/validation/target'' of
          Inl err \<Rightarrow> Some (Wrapf (''outbound '' @ name @ '' retry method pattern is invalid'') err)
        | Inr _ \<Rightarrow> None)"

definition validateClientPolicy ::
    "string \<Rightarrow> cfg_ClientAuth \<Rightarrow> cfg_Retry \<Rightarrow> cfg_Breaker \<Rightarrow> cfg_ClientTLS \<Rightarrow> go_error option" where
  "validateClientPolicy name auth retry breaker tls =
     first_error (
       [fail_if (clientauth_Type auth \<noteq> '''' \<and> clientauth_Type auth \<noteq> ''bearer'' \<and>
            clientauth_Type auth \<noteq> ''psk'')
          (''outbound '' @ name @ '' auth.type must be bearer or psk''),
        fail_if (clientauth_Type auth \<noteq> '''' \<and> clientauth_Token auth = '''')
          (''outbound '' @ name @ '' auth.token is required''),
        fail_if (clientauth_Type auth \<noteq> '''' \<and> \<not> clienttls_Enabled tls)
          (''outbound '' @ name @ '' credentials require TLS''),
        fail_if (sint (retry_MaxAttempts retry) < 1 \<or> 5 < sint (retry_MaxAttempts retry) \<or>
            \<not> positive (retry_InitialBackoff retry) \<or>
            sint (retry_MaxBackoff retry) < sint (retry_InitialBackoff retry))
          (''outbound '' @ name @ '' retry policy is invalid'')] @
       map (check_retry_method name) (retry_Methods retry) @
       [fail_if (breaker_Enabled breaker \<and>
            (breaker_FailureThreshold breaker = 0 \<or> \<not> positive (breaker_OpenTimeout breaker)))
          (''outbound '' @ name @ '' breaker policy is invalid''),
        fail_if (clienttls_Enabled tls \<and> (clienttls_CertFile tls = '''') \<noteq> (clienttls_KeyFile tls = ''''))
          (''outbound '' @ name @ '' TLS certificate and key must be configured together'')])"

definition validate_servers :: "cfg_Config \<Rightarrow> go_error option list" where
  "validate_servers c =
     (let grpc = config_GRPC c; tls = grpc_TLS grpc; db = config_Database c in
      [fail_if (\<not> validMigrationTable (database_Name db))
         ''database.name must contain lowercase letters, digits, or underscores and be at most 63 characters'',
       fail_if (database_Schema db \<noteq> '''' \<and> \<not> validMigrationTable (database_Schema db))
         ''database.schema must contain lowercase letters, digits, or underscores and be at most 63 characters'',
       fail_if (http_Address (config_HTTP c) = '''') ''http.address is required'',
       fail_if (grpc_Enabled grpc \<and> (grpc_Address grpc = '''' \<or> \<not> positive (grpc_MaxReceiveBytes grpc)))
         ''enabled grpc requires address and positive max_receive_bytes'',
       fail_if (grpctls_Enabled tls \<and> (grpctls_CertFile tls = '''' \<or> grpctls_KeyFile tls = ''''))
         ''grpc tls requires cert_file and key_file'',
       fail_if (production c \<and> grpc_Enabled grpc \<and> \<not> grpctls_Enabled tls)
         ''grpc tls must be enabled in production'',
       fail_if (production c \<and> grpc_ReflectionEnabled grpc)
         ''grpc reflection must be disabled in production''])"

definition check_rate_limit_rule :: "string \<times> cfg_RateLimitRule \<Rightarrow> go_error option" where
  "check_rate_limit_rule = (\<lambda>(name, rule).
     fail_if (\<not> positive (ratelimitrule_Rate rule) \<or> \<not> positive (ratelimitrule_Burst rule) \<or>
         \<not> positive (ratelimitrule_Period rule))
       (''rate_limit.'' @ name @ '' values must be positive''))"

definition validate_stores :: "cfg_Config \<Rightarrow> go_error option list" where
  "validate_stores c =
     (let db = config_Database c; mig = config_Migration c; limit = config_RateLimit c;
          upstreams = outbound_GRPC (config_Outbound c)
      in
      [fail_if (database_Enabled db \<and> (database_DSN db = '''' \<or> \<not> isDBType (database_Type db)))
         ''enabled database requires dsn and type mysql, postgres, or kingbase'',
       fail_if (database_Enabled db \<and> map_of upstreams ''application'' = None)
         ''enabled database requires outbound.grpc.application'',
       fail_if (migration_AutoUp mig \<and> (\<not> database_Enabled db \<or> migration_Path mig = '''' \<or>
           migration_DatabaseURL mig = '''' \<or> \<not> validMigrationTable (migration_Table mig)))
         ''migration.auto_up requires enabled database, path, database_url, and a valid service-specific table'',
       fail_if (redis_Enabled (config_Redis c) \<and> redis_Address (config_Redis c) = '''')
         ''enabled redis requires address'',
       fail_if (\<not> positive (http_RequestTimeout (config_HTTP c)) \<or>
           \<not> positive (health_DatabaseTimeout (config_Health c)) \<or>
           \<not> positive (health_RedisTimeout (config_Health c)))
         ''http and health timeouts must be positive'',
       fail_if (ratelimit_Enabled limit \<and> \<not> redis_Enabled (config_Redis c))
         ''rate_limit requires redis.enabled''] @
      (if ratelimit_Enabled limit
       then map check_rate_limit_rule
         [(''ip'', ratelimit_IP limit), (''api'', ratelimit_API limit),
          (''user'', ratelimit_User limit), (''login'', ratelimit_Login limit)]
       else []))"

definition validate_observability :: "cfg_Config \<Rightarrow> go_error option list" where
  "validate_observability c =
     (let cors = http_CORS (config_HTTP c); obs = config_Observability c in
      [fail_if (cors_Enabled cors \<and> cors_AllowedOrigins cors = [])
         ''cors.allowed_origins is required when cors is enabled'',
       fail_if (float64_less (observability_TracingSampleRatio obs) (Finite 0) \<or>
           float64_less (Finite 1) (observability_TracingSampleRatio obs))
         ''observability.tracing_sample_ratio must be between 0 and 1'',
       fail_if (observability_TracingEnabled obs \<and> observability_TracingEndpoint obs = '''')
         ''observability.tracing_endpoint is required'',
       fail_if (observability_PprofEnabled obs \<and> length (observability_PprofToken obs) < 32)
         ''observability.pprof_token must contain at least 32 bytes'',
       fail_if (production c \<and> swagger_Enabled (config_Swagger c) \<and>
           \<not> swagger_RequireAuth (config_Swagger c))
         ''swagger.require_auth must be enabled in production''])"

definition validate_auth :: "(string \<Rightarrow> string) \<Rightarrow> cfg_Config \<Rightarrow> go_error option list" where
  "validate_auth uni c =
     (let auth = config_Auth c; psk = auth_PSK auth in
      [fail_if (production c \<and> (auth_JWKSURL auth = '''' \<or> auth_Issuer auth = '''' \<or>
           auth_Audience auth = ''''))
         ''production auth requires jwks_url, issuer, and audience'',
       fail_if (production c \<and> \<not> authorization_Enabled (config_Authorization c))
         ''authorization must be enabled in production'',
       fail_if (authorization_Enabled (config_Authorization c) \<and>
           map_of (outbound_GRPC (config_Outbound c)) ''authorization'' = None)
         ''enabled authorization requires outbound.grpc.authorization'',
       fail_if ((auth_ClientID auth \<noteq> '''' \<or> auth_ClientSecret auth \<noteq> '''') \<and>
           length (jwt_Secret (config_JWT c)) < 32)
         ''jwt.secret must contain at least 32 bytes when auth is enabled''] @
      map (check_http_path uni ''auth.skip_http_paths'') (auth_SkipHTTPPaths auth) @
      map (check_grpc_method uni ''auth.skip_grpc_methods'') (auth_SkipGRPCMethods auth) @
      [fail_if (psk_Enabled psk \<and> (length (psk_Key psk) < 32 \<or>
           length (psk_HTTPPaths psk) + length (psk_GRPCMethods psk) = 0))
         ''enabled auth.psk requires a key of at least 32 bytes and at least one route pattern''] @
      map (check_http_path uni ''auth.psk.http_paths'') (psk_HTTPPaths psk) @
      map (check_grpc_method uni ''auth.psk.grpc_methods'') (psk_GRPCMethods psk))"

definition event_bus_complete :: "cfg_EventBus \<Rightarrow> bool" where
  "event_bus_complete bus \<longleftrightarrow>
     eventbus_URLs bus \<noteq> [] \<and> eventbus_StreamName bus \<noteq> '''' \<and> eventbus_Subjects bus \<noteq> [] \<and>
     (eventbus_Storage bus = ''file'' \<or> eventbus_Storage bus = ''memory'') \<and>
     positive (eventbus_MaxAge bus) \<and> positive (eventbus_DuplicateWindow bus) \<and>
     positive (eventbus_ConnectTimeout bus) \<and> positive (eventbus_ReconnectWait bus) \<and>
     positive (eventbus_PublishTimeout bus) \<and> positive (eventbus_ConsumerAckWait bus) \<and>
     positive (eventbus_ConsumerMaxDeliver bus) \<and> positive (eventbus_DispatchInterval bus) \<and>
     positive (eventbus_DispatchBatchSize bus) \<and> positive (eventbus_DispatchLease bus) \<and>
     positive (eventbus_DispatchRetryDelay bus) \<and>
     sint (eventbus_MaxAge bus) \<le> sint (eventbus_PublishedRetention bus) \<and>
     positive (eventbus_CleanupInterval bus) \<and> positive (eventbus_CleanupBatchSize bus)"

definition validate_runtime :: "(string \<Rightarrow> string) \<Rightarrow> cfg_Config \<Rightarrow> go_error option list" where
  "validate_runtime uni c =
     (let user = config_User c; idem = config_Idempotency c in
      [fail_if (\<not> positive (user_CacheTTL user) \<or> \<not> positive (user_LockTTL user) \<or>
           \<not> positive (user_LockRetryDelay user))
         ''user cache and lock durations must be positive'',
       fail_if (idempotency_Enabled idem \<and> (\<not> redis_Enabled (config_Redis c) \<or>
           length (idempotency_HTTPPaths idem) + length (idempotency_GRPCMethods idem) = 0 \<or>
           \<not> positive (idempotency_ProcessingTTL idem) \<or> \<not> positive (idempotency_ResultTTL idem) \<or>
           \<not> positive (idempotency_FailureTTL idem)))
         ''enabled idempotency requires redis, at least one route pattern, and positive TTL values''] @
      map (check_http_path uni ''idempotency.http_paths'') (idempotency_HTTPPaths idem) @
      map (check_grpc_method uni ''idempotency.grpc_methods'') (idempotency_GRPCMethods idem) @
      [fail_if (eventbus_Enabled (config_EventBus c) \<and> \<not> event_bus_complete (config_EventBus c))
         ''enabled event_bus requires stream settings, positive delivery/dispatch/cleanup settings, and published retention at least max_age''])"

definition validate_http_upstream :: "string \<times> cfg_HTTPUpstream \<Rightarrow> go_error option" where
  "validate_http_upstream = (\<lambda>(name, upstream).
     first_error [
       fail_if (httpupstream_BaseURL upstream = '''' \<or> \<not> positive (httpupstream_Timeout upstream))
         (''outbound.http.'' @ name @ '' requires base_url and positive timeout''),
       validateClientPolicy name (httpupstream_Auth upstream) (httpupstream_Retry upstream)
         (httpupstream_Breaker upstream) (httpupstream_TLS upstream)])"

definition validate_grpc_upstream :: "string \<times> cfg_GRPCUpstream \<Rightarrow> go_error option" where
  "validate_grpc_upstream = (\<lambda>(name, upstream).
     first_error [
       fail_if (grpcupstream_Target upstream = '''' \<or> \<not> positive (grpcupstream_Timeout upstream))
         (''outbound.grpc.'' @ name @ '' requires target and positive timeout''),
       validateClientPolicy name (grpcupstream_Auth upstream) (grpcupstream_Retry upstream)
         (grpcupstream_Breaker upstream) (grpcupstream_TLS upstream)])"

definition Validate :: "(string \<Rightarrow> string) \<Rightarrow> cfg_Config \<Rightarrow> go_error option" where
  "Validate uni c =
     first_error (validate_servers c @ validate_stores c @ validate_observability c @
       validate_auth uni c @ validate_runtime uni c @
       [validateObjectStoragePolicy (config_ObjectStorage c) (production c)] @
       map validate_http_upstream (outbound_HTTP (config_Outbound c)) @
       map validate_grpc_upstream (outbound_GRPC (config_Outbound c)))"

subsection \<open>Loading\<close>

text \<open>
  The configuration library and the file system: a value of type \<open>'v\<close> is the state of one
  \<open>viper\<close> instance after \<open>setDefaults\<close>. \<open>viper_ReadInConfig\<close> says, beside
  the error, whether it is \<open>ConfigFileNotFoundError\<close>; \<open>viper_Stat\<close> whether it is
  \<open>os.ErrNotExist\<close>. \<open>viper_Unmarshal\<close> decodes with the two hooks.
\<close>

record 'v viper =
  viper_New :: "string \<Rightarrow> 'v"
  viper_BindEnv :: "'v \<Rightarrow> go_error + 'v"
  viper_ReadInConfig :: "'v \<Rightarrow> (go_error \<times> bool) + 'v"
  viper_GetString :: "'v \<Rightarrow> string \<Rightarrow> string"
  viper_Stat :: "string \<Rightarrow> (go_error \<times> bool) option"
  viper_MergeInConfig :: "'v \<Rightarrow> string \<Rightarrow> go_error + 'v"
  viper_Set :: "'v \<Rightarrow> string \<Rightarrow> string \<Rightarrow> 'v"
  viper_Unmarshal :: "'v \<Rightarrow> (string \<Rightarrow> string list) \<Rightarrow> go_error + cfg_Config"

text \<open>
  The profile file is merged when it exists: the instance with it, and the files read so far.
\<close>

definition merge_profile ::
    "'v viper \<Rightarrow> (string \<Rightarrow> string) \<Rightarrow> 'v \<Rightarrow> string \<Rightarrow> string \<Rightarrow> go_error + 'v \<times> string list" where
  "merge_profile vp uni v path profilePath =
     (if profilePath = path then Inr (v, [path])
      else case viper_Stat vp profilePath of
          None \<Rightarrow>
            (case viper_MergeInConfig vp v profilePath of
               Inl err \<Rightarrow> Inl (Wrapf (''merge profile config '' @ Quote uni profilePath) err)
             | Inr v \<Rightarrow> Inr (v, [path, profilePath]))
        | Some (err, not_exist) \<Rightarrow>
            if \<not> not_exist then Inl (Wrapf (''inspect profile config '' @ Quote uni profilePath) err)
            else Inr (v, [path]))"

definition finish_config ::
    "'v viper \<Rightarrow> (string \<Rightarrow> string) \<Rightarrow> 'v \<Rightarrow> string \<Rightarrow> string list \<Rightarrow> go_error + cfg_Config" where
  "finish_config vp uni v profile loadedFiles =
     (case viper_Unmarshal vp (viper_Set vp v ''app.env'' profile) stringToStringSliceHook of
        Inl err \<Rightarrow> Inl (Wrapf ''decode config'' err)
      | Inr cfg \<Rightarrow>
          let cfg = cfg\<lparr>config_Migration := (config_Migration cfg)
                \<lparr>migration_Schema := database_Schema (config_Database cfg),
                 migration_DatabaseName := database_Name (config_Database cfg)\<rparr>\<rparr>
          in case Validate uni cfg of
              Some err \<Rightarrow> Inl err
            | None \<Rightarrow> Inr (cfg\<lparr>config_Runtime :=
                \<lparr>runtime_ActiveProfile = profile, runtime_ConfigFiles = loadedFiles\<rparr>\<rparr>))"

definition LoadWithProfile ::
    "'v viper \<Rightarrow> (string \<Rightarrow> string) \<Rightarrow> (string \<Rightarrow> string) \<Rightarrow> string \<Rightarrow> string \<Rightarrow> go_error + cfg_Config" where
  "LoadWithProfile vp lower uni path explicitProfile =
     (case viper_BindEnv vp (viper_New vp path) of
        Inl err \<Rightarrow> Inl (Wrapf ''bind environment profile'' err)
      | Inr v \<Rightarrow>
          (case (case viper_ReadInConfig vp v of
              Inr v \<Rightarrow> Inr v
            | Inl (err, notFound) \<Rightarrow> if path \<noteq> '''' \<or> \<not> notFound then Inl err else Inr v) of
             Inl err \<Rightarrow> Inl (Wrapf ''read config'' err)
           | Inr v \<Rightarrow>
               let profile = ToLower lower (TrimSpace explicitProfile);
                   profile = (if profile = '''' then ToLower lower (TrimSpace (viper_GetString vp v ''app.env''))
                     else profile)
               in if \<not> validProfile profile
                  then Inl (Errorf (''invalid environment profile '' @ Quote uni profile))
                  else case merge_profile vp uni v path (profileConfigPath path profile) of
                      Inl err \<Rightarrow> Inl err
                    | Inr (v, loadedFiles) \<Rightarrow> finish_config vp uni v profile loadedFiles))"

definition Load ::
    "'v viper \<Rightarrow> (string \<Rightarrow> string) \<Rightarrow> (string \<Rightarrow> string) \<Rightarrow> string \<Rightarrow> go_error + cfg_Config" where
  "Load vp lower uni path = LoadWithProfile vp lower uni path ''''"

end
