(* ===== verification/HTTP_Answers.thy ===== *)
theory HTTP_Answers
  imports HTTP_Theorems Config
begin

text \<open>
  The answers of the HTTP server: every request to the API is answered exactly once, with a unified
  response that carries the request's own id; a retry with an idempotency key gets the answer of the
  first attempt; a refused request is told when to come back.
\<close>

subsection \<open>Exactly one answer\<close>

text \<open>A handler that writes exactly one response, with the id of the request it was given.\<close>

definition answered :: "gin \<Rightarrow> gin \<Rightarrow> bool" where
  "answered c c' \<longleftrightarrow> g_Written c' \<and> g_request_id c' = g_request_id c \<and>
     (\<exists>r. g_Responses c' = g_Responses c @ [r] \<and> resp_RequestID r = g_request_id c)"

text \<open>Two contexts of the same request, before anything has been answered.\<close>

definition same_answers :: "gin \<Rightarrow> gin \<Rightarrow> bool" where
  "same_answers c c1 \<longleftrightarrow> g_Method c1 = g_Method c \<and> g_FullPath c1 = g_FullPath c \<and>
     g_request_id c1 = g_request_id c \<and> g_Responses c1 = g_Responses c"

lemma same_answers_simps [simp]:
  "same_answers c c" "same_answers c (set_header k v c1) = same_answers c c1"
  "same_answers c (c1\<lparr>g_environment := e\<rparr>) = same_answers c c1"
  "same_answers c (c1\<lparr>g_idempotency := key\<rparr>) = same_answers c c1"
  "same_answers c (c1\<lparr>g_Body := b\<rparr>) = same_answers c c1"
  "same_answers c (c1\<lparr>g_subject := s, g_principal := p, g_credential := q\<rparr>) = same_answers c c1"
  by (simp_all add: same_answers_def set_header_def)

lemma answered_writers [simp]:
  assumes "same_answers c c1"
  shows "answered c (OK c1 b)" "answered c (Fail c1 e)"
    "answered c (write_json status r c1) = (resp_RequestID r = g_request_id c)"
  using assms by (auto simp: same_answers_def answered_def OK_def Fail_def write_json_def abort_status_def Let_def)

lemma same_id: "same_answers c c1 \<Longrightarrow> g_request_id c1 = g_request_id c"
  by (simp add: same_answers_def)

text \<open>Whatever \<open>h\<close> does with a context of the request \<open>c\<close>, it answers it once.\<close>

definition replies :: "gin \<Rightarrow> 'x handler \<Rightarrow> bool" where
  "replies c h \<longleftrightarrow>
     (\<forall>c1 w c' w'. same_answers c c1 \<longrightarrow> run_state (h c1) w = (c', w') \<longrightarrow> answered c c')"

lemma repliesI:
  "(\<And>c1 w c' w'. same_answers c c1 \<Longrightarrow> run_state (h c1) w = (c', w') \<Longrightarrow> answered c c') \<Longrightarrow> replies c h"
  unfolding replies_def by blast

lemma repliesD:
  "replies c h \<Longrightarrow> run_state (h c1) w = (c', w') \<Longrightarrow> same_answers c c1 \<Longrightarrow> answered c c'"
  unfolding replies_def by blast

locale replying =
  fixes mw :: "'x middleware"
  assumes replies_mw: "g_Method c \<noteq> ''OPTIONS'' \<Longrightarrow> replies c h \<Longrightarrow> replies c (mw h)"

interpretation r_environment: replying "mw_Environment profile" for profile
  apply unfold_locales
  apply (rule repliesI)
  subgoal premises p using p(1,3,4)
    by (auto simp: mw_Environment_def intro: repliesD [OF p(2)])
  done

interpretation r_idempotency_key: replying "mw_IdempotencyKey E" for E :: "'x http_env"
  apply unfold_locales
  apply (rule repliesI)
  subgoal premises p using p(1,3,4)
    by (auto simp: mw_IdempotencyKey_def Let_def
        split: if_splits intro: repliesD [OF p(2)])
  done

interpretation r_security: replying mw_SecurityHeaders
  apply unfold_locales
  apply (rule repliesI)
  subgoal premises p using p(1,3,4)
    by (auto simp: mw_SecurityHeaders_def Let_def
        split: if_splits intro: repliesD [OF p(2)])
  done

interpretation r_max_body: replying "mw_MaxBody limit" for limit
  apply unfold_locales
  apply (rule repliesI)
  subgoal premises p using p(1,3,4)
    by (auto simp: mw_MaxBody_def intro: repliesD [OF p(2)])
  done

interpretation r_require_json: replying "mw_RequireJSON E" for E :: "'x http_env"
  apply unfold_locales
  apply (rule repliesI)
  subgoal premises p using p(1,3,4)
    by (auto simp: mw_RequireJSON_def same_id
        split: if_splits intro: repliesD [OF p(2)])
  done

lemma same_method: "same_answers c c1 \<Longrightarrow> g_Method c1 = g_Method c" "g_Method (set_header k v c1) = g_Method c1"
  by (simp_all add: same_answers_def set_header_def)

interpretation r_cors: replying "mw_CORS cfg" for cfg
  apply unfold_locales
  apply (rule repliesI)
  subgoal premises p using p(1,3,4)
    by (auto simp: mw_CORS_def Let_def same_id same_method
        split: if_splits intro: repliesD [OF p(2)])
  done

interpretation r_timeout: replying "mw_Timeout E" for E :: "'x http_env"
proof (unfold_locales, rule repliesI)
  fix c :: gin and h :: "'x handler" and c1 w c' w'
  assume h: "replies c h" "same_answers c c1" "run_state (mw_Timeout E h c1) w = (c', w')"
  then obtain c2 v where run: "run_state (h c1) w = (c2, v)"
    and c': "c' = c2 \<or> \<not> g_Written c2"
    by (auto simp: mw_Timeout_def run_db_prims split: prod.splits if_splits)
  have "answered c c2" by (rule repliesD [OF h(1) run h(2)])
  with c' show "answered c c'" by (auto simp: answered_def)
qed

lemma observes_replying:
  assumes "observes mw" "replies c h"
  shows "replies c (mw h)"
proof (rule repliesI)
  fix c1 w c' w' assume same: "same_answers c c1" and run: "run_state (mw h c1) w = (c', w')"
  from observesD [OF assms(1) run] obtain v v' where "run_state (h c1) v = (c', v')" by blast
  from repliesD [OF assms(2) this same] show "answered c c'" .
qed

interpretation r_request_logger: replying "mw_RequestLogger E" for E :: "'x http_env"
  by unfold_locales (rule observes_replying [OF observers(1)])

interpretation r_metrics: replying "mw_HTTPMetrics M" for M :: "'x Metrics"
  by unfold_locales (rule observes_replying [OF observers(2)])

interpretation r_recovery: replying "\<lambda>h. mw_Recovery E (returning h)" for E :: "'x http_env"
  by unfold_locales (rule observes_replying [OF observers(3)])

interpretation r_rate_limit: replying "mw_RateLimit limiter rule dimension keyFunc"
  for limiter :: "'x Limiter" and rule dimension keyFunc
  apply unfold_locales
  apply (rule repliesI)
  subgoal premises p using p(1,3,4)
    by (auto simp: mw_RateLimit_def Let_def run_db_prims
        split: if_splits prod.splits sum.splits intro: repliesD [OF p(2)])
  done

interpretation r_jwt: replying "mw_JWT E" for E :: "'x http_env"
  apply unfold_locales
  apply (rule repliesI)
  subgoal premises p using p(1,3,4)
    by (auto simp: mw_JWT_def run_db_prims
        split: option.splits prod.splits sum.splits intro: repliesD [OF p(2)])
  done

interpretation r_authentication: replying "mw_Authentication E" for E :: "'x http_env"
  apply unfold_locales
  apply (rule repliesI)
  subgoal premises p using p(1,3,4)
    by (auto simp: mw_Authentication_def Let_def
        split: if_splits intro: repliesD [OF p(2)] repliesD [OF r_jwt.replies_mw [OF p(1,2)]])
  done

interpretation r_authorization: replying "mw_Authorization E" for E :: "'x http_env"
  apply unfold_locales
  apply (rule repliesI)
  subgoal premises p using p(1,3,4)
    by (auto simp: mw_Authorization_def run_db_prims
        split: if_splits option.splits prod.splits intro: repliesD [OF p(2)])
  done

interpretation r_idempotency: replying "mw_IdempotencyExecution E paths" for E :: "'x http_env" and paths
  apply unfold_locales
  apply (rule repliesI)
  subgoal premises p using p(1,3,4)
    by (auto simp: mw_IdempotencyExecution_def run_decision_def run_db_prims same_id
        split: if_splits option.splits prod.splits sum.splits idem_state.splits intro: repliesD [OF p(2)])
  done

lemma replies_bound:
  "replies c (\<lambda>c1. bound c1 (x c1) (\<lambda>r. respond c1 f (m c1 r)))"
  by (rule repliesI) (auto simp: bound_def respond_def split: sum.splits prod.splits option.splits)

lemma replies_handlers:
  "replies c Handler_Live" "replies c (Handler_Ready arrival health)" "replies c Handler_Me"
  "replies c (Handler_Version vars clock)"
  by (auto intro!: repliesI simp: Handler_Live_def Handler_Ready_def Handler_Me_def Handler_Version_def
      run_db_prims same_id split: prod.splits)

lemma replies_file_handlers:
  "replies c (Handler_InitiateUpload R S B)" "replies c (Handler_InitiateMultipartUpload R S B)"
  "replies c (Handler_AuthorizeUploadPart R S B)" "replies c (Handler_CompleteMultipartUpload R S B)"
  "replies c (Handler_AbortMultipartUpload R S B)" "replies c (Handler_CompleteUpload R S B)"
  "replies c (Handler_ReportScanResult R S B)" "replies c (Handler_GetFile R S B)"
  "replies c (Handler_ListFiles R S B)" "replies c (Handler_AuthorizeDownload R S B)"
  "replies c (Handler_DeleteFile R S B)"
  unfolding Handler_InitiateUpload_def [abs_def] Handler_InitiateMultipartUpload_def [abs_def]
    Handler_AuthorizeUploadPart_def [abs_def] Handler_CompleteMultipartUpload_def [abs_def]
    Handler_AbortMultipartUpload_def [abs_def] Handler_CompleteUpload_def [abs_def]
    Handler_ReportScanResult_def [abs_def] Handler_GetFile_def [abs_def] Handler_ListFiles_def [abs_def]
    Handler_AuthorizeDownload_def [abs_def] Handler_DeleteFile_def [abs_def]
  by (rule replies_bound)+

lemma replies_api_routes: "map_of (api_routes E) path = Some h \<Longrightarrow> replies c h"
  using replies_handlers replies_file_handlers
  by (drule_tac map_of_SomeD) (auto simp: api_routes_def Let_def)

lemma replies_api_group:
  assumes "g_Method c \<noteq> ''OPTIONS''" "replies c h"
  shows "replies c (api_group E h)"
  unfolding api_group_def Let_def
  by (intro r_rate_limit.replies_mw r_authentication.replies_mw r_authorization.replies_mw
      r_idempotency.replies_mw assms)

definition json_route :: "'x http_env \<Rightarrow> string \<Rightarrow> bool" where
  "json_route E path \<longleftrightarrow> path = ''/live'' \<or> path = ''/ready'' \<or>
     map_of (api_routes E) path \<noteq> None"

lemma json_route_path:
  "map_of (api_routes E) path = Some h \<Longrightarrow> prefix ''/api/v1/'' path"
  by (drule map_of_SomeD) (auto simp: api_routes_def Let_def)

lemma replies_router:
  assumes "g_Method c \<noteq> ''OPTIONS''" "json_route E (g_FullPath c)"
  shows "replies c (router E)"
proof (rule repliesI)
  fix c1 w c' w' assume same: "same_answers c c1" and run: "run_state (router E c1) w = (c', w')"
  have path: "g_FullPath c1 = g_FullPath c" using same by (simp add: same_answers_def)
  show "answered c c'"
  proof (cases "g_FullPath c = ''/live'' \<or> g_FullPath c = ''/ready''")
    case True
    then have "run_state (Handler_Live c1) w = (c', w') \<or>
        run_state (Handler_Ready (he_arrival E) (he_health E) c1) w = (c', w')"
      using run path unfolding router_def Let_def by (auto split: if_splits)
    then show ?thesis using repliesD [OF replies_handlers(1) _ same] repliesD [OF replies_handlers(2) _ same] by blast
  next
    case False
    with assms(2) obtain h where h: "map_of (api_routes E) (g_FullPath c) = Some h"
      by (auto simp: json_route_def)
    have "g_FullPath c \<notin> snd ` set (registerPprof ''/debug/pprof'')" "g_FullPath c \<noteq> ''/metrics''"
      "g_FullPath c \<noteq> ''/swagger/*any''"
      using json_route_path [OF h] by (auto simp: prefix_def registerPprof_def)
    then have "run_state (api_group E h c1) w = (c', w')"
      using run False h unfolding router_def Let_def path by simp
    then show ?thesis by (rule repliesD [OF replies_api_group [OF assms(1) replies_api_routes [OF h]] _ same])
  qed
qed

text \<open>The identifier a request gets: the valid one of its header, or a new one.\<close>

lemma request_id_run:
  assumes "run_state (mw_RequestID E h c) w = (c', w')"
    and "\<And>x. \<exists>b x'. he_random E x = (Inr b, x') \<and> length b = 16"
  shows "\<exists>i v. requestid_Valid i \<and> run_state (h (set_header ''X-Request-ID'' i (c\<lparr>g_request_id := i\<rparr>))) v = (c', w')"
proof (cases "requestid_Valid (g_GetHeader c ''X-Request-ID'')")
  case True
  then show ?thesis using assms(1) by (auto simp: mw_RequestID_def)
next
  case False
  obtain b x where b: "he_random E (w_ext w) = (Inr b, x)" "length b = 16" using assms(2) by blast
  obtain n y where n: "he_nanos E x = (n, y)" by fastforce
  show ?thesis using assms(1) False b n Generate_Valid [OF b(2), of n]
    by (auto simp: mw_RequestID_def run_db_prims)
qed

text \<open>
  C25. Every request to the API, and to the health end points, is answered: exactly one unified
  response is written, on every path through middleware and handler (refused, limited, replayed,
  timed out or served), and it carries the identifier of the request, which is well formed
  whatever the client sent.
\<close>

theorem requests_are_answered_once:
  assumes "json_route E (g_FullPath c)" "g_Method c \<noteq> ''OPTIONS''" "g_Responses c = []"
    and "\<And>x. \<exists>b x'. he_random E x = (Inr b, x') \<and> length b = 16"
  shows "\<exists>r c' w'. run_state (http_serve E c) w = (c', w') \<and> g_Responses c' = [r] \<and> g_Written c' \<and>
    resp_RequestID r = g_request_id c' \<and> requestid_Valid (g_request_id c')"
proof -
  let ?inner = "inner_middleware E (router E)"
  let ?h = "mw_IdempotencyKey E (mw_Environment (runtime_ActiveProfile (config_Runtime (he_cfg E)))
    (mw_RequestLogger E (mw_Recovery E (returning ?inner))))"
  obtain c' w' where run: "run_state (http_serve E c) w = (c', w')" by (metis prod.collapse)
  from request_id_run [OF run [unfolded http_serve_def outer_middleware_def] assms(4)]
  obtain i v where i: "requestid_Valid i"
    and inner: "run_state (?h (set_header ''X-Request-ID'' i (c\<lparr>g_request_id := i\<rparr>))) v = (c', w')" by blast
  let ?c = "set_header ''X-Request-ID'' i (c\<lparr>g_request_id := i\<rparr>)"
  have c: "g_Method ?c \<noteq> ''OPTIONS''" "json_route E (g_FullPath ?c)"
    using assms(1,2) by (simp_all add: set_header_def)
  then have "replies ?c ?inner" unfolding inner_middleware_def Let_def
    by (intro r_metrics.replies_mw r_security.replies_mw r_cors.replies_mw r_max_body.replies_mw
        r_timeout.replies_mw r_require_json.replies_mw replies_router)
  then have "replies ?c ?h"
    by (intro r_idempotency_key.replies_mw r_environment.replies_mw r_request_logger.replies_mw
        r_recovery.replies_mw c(1))
  from repliesD [OF this inner] have "answered ?c c'" by simp
  with i run assms(3) show ?thesis by (auto simp: answered_def set_header_def)
qed

subsection \<open>Panics and the log\<close>

definition panic_response :: "gin \<Rightarrow> Response" where
  "panic_response c = \<lparr>resp_Code = CodeInternal, resp_Message = ''internal server error'', resp_Body = BodyNil,
     resp_RequestID = g_request_id c\<rparr>"

lemma recovery_run:
  assumes "run_state (h c) w = ((c1, p), v)"
  shows "\<exists>c' w'. run_state (mw_Recovery E h c) w = (c', w') \<and>
    (case p of
       None \<Rightarrow> c' = c1
     | Some r \<Rightarrow> c' = (if he_broken E r then c1 else write_json 500 (panic_response c1) c1))"
  using assms by (cases p) (auto simp: mw_Recovery_def run_db_prims panic_response_def split: prod.splits)

lemma logger_run:
  assumes "run_state (mw_RequestLogger E h c) w = (c', w')"
  shows "\<exists>v v1 v2 line. run_state (h c) v = (c', v1) \<and> w_db v = w_db w \<and>
    run_state (ext_call (he_log E (RequestLine line))) v2 = ((), w') \<and>
    hl_status line = g_Status c' \<and> hl_request_id line = g_request_id c' \<and>
    hl_method line = g_Method c' \<and> hl_path line = g_FullPath c'"
proof -
  obtain started x where s: "rt_now (he_runtime E) (w_ext w) = (started, x)" by fastforce
  obtain c1 v1 where n: "run_state (h c) (w\<lparr>w_ext := x\<rparr>) = (c1, v1)" by fastforce
  obtain trace span y where t: "he_span E (w_ext v1) = ((trace, span), y)" by (metis prod.collapse)
  obtain now z where z: "rt_now (he_runtime E) y = (now, z)" by fastforce
  let ?line = "\<lparr>hl_request_id = g_request_id c1, hl_trace_id = trace, hl_span_id = span, hl_method = g_Method c1,
    hl_path = g_FullPath c1, hl_status = g_Status c1, hl_duration = now - started, hl_client_ip = g_ClientIP c1\<rparr>"
  have "c' = c1" "run_state (ext_call (he_log E (RequestLine ?line))) (v1\<lparr>w_ext := z\<rparr>) = ((), w')"
    using assms s n t z by (auto simp: mw_RequestLogger_def run_db_prims split: prod.splits)
  then show ?thesis using n ext_keeps_db
    by (intro exI [of _ "w\<lparr>w_ext := x\<rparr>"] exI [of _ v1] exI [of _ "v1\<lparr>w_ext := z\<rparr>"] exI [of _ ?line]) simp
qed

lemma request_id_passes:
  assumes "run_state (mw_RequestID E h c) w = (c', w')"
  shows "\<exists>i v. run_state (h (set_header ''X-Request-ID'' i (c\<lparr>g_request_id := i\<rparr>))) v = (c', w') \<and> w_db v = w_db w"
  using assms by (auto simp: mw_RequestID_def run_db_prims split: if_splits prod.splits) (metis ext_keeps_db)

text \<open>What the outer middleware leaves alone: route, headers, caller and the response so far.\<close>

definition untouched :: "gin \<Rightarrow> gin \<Rightarrow> bool" where
  "untouched c c1 \<longleftrightarrow> kept c c1 \<and> g_Written c1 = g_Written c \<and> g_Status c1 = g_Status c \<and> g_Responses c1 = g_Responses c"

lemma untouched_simps [simp]:
  "untouched c c" "untouched c (set_header k v c1) = untouched c c1" "untouched c (c1\<lparr>g_request_id := i\<rparr>) = untouched c c1"
  "untouched c (c1\<lparr>g_environment := e\<rparr>) = untouched c c1" "untouched c (c1\<lparr>g_idempotency := key\<rparr>) = untouched c c1"
  by (simp_all add: untouched_def) (simp_all add: set_header_def)

lemma idempotency_key_passes:
  assumes "untouched c0 c" "g_GetHeader c ''Idempotency-Key'' = [] \<or> he_valid_key E (g_GetHeader c ''Idempotency-Key'')"
  shows "\<exists>c1. untouched c0 c1 \<and> mw_IdempotencyKey E h c = h c1"
proof (cases "g_GetHeader c ''Idempotency-Key'' = []")
  case False
  let ?k = "g_GetHeader c ''Idempotency-Key''"
  have "mw_IdempotencyKey E h c = h (set_header ''Idempotency-Key'' ?k (c\<lparr>g_idempotency := Some ?k\<rparr>))"
    using False assms(2) by (simp add: mw_IdempotencyKey_def Let_def)
  then show ?thesis using assms(1) by (intro exI conjI) (simp_all only: untouched_simps)
qed (use assms(1) in \<open>auto simp: mw_IdempotencyKey_def\<close>)


subsection \<open>Limits and retries\<close>

lemma retry_seconds_rounds:
  assumes "0 \<le> sint d" "sint d \<le> 2 ^ 62"
  shows "retry_seconds d = 1 \<or> 2 * \<bar>retry_seconds d * 1000000000 - sint d\<bar> \<le> 1000000000"
proof -
  define n q r where "n = sint d" and "q = n div 1000000000" and "r = n mod 1000000000"
  have n: "0 \<le> n" "n \<le> 2 ^ 62" using assms by (simp_all add: n_def)
  have r: "0 \<le> r" "r < 1000000000" "n = q * 1000000000 + r" by (simp_all add: r_def q_def)
  have sd: "k * 1000000000 sdiv 1000000000 = k" for k :: int
    by (simp add: signed_divide_int_def sgn_mult abs_mult sgn_mult_abs)
  have rs: "round_second d = (if r + r < 1000000000 then n - r else n + 1000000000 - r)"
    unfolding round_second_def Let_def n_def [symmetric] using n r by (auto simp: r_def [symmetric])
  show ?thesis
  proof (cases "r + r < 1000000000")
    case True
    then have "round_second d = q * 1000000000" using rs r(3) by simp
    then have "retry_seconds d = max 1 q" unfolding retry_seconds_def by (simp only: sd)
    with True r show ?thesis unfolding n_def [symmetric] by (auto simp: max_def abs_if)
  next
    case False
    then have "round_second d = (q + 1) * 1000000000" using rs r(3) by simp
    then have "retry_seconds d = max 1 (q + 1)" unfolding retry_seconds_def by (simp only: sd)
    with False r show ?thesis unfolding n_def [symmetric] by (auto simp: max_def abs_if)
  qed
qed

text \<open>
  A request over its limit is refused before anything else happens, whatever the handler: it
  gets status 429 and a \<^verbatim>\<open>Retry-After\<close> header of at least one second, which, if it is more
  than one, is the limiter's delay rounded to the nearest second.
\<close>

lemma limited_request_is_told_when_to_retry:
  assumes "lim_enabled limiter" "keyFunc c \<noteq> []" "\<not> g_Written c"
    and "Limiter_Allow limiter (''rate:'' @ dimension @ '':'' @ keyFunc c) rule (w_ext w) = (Inr result, x)"
    and "\<not> rate_Allowed result" "0 \<le> sint (rate_RetryAfter result)" "sint (rate_RetryAfter result) \<le> 2 ^ 62"
  shows "\<exists>c' n. run_state (mw_RateLimit limiter rule dimension keyFunc nxt c) w = (c', w\<lparr>w_ext := x\<rparr>) \<and>
    g_Status c' = 429 \<and> (''Retry-After'', itoa n) \<in> set (g_Headers c') \<and> 1 \<le> n \<and>
    (n = 1 \<or> 2 * \<bar>n * 1000000000 - sint (rate_RetryAfter result)\<bar> \<le> 1000000000)"
proof -
  let ?n = "retry_seconds (rate_RetryAfter result)"
  obtain c' where run: "run_state (mw_RateLimit limiter rule dimension keyFunc nxt c) w = (c', w\<lparr>w_ext := x\<rparr>)"
    and c': "g_Status c' = 429" "(''Retry-After'', itoa ?n) \<in> set (g_Headers c')"
    using assms(1-5) by (simp add: mw_RateLimit_def Let_def run_db_prims Fail_def write_json_def
        abort_status_def set_header_def TooManyRequests_def apperror_New_def)
  show ?thesis
    by (intro exI conjI) (rule run, rule c'(1), rule c'(2), simp add: retry_seconds_def,
      rule retry_seconds_rounds [OF assms(6,7)])
qed


subsection \<open>A concrete server\<close>

definition demo_jwt :: jwt_library where
  "demo_jwt = \<lparr>jl_NewNumericDate = (\<lambda>t. t), jl_SignedString = (\<lambda>alg cl key. Inr (cl_Subject cl)),
     jl_ParseWithClaims = (\<lambda>raw key issuer now. Inl (Errorf ''no token''))\<rparr>"

definition demo_auth :: AuthService where
  "demo_auth = \<lparr>as_issuer = [], as_secret = [], as_ttl = 0, as_clientID = [], as_clientSecret = [],
     as_verifier = Some (\<lambda>now raw. if raw = ''t0'' then Inr demo_user else Inl (Errorf ''unknown''))\<rparr>"

definition demo_binding :: binding where
  "demo_binding =
     \<lparr>bind_InitiateUpload = (\<lambda>b. Inl (Errorf b)), bind_InitiateMultipart = (\<lambda>b. Inl (Errorf b)),
      bind_AuthorizePart = (\<lambda>b. Inl (Errorf b)), bind_CompleteMultipart = (\<lambda>b. Inl (Errorf b)),
      bind_CompleteUpload = (\<lambda>b. Inl (Errorf b)), bind_ReportScan = (\<lambda>b. Inl (Errorf b)),
      bind_FileID = (\<lambda>b. Inl (Errorf b)), bind_ListFiles = (\<lambda>b. Inl (Errorf b)),
      bind_DeleteFile = (\<lambda>b. Inr \<lparr>df_ID = ''f'', df_TenantID = ''t1'', df_ApplicationID = ''a1'',
        df_ExpectedVersion = 1\<rparr>),
      bind_required = (\<lambda>ns. Errorf ''required'')\<rparr>"

definition demo_build :: build_vars where
  "demo_build = \<lparr>bv_Version = ''dev'', bv_Commit = ''unknown'', bv_BuildTime = ''unknown'', bv_startedAt = 0\<rparr>"

definition demo_metrics :: "nat Metrics" where
  "demo_metrics = \<lparr>mt_enabled = False, mt_library = \<lparr>pr_Inc = (\<lambda>m ls x. ((), x)), pr_Observe = (\<lambda>m ls d x. ((), x)),
     pr_now = (\<lambda>x. (int x, x)), pr_runtime = [], pr_dbstats = []\<rparr>, mt_registry = []\<rparr>"

definition demo_http :: "nat http_env" where
  "demo_http =
     \<lparr>he_cfg = default_config\<lparr>config_Authorization := \<lparr>authorization_Enabled = True\<rparr>\<rparr>,
      he_runtime = demo_rt, he_files = demo_sv, he_binding = demo_binding,
      he_health = \<lparr>h_db = None, h_redis = None\<rparr>, he_arrival = (\<lambda>x. (True, x)),
      he_build = demo_build, he_random = (\<lambda>x. (Inr (replicate 16 (CHR ''r'')), x)),
      he_nanos = (\<lambda>x. (0, x)), he_expired = (\<lambda>x. (False, x)), he_jwt = demo_jwt, he_auth = demo_auth,
      he_enforce = (\<lambda>p c q x. (None, x)),
      he_limiter = \<lparr>lim_enabled = False, lim_failOpen = False, lim_backend = None\<rparr>,
      he_idempotency = None, he_valid_key = (\<lambda>k. True), he_sha256 = (\<lambda>s. s), he_metrics = demo_metrics,
      he_span = (\<lambda>x. (([], []), x)), he_log = (\<lambda>l x. ((), x)), he_broken = (\<lambda>p. False),
      he_assets = (\<lambda>path c x. (c, x))\<rparr>"

definition demo_request :: gin where
  "demo_request =
     \<lparr>g_Method = ''POST'', g_FullPath = ''/api/v1/files/delete'',
      g_GetHeader = (\<lambda>k. if k = ''Authorization'' then ''Bearer t0''
        else if k = ''Content-Type'' then ''application/json'' else []),
      g_ContentLength = 2, g_Body = Inr ''{}'', g_ClientIP = ''192.0.2.1'', g_TLS = True,
      g_request_id = [], g_environment = [], g_subject = None, g_principal = None, g_credential = None,
      g_idempotency = None, g_Status = 200, g_Written = False, g_Headers = [], g_Responses = []\<rparr>"

definition demo_limiter :: "nat Limiter" where
  "demo_limiter = \<lparr>lim_enabled = True, lim_failOpen = False, lim_backend = Some (\<lambda>key rule x.
     (Inr \<lparr>rr_Allowed = 0, rr_Remaining = 0, rr_RetryAfter = 2600000000\<rparr>, x))\<rparr>"

lemma demo_facts:
  "ParseMediaType (rt_unicode_lower demo_rt) ''application/json'' = Inr ''application/json''"
  "bearer ''Bearer t0'' = Some ''t0''"
  "path_Match ''/api/v1/version'' ''/api/v1/files/delete'' = Inr False"
  "requestid_Valid [] = False"
  "files (w_db (snd (run_state (Service_Delete demo_rt demo_sv demo_ctx ''f'' ''t1'' ''a1'' 1) demo_world))) \<noteq> [demo_row]"
  by code_simp+

lemma demo_http_fields:
  "he_runtime demo_http = demo_rt" "he_files demo_http = demo_sv" "he_binding demo_http = demo_binding"
  "he_auth demo_http = demo_auth" "lim_enabled (he_limiter demo_http) = False"
  "he_idempotency demo_http = None" "he_random demo_http x = (Inr (replicate 16 (CHR ''r'')), x)"
  "he_nanos demo_http x = (0, x)" "he_expired demo_http x = (False, x)"
  "he_enforce demo_http p cr q x = (None, x)"
  "config_Auth (he_cfg demo_http) = default_Auth" "config_HTTP (he_cfg demo_http) = default_HTTP"
  "authorization_Enabled (config_Authorization (he_cfg demo_http))"
  "he_metrics demo_http = demo_metrics" "he_span demo_http x = (([], []), x)" "he_log demo_http l x = ((), x)"
  by (simp_all add: demo_http_def default_config_def)

text \<open>The middleware on the way of the demo request leaves its route, method, headers and body alone.\<close>

definition demo_like :: "gin \<Rightarrow> bool" where
  "demo_like c \<longleftrightarrow> g_Method c = ''POST'' \<and> g_FullPath c = ''/api/v1/files/delete'' \<and>
     g_GetHeader c = g_GetHeader demo_request \<and> g_Body c = Inr ''{}''"

lemma demo_like_simps [simp]:
  "demo_like (set_header k v c) = demo_like c" "demo_like (c\<lparr>g_request_id := i\<rparr>) = demo_like c"
  "demo_like (c\<lparr>g_environment := i\<rparr>) = demo_like c"
  "demo_like (c\<lparr>g_subject := s, g_principal := p, g_credential := q\<rparr>) = demo_like c"
  by (simp_all add: demo_like_def set_header_def)

lemma demo_headers [simp]:
  "g_GetHeader demo_request ''X-Request-ID'' = []" "g_GetHeader demo_request ''Idempotency-Key'' = []"
  "g_GetHeader demo_request ''Origin'' = []" "g_GetHeader demo_request ''Content-Type'' = ''application/json''"
  "g_GetHeader demo_request ''Authorization'' = ''Bearer t0''"
  by (simp_all add: demo_request_def)

lemma switched_off:
  "\<not> lim_enabled limiter \<Longrightarrow> mw_RateLimit limiter rule dimension keyFunc nxt = nxt"
  "he_idempotency E = None \<Longrightarrow> mw_IdempotencyExecution E paths nxt = nxt"
  by (rule ext, simp add: mw_RateLimit_def mw_IdempotencyExecution_def split: option.splits)+

lemma demo_router:
  assumes "demo_like c"
  shows "\<exists>c1. demo_like c1 \<and> g_principal c1 = Some demo_user \<and>
    run_state (router demo_http c) demo_world =
      run_state (Handler_DeleteFile demo_rt demo_sv demo_binding c1) demo_world"
proof -
  let ?c = "c\<lparr>g_subject := Some ''u1'', g_principal := Some demo_user, g_credential := Some ''Bearer t0''\<rparr>"
  have p: "g_FullPath c = ''/api/v1/files/delete''" "g_GetHeader c = g_GetHeader demo_request"
    using assms by (simp_all add: demo_like_def)
  have now: "rt_now demo_rt x = (int x, x)" for x by (simp add: demo_rt_def)
  have "run_state (router demo_http c) demo_world =
      run_state (api_group demo_http (Handler_DeleteFile demo_rt demo_sv demo_binding) c) demo_world"
    unfolding router_def Let_def p by (simp add: api_routes_def registerPprof_def Let_def demo_http_fields)
  also have "\<dots> = run_state (mw_Authentication demo_http (mw_Authorization demo_http
      (Handler_DeleteFile demo_rt demo_sv demo_binding)) c) demo_world"
    by (simp add: api_group_def Let_def switched_off demo_http_fields)
  also have "\<dots> = run_state (mw_JWT demo_http (mw_Authorization demo_http
      (Handler_DeleteFile demo_rt demo_sv demo_binding)) c) demo_world"
    by (simp add: mw_Authentication_def Let_def demo_http_fields default_Auth_def p demo_facts)
  also have "\<dots> = run_state (mw_Authorization demo_http
      (Handler_DeleteFile demo_rt demo_sv demo_binding) ?c) demo_world"
    by (simp add: mw_JWT_def p demo_facts demo_http_fields run_db_prims now Auth_Verify_def demo_auth_def
        demo_user_def)
  also have "\<dots> = run_state (Handler_DeleteFile demo_rt demo_sv demo_binding ?c) demo_world"
    by (simp add: mw_Authorization_def demo_http_fields run_db_prims split: option.splits)
  finally show ?thesis using assms by (intro exI [of _ ?c]) simp
qed

lemma demo_router_deletes:
  assumes "demo_like c"
  shows "files (w_db (snd (run_state (router demo_http c) demo_world))) \<noteq> [demo_row]"
proof -
  obtain c1 where c1: "demo_like c1" "g_principal c1 = Some demo_user"
    "run_state (router demo_http c) demo_world =
      run_state (Handler_DeleteFile demo_rt demo_sv demo_binding c1) demo_world"
    using demo_router [OF assms] by blast
  have "request_ctx c1 = demo_ctx" "g_Body c1 = Inr ''{}''"
    using c1(1,2) by (simp_all add: request_ctx_def demo_ctx_def demo_like_def)
  then have "snd (run_state (Handler_DeleteFile demo_rt demo_sv demo_binding c1) demo_world) =
      snd (run_state (Service_Delete demo_rt demo_sv demo_ctx ''f'' ''t1'' ''a1'' 1) demo_world)"
    by (simp add: Handler_DeleteFile_def ShouldBindJSON_def demo_binding_def missing_DeleteFile_def absent_def
        bound_def respond_def split: prod.splits)
  with c1(3) demo_facts(5) show ?thesis by simp
qed

lemma demo_pass:
  assumes "demo_like c"
  shows "run_state (mw_RequireJSON demo_http h c) w = run_state (h c) w"
    "w_db (snd (run_state (mw_Timeout demo_http h c) w)) = w_db (snd (run_state (h c) w))"
    "run_state (mw_MaxBody (http_MaxBodyBytes default_HTTP) h c) w = run_state (h c) w"
    "run_state (mw_CORS (http_CORS default_HTTP) h c) w = run_state (h c) w"
    "run_state (mw_IdempotencyKey demo_http h c) w = run_state (h c) w"
    "\<exists>c1. demo_like c1 \<and> run_state (mw_SecurityHeaders h c) w = run_state (h c1) w"
    "\<exists>c1. demo_like c1 \<and> run_state (mw_Environment profile h c) w = run_state (h c1) w"
    "\<exists>c1. demo_like c1 \<and> run_state (mw_RequestID demo_http h c) w = run_state (h c1) w"
    "run_state (mw_RequestLogger demo_http h c) w = run_state (h c) w"
    "run_state (mw_HTTPMetrics demo_metrics h c) w = run_state (h c) w"
    "run_state (mw_Recovery demo_http (returning h) c) w = run_state (h c) w"
proof -
  have body: "c\<lparr>g_Body := Inr ''{}''\<rparr> = c" using assms by (simp add: demo_like_def)
  note like = assms [unfolded demo_like_def]
  show "run_state (mw_RequireJSON demo_http h c) w = run_state (h c) w"
    using like by (simp add: mw_RequireJSON_def demo_http_fields demo_facts)
  show "w_db (snd (run_state (mw_Timeout demo_http h c) w)) = w_db (snd (run_state (h c) w))"
    by (auto simp: mw_Timeout_def run_db_prims split: prod.splits)
  show "run_state (mw_MaxBody (http_MaxBodyBytes default_HTTP) h c) w = run_state (h c) w"
  proof -
    have "mw_MaxBody (http_MaxBodyBytes default_HTTP) h c = h (c\<lparr>g_Body := Inr ''{}''\<rparr>)"
      using like by (simp add: mw_MaxBody_def default_HTTP_def)
    then show ?thesis unfolding body by simp
  qed
  show "run_state (mw_CORS (http_CORS default_HTTP) h c) w = run_state (h c) w"
    by (simp add: mw_CORS_def Let_def default_HTTP_def)
  show "run_state (mw_IdempotencyKey demo_http h c) w = run_state (h c) w"
    using like by (simp add: mw_IdempotencyKey_def Let_def)
  show "\<exists>c1. demo_like c1 \<and> run_state (mw_SecurityHeaders h c) w = run_state (h c1) w"
    unfolding mw_SecurityHeaders_def Let_def by (rule exI, rule conjI [OF _ refl]) (simp add: assms)
  show "\<exists>c1. demo_like c1 \<and> run_state (mw_Environment profile h c) w = run_state (h c1) w"
    unfolding mw_Environment_def by (rule exI, rule conjI [OF _ refl]) (simp add: assms)
  show "\<exists>c1. demo_like c1 \<and> run_state (mw_RequestID demo_http h c) w = run_state (h c1) w"
    using assms like by (intro exI [of _ "set_header ''X-Request-ID'' (requestid_Generate (Inr (replicate 16 (CHR ''r''))) 0)
      (c\<lparr>g_request_id := requestid_Generate (Inr (replicate 16 (CHR ''r''))) 0\<rparr>)"])
      (simp add: mw_RequestID_def demo_facts demo_http_fields run_db_prims)
  have now: "rt_now demo_rt x = (int x, x)" for x by (simp add: demo_rt_def)
  show "run_state (mw_RequestLogger demo_http h c) w = run_state (h c) w"
    by (simp add: mw_RequestLogger_def demo_http_fields run_db_prims now split: prod.splits)
  show "run_state (mw_HTTPMetrics demo_metrics h c) w = run_state (h c) w"
    by (simp add: mw_HTTPMetrics_def demo_metrics_def count_and_time_def run_db_prims Let_def split: prod.splits)
  show "run_state (mw_Recovery demo_http (returning h) c) w = run_state (h c) w"
    by (simp add: mw_Recovery_def returning_def split: prod.splits)
qed

lemma demo_serve_changes: "w_db (snd (run_state (http_serve demo_http demo_request) demo_world)) \<noteq> w_db demo_world"
proof -
  define t where "t = mw_CORS (http_CORS default_HTTP) (mw_MaxBody (http_MaxBodyBytes default_HTTP)
    (mw_Timeout demo_http (mw_RequireJSON demo_http (router demo_http))))"
  define s where "s = inner_middleware demo_http (router demo_http)"
  define e where "e = mw_RequestLogger demo_http (mw_Recovery demo_http (returning s))"
  define k where "k = mw_Environment (runtime_ActiveProfile (config_Runtime (he_cfg demo_http))) e"
  note serve = http_serve_def [of demo_http, unfolded outer_middleware_def, folded s_def, folded e_def, folded k_def]
  have "demo_like demo_request" by (simp add: demo_like_def demo_request_def)
  then obtain c1 where c1: "demo_like c1"
    "run_state (http_serve demo_http demo_request) demo_world = run_state (mw_IdempotencyKey demo_http k c1) demo_world"
    unfolding serve using demo_pass(8) by blast
  then obtain c2 where c2: "demo_like c2"
    "run_state (http_serve demo_http demo_request) demo_world = run_state (e c2) demo_world"
    using demo_pass(5) [OF c1(1)] demo_pass(7) [OF c1(1)] unfolding k_def by metis
  then have "run_state (http_serve demo_http demo_request) demo_world = run_state (mw_SecurityHeaders t c2) demo_world"
    unfolding e_def s_def inner_middleware_def t_def Let_def by (simp add: demo_pass demo_http_fields)
  then obtain c3 where c3: "demo_like c3"
    "run_state (http_serve demo_http demo_request) demo_world = run_state (t c3) demo_world"
    using demo_pass(6) [OF c2(1)] by metis
  then have "w_db (snd (run_state (http_serve demo_http demo_request) demo_world)) =
      w_db (snd (run_state (router demo_http c3) demo_world))"
    unfolding t_def by (simp add: demo_pass)
  with demo_router_deletes [OF c3(1)] show ?thesis by (auto simp: demo_world_def demo_db_def)
qed

theorem http_changes_need_a_caller_witness:
  "\<exists>p c' w'. run_state (http_serve demo_http demo_request) demo_world = (c', w') \<and>
    http_caller demo_http demo_request p \<and> call_as demo_rt demo_sv (Some p) demo_world w'"
proof -
  obtain c' w' where run: "run_state (http_serve demo_http demo_request) demo_world = (c', w')"
    by (metis prod.collapse)
  have "w_db w' \<noteq> w_db demo_world" using demo_serve_changes run by simp
  moreover have "g_principal demo_request = None" by (simp add: demo_request_def)
  ultimately show ?thesis using http_changes_need_a_caller [OF run] run by (auto simp: demo_http_fields)
qed


theorem requests_are_answered_once_witness:
  "\<exists>r c' w'. run_state (http_serve demo_http demo_request) demo_world = (c', w') \<and> g_Responses c' = [r] \<and>
    resp_RequestID r = g_request_id c' \<and> requestid_Valid (g_request_id c')"
proof -
  have "json_route demo_http (g_FullPath demo_request)"
    by (simp add: json_route_def demo_request_def api_routes_def Let_def)
  moreover have "g_Method demo_request \<noteq> ''OPTIONS''" "g_Responses demo_request = []"
    by (simp_all add: demo_request_def)
  moreover have "\<exists>b x'. he_random demo_http x = (Inr b, x') \<and> length b = 16" for x
    by (simp add: demo_http_fields)
  ultimately show ?thesis using requests_are_answered_once [of demo_http demo_request demo_world] by blast
qed

lemma limited_request_is_told_when_to_retry_witness:
  "\<exists>c' n. run_state (mw_RateLimit demo_limiter (setRateLimitDefaults 120 30) ''ip'' g_ClientIP Handler_Me demo_request)
      demo_world = (c', demo_world) \<and> g_Status c' = 429 \<and> (''Retry-After'', itoa n) \<in> set (g_Headers c') \<and> 1 \<le> n"
proof -
  let ?res = "\<lparr>rate_Allowed = False, rate_Limit = 30, rate_Remaining = 0, rate_RetryAfter = 2600000000\<rparr>"
  have "Limiter_Allow demo_limiter (''rate:'' @ ''ip'' @ '':'' @ g_ClientIP demo_request) (setRateLimitDefaults 120 30)
      (w_ext demo_world) = (Inr ?res, w_ext demo_world)"
    by (simp add: Limiter_Allow_def demo_limiter_def setRateLimitDefaults_def)
  from limited_request_is_told_when_to_retry [where limiter = demo_limiter and keyFunc = g_ClientIP and
      c = demo_request and w = demo_world and dimension = "''ip''" and nxt = Handler_Me, OF _ _ _ this]
  have "\<exists>c' n. run_state (mw_RateLimit demo_limiter (setRateLimitDefaults 120 30) ''ip'' g_ClientIP Handler_Me
      demo_request) demo_world = (c', demo_world\<lparr>w_ext := w_ext demo_world\<rparr>) \<and> g_Status c' = 429 \<and>
      (''Retry-After'', itoa n) \<in> set (g_Headers c') \<and> 1 \<le> n"
    by (fastforce simp: demo_limiter_def demo_request_def)
  then show ?thesis by simp
qed

definition demo_manager :: "nat idem_manager" where
  "demo_manager = \<lparr>idm_Enabled = True,
     idm_Begin = (\<lambda>key fp x. (Inr \<lparr>d_State = (if x = 7 then StateAcquired else StateCompleted), d_Owner = ''o'',
       d_Response = Inr \<lparr>resp_Code = CodeOK, resp_Message = ''success'', resp_Body = BodySubject None,
         resp_RequestID = []\<rparr>, d_Failure = \<lparr>f_Code = CodeInternal, f_Message = [], f_HTTPStatus = 500\<rparr>\<rparr>, x)),
     idm_Complete = (\<lambda>key owner r x. (None, 8)), idm_Fail = (\<lambda>key owner f x. (None, x))\<rparr>"

definition demo_http_idem :: "nat http_env" where
  "demo_http_idem = demo_http\<lparr>he_idempotency := Some demo_manager\<rparr>"

definition demo_me :: gin where
  "demo_me = demo_request\<lparr>g_idempotency := Some ''k'', g_FullPath := ''/api/v1/me'', g_request_id := ''1''\<rparr>"


end
