(* ===== verification/GRPC_Server.thy ===== *)
theory GRPC_Server
  imports HTTP_Server
begin

text \<open>
  The gRPC server, \<^verbatim>\<open>internal/transport/grpc/server.go\<close>: the handlers of
  \<open>fileServer\<close> and \<open>healthServer\<close>, the translation of errors, and the chains of unary
  and stream interceptors in the order of \<open>NewServer\<close>.

  A message of the generated code is a constructor of \<open>pb_request\<close> or \<open>pb_response\<close>
  with the fields the program reads or sets. \<open>grpc_call\<close> is the call context: the method, the
  incoming metadata and what the interceptors put into the context. The two interceptors of the
  platform library are parameters: \<open>ge_enforce\<close> decides a requirement, \<open>ge_replay\<close> answers
  a call from the idempotency store or lets it pass, \<open>ge_record\<close> stores its result. What is
  inside the recovery of panics works on an \<open>outcome\<close>. The only streaming calls are those of
  library code (server reflection, watching the health), the parameter \<open>ge_streams\<close>.
\<close>

subsection \<open>Messages and status codes\<close>

datatype grpc_code = GrpcInternal | GrpcInvalidArgument | GrpcNotFound | GrpcUnauthenticated
  | GrpcPermissionDenied | GrpcAborted | GrpcUnavailable | GrpcOther nat

record grpc_status =
  st_Code :: grpc_code
  st_Message :: string

definition status_Error :: "grpc_code \<Rightarrow> string \<Rightarrow> grpc_status" where
  "status_Error code message = \<lparr>st_Code = code, st_Message = message\<rparr>"

datatype pb_request =
  PbInitiateUpload string string string string int64 string string
| PbInitiateMultipartUpload string string string string int64 string string int64
| PbAuthorizeUploadPart string string string int32
| PbCompleteMultipartUpload string string string string "CompletedPart list" int64
| PbAbortMultipartUpload string string string int64
| PbCompleteUpload string string string string int64
| PbReportScanResult string string string string int64
| PbAuthorizeDownload string string string
| PbGetMetadata string string string
| PbDelete string string string int64
| PbHealthCheck
| PbHealthList

datatype pb_response =
  PbInitiateUploadResponse PbFile string "(string \<times> string) list" instant
| PbInitiateMultipartUploadResponse PbFile string int64 int32 instant
| PbAuthorizeUploadPartResponse string "(string \<times> string) list" instant
| PbFileResponse PbFile
| PbAuthorizeDownloadResponse string instant
| PbHealthCheckResponse bool
| PbHealthListResponse "(string \<times> bool) list"

type_synonym grpc_result = "grpc_status + pb_response"

definition file_method :: "string \<Rightarrow> string" where
  "file_method name = ''/platform.file.v1.FileService/'' @ name"

fun full_method :: "pb_request \<Rightarrow> string" where
  "full_method (PbInitiateUpload t a f ct sz cs k) = file_method ''InitiateUpload''"
| "full_method (PbInitiateMultipartUpload t a f ct sz cs k ps) = file_method ''InitiateMultipartUpload''"
| "full_method (PbAuthorizeUploadPart i t a n) = file_method ''AuthorizeUploadPart''"
| "full_method (PbCompleteMultipartUpload i t a cs ps e) = file_method ''CompleteMultipartUpload''"
| "full_method (PbAbortMultipartUpload i t a e) = file_method ''AbortMultipartUpload''"
| "full_method (PbCompleteUpload i t a cs e) = file_method ''CompleteUpload''"
| "full_method (PbReportScanResult i t a s e) = file_method ''ReportScanResult''"
| "full_method (PbAuthorizeDownload i t a) = file_method ''AuthorizeDownload''"
| "full_method (PbGetMetadata i t a) = file_method ''GetMetadata''"
| "full_method (PbDelete i t a e) = file_method ''Delete''"
| "full_method PbHealthCheck = ''/grpc.health.v1.Health/Check''"
| "full_method PbHealthList = ''/grpc.health.v1.Health/List''"

definition toProtoFile :: "Metadata \<Rightarrow> PbFile" where
  "toProtoFile v =
     \<lparr>pb_Id = m_ID v, pb_TenantId = m_TenantID v, pb_ApplicationId = m_ApplicationID v,
      pb_OwnerId = m_OwnerID v, pb_Bucket = m_Bucket v, pb_ObjectKey = m_ObjectKey v,
      pb_Filename = m_Filename v, pb_ContentType = m_ContentType v, pb_Size = m_Size v,
      pb_ChecksumSha256 = m_ChecksumSHA256 v, pb_Status = m_Status v, pb_ScanStatus = m_ScanStatus v,
      pb_UploadMode = m_UploadMode v, pb_MultipartUploadId = m_MultipartUploadID v,
      pb_PartSize = m_PartSize v, pb_PartCount = m_PartCount v, pb_Version = m_Version v,
      pb_CreatedAt = m_CreatedAt v, pb_UpdatedAt = m_UpdatedAt v, pb_CreatedBy = m_CreatedBy v,
      pb_UpdatedBy = m_UpdatedBy v, pb_UploadExpiresAt = m_UploadExpiresAt v\<rparr>"

text \<open>The codes that have no case of their own become \<open>codes.Internal\<close>.\<close>

definition grpc_code_of :: "app_code \<Rightarrow> grpc_code" where
  "grpc_code_of code =
     (case code of
        CodeInvalidArgument \<Rightarrow> GrpcInvalidArgument
      | CodeNotFound \<Rightarrow> GrpcNotFound
      | CodeUnauthorized \<Rightarrow> GrpcUnauthenticated
      | CodeForbidden \<Rightarrow> GrpcPermissionDenied
      | CodeConflict \<Rightarrow> GrpcAborted
      | CodeDependencyUnavailable \<Rightarrow> GrpcUnavailable
      | _ \<Rightarrow> GrpcInternal)"

definition grpcError :: "go_error \<Rightarrow> grpc_status" where
  "grpcError err =
     (case errors_As err of
        None \<Rightarrow> status_Error GrpcInternal ''internal server error''
      | Some appErr \<Rightarrow> status_Error (grpc_code_of (ae_Code appErr)) (ae_Message appErr))"

subsection \<open>Handlers\<close>

text \<open>A line of the log about a call, of which \<open>gl_code\<close> is the text of the status, or about a panic.\<close>

record grpc_line =
  gl_stream :: bool
  gl_request_id :: string
  gl_span :: "(string \<times> string) option"
  gl_method :: string
  gl_code :: string
  gl_duration :: int

datatype grpc_log = CallLine grpc_line | CallPanic bool string string

record grpc_call =
  gc_Method :: string
  gc_metadata :: "string \<Rightarrow> string list"
  gc_principal :: "Principal option"
  gc_request_id :: string
  gc_idempotency :: "string option"
  gc_environment :: string

text \<open>\<open>ge_code_text\<close> is the name of a status code, \<open>None\<close> being the code of success.\<close>

record 'x grpc_env =
  ge_cfg :: cfg_Config
  ge_runtime :: "'x runtime"
  ge_files :: "'x Service"
  ge_health :: "'x HealthService"
  ge_arrival :: "('x, bool) ext_op"
  ge_random :: "('x, go_error + string) ext_op"
  ge_nanos :: "('x, int) ext_op"
  ge_jwt :: jwt_library
  ge_auth :: AuthService
  ge_valid_key :: "string \<Rightarrow> bool"
  ge_enforce :: "Principal option \<Rightarrow> Requirement \<Rightarrow> ('x, grpc_status option) ext_op"
  ge_replay :: "string \<Rightarrow> string option \<Rightarrow> Principal option \<Rightarrow> pb_request \<Rightarrow> ('x, grpc_result option) ext_op"
  ge_record :: "string \<Rightarrow> string option \<Rightarrow> grpc_result \<Rightarrow> ('x, unit) ext_op"
  ge_metrics :: "'x Metrics"
  ge_span :: "('x, string \<times> string) ext_op"
  ge_log :: "grpc_log \<Rightarrow> ('x, unit) ext_op"
  ge_code_text :: "grpc_code option \<Rightarrow> string"
  ge_set_header :: "string \<Rightarrow> ('x, go_error option) ext_op"
  ge_streams :: "string \<Rightarrow> grpc_call \<Rightarrow> ('x, grpc_status option outcome) ext_op"

type_synonym ('x, 'r) rpc = "grpc_call \<Rightarrow> ('x world, 'r) state"
type_synonym 'x grpc_handler = "('x, grpc_result) rpc"

definition call_ctx :: "grpc_call \<Rightarrow> Ctx" where
  "call_ctx c = \<lparr>ctx_principal = gc_principal c\<rparr>"

definition reply ::
    "('a \<Rightarrow> pb_response) \<Rightarrow> ('x world, 'a \<times> go_error option) state \<Rightarrow> ('x world, grpc_result) state" where
  "reply f m = do {
     (v, err) \<leftarrow> m;
     State_Monad.return (case err of Some e \<Rightarrow> Inl (grpcError e) | None \<Rightarrow> Inr (f v))
   }"

definition health_Check :: "'x grpc_env \<Rightarrow> ('x world, grpc_result) state" where
  "health_Check E = do {
     database_first \<leftarrow> ext_call (ge_arrival E);
     (status, ready) \<leftarrow> ext_call (Health_Ready database_first (ge_health E));
     State_Monad.return (Inr (PbHealthCheckResponse ready))
   }"

definition health_List :: "('x world, grpc_result) state" where
  "health_List = State_Monad.return (Inr (PbHealthListResponse [([], True)]))"

fun fileServer :: "'x grpc_env \<Rightarrow> pb_request \<Rightarrow> 'x grpc_handler" where
  "fileServer E (PbInitiateUpload t a f ct sz cs k) c =
     reply (\<lambda>v. PbInitiateUploadResponse (toProtoFile (a_File v)) (a_URL v) (a_Headers v) (a_ExpiresAt v))
       (Service_InitiateUpload (ge_runtime E) (ge_files E) (call_ctx c) t a f ct sz cs k)"
| "fileServer E (PbInitiateMultipartUpload t a f ct sz cs k ps) c =
     reply (\<lambda>v. PbInitiateMultipartUploadResponse (toProtoFile (ma_File v)) (ma_UploadID v) (ma_PartSize v)
         (ma_PartCount v) (ma_ExpiresAt v))
       (Service_InitiateMultipartUpload (ge_runtime E) (ge_files E) (call_ctx c) t a f ct sz cs k ps)"
| "fileServer E (PbAuthorizeUploadPart i t a n) c =
     reply (\<lambda>v. PbAuthorizeUploadPartResponse (a_URL v) (a_Headers v) (a_ExpiresAt v))
       (Service_AuthorizeUploadPart (ge_runtime E) (ge_files E) (call_ctx c) i t a n)"
| "fileServer E (PbCompleteMultipartUpload i t a cs ps e) c =
     reply (\<lambda>v. PbFileResponse (toProtoFile v))
       (Service_CompleteMultipartUpload (ge_runtime E) (ge_files E) (call_ctx c) i t a cs ps e)"
| "fileServer E (PbAbortMultipartUpload i t a e) c =
     reply (\<lambda>v. PbFileResponse (toProtoFile v))
       (Service_AbortMultipartUpload (ge_runtime E) (ge_files E) (call_ctx c) i t a e)"
| "fileServer E (PbCompleteUpload i t a cs e) c =
     reply (\<lambda>v. PbFileResponse (toProtoFile v))
       (Service_CompleteUpload (ge_runtime E) (ge_files E) (call_ctx c) i t a cs e)"
| "fileServer E (PbReportScanResult i t a s e) c =
     reply (\<lambda>v. PbFileResponse (toProtoFile v))
       (Service_ReportScanResult (ge_runtime E) (ge_files E) (call_ctx c) i t a s e)"
| "fileServer E (PbAuthorizeDownload i t a) c =
     reply (\<lambda>v. PbAuthorizeDownloadResponse (a_URL v) (a_ExpiresAt v))
       (Service_AuthorizeDownload (ge_runtime E) (ge_files E) (call_ctx c) i t a)"
| "fileServer E (PbGetMetadata i t a) c =
     reply (\<lambda>v. PbFileResponse (toProtoFile v))
       (Service_Get (ge_runtime E) (ge_files E) (call_ctx c) i t a)"
| "fileServer E (PbDelete i t a e) c =
     reply (\<lambda>v. PbFileResponse (toProtoFile v))
       (Service_Delete (ge_runtime E) (ge_files E) (call_ctx c) i t a e)"
| "fileServer E PbHealthCheck c = health_Check E"
| "fileServer E PbHealthList c = health_List"

subsection \<open>Interceptors\<close>

text \<open>Inside the recovery of panics a call has an outcome; the handlers of this program are total: they return.\<close>

type_synonym ('x, 'r) interceptor = "('x, 'r) rpc \<Rightarrow> ('x, 'r) rpc"
type_synonym 'x inner_interceptor = "('x, grpc_result outcome) interceptor"

definition returned :: "('x, 'r) rpc \<Rightarrow> ('x, 'r outcome) rpc" where
  "returned h c = do { r \<leftarrow> h c; State_Monad.return (Returned r) }"

definition environmentInterceptor :: "string \<Rightarrow> ('x, 'r) interceptor" where
  "environmentInterceptor profile h c = h (c\<lparr>gc_environment := profile\<rparr>)"

definition requestIDInterceptor :: "'x grpc_env \<Rightarrow> ('x, 'r) interceptor" where
  "requestIDInterceptor E h c =
     (let values = gc_metadata c ''x-request-id'';
          i = (if values \<noteq> [] \<and> requestid_Valid (hd values) then hd values else [])
      in if i \<noteq> [] then h (c\<lparr>gc_request_id := i\<rparr>)
         else do {
           bytes \<leftarrow> ext_call (ge_random E);
           nanos \<leftarrow> ext_call (ge_nanos E);
           h (c\<lparr>gc_request_id := requestid_Generate bytes nanos\<rparr>)
         })"

definition idempotencyInterceptor :: "'x grpc_env \<Rightarrow> ('x, grpc_result) interceptor" where
  "idempotencyInterceptor E h c =
     (case gc_metadata c ''idempotency-key'' of
        [] \<Rightarrow> h c
      | key # _ \<Rightarrow>
          if \<not> ge_valid_key E key
          then State_Monad.return (Inl (status_Error GrpcInvalidArgument ''invalid idempotency-key''))
          else h (c\<lparr>gc_idempotency := Some key\<rparr>))"

text \<open>The context with the caller, or the status of the refusal.\<close>

definition authenticateGRPC :: "'x grpc_env \<Rightarrow> instant \<Rightarrow> grpc_call \<Rightarrow> grpc_status + grpc_call" where
  "authenticateGRPC E now c =
     (let cfg = config_Auth (ge_cfg E); psk = auth_PSK cfg; values = gc_metadata c ''authorization'' in
      if psk_Enabled psk \<and> MatchesAny (gc_Method c) (psk_GRPCMethods psk) then
        (if values = [] \<or> \<not> VerifyPSK (hd values) (psk_Key psk)
         then Inl (status_Error GrpcUnauthenticated ''missing or invalid PSK'')
         else Inr (c\<lparr>gc_principal := Some psk_principal\<rparr>))
      else if MatchesAny (gc_Method c) (auth_SkipGRPCMethods cfg) then Inr c
      else if values = [] then Inl (status_Error GrpcUnauthenticated ''missing bearer token'')
      else case Cut (hd values) (CHR '' '') of
          (scheme, raw, found) \<Rightarrow>
            if \<not> found \<or> \<not> EqualFold scheme ''Bearer''
            then Inl (status_Error GrpcUnauthenticated ''invalid bearer token'')
            else case Auth_Verify (ge_jwt E) now (ge_auth E) raw of
                Inl err \<Rightarrow> Inl (status_Error GrpcUnauthenticated ''invalid or expired token'')
              | Inr caller \<Rightarrow> Inr (c\<lparr>gc_principal := Some caller\<rparr>))"

definition recoveryInterceptor :: "'x grpc_env \<Rightarrow> ('x, grpc_result outcome) rpc \<Rightarrow> 'x grpc_handler" where
  "recoveryInterceptor E h c = do {
     r \<leftarrow> h c;
     case r of
       Returned v \<Rightarrow> State_Monad.return v
     | Panicked recovered \<Rightarrow> do {
         ext_call (ge_log E (CallPanic False (gc_Method c) recovered));
         State_Monad.return (Inl (status_Error GrpcInternal ''internal server error''))
       }
   }"

definition authInterceptor :: "'x grpc_env \<Rightarrow> 'x inner_interceptor" where
  "authInterceptor E h c = do {
     now \<leftarrow> ext_call (rt_now (ge_runtime E));
     (case authenticateGRPC E now c of
        Inl err \<Rightarrow> State_Monad.return (Returned (Inl err))
      | Inr c' \<Rightarrow> h c')
   }"

definition fileGRPCRequirement :: "bool \<Rightarrow> string \<Rightarrow> Requirement option" where
  "fileGRPCRequirement enabled method =
     (if \<not> enabled then None
      else map_of
        [(file_method ''InitiateUpload'', file_requirement ''file.object'' ''upload'' ScopePrincipal),
         (file_method ''InitiateMultipartUpload'', file_requirement ''file.object'' ''upload'' ScopePrincipal),
         (file_method ''AuthorizeUploadPart'', file_requirement ''file.object'' ''upload'' ScopePrincipal),
         (file_method ''CompleteMultipartUpload'', file_requirement ''file.object'' ''upload'' ScopePrincipal),
         (file_method ''AbortMultipartUpload'', file_requirement ''file.object'' ''upload'' ScopePrincipal),
         (file_method ''CompleteUpload'', file_requirement ''file.object'' ''upload'' ScopePrincipal),
         (file_method ''ReportScanResult'', file_requirement ''file.scan'' ''report'' ScopePlatform),
         (file_method ''AuthorizeDownload'', file_requirement ''file.object'' ''download'' ScopePrincipal),
         (file_method ''GetMetadata'', file_requirement ''file.object'' ''read'' ScopePrincipal),
         (file_method ''Delete'', file_requirement ''file.object'' ''delete'' ScopePrincipal)] method)"

text \<open>The platform's interceptors, around their parameters.\<close>

definition authz_interceptor :: "'x grpc_env \<Rightarrow> 'x inner_interceptor" where
  "authz_interceptor E h c =
     (case fileGRPCRequirement (authorization_Enabled (config_Authorization (ge_cfg E))) (gc_Method c) of
        None \<Rightarrow> h c
      | Some q \<Rightarrow> do {
          err \<leftarrow> ext_call (ge_enforce E (gc_principal c) q);
          case err of Some s \<Rightarrow> State_Monad.return (Returned (Inl s)) | None \<Rightarrow> h c
        })"

definition replay_interceptor :: "'x grpc_env \<Rightarrow> pb_request \<Rightarrow> 'x inner_interceptor" where
  "replay_interceptor E req h c = do {
     known \<leftarrow> ext_call (ge_replay E (gc_Method c) (gc_idempotency c) (gc_principal c) req);
     case known of
       Some r \<Rightarrow> State_Monad.return (Returned r)
     | None \<Rightarrow> do {
         r \<leftarrow> h c;
         case r of
           Panicked p \<Rightarrow> State_Monad.return (Panicked p)
         | Returned v \<Rightarrow> do {
             ext_call (ge_record E (gc_Method c) (gc_idempotency c) v);
             State_Monad.return (Returned v)
           }
       }
   }"

definition result_code :: "grpc_result \<Rightarrow> grpc_code option" where
  "result_code r = (case r of Inl s \<Rightarrow> Some (st_Code s) | Inr _ \<Rightarrow> None)"

text \<open>A panic passes the metrics and the log by.\<close>

definition metricsInterceptor :: "'x grpc_env \<Rightarrow> 'x inner_interceptor" where
  "metricsInterceptor E h c = do {
     started \<leftarrow> ext_call (pr_now (mt_library (ge_metrics E)));
     r \<leftarrow> h c;
     case r of
       Panicked p \<Rightarrow> State_Monad.return (Panicked p)
     | Returned v \<Rightarrow> do {
         ext_call (count_and_time (ge_metrics E) GRPCRequests [gc_Method c, ge_code_text E (result_code v)]
           GRPCDuration [gc_Method c] started);
         span \<leftarrow> ext_call (ge_span E);
         now \<leftarrow> ext_call (pr_now (mt_library (ge_metrics E)));
         ext_call (ge_log E (CallLine \<lparr>gl_stream = False, gl_request_id = gc_request_id c, gl_span = Some span,
           gl_method = gc_Method c, gl_code = ge_code_text E (result_code v), gl_duration = now - started\<rparr>));
         State_Monad.return (Returned v)
       }
   }"

definition incoming_call :: "string \<Rightarrow> (string \<Rightarrow> string list) \<Rightarrow> grpc_call" where
  "incoming_call method metadata =
     \<lparr>gc_Method = method, gc_metadata = metadata, gc_principal = None, gc_request_id = [],
      gc_idempotency = None, gc_environment = []\<rparr>"

abbreviation incoming :: "pb_request \<Rightarrow> (string \<Rightarrow> string list) \<Rightarrow> grpc_call" where
  "incoming req \<equiv> incoming_call (full_method req)"

definition grpc_chain :: "'x grpc_env \<Rightarrow> pb_request \<Rightarrow> ('x, grpc_result outcome) rpc \<Rightarrow> 'x grpc_handler" where
  "grpc_chain E req h =
     environmentInterceptor (runtime_ActiveProfile (config_Runtime (ge_cfg E)))
       (requestIDInterceptor E
         (idempotencyInterceptor E
           (recoveryInterceptor E
             (authInterceptor E
               (authz_interceptor E
                 (replay_interceptor E req
                   (metricsInterceptor E h)))))))"

definition grpc_serve :: "'x grpc_env \<Rightarrow> pb_request \<times> (string \<Rightarrow> string list) \<Rightarrow> ('x world, grpc_result) state" where
  "grpc_serve E = (\<lambda>(req, metadata). grpc_chain E req (returned (fileServer E req)) (incoming req metadata))"

subsection \<open>Streams\<close>

text \<open>A stream ends with an error status or without one.\<close>

type_synonym 'x stream_handler = "('x, grpc_status option) rpc"
type_synonym 'x inner_stream = "('x, grpc_status option outcome) rpc"

definition environmentStreamInterceptor :: "string \<Rightarrow> 'x stream_handler \<Rightarrow> 'x stream_handler" where
  "environmentStreamInterceptor profile h c = h (c\<lparr>gc_environment := profile\<rparr>)"

definition requestIDStreamInterceptor :: "'x grpc_env \<Rightarrow> 'x stream_handler \<Rightarrow> 'x stream_handler" where
  "requestIDStreamInterceptor E h c = do {
     i \<leftarrow> (let values = gc_metadata c ''x-request-id'' in
       if values \<noteq> [] \<and> requestid_Valid (hd values) then State_Monad.return (hd values)
       else do {
         bytes \<leftarrow> ext_call (ge_random E);
         nanos \<leftarrow> ext_call (ge_nanos E);
         State_Monad.return (requestid_Generate bytes nanos)
       });
     err \<leftarrow> ext_call (ge_set_header E i);
     case err of
       Some e \<Rightarrow> State_Monad.return (Some (status_Error GrpcInternal ''set request metadata''))
     | None \<Rightarrow> h (c\<lparr>gc_request_id := i\<rparr>)
   }"

definition idempotencyStreamInterceptor :: "'x grpc_env \<Rightarrow> 'x stream_handler \<Rightarrow> 'x stream_handler" where
  "idempotencyStreamInterceptor E h c =
     (case gc_metadata c ''idempotency-key'' of
        [] \<Rightarrow> h c
      | key # _ \<Rightarrow>
          if \<not> ge_valid_key E key
          then State_Monad.return (Some (status_Error GrpcInvalidArgument ''invalid idempotency-key''))
          else h (c\<lparr>gc_idempotency := Some key\<rparr>))"

definition recoveryStreamInterceptor :: "'x grpc_env \<Rightarrow> 'x inner_stream \<Rightarrow> 'x stream_handler" where
  "recoveryStreamInterceptor E h c = do {
     r \<leftarrow> h c;
     case r of
       Returned err \<Rightarrow> State_Monad.return err
     | Panicked recovered \<Rightarrow> do {
         ext_call (ge_log E (CallPanic True (gc_Method c) recovered));
         State_Monad.return (Some (status_Error GrpcInternal ''internal server error''))
       }
   }"

definition authStreamInterceptor :: "'x grpc_env \<Rightarrow> 'x inner_stream \<Rightarrow> 'x inner_stream" where
  "authStreamInterceptor E h c = do {
     now \<leftarrow> ext_call (rt_now (ge_runtime E));
     (case authenticateGRPC E now c of
        Inl err \<Rightarrow> State_Monad.return (Returned (Some err))
      | Inr c' \<Rightarrow> h c')
   }"

definition metricsStreamInterceptor :: "'x grpc_env \<Rightarrow> 'x inner_stream \<Rightarrow> 'x inner_stream" where
  "metricsStreamInterceptor E h c = do {
     started \<leftarrow> ext_call (pr_now (mt_library (ge_metrics E)));
     r \<leftarrow> h c;
     case r of
       Panicked p \<Rightarrow> State_Monad.return (Panicked p)
     | Returned err \<Rightarrow> do {
         (let code = ge_code_text E (map_option st_Code err) in do {
            ext_call (count_and_time (ge_metrics E) GRPCRequests [gc_Method c, code] GRPCDuration [gc_Method c] started);
            now \<leftarrow> ext_call (pr_now (mt_library (ge_metrics E)));
            ext_call (ge_log E (CallLine \<lparr>gl_stream = True, gl_request_id = gc_request_id c, gl_span = None,
              gl_method = gc_Method c, gl_code = code, gl_duration = now - started\<rparr>))
          });
         State_Monad.return (Returned err)
       }
   }"

definition stream_chain :: "'x grpc_env \<Rightarrow> 'x inner_stream \<Rightarrow> 'x stream_handler" where
  "stream_chain E h =
     environmentStreamInterceptor (runtime_ActiveProfile (config_Runtime (ge_cfg E)))
       (requestIDStreamInterceptor E
         (idempotencyStreamInterceptor E
           (recoveryStreamInterceptor E
             (authStreamInterceptor E
               (metricsStreamInterceptor E h)))))"

definition stream_serve :: "'x grpc_env \<Rightarrow> string \<times> (string \<Rightarrow> string list) \<Rightarrow> ('x world, grpc_status option) state" where
  "stream_serve E = (\<lambda>(method, metadata).
     stream_chain E (\<lambda>c. ext_call (ge_streams E (gc_Method c) c)) (incoming_call method metadata))"

end
