(* ===== verification/GRPC_Theorems.thy ===== *)
theory GRPC_Theorems
  imports GRPC_Server HTTP_Answers
begin

text \<open>
  The gRPC server as a front end of the file service, in the same way as the HTTP server: its
  interceptors are gates, its handlers make one call each. And what a caller sees of an error over
  the two transports.
\<close>

subsection \<open>Gates\<close>

definition gc_kept :: "grpc_call \<Rightarrow> grpc_call \<Rightarrow> bool" where
  "gc_kept c c1 \<longleftrightarrow> gc_Method c1 = gc_Method c \<and> gc_metadata c1 = gc_metadata c \<and>
     gc_principal c1 = gc_principal c"

lemma gc_kept_simps [simp]:
  "gc_kept c c" "gc_kept c (c1\<lparr>gc_environment := e\<rparr>) = gc_kept c c1"
  "gc_kept c (c1\<lparr>gc_request_id := i\<rparr>) = gc_kept c c1"
  "gc_kept c (c1\<lparr>gc_idempotency := k\<rparr>) = gc_kept c c1"
  by (simp_all add: gc_kept_def)

lemma gc_kept_trans: "gc_kept a b \<Longrightarrow> gc_kept b c \<Longrightarrow> gc_kept a c"
  by (simp add: gc_kept_def)

text \<open>Who a call is from: the holder of the pre-shared key on its methods, or of a valid token.\<close>

definition grpc_caller :: "'x grpc_env \<Rightarrow> grpc_call \<Rightarrow> Principal \<Rightarrow> bool" where
  "grpc_caller E c p \<longleftrightarrow>
     (let psk = auth_PSK (config_Auth (ge_cfg E)) in
      \<exists>header rest. gc_metadata c ''authorization'' = header # rest \<and>
        (psk_Enabled psk \<and> MatchesAny (gc_Method c) (psk_GRPCMethods psk) \<and>
           VerifyPSK header (psk_Key psk) \<and> p = psk_principal \<or>
         (\<exists>scheme raw now. Cut header (CHR '' '') = (scheme, raw, True) \<and> EqualFold scheme ''Bearer'' \<and>
           Auth_Verify (ge_jwt E) now (ge_auth E) raw = Inr p)))"

definition gc_authenticates :: "'x grpc_env \<Rightarrow> grpc_call \<Rightarrow> grpc_call \<Rightarrow> bool" where
  "gc_authenticates E c c1 \<longleftrightarrow> gc_Method c1 = gc_Method c \<and>
     (gc_principal c1 = gc_principal c \<or> (\<exists>p. gc_principal c1 = Some p \<and> grpc_caller E c p))"

definition gc_authorizes :: "'x grpc_env \<Rightarrow> grpc_call \<Rightarrow> grpc_call \<Rightarrow> bool" where
  "gc_authorizes E c c1 \<longleftrightarrow> gc_kept c c1 \<and>
     (\<forall>q. fileGRPCRequirement (authorization_Enabled (config_Authorization (ge_cfg E))) (gc_Method c) = Some q \<longrightarrow>
       answers (ge_enforce E (gc_principal c) q) None)"

interpretation g_environment: gate "environmentInterceptor profile" gc_kept for profile
  by unfold_locales (auto simp: environmentInterceptor_def intro: passes_now [where step = gc_kept, rotated])

interpretation g_request_id: gate "requestIDInterceptor E" gc_kept for E :: "'x grpc_env"
proof
  fix nxt c and w :: "'x world" and r w'
  assume "run_state (requestIDInterceptor E nxt c) w = (r, w')"
  then have "\<exists>c1 v. gc_kept c c1 \<and> w_db v = w_db w \<and> run_state (nxt c1) v = (r, w')"
    unfolding requestIDInterceptor_def Let_def
    by (auto simp: run_db_prims split: if_splits prod.splits) (metis ext_keeps_db gc_kept_simps(1,3))+
  then show "passes_on gc_kept nxt c w w'" unfolding passes_on_def by blast
qed

interpretation g_idempotency_key: gate "idempotencyInterceptor E" gc_kept for E :: "'x grpc_env"
  by unfold_locales
    (auto simp: idempotencyInterceptor_def split: list.splits if_splits
      intro: passes_stop passes_now [where step = gc_kept, rotated])

lemma authenticateGRPC_step:
  assumes "authenticateGRPC E now c = Inr c1"
  shows "gc_authenticates E c c1"
proof -
  let ?v = "gc_metadata c ''authorization''" and ?psk = "auth_PSK (config_Auth (ge_cfg E))"
  let ?skip = "MatchesAny (gc_Method c) (auth_SkipGRPCMethods (config_Auth (ge_cfg E)))"
  note run = assms [unfolded authenticateGRPC_def Let_def]
  show ?thesis
  proof (cases "psk_Enabled ?psk \<and> MatchesAny (gc_Method c) (psk_GRPCMethods ?psk)")
    case True
    note run = run [unfolded if_P [OF True]]
    then have ok: "?v \<noteq> []" "VerifyPSK (hd ?v) (psk_Key ?psk)" "c1 = c\<lparr>gc_principal := Some psk_principal\<rparr>"
      by (simp_all split: if_splits)
    then have "?v = hd ?v # tl ?v" by simp
    with True ok have "grpc_caller E c psk_principal" unfolding grpc_caller_def Let_def by blast
    then show ?thesis using ok(3) by (simp add: gc_authenticates_def)
  next
    case no_psk: False
    note run = run [unfolded if_not_P [OF no_psk]]
    show ?thesis
    proof (cases "?skip \<or> ?v = []")
      case True
      then have "c1 = c" using run by (simp split: if_splits)
      then show ?thesis by (simp add: gc_authenticates_def)
    next
      case False
      obtain scheme raw found where cut: "Cut (hd ?v) (CHR '' '') = (scheme, raw, found)" by (metis prod.collapse)
      then have t: "found" "EqualFold scheme ''Bearer''" using run False by (simp_all split: if_splits del: EqualFold.simps)
      then obtain p where p: "Auth_Verify (ge_jwt E) now (ge_auth E) raw = Inr p" "c1 = c\<lparr>gc_principal := Some p\<rparr>"
        using run False cut by (simp split: sum.splits del: EqualFold.simps)
      have "?v = hd ?v # tl ?v" using False by simp
      then have "grpc_caller E c p" unfolding grpc_caller_def Let_def using cut t p(1) by metis
      then show ?thesis using p(2) by (simp add: gc_authenticates_def)
    qed
  qed
qed

interpretation g_recovery: gate "recoveryInterceptor E" gc_kept for E :: "'x grpc_env"
proof
  fix nxt c and w :: "'x world" and r w'
  assume run: "run_state (recoveryInterceptor E nxt c) w = (r, w')"
  obtain o1 v where n: "run_state (nxt c) w = (o1, v)" by fastforce
  then have "w_db w' = w_db v" using run
    by (auto simp: recoveryInterceptor_def run_db_prims split: outcome.splits prod.splits)
  then show "passes_on gc_kept nxt c w w'" using n gc_kept_simps(1) unfolding passes_on_def by metis
qed

interpretation g_metrics: gate "metricsInterceptor E" gc_kept for E :: "'x grpc_env"
proof
  fix nxt c and w :: "'x world" and r w'
  assume run: "run_state (metricsInterceptor E nxt c) w = (r, w')"
  obtain started x where s: "pr_now (mt_library (ge_metrics E)) (w_ext w) = (started, x)" by fastforce
  obtain o1 v where n: "run_state (nxt c) (w\<lparr>w_ext := x\<rparr>) = (o1, v)" by fastforce
  then have "w_db w' = w_db v" using run s
    by (auto simp: metricsInterceptor_def run_db_prims split: outcome.splits prod.splits)
  then show "passes_on gc_kept nxt c w w'" using n ext_keeps_db gc_kept_simps(1) unfolding passes_on_def by metis
qed

interpretation g_auth: gate "authInterceptor E" "gc_authenticates E" for E :: "'x grpc_env"
proof
  fix nxt c and w :: "'x world" and r w'
  assume run: "run_state (authInterceptor E nxt c) w = (r, w')"
  obtain now x where now: "rt_now (ge_runtime E) (w_ext w) = (now, x)" by fastforce
  show "passes_on (gc_authenticates E) nxt c w w'"
  proof (cases "authenticateGRPC E now c")
    case (Inl e)
    then show ?thesis using run now by (auto simp: authInterceptor_def run_db_prims intro!: passes_stop)
  next
    case (Inr c1)
    have "run_state (nxt c1) (w\<lparr>w_ext := x\<rparr>) = (r, w')"
      using run now Inr by (simp add: authInterceptor_def run_db_prims)
    then show ?thesis using authenticateGRPC_step [OF Inr] ext_keeps_db unfolding passes_on_def by metis
  qed
qed

interpretation g_authz: gate "authz_interceptor E" "gc_authorizes E" for E :: "'x grpc_env"
proof
  fix nxt c and w :: "'x world" and r w'
  assume run: "run_state (authz_interceptor E nxt c) w = (r, w')"
  let ?q = "fileGRPCRequirement (authorization_Enabled (config_Authorization (ge_cfg E))) (gc_Method c)"
  show "passes_on (gc_authorizes E) nxt c w w'"
  proof (cases ?q)
    case None
    then have "run_state (nxt c) w = (r, w')" "gc_authorizes E c c"
      using run by (simp_all add: authz_interceptor_def gc_authorizes_def)
    then show ?thesis unfolding passes_on_def by blast
  next
    case (Some q)
    obtain err x where e: "ge_enforce E (gc_principal c) q (w_ext w) = (err, x)" by fastforce
    show ?thesis
    proof (cases err)
      case None
      then have "gc_authorizes E c c" using Some e by (auto simp: gc_authorizes_def answers_def)
      moreover have "run_state (nxt c) (w\<lparr>w_ext := x\<rparr>) = (r, w')"
        using run Some e None by (simp add: authz_interceptor_def run_db_prims)
      ultimately show ?thesis using ext_keeps_db unfolding passes_on_def by metis
    next
      case (Some s)
      then show ?thesis using run e \<open>?q = Some q\<close>
        by (auto simp: authz_interceptor_def run_db_prims intro!: passes_stop)
    qed
  qed
qed

interpretation g_replay: gate "replay_interceptor E req" gc_kept for E :: "'x grpc_env" and req
proof
  fix nxt c and w :: "'x world" and r w'
  assume run: "run_state (replay_interceptor E req nxt c) w = (r, w')"
  obtain known x where k: "ge_replay E (gc_Method c) (gc_idempotency c) (gc_principal c) req (w_ext w) = (known, x)"
    by fastforce
  show "passes_on gc_kept nxt c w w'"
  proof (cases known)
    case None
    obtain r1 v where n: "run_state (nxt c) (w\<lparr>w_ext := x\<rparr>) = (r1, v)" by fastforce
    then have "w_db w' = w_db v" using run k None
      by (auto simp: replay_interceptor_def run_db_prims split: prod.splits outcome.splits)
    then show ?thesis using n ext_keeps_db gc_kept_simps(1) unfolding passes_on_def by metis
  next
    case (Some s)
    then show ?thesis using run k by (auto simp: replay_interceptor_def run_db_prims intro!: passes_stop)
  qed
qed

subsection \<open>Handlers and the server\<close>

lemma reply_call:
  assumes "run_state (reply f m) w = (r, w')"
  shows "\<exists>a b. run_state (answering g m) w = ((a, b), w')"
  using assms by (auto simp: reply_def answering_def split: prod.splits)

fun service_request :: "pb_request \<Rightarrow> request option" where
  "service_request (PbInitiateUpload t a f ct sz cs k) = Some (ReqInitiateUpload t a f ct sz cs k)"
| "service_request (PbInitiateMultipartUpload t a f ct sz cs k ps) = Some (ReqInitiateMultipart t a f ct sz cs k ps)"
| "service_request (PbAuthorizeUploadPart i t a n) = Some (ReqAuthorizeUploadPart i t a n)"
| "service_request (PbCompleteMultipartUpload i t a cs ps e) = Some (ReqCompleteMultipart i t a cs ps e)"
| "service_request (PbAbortMultipartUpload i t a e) = Some (ReqAbortMultipart i t a e)"
| "service_request (PbCompleteUpload i t a cs e) = Some (ReqCompleteUpload i t a cs e)"
| "service_request (PbReportScanResult i t a s e) = Some (ReqReportScanResult i t a s e)"
| "service_request (PbAuthorizeDownload i t a) = Some (ReqAuthorizeDownload i t a)"
| "service_request (PbGetMetadata i t a) = Some (ReqGet i t a)"
| "service_request (PbDelete i t a e) = Some (ReqDelete i t a e)"
| "service_request PbHealthCheck = None"
| "service_request PbHealthList = None"

lemma fileServer_call:
  assumes "run_state (fileServer E req c) w = (r, w')"
  shows "case service_request req of
      None \<Rightarrow> w_db w' = w_db w
    | Some rq \<Rightarrow> \<exists>a. run_state (serve (ge_runtime E) (ge_files E) (call_ctx c) rq) w = (a, w')"
  using assms
  by (cases req) (auto simp: health_Check_def health_List_def run_db_prims split: prod.splits intro: reply_call)

lemma service_request_tenant: "service_request req = Some rq \<Longrightarrow> \<exists>t. req_tenant rq = Some t"
  by (cases req) auto

lemma handler_call_as:
  assumes "run_state (fileServer E req c) w = (r, w')"
  shows "w_db w' = w_db w \<or> call_as (ge_runtime E) (ge_files E) (gc_principal c) w w'"
proof (cases "service_request req")
  case None
  then show ?thesis using fileServer_call [OF assms] by simp
next
  case (Some rq)
  then obtain a t where "run_state (serve (ge_runtime E) (ge_files E) (call_ctx c) rq) w = (a, w')"
    "req_tenant rq = Some t"
    using fileServer_call [OF assms] service_request_tenant by fastforce
  then show ?thesis unfolding call_as_def call_ctx_def by blast
qed

lemma returned_call_as:
  assumes "run_state (returned (fileServer E req) c) w = (r, w')"
  shows "w_db w' = w_db w \<or> call_as (ge_runtime E) (ge_files E) (gc_principal c) w w'"
  using assms handler_call_as [of E req c w] by (auto simp: returned_def split: prod.splits)

definition gc_admitted :: "'x grpc_env \<Rightarrow> grpc_call \<Rightarrow> grpc_call \<Rightarrow> bool" where
  "gc_admitted E c c1 \<longleftrightarrow>
     gc_principal c1 = gc_principal c \<or>
     (\<exists>p. gc_principal c1 = Some p \<and> grpc_caller E c p \<and>
       (\<forall>q. fileGRPCRequirement (authorization_Enabled (config_Authorization (ge_cfg E))) (gc_Method c) = Some q \<longrightarrow>
         answers (ge_enforce E (Some p) q) None))"

interpretation g_chain: gate "grpc_chain E req" "gc_admitted E" for E :: "'x grpc_env" and req
proof (rule gate_weaken)
  show "gate (grpc_chain E req)
      (gc_kept OO (gc_kept OO (gc_kept OO (gc_kept OO (gc_authenticates E OO (gc_authorizes E OO (gc_kept OO gc_kept)))))))"
    unfolding grpc_chain_def
    by (rule gate_compose [OF g_environment.gate_axioms gate_compose [OF g_request_id.gate_axioms
        gate_compose [OF g_idempotency_key.gate_axioms gate_compose [OF g_recovery.gate_axioms
        gate_compose [OF g_auth.gate_axioms gate_compose [OF g_authz.gate_axioms
        gate_compose [OF g_replay.gate_axioms g_metrics.gate_axioms]]]]]]])
  fix c c1 assume "(gc_kept OO (gc_kept OO (gc_kept OO (gc_kept OO (gc_authenticates E OO
    (gc_authorizes E OO (gc_kept OO gc_kept))))))) c c1"
  then obtain a b d where k: "gc_kept c a" "gc_authenticates E a b" "gc_authorizes E b d" "gc_kept d c1"
    by (elim relcomppE) (metis that gc_kept_trans)
  have "grpc_caller E a = grpc_caller E c" using k(1) by (simp add: gc_kept_def grpc_caller_def fun_eq_iff)
  with k show "gc_admitted E c c1"
    by (auto simp: gc_admitted_def gc_kept_def gc_authenticates_def gc_authorizes_def)
qed

lemma grpc_call:
  assumes "run_state (grpc_serve E (req, metadata)) w = (r, w')"
  shows "w_db w' = w_db w \<or> (\<exists>c1. gc_admitted E (incoming req metadata) c1 \<and>
    call_as (ge_runtime E) (ge_files E) (gc_principal c1) w w')"
proof -
  have "w_db w' = w_db w \<or> (\<exists>c1 w1 w2. gc_admitted E (incoming req metadata) c1 \<and> w_db w1 = w_db w \<and>
      call_as (ge_runtime E) (ge_files E) (gc_principal c1) w1 w2 \<and> w_db w' = w_db w2)"
    by (rule g_chain.compose [OF assms [unfolded grpc_serve_def prod.case]]) (rule returned_call_as)
  then show ?thesis using call_as_shift by blast
qed

interpretation grpc: frontend "ge_runtime E" "ge_files E" "grpc_serve E" for E :: "'x grpc_env"
proof
  fix q and w :: "'x world" and r w'
  assume "run_state (grpc_serve E q) w = (r, w')"
  then show "w_db w' = w_db w \<or> effect_of_call (ge_runtime E) (ge_files E) w w'"
    using grpc_call [of E "fst q" "snd q" w r w'] call_as_effect prod.collapse [of q] by metis
qed

text \<open>
  C27. No gRPC call changes the tables unless it comes from an authenticated caller (pre-shared key
  or token); where authorization is switched on, the decision for this caller and method was in
  favour; and the change is that of one call of the file service made as this caller.
\<close>

theorem grpc_changes_need_a_caller:
  assumes "run_state (grpc_serve E (req, metadata)) w = (r, w')" "w_db w' \<noteq> w_db w"
  shows "\<exists>p. grpc_caller E (incoming req metadata) p \<and>
    (\<forall>q. fileGRPCRequirement (authorization_Enabled (config_Authorization (ge_cfg E))) (full_method req) = Some q \<longrightarrow>
      answers (ge_enforce E (Some p) q) None) \<and>
    call_as (ge_runtime E) (ge_files E) (Some p) w w'"
proof -
  from grpc_call [OF assms(1)] assms(2) obtain c1 where c1: "gc_admitted E (incoming req metadata) c1"
    "call_as (ge_runtime E) (ge_files E) (gc_principal c1) w w'" by blast
  have "gc_principal c1 \<noteq> None" using call_as_nobody c1(2) assms(2) by metis
  with c1 show ?thesis unfolding gc_admitted_def incoming_call_def by auto
qed

subsection \<open>Streams\<close>

text \<open>Streams are library code behind the interceptors: none of it reaches the tables.\<close>

lemma stream_interceptors_silent:
  assumes h: "\<And>c. silent w_db (h c)"
  shows "silent w_db (authStreamInterceptor E h c)" "silent w_db (metricsStreamInterceptor E h c)"
    "silent w_db (recoveryStreamInterceptor E h c)"
  by (auto intro!: silentI simp: authStreamInterceptor_def metricsStreamInterceptor_def recoveryStreamInterceptor_def
      run_db_prims Let_def split: prod.splits sum.splits outcome.splits dest!: silentD [OF h])

lemma stream_silent: "silent w_db (stream_serve E q)"
proof -
  let ?h = "\<lambda>c. ext_call (ge_streams E (gc_Method c) c)"
  let ?r = "recoveryStreamInterceptor E (authStreamInterceptor E (metricsStreamInterceptor E ?h))"
  have "silent w_db (?h c)" for c by (auto intro!: silentI simp: run_db_prims split: prod.splits)
  then have r: "silent w_db (?r c)" for c by (intro stream_interceptors_silent)
  have i: "silent w_db (idempotencyStreamInterceptor E ?r c)" for c
    using r by (auto simp: idempotencyStreamInterceptor_def intro!: silentI split: list.splits dest: silentD)
  have "silent w_db (requestIDStreamInterceptor E (idempotencyStreamInterceptor E ?r) c)" for c
    by (rule silentI)
      (auto simp: requestIDStreamInterceptor_def run_db_prims Let_def split: if_splits prod.splits option.splits
        dest!: silentD [OF i])
  then show ?thesis by (simp add: stream_serve_def stream_chain_def environmentStreamInterceptor_def split: prod.splits)
qed

subsection \<open>Answers\<close>

text \<open>
  An interceptor that answers on its own, whatever the handler, or hands the call on and passes the
  handler's result back through \<open>f\<close>.
\<close>

locale relay =
  fixes mw :: "('x, 'r) rpc \<Rightarrow> ('x, 's) rpc" and f :: "'r \<Rightarrow> 's"
  assumes relays: "(\<exists>r. \<forall>h. fst (run_state (mw h c) w) = r) \<or>
    (\<exists>c1 v. \<forall>h. fst (run_state (mw h c) w) = f (fst (run_state (h c1) v)))"

lemma relay_compose:
  assumes "relay m f" "relay n g"
  shows "relay (\<lambda>h. m (n h)) (\<lambda>r. f (g r))"
proof
  fix c :: grpc_call and w :: "'a world"
  show "(\<exists>r. \<forall>h. fst (run_state (m (n h) c) w) = r) \<or>
    (\<exists>c1 v. \<forall>h. fst (run_state (m (n h) c) w) = f (g (fst (run_state (h c1) v))))"
    using relay.relays [OF assms(1), of c w]
  proof
    assume "\<exists>c1 v. \<forall>h. fst (run_state (m h c) w) = f (fst (run_state (h c1) v))"
    then obtain c1 v where m: "\<And>h. fst (run_state (m h c) w) = f (fst (run_state (h c1) v))" by blast
    show ?thesis using relay.relays [OF assms(2), of c1 v]
    proof
      assume "\<exists>r. \<forall>h. fst (run_state (n h c1) v) = r"
      then show ?thesis by (auto simp: m)
    next
      assume "\<exists>c2 u. \<forall>h. fst (run_state (n h c1) v) = g (fst (run_state (h c2) u))"
      then obtain c2 u where "\<And>h. fst (run_state (n h c1) v) = g (fst (run_state (h c2) u))" by blast
      then show ?thesis unfolding m by metis
    qed
  qed blast
qed

text \<open>Handing on at once.\<close>

lemma relay_now: "(\<And>h. fst (run_state (mw h c) w) = f (fst (run_state (h c1) v))) \<Longrightarrow>
    (\<exists>r. \<forall>h. fst (run_state (mw h c) w) = r) \<or> (\<exists>c1 v. \<forall>h. fst (run_state (mw h c) w) = f (fst (run_state (h c1) v)))"
  by blast

text \<open>What the recovery makes of an outcome.\<close>

definition recovered :: "'r \<Rightarrow> 'r outcome \<Rightarrow> 'r" where
  "recovered internal r = (case r of Returned v \<Rightarrow> v | Panicked _ \<Rightarrow> internal)"

abbreviation internal_error :: grpc_status where
  "internal_error \<equiv> status_Error GrpcInternal ''internal server error''"

interpretation y_environment: relay "environmentInterceptor profile" "\<lambda>r. r" for profile
  by (unfold_locales, rule relay_now) (simp add: environmentInterceptor_def)

interpretation y_request_id: relay "requestIDInterceptor E" "\<lambda>r. r" for E :: "'x grpc_env"
proof
  fix c :: grpc_call and w :: "'x world"
  obtain b x where b: "ge_random E (w_ext w) = (b, x)" by fastforce
  obtain n y where n: "ge_nanos E x = (n, y)" by fastforce
  show "(\<exists>r. \<forall>h. fst (run_state (requestIDInterceptor E h c) w) = r) \<or>
    (\<exists>c1 v. \<forall>h. fst (run_state (requestIDInterceptor E h c) w) = fst (run_state (h c1) v))"
    by (simp add: requestIDInterceptor_def Let_def b n run_db_prims) blast
qed

interpretation y_idempotency: relay "idempotencyInterceptor E" "\<lambda>r. r" for E :: "'x grpc_env"
proof
  fix c :: grpc_call and w :: "'x world"
  show "(\<exists>r. \<forall>h. fst (run_state (idempotencyInterceptor E h c) w) = r) \<or>
    (\<exists>c1 v. \<forall>h. fst (run_state (idempotencyInterceptor E h c) w) = fst (run_state (h c1) v))"
    by (cases "gc_metadata c ''idempotency-key''") (auto simp: idempotencyInterceptor_def)
qed

interpretation y_recovery: relay "recoveryInterceptor E" "recovered (Inl internal_error)" for E :: "'x grpc_env"
proof
  fix c :: grpc_call and w :: "'x world"
  have "fst (run_state (recoveryInterceptor E h c) w) = recovered (Inl internal_error) (fst (run_state (h c) w))" for h
    by (auto simp: recoveryInterceptor_def recovered_def run_db_prims split: prod.splits outcome.splits)
  then show "(\<exists>r. \<forall>h. fst (run_state (recoveryInterceptor E h c) w) = r) \<or>
    (\<exists>c1 v. \<forall>h. fst (run_state (recoveryInterceptor E h c) w) = recovered (Inl internal_error) (fst (run_state (h c1) v)))" by blast
qed

interpretation y_auth: relay "authInterceptor E" "\<lambda>r. r" for E :: "'x grpc_env"
proof
  fix c :: grpc_call and w :: "'x world"
  obtain now x where now: "rt_now (ge_runtime E) (w_ext w) = (now, x)" by fastforce
  show "(\<exists>r. \<forall>h. fst (run_state (authInterceptor E h c) w) = r) \<or>
    (\<exists>c1 v. \<forall>h. fst (run_state (authInterceptor E h c) w) = fst (run_state (h c1) v))"
    by (cases "authenticateGRPC E now c") (auto simp: authInterceptor_def run_db_prims now)
qed

interpretation y_authz: relay "authz_interceptor E" "\<lambda>r. r" for E :: "'x grpc_env"
proof
  fix c :: grpc_call and w :: "'x world"
  let ?q = "fileGRPCRequirement (authorization_Enabled (config_Authorization (ge_cfg E))) (gc_Method c)"
  obtain err x where e: "ge_enforce E (gc_principal c) (the ?q) (w_ext w) = (err, x)" by fastforce
  show "(\<exists>r. \<forall>h. fst (run_state (authz_interceptor E h c) w) = r) \<or>
    (\<exists>c1 v. \<forall>h. fst (run_state (authz_interceptor E h c) w) = fst (run_state (h c1) v))"
    using e by (cases ?q; cases err) (auto simp: authz_interceptor_def run_db_prims)
qed

interpretation y_replay: relay "replay_interceptor E req" "\<lambda>r. r" for E :: "'x grpc_env" and req
proof
  fix c :: grpc_call and w :: "'x world"
  obtain known x where k: "ge_replay E (gc_Method c) (gc_idempotency c) (gc_principal c) req (w_ext w) = (known, x)"
    by fastforce
  show "(\<exists>r. \<forall>h. fst (run_state (replay_interceptor E req h c) w) = r) \<or>
    (\<exists>c1 v. \<forall>h. fst (run_state (replay_interceptor E req h c) w) = fst (run_state (h c1) v))"
  proof (cases known)
    case None
    have "fst (run_state (replay_interceptor E req h c) w) = fst (run_state (h c) (w\<lparr>w_ext := x\<rparr>))" for h
      by (auto simp: replay_interceptor_def run_db_prims k None split: prod.splits outcome.splits)
    then show ?thesis by blast
  qed (simp add: replay_interceptor_def run_db_prims k)
qed

interpretation y_metrics: relay "metricsInterceptor E" "\<lambda>r. r" for E :: "'x grpc_env"
proof
  fix c :: grpc_call and w :: "'x world"
  obtain started x where s: "pr_now (mt_library (ge_metrics E)) (w_ext w) = (started, x)" by fastforce
  have "fst (run_state (metricsInterceptor E h c) w) = fst (run_state (h c) (w\<lparr>w_ext := x\<rparr>))" for h
    by (auto simp: metricsInterceptor_def run_db_prims s split: prod.splits outcome.splits)
  then show "(\<exists>r. \<forall>h. fst (run_state (metricsInterceptor E h c) w) = r) \<or>
    (\<exists>c1 v. \<forall>h. fst (run_state (metricsInterceptor E h c) w) = fst (run_state (h c1) v))" by blast
qed

interpretation y_chain: relay "grpc_chain E req" "recovered (Inl internal_error)" for E :: "'x grpc_env" and req
  unfolding grpc_chain_def
  by (rule relay_compose [OF y_environment.relay_axioms relay_compose [OF y_request_id.relay_axioms
      relay_compose [OF y_idempotency.relay_axioms relay_compose [OF y_recovery.relay_axioms
      relay_compose [OF y_auth.relay_axioms relay_compose [OF y_authz.relay_axioms
      relay_compose [OF y_replay.relay_axioms y_metrics.relay_axioms]]]]]]])

text \<open>The same for streams.\<close>

interpretation z_environment: relay "environmentStreamInterceptor profile" "\<lambda>r. r" for profile
  by (unfold_locales, rule relay_now) (simp add: environmentStreamInterceptor_def)

interpretation z_request_id: relay "requestIDStreamInterceptor E" "\<lambda>r. r" for E :: "'x grpc_env"
proof
  fix c :: grpc_call and w :: "'x world"
  obtain i v where i: "\<And>h. run_state (requestIDStreamInterceptor E h c) w =
      run_state (do { err \<leftarrow> ext_call (ge_set_header E i); case err of
        Some e \<Rightarrow> State_Monad.return (Some (status_Error GrpcInternal ''set request metadata''))
      | None \<Rightarrow> h (c\<lparr>gc_request_id := i\<rparr>) }) v"
  proof (cases "gc_metadata c ''x-request-id'' \<noteq> [] \<and> requestid_Valid (hd (gc_metadata c ''x-request-id''))")
    case True
    then show ?thesis by (intro that) (simp add: requestIDStreamInterceptor_def Let_def)
  next
    case False
    obtain b x where b: "ge_random E (w_ext w) = (b, x)" by fastforce
    obtain n y where n: "ge_nanos E x = (n, y)" by fastforce
    show ?thesis
      by (rule that [of "requestid_Generate b n" "w\<lparr>w_ext := y\<rparr>"])
        (use False in \<open>auto simp: requestIDStreamInterceptor_def Let_def run_db_prims b n\<close>)
  qed
  obtain err x where "ge_set_header E i (w_ext v) = (err, x)" by fastforce
  then show "(\<exists>r. \<forall>h. fst (run_state (requestIDStreamInterceptor E h c) w) = r) \<or>
    (\<exists>c1 v. \<forall>h. fst (run_state (requestIDStreamInterceptor E h c) w) = fst (run_state (h c1) v))"
    by (cases err) (auto simp: i run_db_prims)
qed

interpretation z_idempotency: relay "idempotencyStreamInterceptor E" "\<lambda>r. r" for E :: "'x grpc_env"
proof
  fix c :: grpc_call and w :: "'x world"
  show "(\<exists>r. \<forall>h. fst (run_state (idempotencyStreamInterceptor E h c) w) = r) \<or>
    (\<exists>c1 v. \<forall>h. fst (run_state (idempotencyStreamInterceptor E h c) w) = fst (run_state (h c1) v))"
    by (cases "gc_metadata c ''idempotency-key''") (auto simp: idempotencyStreamInterceptor_def)
qed

interpretation z_recovery: relay "recoveryStreamInterceptor E" "recovered (Some internal_error)" for E :: "'x grpc_env"
proof
  fix c :: grpc_call and w :: "'x world"
  have "fst (run_state (recoveryStreamInterceptor E h c) w) = recovered (Some internal_error) (fst (run_state (h c) w))" for h
    by (auto simp: recoveryStreamInterceptor_def recovered_def run_db_prims split: prod.splits outcome.splits)
  then show "(\<exists>r. \<forall>h. fst (run_state (recoveryStreamInterceptor E h c) w) = r) \<or>
    (\<exists>c1 v. \<forall>h. fst (run_state (recoveryStreamInterceptor E h c) w) = recovered (Some internal_error) (fst (run_state (h c1) v)))" by blast
qed

interpretation z_auth: relay "authStreamInterceptor E" "\<lambda>r. r" for E :: "'x grpc_env"
proof
  fix c :: grpc_call and w :: "'x world"
  obtain now x where now: "rt_now (ge_runtime E) (w_ext w) = (now, x)" by fastforce
  show "(\<exists>r. \<forall>h. fst (run_state (authStreamInterceptor E h c) w) = r) \<or>
    (\<exists>c1 v. \<forall>h. fst (run_state (authStreamInterceptor E h c) w) = fst (run_state (h c1) v))"
    by (cases "authenticateGRPC E now c") (auto simp: authStreamInterceptor_def run_db_prims now)
qed

interpretation z_metrics: relay "metricsStreamInterceptor E" "\<lambda>r. r" for E :: "'x grpc_env"
proof
  fix c :: grpc_call and w :: "'x world"
  obtain started x where s: "pr_now (mt_library (ge_metrics E)) (w_ext w) = (started, x)" by fastforce
  have "fst (run_state (metricsStreamInterceptor E h c) w) = fst (run_state (h c) (w\<lparr>w_ext := x\<rparr>))" for h
    by (auto simp: metricsStreamInterceptor_def run_db_prims s Let_def split: prod.splits outcome.splits)
  then show "(\<exists>r. \<forall>h. fst (run_state (metricsStreamInterceptor E h c) w) = r) \<or>
    (\<exists>c1 v. \<forall>h. fst (run_state (metricsStreamInterceptor E h c) w) = fst (run_state (h c1) v))" by blast
qed

interpretation z_chain: relay "stream_chain E" "recovered (Some internal_error)" for E :: "'x grpc_env"
  unfolding stream_chain_def
  by (rule relay_compose [OF z_environment.relay_axioms relay_compose [OF z_request_id.relay_axioms
      relay_compose [OF z_idempotency.relay_axioms relay_compose [OF z_recovery.relay_axioms
      relay_compose [OF z_auth.relay_axioms z_metrics.relay_axioms]]]]])

text \<open>
  C30. What a gRPC caller gets back. For any handler, panicking or not, a call is either answered by the
  interceptors, with an answer that does not depend on the handler at all, or it is handed to the handler: then
  the answer is what the handler returned, and the fixed internal error if it panicked. The same holds of
  streams. So a panic never leaves the process, and no interceptor rewrites a result.
\<close>

theorem grpc_answers_come_from_the_handler:
  "((\<exists>r. \<forall>h. fst (run_state (grpc_chain E req h c) w) = r) \<or>
      (\<exists>c1 v. \<forall>h. fst (run_state (grpc_chain E req h c) w) =
        (case fst (run_state (h c1) v) of Returned r \<Rightarrow> r | Panicked _ \<Rightarrow> Inl internal_error))) \<and>
    ((\<exists>r. \<forall>h. fst (run_state (stream_chain E h c) w) = r) \<or>
      (\<exists>c1 v. \<forall>h. fst (run_state (stream_chain E h c) w) =
        (case fst (run_state (h c1) v) of Returned r \<Rightarrow> r | Panicked _ \<Rightarrow> Some internal_error)))"
  using y_chain.relays [of E req c w] z_chain.relays [of E c w] unfolding recovered_def by blast

subsection \<open>Errors\<close>

text \<open>
  What a gRPC caller learns of an error: one that the application did not classify shows as
  an internal error with a fixed text, so that its details stay inside; and a classified error
  shows as internal exactly for the codes without a gRPC counterpart, the stale version among them:
  a lost optimistic lock is status 409 over HTTP and an internal error over gRPC.
\<close>

lemma grpc_error_translation:
  "(case errors_As err of
      None \<Rightarrow> grpcError err = status_Error GrpcInternal ''internal server error''
    | Some e \<Rightarrow> st_Message (grpcError err) = ae_Message e \<and>
        (st_Code (grpcError err) = GrpcInternal \<longleftrightarrow>
          ae_Code e \<in> {CodeOK, CodeRequestTimeout, CodeTooManyRequests, CodeRequestInProgress,
            CodeStaleVersion, CodeInternal})) \<and>
    st_Code (grpcError (StaleVersion None)) = GrpcInternal \<and>
    g_Status (Fail (c\<lparr>g_Written := False\<rparr>) (StaleVersion None)) = 409"
  by (auto simp: grpcError_def status_Error_def grpc_code_of_def StaleVersion_def apperror_New_def Fail_def
      write_json_def abort_status_def split: option.splits app_code.splits)

subsection \<open>Witness\<close>

definition demo_grpc :: "nat grpc_env" where
  "demo_grpc =
     \<lparr>ge_cfg = default_config\<lparr>config_Authorization := \<lparr>authorization_Enabled = True\<rparr>\<rparr>,
      ge_runtime = demo_rt, ge_files = demo_sv, ge_health = \<lparr>h_db = None, h_redis = None\<rparr>,
      ge_arrival = (\<lambda>x. (True, x)), ge_random = (\<lambda>x. (Inr (replicate 16 (CHR ''r'')), x)),
      ge_nanos = (\<lambda>x. (0, x)), ge_jwt = demo_jwt, ge_auth = demo_auth, ge_valid_key = (\<lambda>k. True),
      ge_enforce = (\<lambda>p q x. (None, x)), ge_replay = (\<lambda>m k p q x. (None, x)), ge_record = (\<lambda>m k r x. ((), x)),
      ge_metrics = demo_metrics, ge_span = (\<lambda>x. (([], []), x)), ge_log = (\<lambda>l x. ((), x)), ge_code_text = (\<lambda>c. []),
      ge_set_header = (\<lambda>i x. (None, x)), ge_streams = (\<lambda>m c x. (Panicked ''boom'', x))\<rparr>"

definition demo_metadata :: "string \<Rightarrow> string list" where
  "demo_metadata k = (if k = ''authorization'' then [''Bearer t0''] else [])"

definition demo_delete :: pb_request where
  "demo_delete = PbDelete ''f'' ''t1'' ''a1'' 1"

lemma demo_grpc_facts:
  "path_Match ''/grpc.health.v1.Health/*'' (file_method ''Delete'') = Inr False"
  "Cut ''Bearer t0'' (CHR '' '') = (''Bearer'', ''t0'', True)" "EqualFold ''Bearer'' ''Bearer''"
  by code_simp+

lemma demo_grpc_deletes: "w_db (snd (run_state (grpc_serve demo_grpc (demo_delete, demo_metadata)) demo_world)) \<noteq> w_db demo_world"
proof -
  let ?c = "(incoming demo_delete demo_metadata)\<lparr>gc_environment := runtime_ActiveProfile (config_Runtime (ge_cfg demo_grpc)),
    gc_request_id := requestid_Generate (Inr (replicate 16 (CHR ''r''))) 0\<rparr>"
  have now: "rt_now demo_rt x = (int x, x)" for x by (simp add: demo_rt_def)
  have auth: "authenticateGRPC demo_grpc t ?c = Inr (?c\<lparr>gc_principal := Some demo_user\<rparr>)" for t
    by (simp add: authenticateGRPC_def Let_def demo_grpc_def incoming_call_def demo_delete_def demo_metadata_def
        demo_grpc_facts default_config_def Auth_Verify_def demo_auth_def demo_user_def default_Auth_def
        del: EqualFold.simps)
  have "snd (run_state (grpc_serve demo_grpc (demo_delete, demo_metadata)) demo_world) =
      snd (run_state (Service_Delete demo_rt demo_sv demo_ctx ''f'' ''t1'' ''a1'' 1) demo_world)"
    using auth by (simp add: grpc_serve_def grpc_chain_def environmentInterceptor_def requestIDInterceptor_def
        idempotencyInterceptor_def authInterceptor_def authz_interceptor_def replay_interceptor_def recoveryInterceptor_def
        metricsInterceptor_def returned_def demo_metrics_def count_and_time_def Let_def
        run_db_prims now demo_grpc_def demo_delete_def demo_metadata_def incoming_call_def reply_def call_ctx_def
        demo_ctx_def split: prod.splits option.splits)
  with demo_facts(5) show ?thesis by (auto simp: demo_world_def demo_db_def)
qed

theorem grpc_changes_need_a_caller_witness:
  "\<exists>p r w'. run_state (grpc_serve demo_grpc (demo_delete, demo_metadata)) demo_world = (r, w') \<and>
    grpc_caller demo_grpc (incoming demo_delete demo_metadata) p \<and> call_as demo_rt demo_sv (Some p) demo_world w'"
proof -
  obtain r w' where run: "run_state (grpc_serve demo_grpc (demo_delete, demo_metadata)) demo_world = (r, w')"
    by (metis prod.collapse)
  have "w_db w' \<noteq> w_db demo_world" using demo_grpc_deletes run by simp
  from grpc_changes_need_a_caller [OF run this] run show ?thesis by (auto simp: demo_grpc_def)
qed

end
