(* ===== verification/Transports.thy ===== *)
theory Transports
  imports GRPC_Theorems
begin

text \<open>
  The two transports offer the same service: a method called over gRPC and the same request posted to
  its HTTP route ask for the same permission, run the same call and give the same answer, in the
  encoding of the transport.
\<close>

subsection \<open>Corresponding requests and answers\<close>

text \<open>The route of a method of the file service.\<close>

fun http_route :: "pb_request \<Rightarrow> string" where
  "http_route (PbInitiateUpload t a f ct sz cs k) = ''/api/v1/files/uploads/initiate''"
| "http_route (PbInitiateMultipartUpload t a f ct sz cs k ps) = ''/api/v1/files/uploads/multipart/initiate''"
| "http_route (PbAuthorizeUploadPart i t a n) = ''/api/v1/files/uploads/multipart/authorize-part''"
| "http_route (PbCompleteMultipartUpload i t a cs ps e) = ''/api/v1/files/uploads/multipart/complete''"
| "http_route (PbAbortMultipartUpload i t a e) = ''/api/v1/files/uploads/multipart/abort''"
| "http_route (PbCompleteUpload i t a cs e) = ''/api/v1/files/uploads/complete''"
| "http_route (PbReportScanResult i t a s e) = ''/api/v1/files/scans/report''"
| "http_route (PbAuthorizeDownload i t a) = ''/api/v1/files/downloads/authorize''"
| "http_route (PbGetMetadata i t a) = ''/api/v1/files/metadata/get''"
| "http_route (PbDelete i t a e) = ''/api/v1/files/delete''"
| "http_route PbHealthCheck = ''/ready''"
| "http_route PbHealthList = ''/live''"

definition upload_request ::
    "string \<Rightarrow> string \<Rightarrow> string \<Rightarrow> string \<Rightarrow> int64 \<Rightarrow> string \<Rightarrow> string \<Rightarrow> InitiateUploadRequest" where
  "upload_request t a f ct sz cs k =
     \<lparr>iu_TenantID = t, iu_ApplicationID = a, iu_Filename = f, iu_ContentType = ct, iu_Size = sz,
      iu_ChecksumSHA256 = cs, iu_IdempotencyKey = k\<rparr>"

definition part_request :: "CompletedPart \<Rightarrow> CompletedPartRequest" where
  "part_request p = \<lparr>pr_PartNumber = cp_PartNumber p, pr_ETag = cp_ETag p\<rparr>"

text \<open>The JSON body of the request \<open>c\<close> binds to the fields of the message.\<close>

fun posts :: "binding \<Rightarrow> gin \<Rightarrow> pb_request \<Rightarrow> bool" where
  "posts B c (PbInitiateUpload t a f ct sz cs k) =
     (ShouldBindJSON B (bind_InitiateUpload B) missing_InitiateUpload c = Inr (upload_request t a f ct sz cs k))"
| "posts B c (PbInitiateMultipartUpload t a f ct sz cs k ps) =
     (ShouldBindJSON B (bind_InitiateMultipart B) (\<lambda>r. missing_InitiateUpload (im_Base r)) c =
       Inr \<lparr>im_Base = upload_request t a f ct sz cs k, im_PartSize = ps\<rparr>)"
| "posts B c (PbAuthorizeUploadPart i t a n) =
     (ShouldBindJSON B (bind_AuthorizePart B) missing_AuthorizePart c =
       Inr \<lparr>ap_ID = i, ap_TenantID = t, ap_ApplicationID = a, ap_PartNumber = n\<rparr>)"
| "posts B c (PbCompleteMultipartUpload i t a cs ps e) =
     (ShouldBindJSON B (bind_CompleteMultipart B) missing_CompleteMultipart c =
       Inr \<lparr>cm_ID = i, cm_TenantID = t, cm_ApplicationID = a, cm_Parts = Some (map part_request ps),
         cm_ChecksumSHA256 = cs, cm_ExpectedVersion = e\<rparr>)"
| "posts B c (PbAbortMultipartUpload i t a e) =
     (ShouldBindJSON B (bind_DeleteFile B) missing_DeleteFile c =
       Inr \<lparr>df_ID = i, df_TenantID = t, df_ApplicationID = a, df_ExpectedVersion = e\<rparr>)"
| "posts B c (PbCompleteUpload i t a cs e) =
     (ShouldBindJSON B (bind_CompleteUpload B) missing_CompleteUpload c =
       Inr \<lparr>cu_ID = i, cu_TenantID = t, cu_ApplicationID = a, cu_ChecksumSHA256 = cs, cu_ExpectedVersion = e\<rparr>)"
| "posts B c (PbReportScanResult i t a s e) =
     (ShouldBindJSON B (bind_ReportScan B) missing_ReportScan c =
       Inr \<lparr>sr_ID = i, sr_TenantID = t, sr_ApplicationID = a, sr_ScanStatus = s, sr_ExpectedVersion = e\<rparr>)"
| "posts B c (PbAuthorizeDownload i t a) =
     (ShouldBindJSON B (bind_FileID B) missing_FileID c =
       Inr \<lparr>fi_ID = i, fi_TenantID = t, fi_ApplicationID = a\<rparr>)"
| "posts B c (PbGetMetadata i t a) =
     (ShouldBindJSON B (bind_FileID B) missing_FileID c =
       Inr \<lparr>fi_ID = i, fi_TenantID = t, fi_ApplicationID = a\<rparr>)"
| "posts B c (PbDelete i t a e) =
     (ShouldBindJSON B (bind_DeleteFile B) missing_DeleteFile c =
       Inr \<lparr>df_ID = i, df_TenantID = t, df_ApplicationID = a, df_ExpectedVersion = e\<rparr>)"
| "posts B c PbHealthCheck = False"
| "posts B c PbHealthList = False"

text \<open>What both encodings of a file have: all columns but the place of the object and its upload.\<close>

definition same_file :: "FileBody \<Rightarrow> PbFile \<Rightarrow> bool" where
  "same_file b f \<longleftrightarrow>
     fb_ID b = pb_Id f \<and> fb_TenantID b = pb_TenantId f \<and> fb_ApplicationID b = pb_ApplicationId f \<and>
     fb_OwnerID b = pb_OwnerId f \<and> fb_Filename b = pb_Filename f \<and> fb_ContentType b = pb_ContentType f \<and>
     fb_Size b = pb_Size f \<and> fb_ChecksumSHA256 b = pb_ChecksumSha256 f \<and> fb_Status b = pb_Status f \<and>
     fb_ScanStatus b = pb_ScanStatus f \<and> fb_UploadMode b = pb_UploadMode f \<and> fb_PartSize b = pb_PartSize f \<and>
     fb_PartCount b = pb_PartCount f \<and> fb_UploadExpiresAt b = pb_UploadExpiresAt f \<and>
     fb_Version b = pb_Version f \<and> fb_CreatedAt b = pb_CreatedAt f \<and> fb_UpdatedAt b = pb_UpdatedAt f \<and>
     fb_CreatedBy b = pb_CreatedBy f \<and> fb_UpdatedBy b = pb_UpdatedBy f"

lemma same_file_encodings [simp]: "same_file (fileBody v) (toProtoFile v)"
  by (simp add: same_file_def fileBody_def toProtoFile_def)

fun mirrors :: "body \<Rightarrow> pb_response \<Rightarrow> bool" where
  "mirrors (BodyAuthorization b) (PbInitiateUploadResponse f url hs t) =
     (same_file (fab_File b) f \<and> fab_URL b = url \<and> fab_Headers b = hs \<and> fab_ExpiresAt b = t)"
| "mirrors (BodyMultipart b) (PbInitiateMultipartUploadResponse f u sz n t) =
     (same_file (mab_File b) f \<and> mab_PartSize b = sz \<and> mab_PartCount b = n \<and> mab_ExpiresAt b = t)"
| "mirrors (BodyAuthorization b) (PbAuthorizeUploadPartResponse url hs t) =
     (fab_URL b = url \<and> fab_Headers b = hs \<and> fab_ExpiresAt b = t)"
| "mirrors (BodyFile b) (PbFileResponse f) = same_file b f"
| "mirrors (BodyAuthorization b) (PbAuthorizeDownloadResponse url t) = (fab_URL b = url \<and> fab_ExpiresAt b = t)"
| "mirrors b m = False"

text \<open>The answers to one request over the two transports.\<close>

definition same_answer :: "gin \<Rightarrow> gin \<Rightarrow> grpc_result \<Rightarrow> bool" where
  "same_answer c c' r \<longleftrightarrow>
     (case r of
        Inl status \<Rightarrow> \<exists>e. c' = Fail c e \<and> status = grpcError e
      | Inr m \<Rightarrow> \<exists>b. c' = OK c b \<and> mirrors b m)"

lemma respond_and_reply:
  assumes "\<And>v. mirrors (f v) (g v)"
  shows "\<exists>c' r w'. run_state (respond c f m) w = (c', w') \<and> run_state (reply g m) w = (r, w') \<and> same_answer c c' r"
proof -
  obtain v err w' where m: "run_state m w = ((v, err), w')" by (metis prod.collapse)
  then show ?thesis
    by (cases err) (auto simp: respond_def reply_def same_answer_def intro: exI [of _ "f v"] assms)
qed

lemma completed_parts_posted [simp]: "part_list (Some (map part_request ps)) = ps"
  by (simp add: part_list_def completed_part_def part_request_def comp_def map_idI)

subsection \<open>Agreement\<close>

lemma handlers_agree:
  assumes "posts B c req" "call_ctx gc = request_ctx c" "ge_runtime G = R" "ge_files G = S"
    and h: "h = (case req of
       PbInitiateUpload _ _ _ _ _ _ _ \<Rightarrow> Handler_InitiateUpload R S B
     | PbInitiateMultipartUpload _ _ _ _ _ _ _ _ \<Rightarrow> Handler_InitiateMultipartUpload R S B
     | PbAuthorizeUploadPart _ _ _ _ \<Rightarrow> Handler_AuthorizeUploadPart R S B
     | PbCompleteMultipartUpload _ _ _ _ _ _ \<Rightarrow> Handler_CompleteMultipartUpload R S B
     | PbAbortMultipartUpload _ _ _ _ \<Rightarrow> Handler_AbortMultipartUpload R S B
     | PbCompleteUpload _ _ _ _ _ \<Rightarrow> Handler_CompleteUpload R S B
     | PbReportScanResult _ _ _ _ _ \<Rightarrow> Handler_ReportScanResult R S B
     | PbAuthorizeDownload _ _ _ \<Rightarrow> Handler_AuthorizeDownload R S B
     | PbGetMetadata _ _ _ \<Rightarrow> Handler_GetFile R S B
     | PbDelete _ _ _ _ \<Rightarrow> Handler_DeleteFile R S B
     | _ \<Rightarrow> Handler_Live)"
  shows "\<exists>c' r w'. run_state (h c) w = (c', w') \<and> run_state (fileServer G req gc) w = (r, w') \<and> same_answer c c' r"
  using assms
  by (cases req)
    (simp_all add: Handler_InitiateUpload_def Handler_InitiateMultipartUpload_def Handler_AuthorizeUploadPart_def
      Handler_CompleteMultipartUpload_def Handler_AbortMultipartUpload_def Handler_CompleteUpload_def
      Handler_ReportScanResult_def Handler_AuthorizeDownload_def Handler_GetFile_def Handler_DeleteFile_def
      bound_def upload_request_def authorizationBody_def multipartAuthorizationBody_def respond_and_reply)


subsection \<open>Witness\<close>


end
