(* ===== verification/Config_Theorems.thy ===== *)
theory Config_Theorems
  imports Config Auth File_Service
begin

text \<open>
  What a configuration that \<open>Validate\<close> accepts guarantees: the safety rules of production,
  route patterns that can never fail at match time and never leave \<^verbatim>\<open>/api/\<close>, bounded retry
  policies with credentials only over TLS, and positive limits for the file service. And the file a
  profile selects, and the round trip of lists through environment variables.
\<close>

subsection \<open>The first error\<close>

lemma first_error_None: "first_error es = None \<longleftrightarrow> (\<forall>e \<in> set es. e = None)"
  by (induction es rule: first_error.induct) auto

lemma fail_if_None [simp]: "fail_if b m = None \<longleftrightarrow> \<not> b"
  by (simp add: fail_if_def)

lemmas validate_blocks = validate_servers_def validate_stores_def validate_observability_def
  validate_auth_def validate_runtime_def

lemma Validate_None:
  "Validate uni c = None \<longleftrightarrow>
     first_error (validate_servers c) = None \<and> first_error (validate_stores c) = None \<and>
     first_error (validate_observability c) = None \<and> first_error (validate_auth uni c) = None \<and>
     first_error (validate_runtime uni c) = None \<and>
     validateObjectStoragePolicy (config_ObjectStorage c) (production c) = None \<and>
     (\<forall>u \<in> set (outbound_HTTP (config_Outbound c)). validate_http_upstream u = None) \<and>
     (\<forall>u \<in> set (outbound_GRPC (config_Outbound c)). validate_grpc_upstream u = None)"
  unfolding Validate_def first_error_None by auto

subsection \<open>Literal prefixes of patterns\<close>

definition literal :: "string \<Rightarrow> bool" where
  "literal s = list_all (\<lambda>c. c \<noteq> CHR ''*'' \<and> c \<noteq> CHR ''?'' \<and> c \<noteq> CHR ''['' \<and> c \<noteq> CHR 0x5C) s"

lemma scan_body_literal:
  "literal s \<Longrightarrow> scan_body False (s @ p) = (s @ fst (scan_body False p), snd (scan_body False p))"
proof (induction s)
  case (Cons c s)
  then have c: "c \<noteq> CHR ''*''" "c \<noteq> CHR ''?''" "c \<noteq> CHR ''[''" "c \<noteq> CHR 0x5C" and s: "literal s"
    by (simp_all add: literal_def)
  show ?case unfolding append_Cons scan_body.simps(2) using c Cons.IH [OF s]
    by (simp del: scan_body.simps)
qed simp

lemma scanChunk_literal:
  assumes "literal s" "s \<noteq> []"
  shows "scanChunk (s @ p) = (False, s @ fst (scan_body False p), snd (scan_body False p))"
proof -
  obtain c s' where s: "s = c # s'" using assms(2) by (cases s) auto
  then have c: "c \<noteq> CHR ''*''" using assms(1) by (simp add: literal_def)
  have "dropWhile (\<lambda>c. c = CHR ''*'') (s @ p) = s @ p" unfolding s using c by simp
  then show ?thesis unfolding scanChunk_def using scan_body_literal [OF assms(1), of p] s c
    by (simp del: scan_body.simps)
qed

lemma matchChunk_literal:
  "literal s \<Longrightarrow> matchChunk False (s @ c) name = Inr (Some t) \<Longrightarrow> prefix s name"
proof (induction s arbitrary: name)
  case (Cons x s)
  then have x: "x \<noteq> CHR ''*''" "x \<noteq> CHR ''?''" "x \<noteq> CHR ''[''" "x \<noteq> CHR 0x5C" and s: "literal s"
    by (simp_all add: literal_def)
  have run: "matchChunk (name = [] \<or> x \<noteq> hd name) (s @ c) (if name = [] then name else tl name) = Inr (Some t)"
    using Cons.prems(2) x unfolding append_Cons matchChunk.simps [of False "x # s @ c"]
    by (simp add: Let_def split: if_splits)
  have "\<not> (name = [] \<or> x \<noteq> hd name)"
  proof
    assume "name = [] \<or> x \<noteq> hd name"
    with run have "matchChunk True (s @ c) (if name = [] then name else tl name) = Inr (Some t)" by simp
    with matchChunk_failed show False by blast
  qed
  then have ok: "name \<noteq> []" "x = hd name" by blast+
  with run have "matchChunk False (s @ c) (tl name) = Inr (Some t)" by simp
  from Cons.IH [OF s this] ok show ?case by (cases name) auto
qed simp

lemma Match_literal:
  assumes "literal s" "s \<noteq> []" "path_Match (s @ p) name = Inr True"
  shows "prefix s name"
proof -
  note sc = scanChunk_literal [OF assms(1,2), of p]
  show ?thesis
  proof (cases "matchChunk False (s @ fst (scan_body False p)) name")
    case (Inl e)
    then show ?thesis using assms(2,3) unfolding path_Match.simps [of "s @ p"] sc by simp
  next
    case (Inr here)
    then show ?thesis
    proof (cases here)
      case None
      then show ?thesis using assms(2,3) Inr None unfolding path_Match.simps [of "s @ p"] sc
        by (simp split: option.splits)
    next
      case (Some t)
      then show ?thesis using matchChunk_literal [OF assms(1)] Inr by simp
    qed
  qed
qed

subsection \<open>Accepted patterns\<close>

text \<open>All the patterns of a configuration that are matched against routes while requests run.\<close>

definition route_patterns :: "cfg_Config \<Rightarrow> string list" where
  "route_patterns c =
     auth_SkipHTTPPaths (config_Auth c) @ auth_SkipGRPCMethods (config_Auth c) @
     psk_HTTPPaths (auth_PSK (config_Auth c)) @ psk_GRPCMethods (auth_PSK (config_Auth c)) @
     idempotency_HTTPPaths (config_Idempotency c) @ idempotency_GRPCMethods (config_Idempotency c) @
     concat (map (\<lambda>(n, u). retry_Methods (httpupstream_Retry u)) (outbound_HTTP (config_Outbound c))) @
     concat (map (\<lambda>(n, u). retry_Methods (grpcupstream_Retry u)) (outbound_GRPC (config_Outbound c)))"

lemma good_everywhere: "path_Match p v = Inr b \<Longrightarrow> \<exists>b'. path_Match p name = Inr b'"
  using bad_pattern_uniform [of p v] bad_pattern_uniform [of p name]
  by (cases "path_Match p name") auto

lemma checked_pattern:
  "check_http_path uni k p = None \<Longrightarrow> \<exists>b. path_Match p name = Inr b"
  "check_grpc_method uni k p = None \<Longrightarrow> \<exists>b. path_Match p name = Inr b"
  "check_retry_method k p = None \<Longrightarrow> \<exists>b. path_Match p name = Inr b"
  by (auto simp: check_http_path_def check_grpc_method_def check_retry_method_def
      split: if_splits sum.splits intro: good_everywhere)

text \<open>The bounds a client policy promises.\<close>

definition policy_bounded :: "duration \<Rightarrow> cfg_ClientAuth \<Rightarrow> cfg_Retry \<Rightarrow> cfg_ClientTLS \<Rightarrow> bool" where
  "policy_bounded timeout auth retry tls \<longleftrightarrow>
     0 < sint timeout \<and> sint (retry_MaxAttempts retry) \<in> {1..5} \<and>
     0 < sint (retry_InitialBackoff retry) \<and>
     sint (retry_InitialBackoff retry) \<le> sint (retry_MaxBackoff retry) \<and>
     (clientauth_Type auth = [] \<or> clienttls_Enabled tls \<and> clientauth_Token auth \<noteq> [] \<and>
       (clientauth_Type auth = ''bearer'' \<or> clientauth_Type auth = ''psk''))"

lemma validated_policy:
  assumes "validateClientPolicy n auth retry breaker tls = None"
  shows "p \<in> set (retry_Methods retry) \<Longrightarrow> check_retry_method n p = None"
    "0 < sint timeout \<Longrightarrow> policy_bounded timeout auth retry tls"
proof -
  note all = assms [unfolded validateClientPolicy_def first_error_None set_append]
  show "p \<in> set (retry_Methods retry) \<Longrightarrow> check_retry_method n p = None" using all by simp
  show "0 < sint timeout \<Longrightarrow> policy_bounded timeout auth retry tls"
    using all by (auto simp: policy_bounded_def positive_def)
qed

lemma validated_upstream:
  "validate_http_upstream (n, u) = None \<Longrightarrow> httpupstream_BaseURL u \<noteq> [] \<and> 0 < sint (httpupstream_Timeout u) \<and>
     validateClientPolicy n (httpupstream_Auth u) (httpupstream_Retry u) (httpupstream_Breaker u)
       (httpupstream_TLS u) = None"
  "validate_grpc_upstream (n, v) = None \<Longrightarrow> grpcupstream_Target v \<noteq> [] \<and> 0 < sint (grpcupstream_Timeout v) \<and>
     validateClientPolicy n (grpcupstream_Auth v) (grpcupstream_Retry v) (grpcupstream_Breaker v)
       (grpcupstream_TLS v) = None"
  unfolding validate_http_upstream_def validate_grpc_upstream_def prod.case first_error_None
  by (auto simp: positive_def)

lemma validated_upstreams:
  assumes "Validate uni c = None"
  shows "(n, u) \<in> set (outbound_HTTP (config_Outbound c)) \<Longrightarrow> validate_http_upstream (n, u) = None"
    "(n, v) \<in> set (outbound_GRPC (config_Outbound c)) \<Longrightarrow> validate_grpc_upstream (n, v) = None"
  using assms unfolding Validate_None by blast+

lemma validated_routes:
  assumes "Validate uni c = None"
  shows "p \<in> set (auth_SkipHTTPPaths (config_Auth c)) \<Longrightarrow> \<exists>k. check_http_path uni k p = None"
    "p \<in> set (psk_HTTPPaths (auth_PSK (config_Auth c))) \<Longrightarrow> \<exists>k. check_http_path uni k p = None"
    "p \<in> set (auth_SkipGRPCMethods (config_Auth c)) \<Longrightarrow> \<exists>k. check_grpc_method uni k p = None"
    "p \<in> set (psk_GRPCMethods (auth_PSK (config_Auth c))) \<Longrightarrow> \<exists>k. check_grpc_method uni k p = None"
    "p \<in> set (idempotency_HTTPPaths (config_Idempotency c)) \<Longrightarrow> \<exists>k. check_http_path uni k p = None"
    "p \<in> set (idempotency_GRPCMethods (config_Idempotency c)) \<Longrightarrow> \<exists>k. check_grpc_method uni k p = None"
proof -
  have a: "\<forall>e \<in> set (validate_auth uni c). e = None" and r: "\<forall>e \<in> set (validate_runtime uni c). e = None"
    using assms unfolding Validate_None first_error_None by blast+
  note a = a [unfolded validate_auth_def Let_def set_append ball_Un set_map]
  note r = r [unfolded validate_runtime_def Let_def set_append ball_Un set_map]
  note skip = a [THEN conjunct2] and idem = r [THEN conjunct2]
  note psk = skip [THEN conjunct2, THEN conjunct2, THEN conjunct2]
  show "p \<in> set (auth_SkipHTTPPaths (config_Auth c)) \<Longrightarrow> \<exists>k. check_http_path uni k p = None"
    using skip [THEN conjunct1] by blast
  show "p \<in> set (auth_SkipGRPCMethods (config_Auth c)) \<Longrightarrow> \<exists>k. check_grpc_method uni k p = None"
    using skip [THEN conjunct2, THEN conjunct1] by blast
  show "p \<in> set (psk_HTTPPaths (auth_PSK (config_Auth c))) \<Longrightarrow> \<exists>k. check_http_path uni k p = None"
    using psk [THEN conjunct1] by blast
  show "p \<in> set (psk_GRPCMethods (auth_PSK (config_Auth c))) \<Longrightarrow> \<exists>k. check_grpc_method uni k p = None"
    using psk [THEN conjunct2] by blast
  show "p \<in> set (idempotency_HTTPPaths (config_Idempotency c)) \<Longrightarrow> \<exists>k. check_http_path uni k p = None"
    using idem [THEN conjunct1] by blast
  show "p \<in> set (idempotency_GRPCMethods (config_Idempotency c)) \<Longrightarrow> \<exists>k. check_grpc_method uni k p = None"
    using idem [THEN conjunct2, THEN conjunct1] by blast
qed

text \<open>
  C20. A configuration that \<open>Validate\<close> accepts has no malformed route pattern: although each
  pattern is tried at load time on one fixed path only, matching it never fails on any path or
  method. So no rule about authentication, idempotency or retries is silently ignored.
\<close>

theorem accepted_patterns_never_fail:
  assumes "Validate uni c = None" "p \<in> set (route_patterns c)"
  shows "\<exists>b. path_Match p name = Inr b"
proof -
  note up = validated_upstreams [OF assms(1)]
  have "\<exists>k. check_retry_method k p = None"
    if "(n, u) \<in> set (outbound_HTTP (config_Outbound c))" "p \<in> set (retry_Methods (httpupstream_Retry u))" for n u
    using validated_policy(1) validated_upstream(1) [OF up(1) [OF that(1)]] that(2) by blast
  moreover have "\<exists>k. check_retry_method k p = None"
    if "(n, u) \<in> set (outbound_GRPC (config_Outbound c))" "p \<in> set (retry_Methods (grpcupstream_Retry u))" for n u
    using validated_policy(1) validated_upstream(2) [OF up(2) [OF that(1)]] that(2) by blast
  ultimately consider "\<exists>k. check_http_path uni k p = None" | "\<exists>k. check_grpc_method uni k p = None"
    | "\<exists>k. check_retry_method k p = None"
    using assms(2) validated_routes [OF assms(1), of p] unfolding route_patterns_def by auto
  then show ?thesis using checked_pattern by cases blast+
qed

lemma api_pattern:
  assumes "check_http_path uni k p = None" "path_Match p name = Inr True"
  shows "prefix ''/api/'' name"
proof -
  obtain q where q: "p = ''/api/'' @ q"
    using assms(1) by (auto simp: check_http_path_def prefix_def split: if_splits)
  show ?thesis
    by (rule Match_literal [OF _ _ assms(2) [unfolded q]]) (simp_all add: literal_def)
qed

text \<open>
  Authentication can be relaxed only below \<^verbatim>\<open>/api/\<close>: under an accepted configuration, a
  route that skips the token check, or that takes the pre-shared key instead, starts with
  \<^verbatim>\<open>/api/\<close>, whatever wildcards, classes and escapes the patterns use.
\<close>

lemma relaxed_routes_inside_api:
  assumes "Validate uni c = None"
    and "MatchesAny route (auth_SkipHTTPPaths (config_Auth c) @ psk_HTTPPaths (auth_PSK (config_Auth c)))"
  shows "prefix ''/api/'' route"
proof -
  from assms(2) obtain p where p: "path_Match p route = Inr True"
    "p \<in> set (auth_SkipHTTPPaths (config_Auth c)) \<or> p \<in> set (psk_HTTPPaths (auth_PSK (config_Auth c)))"
    unfolding MatchesAny_iff by auto
  then show ?thesis using validated_routes(1,2) [OF assms(1)] api_pattern by blast
qed


text \<open>
  C21. The safety rules of production: an accepted configuration of the production environment
  serves gRPC only over TLS and without reflection, shows the API description only to authenticated
  callers, checks tokens of the identity service, has authorization on with an upstream for its
  decisions, and reaches the object storage, also through presigned URLs, only over TLS.
\<close>

theorem production_config_is_safe:
  assumes "Validate uni c = None" "app_Env (config_App c) = ''production''"
  shows "(grpc_Enabled (config_GRPC c) \<longrightarrow> grpctls_Enabled (grpc_TLS (config_GRPC c))) \<and>
    \<not> grpc_ReflectionEnabled (config_GRPC c) \<and>
    (swagger_Enabled (config_Swagger c) \<longrightarrow> swagger_RequireAuth (config_Swagger c)) \<and>
    auth_JWKSURL (config_Auth c) \<noteq> [] \<and> auth_Audience (config_Auth c) \<noteq> [] \<and>
    authorization_Enabled (config_Authorization c) \<and>
    map_of (outbound_GRPC (config_Outbound c)) ''authorization'' \<noteq> None \<and>
    (objectstorage_Enabled (config_ObjectStorage c) \<longrightarrow> objectstorage_UseSSL (config_ObjectStorage c) \<and>
      (objectstorage_PresignEndpoint (config_ObjectStorage c) = [] \<or>
       objectstorage_PresignUseSSL (config_ObjectStorage c)))"
proof -
  have p: "production c" using assms(2) by (simp add: production_def)
  note v = assms(1) [unfolded Validate_None]
  have "(grpc_Enabled (config_GRPC c) \<longrightarrow> grpctls_Enabled (grpc_TLS (config_GRPC c))) \<and>
    \<not> grpc_ReflectionEnabled (config_GRPC c)"
    using v p unfolding validate_servers_def first_error_None Let_def by simp
  moreover have "swagger_Enabled (config_Swagger c) \<longrightarrow> swagger_RequireAuth (config_Swagger c)"
    using v p unfolding validate_observability_def first_error_None Let_def by simp
  moreover have "auth_JWKSURL (config_Auth c) \<noteq> [] \<and> auth_Audience (config_Auth c) \<noteq> [] \<and>
      authorization_Enabled (config_Authorization c) \<and>
      map_of (outbound_GRPC (config_Outbound c)) ''authorization'' \<noteq> None"
    using v p unfolding validate_auth_def first_error_None Let_def by simp
  moreover have "objectstorage_Enabled (config_ObjectStorage c) \<longrightarrow> objectstorage_UseSSL (config_ObjectStorage c) \<and>
      (objectstorage_PresignEndpoint (config_ObjectStorage c) = [] \<or>
       objectstorage_PresignUseSSL (config_ObjectStorage c))"
    using v p unfolding validateObjectStoragePolicy_def by (auto simp: first_error_None)
  ultimately show ?thesis by blast
qed


subsection \<open>The defaults\<close>

lemma positive_seconds [simp]:
  assumes "0 < n" "n < 1000000000"
  shows "positive (seconds n)"
proof -
  have "sint (word_of_int (int n * 1000000000) :: int64) = int n * 1000000000"
    by (rule sint64_exact) (use assms in auto)
  with assms show ?thesis unfolding positive_def seconds_def by simp
qed

lemma positive_milliseconds [simp]: "positive (milliseconds 100)"
  by (simp add: milliseconds_def positive_def)

lemmas default_sections = default_config_def default_Database_def default_GRPC_def default_HTTP_def
  default_Migration_def default_Redis_def default_RateLimit_def default_Observability_def
  default_Auth_def default_Idempotency_def default_EventBus_def default_ObjectStorage_def

lemma default_blocks:
  "first_error (validate_servers default_config) = None"
  "first_error (validate_stores default_config) = None"
  "first_error (validate_observability default_config) = None"
  "first_error (validate_runtime uni default_config) = None"
  by (simp add: validate_servers_def first_error_None default_sections production_def
      validMigrationTable_def lower_alpha_def lower_alnum_def positive_def)
    (simp_all add: validate_stores_def validate_observability_def validate_runtime_def
      first_error_None default_sections production_def)

lemma default_auth: "first_error (validate_auth uni default_config) = None"
proof -
  have "path_Match ''/api/v1/version'' ''/validation/target'' = Inr False"
    "path_Match ''/grpc.health.v1.Health/*'' ''/validation/target'' = Inr False" by code_simp+
  then show ?thesis
    by (simp add: validate_auth_def first_error_None default_sections production_def
        check_http_path_def check_grpc_method_def)
qed

text \<open>
  The defaults alone are accepted, and they are not accepted as a production configuration:
  the environment has to be configured for that.
\<close>

lemma defaults_are_accepted:
  "Validate uni default_config = None \<and>
    Validate uni (default_config\<lparr>config_App := (config_App default_config)\<lparr>app_Env := ''production''\<rparr>\<rparr>) =
      Some (Errorf ''grpc tls must be enabled in production'')"
proof
  show "Validate uni default_config = None"
    unfolding Validate_None using default_blocks default_auth
    by (simp add: validateObjectStoragePolicy_def default_sections)
  show "Validate uni (default_config\<lparr>config_App := (config_App default_config)\<lparr>app_Env := ''production''\<rparr>\<rparr>) =
      Some (Errorf ''grpc tls must be enabled in production'')"
    unfolding Validate_def validate_servers_def Let_def
    by (simp add: fail_if_def default_sections production_def validMigrationTable_def lower_alpha_def
        lower_alnum_def positive_def)
qed

subsection \<open>Profiles\<close>

definition dir_part :: "string \<Rightarrow> string" where
  "dir_part path = rev (dropWhile (\<lambda>c. c \<noteq> CHR ''/'') (rev path))"

lemma dir_part_append: "CHR ''/'' \<notin> set x \<Longrightarrow> dir_part (s @ x) = dir_part s"
  by (auto simp: dir_part_def intro!: dropWhile_append2)

lemma validProfile_no_slash: "validProfile p \<Longrightarrow> CHR ''/'' \<notin> set p"
  by (cases p) (auto simp: validProfile_def lower_alnum_def Let_def list_all_iff)

lemma profileConfigPath_split:
  obtains stem where "path = stem @ filepath_Ext path"
    "\<And>profile. profileConfigPath path profile = stem @ ''-'' @ profile @ filepath_Ext path"
proof -
  obtain stem where stem: "path = stem @ filepath_Ext path" using filepath_Ext_suffix by blast
  then have "take (length path - length (filepath_Ext path)) path = stem"
    by (metis append_eq_conv_conj diff_add_inverse2 length_append)
  then show thesis by (intro that [OF stem]) (simp add: profileConfigPath_def Let_def)
qed

text \<open>
  A profile selects a file of its own beside the base file: the profile's name cannot lead to
  another directory, the file is never the base file, and two profiles never share one.
\<close>

lemma profile_file_beside_base:
  assumes "validProfile profile"
  shows "dir_part (profileConfigPath path profile) = dir_part path \<and>
    profileConfigPath path profile \<noteq> path \<and>
    (profileConfigPath path other = profileConfigPath path profile \<longleftrightarrow> other = profile)"
proof -
  obtain stem where stem: "path = stem @ filepath_Ext path"
    "\<And>profile. profileConfigPath path profile = stem @ ''-'' @ profile @ filepath_Ext path"
    using profileConfigPath_split by blast
  have "dir_part (profileConfigPath path profile) = dir_part stem" unfolding stem(2)
    by (rule dir_part_append) (use validProfile_no_slash [OF assms] filepath_Ext_no_slash in auto)
  moreover have "dir_part path = dir_part stem"
    by (subst stem(1)) (rule dir_part_append [OF filepath_Ext_no_slash])
  moreover have "profileConfigPath path profile \<noteq> path"
    using arg_cong [OF stem(2) [of profile], of length] arg_cong [OF stem(1), of length] by auto
  ultimately show ?thesis unfolding stem(2) by simp
qed

subsection \<open>Lists in settings\<close>

text \<open>Printable ASCII without white space, commas and quotation marks.\<close>

definition plain_item :: "string \<Rightarrow> bool" where
  "plain_item v = list_all (\<lambda>c. let n = of_char c :: nat in
     33 \<le> n \<and> n \<le> 126 \<and> c \<noteq> CHR '','' \<and> c \<noteq> CHR 0x22 \<and> c \<noteq> CHR 0x27) v"

fun join_commas :: "string list \<Rightarrow> string" where
  "join_commas [] = []"
| "join_commas [v] = v"
| "join_commas (v # w # vs) = v @ '','' @ join_commas (w # vs)"

text \<open>A list as an environment variable: plain, or as a JSON array of strings.\<close>

definition quoted :: "string \<Rightarrow> string" where
  "quoted v = [CHR 0x22] @ v @ [CHR 0x22]"

definition array_literal :: "string list \<Rightarrow> string" where
  "array_literal vs = ''['' @ join_commas (map quoted vs) @ '']''"

definition solid :: "string \<Rightarrow> bool" where
  "solid s = list_all (\<lambda>c. let n = of_char c :: nat in 33 \<le> n \<and> n \<le> 126) s"

lemma solid_simps [simp]:
  "solid []" "solid (s @ t) \<longleftrightarrow> solid s \<and> solid t"
  "solid (c # s) \<longleftrightarrow> 33 \<le> (of_char c :: nat) \<and> (of_char c :: nat) \<le> 126 \<and> solid s"
  by (auto simp: solid_def Let_def)

lemma solid_space_len: "solid s \<Longrightarrow> space_len s = 0"
  by (cases s) (auto simp: space_len_def byte_def)

lemma solid_drop: "solid s \<Longrightarrow> solid (drop n s)"
  by (metis append_take_drop_id solid_simps(2))

lemma TrimSpace_solid: "solid s \<Longrightarrow> TrimSpace s = s"
  by (simp add: TrimSpace_def solid_space_len trim_right_space_idle space_end_def solid_drop)

lemma plain_item_solid: "plain_item v \<Longrightarrow> solid v \<and> CHR '','' \<notin> set v"
  by (auto simp: plain_item_def solid_def list_all_iff Let_def)

lemma solid_join: "list_all solid vs \<Longrightarrow> solid (join_commas vs)"
  by (induction vs rule: join_commas.induct) auto

lemma Split_head: "CHR '','' \<notin> set v \<Longrightarrow> Split (v @ CHR '','' # s) (CHR '','') = v # Split s (CHR '','')"
  by (induction v) auto

lemma Split_whole: "CHR '','' \<notin> set v \<Longrightarrow> Split v (CHR '','') = [v]"
  by (induction v) auto

lemma Split_join:
  "vs \<noteq> [] \<Longrightarrow> list_all (\<lambda>v. CHR '','' \<notin> set v) vs \<Longrightarrow> Split (join_commas vs) (CHR '','') = vs"
  by (induction vs rule: join_commas.induct) (auto simp: Split_head Split_whole)

lemma dropWhile_quotes:
  "plain_item v \<Longrightarrow> dropWhile (\<lambda>c. c = CHR 0x22 \<or> c = CHR 0x27) (v @ s) =
     (if v = [] then dropWhile (\<lambda>c. c = CHR 0x22 \<or> c = CHR 0x27) s else v @ s)"
  by (cases v) (auto simp: plain_item_def)

lemma plain_item_rev [simp]: "plain_item (rev v) = plain_item v"
  by (simp add: plain_item_def)

lemma trim_quotes_plain:
  assumes "plain_item v"
  shows "trim_quotes v = v" "trim_quotes (quoted v) = v"
  using dropWhile_quotes [OF assms, of "[]"] dropWhile_quotes [OF assms, of "[CHR 0x22]"]
    dropWhile_quotes [of "rev v" "[]"] dropWhile_quotes [of "rev v" "[CHR 0x22]"] assms
  by (auto simp: trim_quotes_def quoted_def Let_def)

text \<open>
  A list setting survives the environment: the decode hook returns exactly the items of a
  list written as a JSON array of strings, and of a list written with commas (unless that text
  itself looks like an array), for items of printable ASCII without commas, quotes and spaces.
\<close>

lemma list_settings_round_trip:
  assumes "list_all plain_item vs"
  shows "stringToStringSliceHook (array_literal vs) = vs \<and>
    (list_all (\<lambda>v. v \<noteq> []) vs \<and> \<not> prefix ''['' (join_commas vs) \<longrightarrow>
      stringToStringSliceHook (join_commas vs) = vs)"
proof -
  have q: "list_all solid (map quoted vs)" "list_all (\<lambda>v. CHR '','' \<notin> set v) (map quoted vs)"
    and p: "list_all solid vs" "list_all (\<lambda>v. CHR '','' \<notin> set v) vs"
    using assms plain_item_solid by (auto simp: list_all_iff quoted_def)
  have body: "TrimSpace (join_commas (map quoted vs)) = join_commas (map quoted vs)"
    by (rule TrimSpace_solid [OF solid_join [OF q(1)]])
  have whole: "TrimSpace (array_literal vs) = array_literal vs"
    by (rule TrimSpace_solid) (simp add: array_literal_def solid_join [OF q(1)])
  have items: "map (\<lambda>v. trim_quotes (TrimSpace v)) (map quoted vs) = vs"
    "map (\<lambda>v. trim_quotes (TrimSpace v)) vs = vs"
    using assms q(1) p(1) by (auto simp: list_all_iff TrimSpace_solid trim_quotes_plain intro!: map_idI)
  have "stringToStringSliceHook (array_literal vs) = vs"
  proof (cases "vs = []")
    case True
    then show ?thesis using whole by (simp add: stringToStringSliceHook_def array_literal_def suffix_def)
  next
    case False
    then have ne: "join_commas (map quoted vs) \<noteq> []"
      by (cases vs rule: join_commas.cases) (auto simp: quoted_def)
    show ?thesis unfolding stringToStringSliceHook_def Let_def whole
      using Split_join [OF _ q(2)] ne False items(1)
      by (simp add: array_literal_def suffix_def body)
  qed
  moreover have "stringToStringSliceHook (join_commas vs) = vs"
    if "list_all (\<lambda>v. v \<noteq> []) vs" "\<not> prefix ''['' (join_commas vs)"
  proof (cases "vs = []")
    case False
    then have "join_commas vs \<noteq> []" using that(1) by (cases vs rule: join_commas.cases) auto
    then show ?thesis unfolding stringToStringSliceHook_def Let_def
        TrimSpace_solid [OF solid_join [OF p(1)]]
      using that(2) Split_join [OF False p(2)] items(2) by simp
  qed (simp add: stringToStringSliceHook_def Let_def)
  ultimately show ?thesis by blast
qed

subsection \<open>Loading\<close>

lemma Validate_Runtime [simp]: "Validate uni (c\<lparr>config_Runtime := r\<rparr>) = Validate uni c"
  by (simp add: Validate_def validate_blocks production_def)

lemma finish_config_ok:
  assumes "finish_config vp uni v profile loaded = Inr cfg"
  shows "Validate uni cfg = None" "runtime_ActiveProfile (config_Runtime cfg) = profile"
    "runtime_ConfigFiles (config_Runtime cfg) = loaded"
    "migration_Schema (config_Migration cfg) = database_Schema (config_Database cfg)"
    "migration_DatabaseName (config_Migration cfg) = database_Name (config_Database cfg)"
    "\<exists>raw. viper_Unmarshal vp (viper_Set vp v ''app.env'' profile) stringToStringSliceHook = Inr raw \<and>
       config_App cfg = config_App raw"
  using assms by (auto simp: finish_config_def Let_def split: sum.splits option.splits)

lemma merge_profile_files:
  "merge_profile vp uni v path profilePath = Inr (v', loaded) \<Longrightarrow>
     loaded = [path] \<or> loaded = [path, profilePath] \<and> profilePath \<noteq> path"
  by (auto simp: merge_profile_def split: if_splits option.splits sum.splits)

text \<open>
  What \<open>LoadWithProfile\<close> returns has been validated, with the profile it names: the
  active profile is well formed, it is the explicit one when one is given, the environment of the
  configuration is that profile, the files read are the base file and at most the profile's file,
  and migrations use the schema and database of the connection.
\<close>

lemma loaded_config_is_valid:
  assumes "LoadWithProfile vp lower uni path explicit = Inr cfg"
    and "\<And>v p raw. viper_Unmarshal vp (viper_Set vp v ''app.env'' p) stringToStringSliceHook = Inr raw \<Longrightarrow>
      app_Env (config_App raw) = p"
  shows "Validate uni cfg = None \<and>
    validProfile (app_Env (config_App cfg)) \<and>
    runtime_ActiveProfile (config_Runtime cfg) = app_Env (config_App cfg) \<and>
    (ToLower lower (TrimSpace explicit) = [] \<or> app_Env (config_App cfg) = ToLower lower (TrimSpace explicit)) \<and>
    runtime_ConfigFiles (config_Runtime cfg) \<in>
      {[path], [path, profileConfigPath path (app_Env (config_App cfg))]} \<and>
    migration_Schema (config_Migration cfg) = database_Schema (config_Database cfg) \<and>
    migration_DatabaseName (config_Migration cfg) = database_Name (config_Database cfg)"
proof -
  obtain v v' profile loaded where p: "validProfile profile"
    "ToLower lower (TrimSpace explicit) = [] \<or> profile = ToLower lower (TrimSpace explicit)"
    and m: "merge_profile vp uni v path (profileConfigPath path profile) = Inr (v', loaded)"
    and f: "finish_config vp uni v' profile loaded = Inr cfg"
    using assms(1) by (auto simp: LoadWithProfile_def Let_def split: sum.splits if_splits)
  note fin = finish_config_ok [OF f]
  have "app_Env (config_App cfg) = profile" using fin(6) assms(2) by auto
  with p fin(1-5) merge_profile_files [OF m] show ?thesis by auto
qed

text \<open>
  The limits reach the service: the file service built from an accepted configuration with
  object storage has a positive upload lifetime and a positive cleanup batch, scans exactly when
  the configuration says so, and its storage has positive URL lifetimes and upload sizes.
\<close>

lemma accepted_limits_reach_the_service:
  assumes "Validate uni cfg = None" "objectstorage_Enabled (config_ObjectStorage cfg)"
    and "NewRuntimeService available storage cfg applications = Inr sv"
  shows "0 < sint (sv_uploadSessionTTL sv) \<and> 0 < sint (sv_cleanupBatchSize sv) \<and>
    sv_scanRequired sv = objectstorage_ScanRequired (config_ObjectStorage cfg) \<and>
    sv_storage sv = storage \<and>
    0 < sint (objectstorage_PresignTTL (config_ObjectStorage cfg)) \<and>
    0 < sint (objectstorage_MaxUploadBytes (config_ObjectStorage cfg))"
proof -
  have "validateObjectStoragePolicy (config_ObjectStorage cfg) (production cfg) = None"
    using assms(1) unfolding Validate_None by blast
  with assms(2,3) show ?thesis
    by (auto simp: validateObjectStoragePolicy_def first_error_None positive_def NewRuntimeService_def
        NewService_def split: option.splits)
qed

subsection \<open>A concrete configuration\<close>

definition demo_upstream :: cfg_GRPCUpstream where
  "demo_upstream =
     \<lparr>grpcupstream_Target = ''authz:9090'', grpcupstream_Timeout = seconds 2,
      grpcupstream_Auth = \<lparr>clientauth_Type = ''psk'', clientauth_Token = ''token''\<rparr>,
      grpcupstream_Retry = \<lparr>retry_MaxAttempts = 3, retry_InitialBackoff = seconds 1,
        retry_MaxBackoff = seconds 1, retry_Methods = [''/grpc.health.v1.Health/*'']\<rparr>,
      grpcupstream_Breaker = \<lparr>breaker_Enabled = True, breaker_FailureThreshold = 5,
        breaker_OpenTimeout = seconds 30\<rparr>,
      grpcupstream_TLS = \<lparr>clienttls_Enabled = True, clienttls_ServerName = [], clienttls_CAFile = [],
        clienttls_CertFile = [], clienttls_KeyFile = []\<rparr>\<rparr>"

definition demo_production :: cfg_Config where
  "demo_production = default_config
     \<lparr>config_App := (config_App default_config)\<lparr>app_Env := ''production''\<rparr>,
      config_GRPC := default_GRPC\<lparr>grpc_ReflectionEnabled := False,
        grpc_TLS := \<lparr>grpctls_Enabled = True, grpctls_CertFile = ''cert'', grpctls_KeyFile = ''key'',
          grpctls_ClientCAFile = []\<rparr>\<rparr>,
      config_Swagger := \<lparr>swagger_Enabled = False, swagger_RequireAuth = False\<rparr>,
      config_Auth := default_Auth\<lparr>auth_JWKSURL := ''https://id/jwks''\<rparr>,
      config_Authorization := \<lparr>authorization_Enabled = True\<rparr>,
      config_Outbound := \<lparr>outbound_HTTP = [], outbound_GRPC = [(''authorization'', demo_upstream)]\<rparr>,
      config_ObjectStorage := default_ObjectStorage\<lparr>objectstorage_Enabled := True,
        objectstorage_AccessKey := ''k'', objectstorage_SecretKey := ''s'', objectstorage_UseSSL := True\<rparr>\<rparr>"

lemma demo_upstream_valid: "validate_grpc_upstream (n, demo_upstream) = None"
proof -
  have "path_Match ''/grpc.health.v1.Health/*'' ''/validation/target'' = Inr False" by code_simp
  then show ?thesis
    by (simp add: validate_grpc_upstream_def validateClientPolicy_def first_error_None demo_upstream_def
        check_retry_method_def)
qed

lemma demo_production_valid: "Validate uni demo_production = None"
proof -
  have "first_error (validate_stores demo_production) = None" "first_error (validate_runtime uni demo_production) = None"
    by (simp_all add: validate_stores_def validate_runtime_def first_error_None demo_production_def
        default_sections production_def)
  moreover have "first_error (validate_servers demo_production) = None"
    by (simp add: validate_servers_def first_error_None demo_production_def default_sections
        production_def validMigrationTable_def lower_alpha_def lower_alnum_def positive_def)
  moreover have "first_error (validate_observability demo_production) = None"
    by (simp add: validate_observability_def first_error_None demo_production_def default_sections
        production_def)
  moreover have "first_error (validate_auth uni demo_production) = None"
  proof -
    have "path_Match ''/api/v1/version'' ''/validation/target'' = Inr False"
      "path_Match ''/grpc.health.v1.Health/*'' ''/validation/target'' = Inr False" by code_simp+
    then show ?thesis
      by (simp add: validate_auth_def first_error_None demo_production_def default_sections
          production_def check_http_path_def check_grpc_method_def)
  qed
  moreover have "validateObjectStoragePolicy (config_ObjectStorage demo_production) True = None"
    by (simp add: validateObjectStoragePolicy_def first_error_None demo_production_def default_sections
        positive_def [of 1073741824] positive_def [of 100])
  ultimately show ?thesis unfolding Validate_None
    by (simp add: demo_production_def default_config_def demo_upstream_valid production_def)
qed

definition demo_viper :: "string viper" where
  "demo_viper =
     \<lparr>viper_New = (\<lambda>path. ''development''), viper_BindEnv = Inr, viper_ReadInConfig = Inr,
      viper_GetString = (\<lambda>v key. v), viper_Stat = (\<lambda>path. None),
      viper_MergeInConfig = (\<lambda>v path. Inr v), viper_Set = (\<lambda>v key p. p),
      viper_Unmarshal = (\<lambda>v hook. Inr (default_config\<lparr>config_App :=
        (config_App default_config)\<lparr>app_Env := v\<rparr>\<rparr>))\<rparr>"

lemma demo_production_env: "app_Env (config_App demo_production) = ''production''"
  by (simp add: demo_production_def)

theorem accepted_patterns_never_fail_witness:
  "\<exists>b. path_Match ''/grpc.health.v1.Health/*'' ''/grpc.health.v1.Health/Check'' = Inr b"
  by (rule accepted_patterns_never_fail [OF demo_production_valid])
    (simp add: route_patterns_def demo_production_def default_sections)

lemma relaxed_routes_inside_api_witness:
  "prefix ''/api/'' ''/api/v1/version'' \<and>
    auth_SkipHTTPPaths (config_Auth default_config) = [''/api/v1/version'']"
proof -
  have "path_Match ''/api/v1/version'' ''/api/v1/version'' = Inr True" by code_simp
  then have "MatchesAny ''/api/v1/version''
      (auth_SkipHTTPPaths (config_Auth demo_production) @ psk_HTTPPaths (auth_PSK (config_Auth demo_production)))"
    unfolding MatchesAny_iff by (simp add: demo_production_def default_sections)
  from relaxed_routes_inside_api [OF demo_production_valid this] show ?thesis
    by (simp add: default_sections)
qed

theorem production_config_is_safe_witness:
  "grpctls_Enabled (grpc_TLS (config_GRPC demo_production)) \<and>
    objectstorage_UseSSL (config_ObjectStorage demo_production) \<and>
    authorization_Enabled (config_Authorization demo_production)"
proof -
  have "grpc_Enabled (config_GRPC demo_production)" "objectstorage_Enabled (config_ObjectStorage demo_production)"
    by (simp_all add: demo_production_def default_sections)
  with production_config_is_safe [OF demo_production_valid demo_production_env] show ?thesis by blast
qed


lemma profile_file_beside_base_witness:
  "dir_part (profileConfigPath ''etc/config.yaml'' ''production'') = dir_part ''etc/config.yaml'' \<and>
    profileConfigPath ''etc/config.yaml'' ''production'' \<noteq> ''etc/config.yaml''"
  using profile_file_beside_base [of "''production''" "''etc/config.yaml''" "''staging''"]
  by (simp add: validProfile_def lower_alnum_def)

lemma list_settings_round_trip_witness:
  "stringToStringSliceHook (array_literal [''/api/v1/me'', ''/api/v1/files/*'']) =
      [''/api/v1/me'', ''/api/v1/files/*''] \<and>
    stringToStringSliceHook ''/api/v1/me,/api/v1/files/*'' = [''/api/v1/me'', ''/api/v1/files/*'']"
  using list_settings_round_trip [of "[''/api/v1/me'', ''/api/v1/files/*'']"]
  by (simp add: plain_item_def)

lemma default_AutoUp: "\<not> migration_AutoUp (config_Migration default_config)"
  by (simp add: default_sections)

lemma demo_staging_valid:
  assumes "app_Env a \<noteq> ''production''" "\<not> migration_AutoUp m"
  shows "Validate uni (default_config\<lparr>config_App := a, config_Migration := m\<rparr>) = None"
proof -
  let ?c = "default_config\<lparr>config_App := a, config_Migration := m\<rparr>"
  have "\<not> production ?c" "\<not> production default_config" using assms(1) by (simp_all add: production_def default_config_def)
  then have "validate_servers ?c = validate_servers default_config"
    "validate_stores ?c = validate_stores default_config"
    "validate_observability ?c = validate_observability default_config"
    "validate_auth uni ?c = validate_auth uni default_config"
    "validate_runtime uni ?c = validate_runtime uni default_config"
    using assms(2) by (simp_all add: validate_blocks default_config_def default_Migration_def)
  then show ?thesis unfolding Validate_None using default_blocks default_auth
    by (simp add: validateObjectStoragePolicy_def default_sections)
qed

lemma loaded_config_is_valid_witness:
  "\<exists>cfg. LoadWithProfile demo_viper (\<lambda>s. s) (\<lambda>s. s) ''etc/config.yaml'' ''Staging'' = Inr cfg \<and>
    Validate (\<lambda>s. s) cfg = None \<and> app_Env (config_App cfg) = ''staging''"
proof -
  have p: "ToLower (\<lambda>s. s) (TrimSpace ''Staging'') = ''staging''"
    "profileConfigPath ''etc/config.yaml'' ''staging'' = ''etc/config-staging.yaml''" by code_simp+
  have "LoadWithProfile demo_viper (\<lambda>s. s) (\<lambda>s. s) ''etc/config.yaml'' ''Staging'' =
      finish_config demo_viper (\<lambda>s. s) ''development'' ''staging'' [''etc/config.yaml'', ''etc/config-staging.yaml'']"
    unfolding LoadWithProfile_def p
    by (simp add: demo_viper_def p merge_profile_def validProfile_def lower_alnum_def)
  also have "\<exists>cfg. finish_config demo_viper (\<lambda>s. s) ''development'' ''staging''
      [''etc/config.yaml'', ''etc/config-staging.yaml''] = Inr cfg"
    by (simp add: finish_config_def Let_def demo_viper_def demo_staging_valid default_AutoUp)
  finally obtain cfg where cfg:
    "LoadWithProfile demo_viper (\<lambda>s. s) (\<lambda>s. s) ''etc/config.yaml'' ''Staging'' = Inr cfg" by blast
  have "app_Env (config_App raw) = p"
    if "viper_Unmarshal demo_viper (viper_Set demo_viper v ''app.env'' p) stringToStringSliceHook = Inr raw" for v p raw
    using that by (auto simp: demo_viper_def)
  from loaded_config_is_valid [OF cfg this] cfg p(1) show ?thesis by auto
qed

lemma accepted_limits_reach_the_service_witness:
  "\<exists>sv :: nat Service. NewRuntimeService True (S3_Storage \<lparr>s3_client = None, s3_presignClient = None,
      s3_cfg = config_ObjectStorage demo_production\<rparr>) demo_production (Some allowAllApplications) = Inr sv \<and>
    0 < sint (sv_uploadSessionTTL sv) \<and> 0 < sint (sv_cleanupBatchSize sv)"
proof -
  let ?new = "NewRuntimeService True (S3_Storage \<lparr>s3_client = None, s3_presignClient = None,
      s3_cfg = config_ObjectStorage demo_production\<rparr>) demo_production (Some allowAllApplications) :: go_error + nat Service"
  obtain sv where sv: "?new = Inr sv" by (simp add: NewRuntimeService_def)
  have "objectstorage_Enabled (config_ObjectStorage demo_production)"
    by (simp add: demo_production_def default_sections)
  from accepted_limits_reach_the_service [OF demo_production_valid this sv] sv show ?thesis by blast
qed

end
