(* ===== verification/Outbound.thy ===== *)
theory Outbound
  imports Config Auth Observability
begin

text \<open>
  Calls to other services: \<^verbatim>\<open>internal/outbound\<close> and \<^verbatim>\<open>internal/grpcclient\<close>.
  Both clients send a request, look at the outcome, wait and try again; the loops are modelled as
  they are written, over a state \<open>'x\<close> of the outside world. The network, URLs, the files of
  the TLS setup and the circuit breaker library are parameters: of the breaker the model keeps
  whether it admits a call and what it is told of the outcome.
\<close>

type_synonym ('x, 'a) outside = "'x \<Rightarrow> 'a \<times> 'x"

subsection \<open>TLS setup\<close>

record tls_files =
  tf_LoadX509KeyPair :: "string \<Rightarrow> string \<Rightarrow> go_error + string"
  tf_ReadFile :: "string \<Rightarrow> go_error + string"
  tf_AppendCertsFromPEM :: "string \<Rightarrow> string option"

datatype tls_version = TLS12

record tls_Config =
  tc_MinVersion :: tls_version
  tc_ServerName :: string
  tc_RootCAs :: "string option"
  tc_Certificates :: "string list"
  tc_ClientCAs :: "string option"
  tc_RequireAndVerifyClientCert :: bool

definition base_tls :: "string \<Rightarrow> tls_Config" where
  "base_tls name = \<lparr>tc_MinVersion = TLS12, tc_ServerName = name, tc_RootCAs = None, tc_Certificates = [],
     tc_ClientCAs = None, tc_RequireAndVerifyClientCert = False\<rparr>"

text \<open>A certificate pool from a file; \<open>what\<close> names it in the errors.\<close>

definition load_pool :: "tls_files \<Rightarrow> string \<Rightarrow> string \<Rightarrow> go_error + string" where
  "load_pool F what file =
     (case tf_ReadFile F file of
        Inl err \<Rightarrow> Inl (Wrapf (''read '' @ what) err)
      | Inr pem \<Rightarrow>
          (case tf_AppendCertsFromPEM F pem of
             None \<Rightarrow> Inl (Errorf (''parse '' @ what))
           | Some pool \<Rightarrow> Inr pool))"

definition httpTransport :: "tls_files \<Rightarrow> cfg_ClientTLS \<Rightarrow> go_error + tls_Config" where
  "httpTransport F cfg =
     (case (if clienttls_CAFile cfg = [] then Inr None
            else map_sum id Some (load_pool F ''outbound HTTP CA'' (clienttls_CAFile cfg))) of
        Inl err \<Rightarrow> Inl err
      | Inr roots \<Rightarrow>
          let tls = (base_tls (clienttls_ServerName cfg))\<lparr>tc_RootCAs := roots\<rparr> in
          if clienttls_CertFile cfg = [] then Inr tls
          else case tf_LoadX509KeyPair F (clienttls_CertFile cfg) (clienttls_KeyFile cfg) of
              Inl err \<Rightarrow> Inl (Wrapf ''load outbound HTTP client certificate'' err)
            | Inr certificate \<Rightarrow> Inr (tls\<lparr>tc_Certificates := [certificate]\<rparr>))"

text \<open>\<open>None\<close> stands for the insecure credentials.\<close>

definition transportCredentials :: "tls_files \<Rightarrow> cfg_ClientTLS \<Rightarrow> go_error + tls_Config option" where
  "transportCredentials F cfg =
     (if \<not> clienttls_Enabled cfg then Inr None
      else case (if clienttls_CAFile cfg = [] then Inr None
            else map_sum id Some (load_pool F ''grpc CA'' (clienttls_CAFile cfg))) of
          Inl err \<Rightarrow> Inl err
        | Inr roots \<Rightarrow>
            let tls = (base_tls (clienttls_ServerName cfg))\<lparr>tc_RootCAs := roots\<rparr> in
            if clienttls_CertFile cfg = [] \<and> clienttls_KeyFile cfg = [] then Inr (Some tls)
            else if clienttls_CertFile cfg = [] \<or> clienttls_KeyFile cfg = []
              then Inl (Errorf ''grpc client certificate and key must be configured together'')
            else case tf_LoadX509KeyPair F (clienttls_CertFile cfg) (clienttls_KeyFile cfg) of
                Inl err \<Rightarrow> Inl (Wrapf ''load grpc client certificate'' err)
              | Inr certificate \<Rightarrow> Inr (Some (tls\<lparr>tc_Certificates := [certificate]\<rparr>)))"

text \<open>The credentials of the gRPC server.\<close>

definition serverCredentials :: "tls_files \<Rightarrow> cfg_GRPCTLS \<Rightarrow> go_error + tls_Config" where
  "serverCredentials F cfg =
     (case tf_LoadX509KeyPair F (grpctls_CertFile cfg) (grpctls_KeyFile cfg) of
        Inl err \<Rightarrow> Inl (Wrapf ''load grpc certificate'' err)
      | Inr certificate \<Rightarrow>
          let tls = (base_tls [])\<lparr>tc_Certificates := [certificate]\<rparr> in
          if grpctls_ClientCAFile cfg = [] then Inr tls
          else case load_pool F ''grpc client CA'' (grpctls_ClientCAFile cfg) of
              Inl err \<Rightarrow> Inl err
            | Inr pool \<Rightarrow> Inr (tls\<lparr>tc_ClientCAs := Some pool, tc_RequireAndVerifyClientCert := True\<rparr>))"

subsection \<open>Backoff\<close>

text \<open>
  The conversions between int64 and float64: rounding to 53 significant bits, ties to even; and back
  by truncation, where a value out of range gives the smallest int64, as on amd64.
\<close>

fun bit_length :: "nat \<Rightarrow> nat" where
  "bit_length n = (if n = 0 then 0 else Suc (bit_length (n div 2)))"

declare bit_length.simps [simp del]

definition float_round :: "int \<Rightarrow> int" where
  "float_round n =
     (if \<bar>n\<bar> \<le> 2 ^ 53 then n
      else let e = bit_length (nat \<bar>n\<bar>) - 53; q = \<bar>n\<bar> div 2 ^ e; r = \<bar>n\<bar> mod 2 ^ e;
               up = (2 ^ e < 2 * r \<or> 2 ^ e = 2 * r \<and> odd q)
           in sgn n * (if up then q + 1 else q) * 2 ^ e)"

definition int64_of_float :: "int \<Rightarrow> int64" where
  "int64_of_float n = (if - (2 ^ 63) \<le> n \<and> n < 2 ^ 63 then word_of_int n else word_of_int (- (2 ^ 63)))"

text \<open>The delay of \<open>waitBackoff\<close> before it is capped: a float product with a power of two.\<close>

definition http_delay :: "cfg_Retry \<Rightarrow> int \<Rightarrow> duration" where
  "http_delay retry attempt =
     (let delay = int64_of_float (float_round (sint (retry_InitialBackoff retry)) * 2 ^ nat (attempt - 1)) in
      if sint (retry_MaxBackoff retry) < sint delay then retry_MaxBackoff retry else delay)"

text \<open>The delay of \<open>waitRetry\<close>: a shift of the 64-bit value.\<close>

definition grpc_delay :: "cfg_Retry \<Rightarrow> int \<Rightarrow> duration" where
  "grpc_delay cfg attempt =
     (let delay = push_bit (nat (attempt - 1)) (retry_InitialBackoff cfg) in
      if sint (retry_MaxBackoff cfg) < sint delay then retry_MaxBackoff cfg else delay)"

subsection \<open>The HTTP client\<close>

text \<open>How a call counts for the breaker: an excluded outcome is neither a success nor a failure.\<close>

datatype breaker_outcome = BreakerSuccess | BreakerFailure | BreakerExcluded

record http_request =
  rq_method :: string
  rq_target :: string
  rq_headers :: "(string \<times> string) list"
  rq_body :: string

record http_response =
  rs_StatusCode :: nat
  rs_Body :: string

text \<open>
  \<open>oh_parse\<close> is \<open>url.Parse\<close> with what the code asks of a URL: its scheme and host;
  \<open>oh_resolve\<close> resolves a reference. \<open>oh_request\<close> is the error of building a request,
  \<open>oh_Do\<close> the transport, \<open>oh_wait\<close> the timer or the end of the context.
\<close>

record 'x outbound_http =
  oh_parse :: "string \<Rightarrow> (string \<times> string) option"
  oh_resolve :: "string \<Rightarrow> string \<Rightarrow> string"
  oh_request :: "string \<Rightarrow> string \<Rightarrow> go_error option"
  oh_Do :: "http_request \<Rightarrow> ('x, go_error + http_response) outside"
  oh_wait :: "duration \<Rightarrow> ('x, go_error option) outside"
  oh_admit :: "('x, go_error option) outside"
  oh_report :: "breaker_outcome \<Rightarrow> ('x, unit) outside"

record HTTPClient =
  hc_name :: string
  hc_cfg :: cfg_HTTPUpstream
  hc_tls :: tls_Config

definition NewHTTPClient ::
    "(string \<Rightarrow> string) \<Rightarrow> 'x outbound_http \<Rightarrow> tls_files \<Rightarrow> string \<Rightarrow> cfg_HTTPUpstream \<Rightarrow> go_error + HTTPClient" where
  "NewHTTPClient uni N F name cfg =
     (if clientauth_Type (httpupstream_Auth cfg) \<noteq> [] \<and> \<not> clienttls_Enabled (httpupstream_TLS cfg)
      then Inl (Errorf ''refusing to send outbound HTTP credentials without TLS'')
      else case oh_parse N (httpupstream_BaseURL cfg) of
          None \<Rightarrow> Inl (Errorf (''parse outbound HTTP base URL '' @ Quote uni (httpupstream_BaseURL cfg)))
        | Some (scheme, host) \<Rightarrow>
            if scheme = [] \<or> host = []
            then Inl (Errorf (''parse outbound HTTP base URL '' @ Quote uni (httpupstream_BaseURL cfg)))
            else case httpTransport F (httpupstream_TLS cfg) of
                Inl err \<Rightarrow> Inl err
              | Inr tls \<Rightarrow> Inr \<lparr>hc_name = name, hc_cfg = cfg, hc_tls = tls\<rparr>)"

definition retryableMethod :: "bool \<Rightarrow> string \<Rightarrow> bool" where
  "retryableMethod has_key method \<longleftrightarrow>
     method = ''GET'' \<or> method = ''HEAD'' \<or> method = ''OPTIONS'' \<or> method = ''PUT'' \<or>
     method = ''DELETE'' \<or> has_key"

definition retryableHTTPStatus :: "nat \<Rightarrow> bool" where
  "retryableHTTPStatus status \<longleftrightarrow> status = 429 \<or> status = 502 \<or> status = 503 \<or> status = 504"

definition header_Set :: "string \<Rightarrow> string \<Rightarrow> (string \<times> string) list \<Rightarrow> (string \<times> string) list" where
  "header_Set k v hs = (k, v) # filter (\<lambda>(k', _). k' \<noteq> k) hs"

definition applyHTTPAuth :: "cfg_ClientAuth \<Rightarrow> (string \<times> string) list \<Rightarrow> (string \<times> string) list" where
  "applyHTTPAuth auth hs =
     (if clientauth_Type auth = ''bearer''
      then header_Set ''Authorization'' (''Bearer '' @ clientauth_Token auth) hs
      else if clientauth_Type auth = ''psk''
      then header_Set ''Authorization'' (''PSK '' @ clientauth_Token auth) hs
      else hs)"

definition build_request ::
    "cfg_HTTPUpstream \<Rightarrow> string \<Rightarrow> string \<Rightarrow> string \<Rightarrow> (string \<times> string) list \<Rightarrow> http_request" where
  "build_request cfg method target body headers =
     (let hs = (if body \<noteq> [] \<and> (map_of headers ''Content-Type'' = None \<or> map_of headers ''Content-Type'' = Some [])
                then header_Set ''Content-Type'' ''application/json'' headers else headers)
      in \<lparr>rq_method = method, rq_target = target, rq_headers = applyHTTPAuth (httpupstream_Auth cfg) hs,
          rq_body = body\<rparr>)"

text \<open>The loop of \<open>doWithRetry\<close>, from attempt \<open>n\<close>.\<close>

function http_loop ::
    "'x outbound_http \<Rightarrow> cfg_Retry \<Rightarrow> http_request \<Rightarrow> int \<Rightarrow> int \<Rightarrow> ('x, go_error + http_response) outside" where
  "http_loop N retry req maxAttempts attempt x =
     (if maxAttempts < attempt then (Inl (Errorf ''outbound HTTP attempts exhausted''), x)
      else case oh_request N (rq_method req) (rq_target req) of
          Some err \<Rightarrow> (Inl (Wrapf ''create outbound HTTP request'' err), x)
        | None \<Rightarrow>
            (case oh_Do N req x of (answer, x1) \<Rightarrow>
               (case answer of
                  Inr response \<Rightarrow>
                    if \<not> retryableHTTPStatus (rs_StatusCode response) \<or> attempt = maxAttempts
                    then (Inr response, x1)
                    else (case oh_wait N (http_delay retry attempt) x1 of
                        (Some err, x2) \<Rightarrow> (Inl err, x2)
                      | (None, x2) \<Rightarrow> http_loop N retry req maxAttempts (attempt + 1) x2)
                | Inl err \<Rightarrow>
                    if attempt = maxAttempts then (Inl (Wrapf ''call outbound HTTP service'' err), x1)
                    else (case oh_wait N (http_delay retry attempt) x1 of
                        (Some e, x2) \<Rightarrow> (Inl e, x2)
                      | (None, x2) \<Rightarrow> http_loop N retry req maxAttempts (attempt + 1) x2))))"
  by pat_completeness auto
termination
  by (relation "measure (\<lambda>(N, retry, req, maxAttempts, attempt, x). nat (maxAttempts + 1 - attempt))") auto

declare http_loop.simps [simp del]

definition doWithRetry ::
    "'x outbound_http \<Rightarrow> HTTPClient \<Rightarrow> bool \<Rightarrow> string \<Rightarrow> string \<Rightarrow> string \<Rightarrow> (string \<times> string) list \<Rightarrow>
      ('x, go_error + http_response) outside" where
  "doWithRetry N c has_key method requestPath body headers x =
     (case oh_parse N requestPath of
        None \<Rightarrow> (Inl (Errorf ''outbound HTTP path must be relative''), x)
      | Some (scheme, host) \<Rightarrow>
          if scheme \<noteq> [] \<or> host \<noteq> [] then (Inl (Errorf ''outbound HTTP path must be relative''), x)
          else
            let target = oh_resolve N (httpupstream_BaseURL (hc_cfg c)) requestPath;
                maxAttempts = (if retryableMethod has_key method
                  then sint (retry_MaxAttempts (httpupstream_Retry (hc_cfg c))) else 1)
            in http_loop N (httpupstream_Retry (hc_cfg c))
                 (build_request (hc_cfg c) method target body headers) maxAttempts 1 x)"

text \<open>
  \<open>execute\<close>: through the breaker, a response with a retryable status is reported as a failure
  and returned all the same.
\<close>

definition execute_http ::
    "'x outbound_http \<Rightarrow> HTTPClient \<Rightarrow> bool \<Rightarrow> string \<Rightarrow> string \<Rightarrow> string \<Rightarrow> (string \<times> string) list \<Rightarrow>
      ('x, go_error + http_response) outside" where
  "execute_http N c has_key method requestPath body headers x =
     (if \<not> breaker_Enabled (httpupstream_Breaker (hc_cfg c))
      then doWithRetry N c has_key method requestPath body headers x
      else case oh_admit N x of
          (Some err, x1) \<Rightarrow> (Inl err, x1)
        | (None, x1) \<Rightarrow>
            (case doWithRetry N c has_key method requestPath body headers x1 of
               (answer, x2) \<Rightarrow>
                 (answer, snd (oh_report N (case answer of
                     Inl err \<Rightarrow> if errors_Is err Canceled then BreakerExcluded else BreakerFailure
                   | Inr response \<Rightarrow> if retryableHTTPStatus (rs_StatusCode response) then BreakerFailure else BreakerSuccess)
                   x2))))"

text \<open>\<open>Do\<close> counts the call; a client may have no metrics.\<close>

definition HTTPClient_Do ::
    "'x outbound_http \<Rightarrow> 'x Metrics option \<Rightarrow> HTTPClient \<Rightarrow> bool \<Rightarrow> string \<Rightarrow> string \<Rightarrow> string \<Rightarrow> (string \<times> string) list \<Rightarrow>
      ('x, go_error + http_response) outside" where
  "HTTPClient_Do N metrics c has_key method requestPath body headers x =
     (case metrics of
        None \<Rightarrow> execute_http N c has_key method requestPath body headers x
      | Some m \<Rightarrow>
          (case pr_now (mt_library m) x of (started, x1) \<Rightarrow>
            (case execute_http N c has_key method requestPath body headers x1 of (answer, x2) \<Rightarrow>
               let status = (case answer of Inl _ \<Rightarrow> ''error'' | Inr response \<Rightarrow> itoa (int (rs_StatusCode response))) in
               (answer, snd (count_and_time m OutboundRequests [''http'', hc_name c, status]
                  OutboundDuration [''http'', hc_name c] started x2)))))"

subsection \<open>The gRPC client\<close>

datatype rpc_code = RpcOK | RpcUnavailable | RpcResourceExhausted | RpcDeadlineExceeded | RpcOther nat

record rpc_error =
  re_Code :: rpc_code
  re_Error :: go_error

definition status_Code :: "rpc_error option \<Rightarrow> rpc_code" where
  "status_Code err = (case err of None \<Rightarrow> RpcOK | Some e \<Rightarrow> re_Code e)"

record grpc_client_cfg =
  gcc_Target :: string
  gcc_Timeout :: duration
  gcc_Token :: string
  gcc_PSK :: string
  gcc_TLS :: cfg_ClientTLS
  gcc_AllowInsecureToken :: bool
  gcc_Name :: string
  gcc_Retry :: cfg_Retry
  gcc_Breaker :: cfg_Breaker

text \<open>The outgoing context of a call: the metadata added to it, its deadline, the caller's ids.\<close>

record rpc_ctx =
  rc_metadata :: "(string \<times> string) list"
  rc_deadline :: "duration option"
  rc_request_id :: "string option"
  rc_idempotency :: "string option"

type_synonym 'x invoker = "rpc_ctx \<Rightarrow> ('x, rpc_error option) outside"

record 'x outbound_grpc =
  og_wait :: "duration \<Rightarrow> ('x, rpc_error option) outside"
  og_admit :: "('x, rpc_error option) outside"
  og_report :: "breaker_outcome \<Rightarrow> ('x, unit) outside"
  og_code_text :: "rpc_code \<Rightarrow> string"

definition retryGRPCMethod :: "rpc_ctx \<Rightarrow> string \<Rightarrow> string list \<Rightarrow> bool" where
  "retryGRPCMethod ctx method patterns \<longleftrightarrow>
     rc_idempotency ctx \<noteq> None \<or> list_ex (\<lambda>p. path_Match p method = Inr True) patterns"

definition transient :: "rpc_error option \<Rightarrow> bool" where
  "transient err \<longleftrightarrow> status_Code err = RpcUnavailable \<or> status_Code err = RpcResourceExhausted"

text \<open>The loop of \<open>retryInterceptor\<close>; \<open>prev\<close> is the error of the previous attempt.\<close>

function grpc_loop ::
    "'x outbound_grpc \<Rightarrow> cfg_Retry \<Rightarrow> 'x invoker \<Rightarrow> rpc_ctx \<Rightarrow> rpc_error option \<Rightarrow> int \<Rightarrow> ('x, rpc_error option) outside" where
  "grpc_loop N cfg invoke ctx prev attempt x =
     (if sint (retry_MaxAttempts cfg) < attempt then (prev, x)
      else case invoke ctx x of (err, x1) \<Rightarrow>
        if \<not> transient err then (err, x1)
        else if attempt < sint (retry_MaxAttempts cfg)
          then (case og_wait N (grpc_delay cfg attempt) x1 of
              (Some e, x2) \<Rightarrow> (Some e, x2)
            | (None, x2) \<Rightarrow> grpc_loop N cfg invoke ctx err (attempt + 1) x2)
        else grpc_loop N cfg invoke ctx err (attempt + 1) x1)"
  by pat_completeness auto
termination
  by (relation "measure (\<lambda>(N, cfg, invoke, ctx, prev, attempt, x). nat (sint (retry_MaxAttempts cfg) + 1 - attempt))")
    auto

declare grpc_loop.simps [simp del]

definition retryInterceptor :: "'x outbound_grpc \<Rightarrow> cfg_Retry \<Rightarrow> string \<Rightarrow> 'x invoker \<Rightarrow> 'x invoker" where
  "retryInterceptor N cfg method invoke ctx x =
     (if \<not> retryGRPCMethod ctx method (retry_Methods cfg) then invoke ctx x
      else grpc_loop N cfg invoke ctx None 1 x)"

definition timeoutInterceptor :: "duration \<Rightarrow> 'x invoker \<Rightarrow> 'x invoker" where
  "timeoutInterceptor timeout invoke ctx =
     (if rc_deadline ctx \<noteq> None then invoke ctx else invoke (ctx\<lparr>rc_deadline := Some timeout\<rparr>))"

definition metadataInterceptor :: "string \<Rightarrow> string \<Rightarrow> 'x invoker \<Rightarrow> 'x invoker" where
  "metadataInterceptor token psk invoke ctx =
     (let auth = (if token \<noteq> [] then [(''authorization'', ''Bearer '' @ token)]
                  else if psk \<noteq> [] then [(''authorization'', ''PSK '' @ psk)] else []);
          rid = (case rc_request_id ctx of Some i \<Rightarrow> if i \<noteq> [] then [(''x-request-id'', i)] else [] | None \<Rightarrow> []);
          key = (case rc_idempotency ctx of Some k \<Rightarrow> [(''idempotency-key'', k)] | None \<Rightarrow> [])
      in invoke (ctx\<lparr>rc_metadata := rc_metadata ctx @ auth @ rid @ key\<rparr>))"

definition breaker_excluded :: "rpc_error option \<Rightarrow> bool" where
  "breaker_excluded err \<longleftrightarrow> \<not> transient err \<and> status_Code err \<noteq> RpcDeadlineExceeded"

definition breakerInterceptor :: "'x outbound_grpc \<Rightarrow> 'x invoker \<Rightarrow> 'x invoker" where
  "breakerInterceptor N invoke ctx x =
     (case og_admit N x of
        (Some err, x1) \<Rightarrow> (Some err, x1)
      | (None, x1) \<Rightarrow>
          (case invoke ctx x1 of (err, x2) \<Rightarrow>
             (err, snd (og_report N (if breaker_excluded err then BreakerExcluded
                else if err = None then BreakerSuccess else BreakerFailure) x2))))"

definition client_metricsInterceptor :: "'x outbound_grpc \<Rightarrow> string \<Rightarrow> 'x Metrics \<Rightarrow> 'x invoker \<Rightarrow> 'x invoker" where
  "client_metricsInterceptor N name m invoke ctx x =
     (case pr_now (mt_library m) x of (started, x1) \<Rightarrow>
        (case invoke ctx x1 of (err, x2) \<Rightarrow>
           (err, snd (count_and_time m OutboundRequests [''grpc'', name, og_code_text N (status_Code err)]
              OutboundDuration [''grpc'', name] started x2))))"

text \<open>\<open>Dial\<close>: the checks, and the chain of interceptors around the transport's invoker.\<close>

definition Dial_check :: "tls_files \<Rightarrow> grpc_client_cfg \<Rightarrow> go_error + tls_Config option" where
  "Dial_check F cfg =
     (if gcc_Target cfg = [] then Inl (Errorf ''grpc client target is required'')
      else if sint (gcc_Timeout cfg) \<le> 0 then Inl (Errorf ''grpc client timeout must be positive'')
      else case transportCredentials F (gcc_TLS cfg) of
          Inl err \<Rightarrow> Inl err
        | Inr transport \<Rightarrow>
            let plain = (\<not> clienttls_Enabled (gcc_TLS cfg) \<and> \<not> gcc_AllowInsecureToken cfg) in
            if gcc_Token cfg \<noteq> [] \<and> plain
              then Inl (Errorf ''refusing to send grpc bearer token without TLS'')
            else if gcc_PSK cfg \<noteq> [] \<and> gcc_Token cfg \<noteq> []
              then Inl (Errorf ''grpc client bearer token and PSK are mutually exclusive'')
            else if gcc_PSK cfg \<noteq> [] \<and> plain
              then Inl (Errorf ''refusing to send grpc PSK without TLS'')
            else Inr transport)"

definition Dial_chain ::
    "'x outbound_grpc \<Rightarrow> 'x Metrics option \<Rightarrow> grpc_client_cfg \<Rightarrow> string \<Rightarrow> 'x invoker \<Rightarrow> 'x invoker" where
  "Dial_chain N metrics cfg method send =
     timeoutInterceptor (gcc_Timeout cfg)
       (metadataInterceptor (gcc_Token cfg) (gcc_PSK cfg)
         ((case metrics of Some m \<Rightarrow> client_metricsInterceptor N (gcc_Name cfg) m | None \<Rightarrow> (\<lambda>h. h))
           ((if breaker_Enabled (gcc_Breaker cfg) then breakerInterceptor N else (\<lambda>h. h))
             ((if 1 < sint (retry_MaxAttempts (gcc_Retry cfg)) then retryInterceptor N (gcc_Retry cfg) method
               else (\<lambda>h. h)) send))))"

subsection \<open>The registry\<close>

record Registry =
  reg_http :: "(string \<times> HTTPClient) list"
  reg_grpc :: "(string \<times> grpc_client_cfg) list"

definition client_config :: "string \<Rightarrow> cfg_GRPCUpstream \<Rightarrow> grpc_client_cfg" where
  "client_config name u =
     \<lparr>gcc_Target = grpcupstream_Target u, gcc_Timeout = grpcupstream_Timeout u,
      gcc_Token = (if clientauth_Type (grpcupstream_Auth u) = ''bearer''
        then clientauth_Token (grpcupstream_Auth u) else []),
      gcc_PSK = (if clientauth_Type (grpcupstream_Auth u) = ''psk''
        then clientauth_Token (grpcupstream_Auth u) else []),
      gcc_TLS = grpcupstream_TLS u, gcc_AllowInsecureToken = False, gcc_Name = name,
      gcc_Retry = grpcupstream_Retry u, gcc_Breaker = grpcupstream_Breaker u\<rparr>"

text \<open>Connections: \<open>dl_NewClient\<close> makes one of a gRPC target, the others close the connections of a client.\<close>

record 'x dialer =
  dl_NewClient :: "grpc_client_cfg \<Rightarrow> ('x, go_error option) outside"
  dl_Close :: "string \<Rightarrow> ('x, go_error option) outside"
  dl_CloseIdle :: "string \<Rightarrow> ('x, unit) outside"

text \<open>The error that stopped the loop, if any, and the clients that were made before it.\<close>

fun open_http ::
    "(string \<Rightarrow> string) \<Rightarrow> 'x outbound_http \<Rightarrow> tls_files \<Rightarrow> (string \<times> cfg_HTTPUpstream) list \<Rightarrow>
      go_error option \<times> (string \<times> HTTPClient) list" where
  "open_http uni N F [] = (None, [])"
| "open_http uni N F ((name, u) # us) =
     (case NewHTTPClient uni N F name u of
        Inl err \<Rightarrow> (Some (Wrapf (''create outbound HTTP client '' @ Quote uni name) err), [])
      | Inr client \<Rightarrow> (case open_http uni N F us of (err, cs) \<Rightarrow> (err, (name, client) # cs)))"

definition Dial :: "tls_files \<Rightarrow> 'x dialer \<Rightarrow> grpc_client_cfg \<Rightarrow> ('x, go_error option) outside" where
  "Dial F D cfg x = (case Dial_check F cfg of Inl err \<Rightarrow> (Some err, x) | Inr transport \<Rightarrow> dl_NewClient D cfg x)"

fun open_grpc ::
    "(string \<Rightarrow> string) \<Rightarrow> tls_files \<Rightarrow> 'x dialer \<Rightarrow> (string \<times> cfg_GRPCUpstream) list \<Rightarrow>
      ('x, go_error option \<times> (string \<times> grpc_client_cfg) list) outside" where
  "open_grpc uni F D [] x = ((None, []), x)"
| "open_grpc uni F D ((name, u) # us) x =
     (case Dial F D (client_config name u) x of
        (Some err, x1) \<Rightarrow> ((Some (Wrapf (''create outbound gRPC client '' @ Quote uni name) err), []), x1)
      | (None, x1) \<Rightarrow>
          (case open_grpc uni F D us x1 of
             ((err, cs), x2) \<Rightarrow> ((err, (name, client_config name u) # cs), x2)))"

text \<open>\<open>close\<close> closes everything and returns the first error.\<close>

fun close_grpc :: "(string \<Rightarrow> string) \<Rightarrow> 'x dialer \<Rightarrow> (string \<times> grpc_client_cfg) list \<Rightarrow> ('x, go_error option) outside" where
  "close_grpc uni D [] x = (None, x)"
| "close_grpc uni D ((name, c) # cs) x =
     (case dl_Close D name x of (err, x1) \<Rightarrow>
        (case close_grpc uni D cs x1 of (rest, x2) \<Rightarrow>
           (case err of
              Some e \<Rightarrow> Some (Wrapf (''close outbound gRPC client '' @ Quote uni name) e)
            | None \<Rightarrow> rest, x2)))"

definition Registry_close :: "(string \<Rightarrow> string) \<Rightarrow> 'x dialer \<Rightarrow> Registry \<Rightarrow> ('x, go_error option) outside" where
  "Registry_close uni D r x =
     close_grpc uni D (reg_grpc r) (fold (\<lambda>(name, c) x. snd (dl_CloseIdle D name x)) (reg_http r) x)"

definition NewRegistry ::
    "(string \<Rightarrow> string) \<Rightarrow> 'x outbound_http \<Rightarrow> tls_files \<Rightarrow> 'x dialer \<Rightarrow> cfg_Config \<Rightarrow> ('x, go_error + Registry) outside" where
  "NewRegistry uni N F D cfg x =
     (case open_http uni N F (outbound_HTTP (config_Outbound cfg)) of
        (Some err, hs) \<Rightarrow> (Inl err, snd (Registry_close uni D \<lparr>reg_http = hs, reg_grpc = []\<rparr> x))
      | (None, hs) \<Rightarrow>
          (case open_grpc uni F D (outbound_GRPC (config_Outbound cfg)) x of
             ((Some err, gs), x1) \<Rightarrow> (Inl err, snd (Registry_close uni D \<lparr>reg_http = hs, reg_grpc = gs\<rparr> x1))
           | ((None, gs), x1) \<Rightarrow> (Inr \<lparr>reg_http = hs, reg_grpc = gs\<rparr>, x1)))"

definition Registry_HTTP :: "Registry \<Rightarrow> string \<Rightarrow> HTTPClient option" where
  "Registry_HTTP r name = map_of (reg_http r) name"

definition Registry_GRPC :: "Registry \<Rightarrow> string \<Rightarrow> grpc_client_cfg option" where
  "Registry_GRPC r name = map_of (reg_grpc r) name"

end
