(* ===== verification/Outbound_Theorems.thy ===== *)
theory Outbound_Theorems
  imports Outbound Config_Theorems
begin

text \<open>
  What the clients of other services promise: how often a call is sent, when a client stops trying,
  and how long it waits in between. The two retry loops share one argument, in the locale
  \<open>attempts\<close>.
\<close>

subsection \<open>Counting the sends\<close>

text \<open>
  A loop that runs from attempt \<open>n\<close>: it ends having sent at most once more, or goes on with
  the next attempt after sending once.
\<close>

locale attempts =
  fixes run :: "int \<Rightarrow> 's \<Rightarrow> 'r" and tries :: "'s \<Rightarrow> nat" and ends :: "'r \<Rightarrow> nat" and most :: int
  assumes over: "most < n \<Longrightarrow> ends (run n s) = tries s"
    and step: "n \<le> most \<Longrightarrow> ends (run n s) \<in> {tries s, Suc (tries s)} \<or>
      (\<exists>s'. tries s' = Suc (tries s) \<and> run n s = run (n + 1) s')"
begin

lemma bounded: "n \<le> most + 1 \<Longrightarrow> ends (run n s) \<le> tries s + nat (most + 1 - n)"
proof (induction "nat (most + 1 - n)" arbitrary: n s)
  case 0
  then show ?case using over [of n s] by simp
next
  case (Suc k)
  from Suc.hyps(2) have n: "n \<le> most" and k: "k = nat (most + 1 - (n + 1))" by simp_all
  from step [OF n, of s] show ?case
  proof
    assume "\<exists>s'. tries s' = Suc (tries s) \<and> run n s = run (n + 1) s'"
    then obtain s' where s: "tries s' = Suc (tries s)" "run n s = run (n + 1) s'" by blast
    have "ends (run (n + 1) s') \<le> tries s' + nat (most + 1 - (n + 1))" by (rule Suc.hyps(1) [OF k]) (use n in simp)
    with s n show ?thesis by simp
  next
    assume "ends (run n s) \<in> {tries s, Suc (tries s)}"
    with n show ?thesis by auto
  qed
qed

end

text \<open>A network that counts: the same answers, and one more for every request handed to the transport.\<close>

definition counted_http :: "'x outbound_http \<Rightarrow> (nat \<times> 'x) outbound_http" where
  "counted_http N =
     \<lparr>oh_parse = oh_parse N, oh_resolve = oh_resolve N, oh_request = oh_request N,
      oh_Do = (\<lambda>q (k, x). let (a, x') = oh_Do N q x in (a, Suc k, x')),
      oh_wait = (\<lambda>d (k, x). let (a, x') = oh_wait N d x in (a, k, x')),
      oh_admit = (\<lambda>(k, x). let (a, x') = oh_admit N x in (a, k, x')),
      oh_report = (\<lambda>b (k, x). let (a, x') = oh_report N b x in (a, k, x'))\<rparr>"

definition counted_grpc :: "'x outbound_grpc \<Rightarrow> (nat \<times> 'x) outbound_grpc" where
  "counted_grpc N =
     \<lparr>og_wait = (\<lambda>d (k, x). let (a, x') = og_wait N d x in (a, k, x')),
      og_admit = (\<lambda>(k, x). let (a, x') = og_admit N x in (a, k, x')),
      og_report = (\<lambda>b (k, x). let (a, x') = og_report N b x in (a, k, x')),
      og_code_text = og_code_text N\<rparr>"

definition counted_metrics :: "'x Metrics \<Rightarrow> (nat \<times> 'x) Metrics" where
  "counted_metrics m = (let P = mt_library m in
     \<lparr>mt_enabled = mt_enabled m, mt_library =
        \<lparr>pr_Inc = (\<lambda>c ls (k, x). let (a, x') = pr_Inc P c ls x in (a, k, x')),
         pr_Observe = (\<lambda>c ls d (k, x). let (a, x') = pr_Observe P c ls d x in (a, k, x')),
         pr_now = (\<lambda>(k, x). let (a, x') = pr_now P x in (a, k, x')),
         pr_runtime = pr_runtime P, pr_dbstats = pr_dbstats P\<rparr>,
      mt_registry = mt_registry m\<rparr>)"

lemma counted_metrics_keep [simp]:
  "fst (snd (pr_now (mt_library (counted_metrics m)) s)) = fst s"
  "fst (snd (count_and_time (counted_metrics m) c ls h hls started s)) = fst s"
  by (cases s; simp add: counted_metrics_def count_and_time_def Let_def split: prod.splits)+

definition counted_send :: "'x invoker \<Rightarrow> (nat \<times> 'x) invoker" where
  "counted_send send ctx = (\<lambda>(k, x). let (a, x') = send ctx x in (a, Suc k, x'))"

interpretation http_attempts: attempts
  "\<lambda>n s. http_loop (counted_http N) retry req most n s" fst "\<lambda>r. fst (snd r)" most
  for N :: "'x outbound_http" and retry req most
proof
  fix n :: int and s :: "nat \<times> 'x" assume "most < n"
  then show "fst (snd (http_loop (counted_http N) retry req most n s)) = fst s"
    by (simp add: http_loop.simps)
next
  fix n :: int and s :: "nat \<times> 'x" assume n: "n \<le> most"
  obtain k x where s: "s = (k, x)" by (cases s)
  obtain a x1 where send: "oh_Do N req x = (a, x1)" by (cases "oh_Do N req x")
  obtain e x2 where wait: "oh_wait N (http_delay retry n) x1 = (e, x2)"
    by (cases "oh_wait N (http_delay retry n) x1")
  show "fst (snd (http_loop (counted_http N) retry req most n s)) \<in> {fst s, Suc (fst s)} \<or>
    (\<exists>s'. fst s' = Suc (fst s) \<and>
      http_loop (counted_http N) retry req most n s = http_loop (counted_http N) retry req most (n + 1) s')"
    using n send wait
    by (subst (1 2) http_loop.simps)
      (auto simp: counted_http_def s split: option.splits sum.splits)
qed

interpretation grpc_attempts: attempts
  "\<lambda>n s. grpc_loop (counted_grpc N) cfg (counted_send send) ctx (fst s) n (snd s)" "\<lambda>s. fst (snd s)"
  "\<lambda>r. fst (snd r)" "sint (retry_MaxAttempts cfg)"
  for N :: "'x outbound_grpc" and cfg send ctx
proof
  fix n :: int and s :: "rpc_error option \<times> nat \<times> 'x" assume "sint (retry_MaxAttempts cfg) < n"
  then show "fst (snd (grpc_loop (counted_grpc N) cfg (counted_send send) ctx (fst s) n (snd s))) = fst (snd s)"
    by (simp add: grpc_loop.simps)
next
  fix n :: int and s :: "rpc_error option \<times> nat \<times> 'x" assume n: "n \<le> sint (retry_MaxAttempts cfg)"
  obtain p k x where s: "s = (p, k, x)" by (cases s)
  obtain a x1 where sent: "send ctx x = (a, x1)" by (cases "send ctx x")
  obtain e x2 where wait: "og_wait N (grpc_delay cfg n) x1 = (e, x2)"
    by (cases "og_wait N (grpc_delay cfg n) x1")
  show "fst (snd (grpc_loop (counted_grpc N) cfg (counted_send send) ctx (fst s) n (snd s))) \<in>
      {fst (snd s), Suc (fst (snd s))} \<or>
    (\<exists>s'. fst (snd s') = Suc (fst (snd s)) \<and>
      grpc_loop (counted_grpc N) cfg (counted_send send) ctx (fst s) n (snd s) =
      grpc_loop (counted_grpc N) cfg (counted_send send) ctx (fst s') (n + 1) (snd s'))"
    using n sent wait
    by (subst (1 2) grpc_loop.simps)
      (auto simp: counted_grpc_def counted_send_def s split: option.splits intro: exI [of _ "(a, Suc k, x2)"])
qed


lemma breaker_counted:
  assumes "\<And>z. fst (snd (h ctx (0, z))) \<le> m"
  shows "fst (snd (breakerInterceptor (counted_grpc G) h ctx (0, x))) \<le> m"
proof -
  obtain e z where admit: "og_admit (counted_grpc G) (0, x) = (e, 0, z)"
    by (cases "og_admit G x") (simp add: counted_grpc_def)
  have "fst (snd (og_report (counted_grpc G) b s)) = fst s" for b s
    by (cases s) (simp add: counted_grpc_def split: prod.splits)
  with assms [of z] show ?thesis
    by (cases "h ctx (0, z)"; cases e) (simp_all add: breakerInterceptor_def admit)
qed

lemma execute_counted:
  fixes c :: HTTPClient
  defines "retry \<equiv> httpupstream_Retry (hc_cfg c)"
  shows "fst (snd (execute_http (counted_http N) c has_key method path body headers (0, x))) \<le>
    nat (if retryableMethod has_key method then sint (retry_MaxAttempts retry) else 1)" (is "_ \<le> nat ?m")
proof -
  have loop: "fst (snd (http_loop (counted_http N) retry req ?m 1 (0, z))) \<le> nat ?m" for req z
    using http_attempts.bounded [of 1 ?m N retry req "(0, z)"] http_attempts.over [of ?m 1 N retry req "(0, z)"]
    by (cases "0 \<le> ?m") auto
  have sent: "fst (snd (doWithRetry (counted_http N) c has_key method path body headers (0, z))) \<le> nat ?m" for z
    using loop unfolding doWithRetry_def Let_def retry_def by (auto simp: counted_http_def split: option.splits)
  have told: "fst (snd (oh_report (counted_http N) b s)) = fst s" for b s
    by (cases s) (simp add: counted_http_def split: prod.splits)
  obtain e z where admit: "oh_admit (counted_http N) (0, x) = (e, 0, z)"
    by (cases "oh_admit N x") (simp add: counted_http_def)
  show ?thesis
  proof (cases "breaker_Enabled (httpupstream_Breaker (hc_cfg c))")
    case True
    with sent [of z] told show ?thesis
      by (cases "doWithRetry (counted_http N) c has_key method path body headers (0, z)"; cases e)
        (simp_all add: execute_http_def admit)
  qed (use sent in \<open>simp add: execute_http_def\<close>)
qed

text \<open>Counting calls sends none.\<close>

lemma counted_now: "\<exists>t z. pr_now (mt_library (counted_metrics m)) (k, x) = (t, k, z)"
  by (simp add: counted_metrics_def Let_def split: prod.splits)

lemma counted_Do:
  assumes "\<And>z. fst (snd (execute_http N c has_key method path body headers (0, z))) \<le> m"
  shows "fst (snd (HTTPClient_Do N (map_option counted_metrics M) c has_key method path body headers (0, x))) \<le> m"
proof (cases M)
  case (Some mt)
  obtain t z where now: "pr_now (mt_library (counted_metrics mt)) (0, x) = (t, 0, z)" using counted_now by metis
  show ?thesis using assms [of z] by (simp add: HTTPClient_Do_def Some now Let_def case_prod_unfold)
qed (use assms in \<open>simp add: HTTPClient_Do_def\<close>)

lemma client_metrics_counted:
  assumes "\<And>z. fst (snd (h ctx (0, z))) \<le> m"
  shows "fst (snd (client_metricsInterceptor N name (counted_metrics mt) h ctx (0, x))) \<le> m"
proof -
  obtain t z where now: "pr_now (mt_library (counted_metrics mt)) (0, x) = (t, 0, z)" using counted_now by metis
  show ?thesis using assms [of z] by (simp add: client_metricsInterceptor_def now case_prod_unfold)
qed

text \<open>The outer interceptors hand the call on, with the caller's idempotency key untouched.\<close>

lemma front_interceptors:
  "\<exists>ctx'. rc_idempotency ctx' = rc_idempotency ctx \<and>
    timeoutInterceptor timeout (metadataInterceptor token psk h) ctx = h ctx'"
  unfolding timeoutInterceptor_def metadataInterceptor_def Let_def
  by (cases "rc_deadline ctx = None") (simp_all only: if_True if_False not_not simp_thms, (rule exI, rule conjI [rotated], rule refl, simp)+)

text \<open>
  C33. A call to another service is sent a bounded number of times, whatever the network, the breaker
  and the timers do: an HTTP request that is safe to repeat, and a gRPC call that is configured or
  keyed to be repeated, at most the configured number of attempts, every other one at most once.
\<close>

theorem sends_within_attempts:
  "fst (snd (HTTPClient_Do (counted_http N) (map_option counted_metrics M) c has_key method path body headers (0, x))) \<le>
      (if retryableMethod has_key method then nat (sint (retry_MaxAttempts (httpupstream_Retry (hc_cfg c)))) else 1) \<and>
    fst (snd (Dial_chain (counted_grpc G) (map_option counted_metrics M) cfg rpc (counted_send send) ctx (0, y))) \<le>
      (if retryGRPCMethod ctx rpc (retry_Methods (gcc_Retry cfg)) \<and> 1 < sint (retry_MaxAttempts (gcc_Retry cfg))
       then nat (sint (retry_MaxAttempts (gcc_Retry cfg))) else 1)"
proof
  let ?r = "httpupstream_Retry (hc_cfg c)"
  let ?m = "if retryableMethod has_key method then sint (retry_MaxAttempts ?r) else 1"
  have "fst (snd (HTTPClient_Do (counted_http N) (map_option counted_metrics M) c has_key method path body headers (0, x))) \<le> nat ?m"
    by (rule counted_Do) (rule execute_counted)
  then show "fst (snd (HTTPClient_Do (counted_http N) (map_option counted_metrics M) c has_key method path body headers (0, x))) \<le>
      (if retryableMethod has_key method then nat (sint (retry_MaxAttempts ?r)) else 1)" by (simp split: if_splits)
next
  let ?r = "gcc_Retry cfg"
  let ?m = "if retryGRPCMethod ctx rpc (retry_Methods ?r) \<and> 1 < sint (retry_MaxAttempts ?r)
    then nat (sint (retry_MaxAttempts ?r)) else 1"
  let ?tail = "(if 1 < sint (retry_MaxAttempts ?r) then retryInterceptor (counted_grpc G) ?r rpc else (\<lambda>h. h))
    (counted_send send)"
  let ?broken = "(if breaker_Enabled (gcc_Breaker cfg) then breakerInterceptor (counted_grpc G) else (\<lambda>h. h)) ?tail"
  let ?h = "(case map_option counted_metrics M of Some m \<Rightarrow> client_metricsInterceptor (counted_grpc G) (gcc_Name cfg) m
    | None \<Rightarrow> (\<lambda>h. h)) ?broken"
  have tail: "rc_idempotency ctx' = rc_idempotency ctx \<Longrightarrow> fst (snd (?tail ctx' (0, z))) \<le> ?m" for ctx' z
    using grpc_attempts.bounded [of 1 ?r G send ctx' "(None, 0, z)"]
    by (auto simp: retryInterceptor_def retryGRPCMethod_def counted_send_def split: prod.splits)
  have broken: "fst (snd (?broken ctx' (0, z))) \<le> ?m" if "rc_idempotency ctx' = rc_idempotency ctx" for ctx' z
    by (cases "breaker_Enabled (gcc_Breaker cfg)"; simp only: if_True if_False)
      (rule breaker_counted tail [OF that])+
  have inner: "fst (snd (?h ctx' (0, z))) \<le> ?m" if "rc_idempotency ctx' = rc_idempotency ctx" for ctx' z
    by (cases M; simp only: option.map option.case) (rule client_metrics_counted broken [OF that])+
  obtain ctx' where c: "rc_idempotency ctx' = rc_idempotency ctx"
    "timeoutInterceptor (gcc_Timeout cfg) (metadataInterceptor (gcc_Token cfg) (gcc_PSK cfg) ?h) ctx = ?h ctx'"
    using front_interceptors [of ctx "gcc_Timeout cfg" "gcc_Token cfg" "gcc_PSK cfg" ?h] by blast
  show "fst (snd (Dial_chain (counted_grpc G) (map_option counted_metrics M) cfg rpc (counted_send send) ctx (0, y))) \<le> ?m"
    unfolding Dial_chain_def c(2) by (rule inner [OF c(1)])
qed

subsection \<open>When a client stops\<close>

text \<open>A loop that stops at attempt \<open>n\<close>, or goes on with the next one.\<close>

locale retrying =
  fixes run :: "nat \<Rightarrow> 'r" and finish :: "nat \<Rightarrow> 'r" and again :: "nat \<Rightarrow> bool" and most :: nat
  assumes stop: "1 \<le> n \<Longrightarrow> n \<le> most \<Longrightarrow> n = most \<or> \<not> again n \<Longrightarrow> run n = finish n"
    and go: "1 \<le> n \<Longrightarrow> n < most \<Longrightarrow> again n \<Longrightarrow> run n = run (Suc n)"
begin

lemma first_final:
  assumes "k \<le> most" "k = most \<or> \<not> again k" "1 \<le> n" "n \<le> k" "\<forall>i \<in> {n..<k}. again i"
  shows "run n = finish k"
  using assms(3-)
proof (induction "k - n" arbitrary: n)
  case 0
  then have "n = k" by simp
  then show ?case using stop [of k] assms(1,2) 0(2) by blast
next
  case (Suc d)
  then have "n < k" by simp
  with Suc.prems assms(1) have "run n = run (Suc n)" by (intro go) auto
  also have "\<dots> = finish k" using Suc.hyps(2) Suc.prems \<open>n < k\<close> by (intro Suc.hyps(1)) auto
  finally show ?case .
qed

end

text \<open>
  A network that follows a script, \<open>answers k\<close> being the outcome of the \<open>k\<close>-th send,
  and a log of what the client did.
\<close>

datatype client_event = Sent | Waited duration | Reported breaker_outcome

definition sends :: "client_event list \<Rightarrow> nat" where
  "sends tr = length (filter (\<lambda>e. e = Sent) tr)"

definition scripted_http ::
    "(nat \<Rightarrow> go_error + http_response) \<Rightarrow> client_event list outbound_http" where
  "scripted_http answers =
     \<lparr>oh_parse = (\<lambda>s. Some ([], [])), oh_resolve = (@), oh_request = (\<lambda>_ _. None),
      oh_Do = (\<lambda>q tr. (answers (Suc (sends tr)), tr @ [Sent])),
      oh_wait = (\<lambda>d tr. (None, tr @ [Waited d])), oh_admit = (\<lambda>tr. (None, tr)),
      oh_report = (\<lambda>b tr. ((), tr @ [Reported b]))\<rparr>"

definition scripted_grpc :: "client_event list outbound_grpc" where
  "scripted_grpc = \<lparr>og_wait = (\<lambda>d tr. (None, tr @ [Waited d])), og_admit = (\<lambda>tr. (None, tr)),
     og_report = (\<lambda>b tr. ((), tr @ [Reported b])),
     og_code_text = (\<lambda>c. [])\<rparr>"

definition scripted_send :: "(nat \<Rightarrow> rpc_error option) \<Rightarrow> client_event list invoker" where
  "scripted_send answers ctx tr = (answers (Suc (sends tr)), tr @ [Sent])"

text \<open>The log before attempt \<open>n\<close>, when every earlier attempt was followed by a wait.\<close>

definition attempts_log :: "(int \<Rightarrow> duration) \<Rightarrow> nat \<Rightarrow> client_event list" where
  "attempts_log delay n = concat (map (\<lambda>i. [Sent, Waited (delay (int i))]) [1..<n])"

lemma attempts_log_Suc: "1 \<le> n \<Longrightarrow> attempts_log delay (Suc n) = attempts_log delay n @ [Sent, Waited (delay (int n))]"
  by (simp add: attempts_log_def)

lemma sends_attempts_log: "1 \<le> n \<Longrightarrow> Suc (sends (attempts_log delay n)) = n"
  by (induction n rule: dec_induct) (simp_all add: attempts_log_Suc, simp_all add: attempts_log_def sends_def)

definition http_again :: "go_error + http_response \<Rightarrow> bool" where
  "http_again answer = (case answer of Inl _ \<Rightarrow> True | Inr r \<Rightarrow> retryableHTTPStatus (rs_StatusCode r))"

definition http_final :: "go_error + http_response \<Rightarrow> go_error + http_response" where
  "http_final answer = map_sum (Wrapf ''call outbound HTTP service'') id answer"

interpretation http_script: retrying
  "\<lambda>n. http_loop (scripted_http answers) retry req (int most) (int n) (attempts_log (http_delay retry) n)"
  "\<lambda>n. (http_final (answers n), attempts_log (http_delay retry) n @ [Sent])"
  "\<lambda>n. http_again (answers n)" most
  for answers retry req most
  by unfold_locales
    (subst http_loop.simps, auto simp: scripted_http_def sends_attempts_log attempts_log_Suc http_again_def
      http_final_def add.commute split: sum.splits)+

lemma grpc_loop_over: "sint (retry_MaxAttempts cfg) < n \<Longrightarrow> grpc_loop N cfg send ctx prev n x = (prev, x)"
  by (simp add: grpc_loop.simps)

interpretation grpc_script: retrying
  "\<lambda>n. grpc_loop scripted_grpc cfg (scripted_send answers) ctx
     (if n \<le> 1 then None else answers (n - 1)) (int n) (attempts_log (grpc_delay cfg) n)"
  "\<lambda>n. (answers n, attempts_log (grpc_delay cfg) n @ [Sent])"
  "\<lambda>n. transient (answers n)" "nat (sint (retry_MaxAttempts cfg))"
  for cfg answers ctx
proof
  fix n assume n: "1 \<le> n" "n \<le> nat (sint (retry_MaxAttempts cfg))"
    "n = nat (sint (retry_MaxAttempts cfg)) \<or> \<not> transient (answers n)"
  show "grpc_loop scripted_grpc cfg (scripted_send answers) ctx
     (if n \<le> 1 then None else answers (n - 1)) (int n) (attempts_log (grpc_delay cfg) n) =
    (answers n, attempts_log (grpc_delay cfg) n @ [Sent])"
    using n by (subst grpc_loop.simps)
      (auto simp: scripted_grpc_def scripted_send_def sends_attempts_log grpc_loop_over)
next
  fix n assume n: "1 \<le> n" "n < nat (sint (retry_MaxAttempts cfg))" "transient (answers n)"
  then show "grpc_loop scripted_grpc cfg (scripted_send answers) ctx
     (if n \<le> 1 then None else answers (n - 1)) (int n) (attempts_log (grpc_delay cfg) n) =
    grpc_loop scripted_grpc cfg (scripted_send answers) ctx
     (if Suc n \<le> 1 then None else answers (Suc n - 1)) (int (Suc n)) (attempts_log (grpc_delay cfg) (Suc n))"
    by (subst grpc_loop.simps)
      (auto simp: scripted_grpc_def scripted_send_def sends_attempts_log attempts_log_Suc add.commute)
qed


text \<open>How a finished HTTP call counts for the breaker.\<close>

definition http_outcome :: "go_error + http_response \<Rightarrow> breaker_outcome" where
  "http_outcome answer = (case answer of
     Inl err \<Rightarrow> if errors_Is err Canceled then BreakerExcluded else BreakerFailure
   | Inr r \<Rightarrow> if retryableHTTPStatus (rs_StatusCode r) then BreakerFailure else BreakerSuccess)"

text \<open>
  C34. A repeatable HTTP call stops at the first final answer. Let the outside world answer the
  \<open>i\<close>-th send with \<open>answers i\<close>, let the first \<open>k - 1\<close> answers ask for another attempt
  (a transport error, or 429, 502, 503, 504) and let \<open>k\<close> be the last attempt allowed or its
  answer be final. Then the client returns the \<open>k\<close>-th answer, a transport error wrapped, after
  exactly \<open>k\<close> sends with one backoff between two of them; the breaker, if there is one, is told
  once of the returned answer, a retryable status counting as a failure.
\<close>

theorem http_client_returns_first_final_answer:
  assumes "1 \<le> k" "\<forall>i \<in> {1..<k}. http_again (answers i)" "retryableMethod has_key method"
    and "retry = httpupstream_Retry (hc_cfg c)" "int k \<le> sint (retry_MaxAttempts retry)"
    and "int k = sint (retry_MaxAttempts retry) \<or> \<not> http_again (answers k)"
  shows "execute_http (scripted_http answers) c has_key method path body headers [] =
    (http_final (answers k), attempts_log (http_delay retry) k @ [Sent] @
      (if breaker_Enabled (httpupstream_Breaker (hc_cfg c)) then [Reported (http_outcome (http_final (answers k)))]
       else []))"
proof -
  let ?most = "nat (sint (retry_MaxAttempts retry))"
  have most: "int ?most = sint (retry_MaxAttempts retry)" "k \<le> ?most" "k = ?most \<or> \<not> http_again (answers k)"
    using assms(1,5,6) by auto
  have log: "attempts_log (http_delay retry) (Suc 0) = []" by (simp add: attempts_log_def)
  have "http_loop (scripted_http answers) retry req (sint (retry_MaxAttempts retry)) 1 [] =
      (http_final (answers k), attempts_log (http_delay retry) k @ [Sent])" for req
    using http_script.first_final [of k ?most answers 1 retry req] most assms(1,2) by (simp add: log)
  then have "doWithRetry (scripted_http answers) c has_key method path body headers [] =
      (http_final (answers k), attempts_log (http_delay retry) k @ [Sent])"
    using assms(3,4) by (simp add: doWithRetry_def scripted_http_def [of answers, THEN arg_cong, of oh_parse])
  then show ?thesis
    by (simp add: execute_http_def http_outcome_def scripted_http_def split: sum.splits)
qed

text \<open>The same of a gRPC call: the error of the last attempt is returned as it is.\<close>

lemma grpc_client_returns_first_final_answer:
  assumes "1 \<le> k" "\<forall>i \<in> {1..<k}. transient (answers i)" "retryGRPCMethod ctx method (retry_Methods retry)"
    and "int k \<le> sint (retry_MaxAttempts retry)" "int k = sint (retry_MaxAttempts retry) \<or> \<not> transient (answers k)"
  shows "retryInterceptor scripted_grpc retry method (scripted_send answers) ctx [] =
    (answers k, attempts_log (grpc_delay retry) k @ [Sent])"
proof -
  have log: "attempts_log (grpc_delay retry) (Suc 0) = []" by (simp add: attempts_log_def)
  have "k \<le> nat (sint (retry_MaxAttempts retry))" "k = nat (sint (retry_MaxAttempts retry)) \<or> \<not> transient (answers k)"
    using assms(1,4,5) by auto
  then have "grpc_loop scripted_grpc retry (scripted_send answers) ctx None 1 [] =
      (answers k, attempts_log (grpc_delay retry) k @ [Sent])"
    using grpc_script.first_final [of k retry answers 1 ctx] assms(1,2) by (simp add: log)
  with assms(3) show ?thesis by (simp add: retryInterceptor_def)
qed

subsection \<open>Backoff\<close>

lemma float_round_exact: "0 \<le> n \<Longrightarrow> n \<le> 2 ^ 53 \<Longrightarrow> float_round n = n"
  by (simp add: float_round_def)

lemma push_bit_as_product: "push_bit n (w :: int64) = word_of_int (sint w * 2 ^ n)"
  by (simp add: push_bit_eq_mult)

text \<open>
  C35. The two backoffs agree. Under a policy that configuration accepts, with a first backoff of at
  most \<open>2 ^ 53\<close> nanoseconds, the float computation of the HTTP client and the shift of the gRPC
  client give the same delay before attempt \<open>k + 1\<close>: the first backoff doubled \<open>k - 1\<close> times,
  capped at the largest one; so a delay is never shorter than the first nor longer than the largest.
\<close>

theorem backoff_is_capped_doubling:
  assumes "policy_bounded timeout auth retry tls" "sint (retry_InitialBackoff retry) \<le> 2 ^ 53"
    and "1 \<le> k" "k \<le> sint (retry_MaxAttempts retry)"
  shows "sint (http_delay retry k) =
      min (sint (retry_InitialBackoff retry) * 2 ^ nat (k - 1)) (sint (retry_MaxBackoff retry)) \<and>
    grpc_delay retry k = http_delay retry k \<and>
    sint (http_delay retry k) \<in> {sint (retry_InitialBackoff retry)..sint (retry_MaxBackoff retry)}"
proof -
  let ?i = "sint (retry_InitialBackoff retry)" and ?n = "nat (k - 1)"
  have p: "0 < ?i" "?i \<le> sint (retry_MaxBackoff retry)" "k \<le> 5"
    using assms(1,4) by (auto simp: policy_bounded_def)
  have "(2 :: int) ^ ?n \<le> 2 ^ 4" using p(3) by (intro power_increasing) simp_all
  then have "?i * 2 ^ ?n \<le> 2 ^ 53 * 2 ^ 4" using p(1) assms(2) by (intro mult_mono) simp_all
  then have small: "?i * 2 ^ ?n < 2 ^ 63" by simp
  have grows: "?i \<le> ?i * 2 ^ ?n" using p(1) by (simp add: mult_le_cancel_left1)
  have f: "float_round ?i = ?i" using p(1) assms(2) by (intro float_round_exact) simp_all
  have low: "- (2 ^ 63) \<le> ?i * 2 ^ ?n" by (rule order_trans [of _ 0]) (use p(1) in simp_all)
  have exact: "int64_of_float (?i * 2 ^ ?n) = word_of_int (?i * 2 ^ ?n)"
    using low small unfolding int64_of_float_def by simp
  moreover have "sint (word_of_int (?i * 2 ^ ?n) :: int64) = ?i * 2 ^ ?n" by (rule sint64_exact [OF low small])
  moreover have "push_bit ?n (retry_InitialBackoff retry) = word_of_int (?i * 2 ^ ?n)" by (rule push_bit_as_product)
  ultimately show ?thesis using grows p(2)
    by (auto simp only: http_delay_def grpc_delay_def f Let_def min_def atLeastAtMost_iff split: if_splits)
qed


subsection \<open>Witnesses\<close>

definition demo_retry :: cfg_Retry where
  "demo_retry = \<lparr>retry_MaxAttempts = 3, retry_InitialBackoff = milliseconds 100, retry_MaxBackoff = milliseconds 150,
     retry_Methods = []\<rparr>"

definition demo_client :: HTTPClient where
  "demo_client = \<lparr>hc_name = ''billing'',
     hc_cfg = \<lparr>httpupstream_BaseURL = ''https://billing'', httpupstream_Timeout = seconds 2,
       httpupstream_Auth = \<lparr>clientauth_Type = [], clientauth_Token = []\<rparr>, httpupstream_Retry = demo_retry,
       httpupstream_Breaker = \<lparr>breaker_Enabled = True, breaker_FailureThreshold = 5, breaker_OpenTimeout = seconds 30\<rparr>,
       httpupstream_TLS = \<lparr>clienttls_Enabled = False, clienttls_ServerName = [], clienttls_CAFile = [],
         clienttls_CertFile = [], clienttls_KeyFile = []\<rparr>\<rparr>,
     hc_tls = base_tls []\<rparr>"

definition demo_answers :: "nat \<Rightarrow> go_error + http_response" where
  "demo_answers n = (if n = 1 then Inl (Errorf ''connection reset'')
     else Inr \<lparr>rs_StatusCode = (if n = 2 then 503 else 200), rs_Body = ''ok''\<rparr>)"

lemma demo_delays: "http_delay demo_retry 1 = milliseconds 100" "http_delay demo_retry 2 = milliseconds 150"
  by (simp_all add: http_delay_def demo_retry_def milliseconds_def float_round_def int64_of_float_def)

theorem http_client_returns_first_final_answer_witness:
  "execute_http (scripted_http demo_answers) demo_client False ''GET'' ''/invoices'' [] [] [] =
    (Inr \<lparr>rs_StatusCode = 200, rs_Body = ''ok''\<rparr>,
     [Sent, Waited (milliseconds 100), Sent, Waited (milliseconds 150), Sent, Reported BreakerSuccess])"
proof -
  have "execute_http (scripted_http demo_answers) demo_client False ''GET'' ''/invoices'' [] [] [] =
    (http_final (demo_answers 3), attempts_log (http_delay demo_retry) 3 @ [Sent] @
      (if breaker_Enabled (httpupstream_Breaker (hc_cfg demo_client))
       then [Reported (http_outcome (http_final (demo_answers 3)))] else []))"
    by (rule http_client_returns_first_final_answer)
      (auto simp: demo_answers_def http_again_def retryableHTTPStatus_def retryableMethod_def demo_client_def demo_retry_def)
  also have "\<dots> = (Inr \<lparr>rs_StatusCode = 200, rs_Body = ''ok''\<rparr>,
     [Sent, Waited (milliseconds 100), Sent, Waited (milliseconds 150), Sent, Reported BreakerSuccess])"
    by (simp add: demo_client_def demo_answers_def http_final_def http_outcome_def retryableHTTPStatus_def
        attempts_log_def upt_rec demo_delays)
  finally show ?thesis .
qed

theorem backoff_is_capped_doubling_witness:
  "sint (http_delay demo_retry 2) = 150000000 \<and> grpc_delay demo_retry 2 = http_delay demo_retry 2"
proof -
  have "policy_bounded (seconds 2) \<lparr>clientauth_Type = [], clientauth_Token = []\<rparr> demo_retry
      (httpupstream_TLS (hc_cfg demo_client))"
    by (simp add: policy_bounded_def demo_retry_def seconds_def milliseconds_def)
  from backoff_is_capped_doubling [OF this, of 2] show ?thesis
    by (simp add: demo_retry_def milliseconds_def)
qed

end
