(* ===== verification/Scheduler.thy ===== *)
theory Scheduler
  imports Platform Config Frontend Observability
begin

text \<open>
  The scheduler, \<^verbatim>\<open>internal/scheduler\<close>: which jobs are registered, what a job does, and
  the lock that keeps two replicas from cleaning up at the same time. The cron library and the time
  zone database are arguments of \<open>scheduler_New\<close>; the lines that only log are left out.
\<close>

subsection \<open>Jobs\<close>

definition minutes :: "nat \<Rightarrow> duration" where
  "minutes n = word_of_int (int n * 60000000000)"

text \<open>\<open>None\<close> is the locker of a service without Redis. A lock is returned exactly when it was acquired.\<close>

definition runFileCleanup ::
    "(string \<Rightarrow> string) \<Rightarrow> 'x runtime \<Rightarrow> 'x Service \<Rightarrow> 'x redsync option \<Rightarrow> ('x world, go_error option) state" where
  "runFileCleanup q R S locker =
     (case locker of
        None \<Rightarrow> do {
          r \<leftarrow> Service_CleanupExpiredUploads R S;
          State_Monad.return (snd r)
        }
      | Some l \<Rightarrow> do {
          outcome \<leftarrow> ext_call (TryLock q l ''cron:file-upload-cleanup'' (minutes 11));
          (case outcome of
             (Some lock, True, None) \<Rightarrow> do {
               r \<leftarrow> Service_CleanupExpiredUploads R S;
               _ \<leftarrow> ext_call (Lock_Unlock q l lock);
               State_Monad.return (snd r)
             }
           | (_, _, err) \<Rightarrow> State_Monad.return err)
        })"

definition runSample :: "(string \<Rightarrow> string) \<Rightarrow> 'x redsync option \<Rightarrow> ('x world, go_error option) state" where
  "runSample q locker =
     (case locker of
        None \<Rightarrow> State_Monad.return None
      | Some l \<Rightarrow> do {
          outcome \<leftarrow> ext_call (TryLock q l ''cron:sample'' (minutes 1));
          (case outcome of
             (Some lock, True, None) \<Rightarrow> do {
               _ \<leftarrow> ext_call (Lock_Unlock q l lock);
               State_Monad.return None
             }
           | (_, _, err) \<Rightarrow> State_Monad.return err)
        })"

subsection \<open>The scheduler\<close>

datatype job = FileCleanup | Sample

record 'x cron_env =
  ce_quote :: "string \<Rightarrow> string"
  ce_runtime :: "'x runtime"
  ce_files :: "'x Service"
  ce_locker :: "'x redsync option"
  ce_metrics :: "'x Metrics"

text \<open>One firing of a job: it is counted under its label with the status it ended with.\<close>

definition job_label :: "job \<Rightarrow> string" where
  "job_label j = (case j of FileCleanup \<Rightarrow> ''file_upload_cleanup'' | Sample \<Rightarrow> ''sample'')"

definition run_job :: "'x cron_env \<Rightarrow> job \<Rightarrow> ('x world, string) state" where
  "run_job E j = do {
     started \<leftarrow> ext_call (pr_now (mt_library (ce_metrics E)));
     err \<leftarrow> (case j of
        FileCleanup \<Rightarrow> runFileCleanup (ce_quote E) (ce_runtime E) (ce_files E) (ce_locker E)
      | Sample \<Rightarrow> runSample (ce_quote E) (ce_locker E));
     (let status = (if err = None then ''success'' else ''error'') in do {
        ext_call (ObserveCron (ce_metrics E) (job_label j) status started);
        State_Monad.return status
      })
   }"

record runner =
  rn_location :: string
  rn_entries :: "(string \<times> job) list"
  rn_started :: bool

definition add_job :: "(string \<Rightarrow> go_error option) \<Rightarrow> string \<Rightarrow> job \<Rightarrow> runner \<Rightarrow> go_error + runner" where
  "add_job AddFunc spec j rn =
     (if spec = [] then Inr rn
      else case AddFunc spec of
          Some err \<Rightarrow> Inl err
        | None \<Rightarrow> Inr (rn\<lparr>rn_entries := rn_entries rn @ [(spec, j)]\<rparr>))"

text \<open>\<open>New\<close> and its start hook; a runner that is not started fires no job.\<close>

definition scheduler_New ::
    "(string \<Rightarrow> go_error option) \<Rightarrow> (string \<Rightarrow> go_error option) \<Rightarrow> cfg_Config \<Rightarrow> go_error + runner" where
  "scheduler_New LoadLocation AddFunc cfg =
     (case LoadLocation (cron_Timezone (config_Cron cfg)) of
        Some err \<Rightarrow> Inl err
      | None \<Rightarrow>
          (case add_job AddFunc (objectstorage_CleanupSpec (config_ObjectStorage cfg)) FileCleanup
              \<lparr>rn_location = cron_Timezone (config_Cron cfg), rn_entries = [], rn_started = False\<rparr> of
             Inl err \<Rightarrow> Inl err
           | Inr rn \<Rightarrow> add_job AddFunc (cron_SampleSpec (config_Cron cfg)) Sample rn))"

definition scheduler_OnStart :: "cfg_Config \<Rightarrow> runner \<Rightarrow> runner" where
  "scheduler_OnStart cfg rn = (if cron_Enabled (config_Cron cfg) then rn\<lparr>rn_started := True\<rparr> else rn)"

text \<open>
  The stop hook: the runner fires no more jobs, and the hook waits for the running ones until the
  deadline \<open>expired\<close> of its context.
\<close>

definition scheduler_OnStop :: "go_error option \<Rightarrow> runner \<Rightarrow> go_error option \<times> runner" where
  "scheduler_OnStop expired rn = (expired, rn\<lparr>rn_started := False\<rparr>)"

subsection \<open>Properties\<close>

lemma run_locked_cleanup:
  "run_state (runFileCleanup q R S (Some l)) w =
    (case rs_TryLock l ''lock:cron:file-upload-cleanup'' (minutes 11) (w_ext w) of
       (None, x) \<Rightarrow>
         (case run_state (Service_CleanupExpiredUploads R S) (w\<lparr>w_ext := x\<rparr>) of
            ((n, err), v) \<Rightarrow> (err, v\<lparr>w_ext := snd (rs_Unlock l ''lock:cron:file-upload-cleanup'' (w_ext v))\<rparr>))
     | (Some e, x) \<Rightarrow>
         (if isContention e then None
          else Some (Wrapf (''try redis lock '' @ q ''cron:file-upload-cleanup'') (redsync_text e)), w\<lparr>w_ext := x\<rparr>))"
proof -
  have "0 < sint (minutes 11)" by (simp add: minutes_def)
  then show ?thesis
    by (auto simp: runFileCleanup_def TryLock_def Lock_Unlock_def newMutex_def lockKeyPrefix_def run_db_prims
        split: prod.splits option.splits)
qed

text \<open>The only thing a job does to the tables is the cleanup.\<close>

lemma cleanup_call:
  assumes "run_state (Service_CleanupExpiredUploads R S) v = (a, v1)" "w_db v = w_db w" "w_db v2 = w_db v1"
  shows "effect_of_call R S w v2"
  unfolding effect_of_call_def
  by (rule exI, rule exI [of _ ReqCleanup], rule exI [of _ v], rule exI [of _ "(AnsCount (fst a), snd a)"], rule exI [of _ v1])
    (use assms in \<open>simp add: answering_def split: prod.splits\<close>)

lemma jobs_call:
  assumes "run_state (case j of FileCleanup \<Rightarrow> runFileCleanup q R S locker | Sample \<Rightarrow> runSample q locker) w = (r, w')"
  shows "w_db w' = w_db w \<or> effect_of_call R S w w'"
proof (cases j)
  case Sample
  with assms show ?thesis
    by (auto simp: runSample_def run_db_prims split: option.splits prod.splits bool.splits)
next
  case FileCleanup
  show ?thesis
  proof (cases locker)
    case None
    with assms FileCleanup show ?thesis
      by (auto simp: runFileCleanup_def split: prod.splits intro!: disjI2 cleanup_call)
  next
    case (Some l)
    with assms FileCleanup show ?thesis
      by (fastforce simp: run_locked_cleanup split: prod.splits option.splits intro: cleanup_call)
  qed
qed

lemma effect_of_call_shift:
  "effect_of_call R S v v' \<Longrightarrow> w_db v = w_db w \<Longrightarrow> w_db w' = w_db v' \<Longrightarrow> effect_of_call R S w w'"
  unfolding effect_of_call_def by metis

interpretation jobs: frontend "ce_runtime E" "ce_files E" "run_job E" for E :: "'x cron_env"
proof
  fix j and w :: "'x world" and r w'
  assume run: "run_state (run_job E j) w = (r, w')"
  let ?job = "case j of FileCleanup \<Rightarrow> runFileCleanup (ce_quote E) (ce_runtime E) (ce_files E) (ce_locker E)
    | Sample \<Rightarrow> runSample (ce_quote E) (ce_locker E)"
  obtain started x where s: "pr_now (mt_library (ce_metrics E)) (w_ext w) = (started, x)" by fastforce
  obtain err v where job: "run_state ?job (w\<lparr>w_ext := x\<rparr>) = (err, v)" by fastforce
  then have "w_db w' = w_db v" using run s
    by (auto simp: run_job_def run_db_prims Let_def split: prod.splits)
  then show "w_db w' = w_db w \<or> effect_of_call (ce_runtime E) (ce_files E) w w'"
    using jobs_call [OF job] effect_of_call_shift [of _ _ "w\<lparr>w_ext := x\<rparr>" v w w'] by auto
qed


end
