(* ===== verification/App.thy ===== *)
theory App
  imports Outbound Platform Migration Observability
begin

text \<open>
  What the assembly of the application, \<^verbatim>\<open>internal/app\<close>, decides: which connections are opened
  and with which settings (\<^verbatim>\<open>internal/database\<close>, \<open>Open\<close> of \<^verbatim>\<open>internal/cache\<close>),
  which verifiers are used, how the outbox dispatcher and the servers are started and stopped, and what
  the two programs under \<^verbatim>\<open>cmd\<close> do with their arguments. Drivers, the Redis client, the network and
  the platform's event packages are parameters; the container that calls the constructors and hooks is
  a library.
\<close>

subsection \<open>The database connection\<close>

record pgx_config =
  pg_Database :: string
  pg_RuntimeParams :: "string \<rightharpoonup> string"
  pg_rest :: string

record mysql_config =
  my_DBName :: string
  my_ParseTime :: bool
  my_Loc :: string
  my_rest :: string

record 'x sql_driver =
  dr_ParseConfig :: "string \<Rightarrow> go_error + pgx_config"
  dr_ParseDSN :: "string \<Rightarrow> go_error + mysql_config"
  dr_FormatDSN :: "mysql_config \<Rightarrow> string"
  dr_LoadLocation :: "string \<Rightarrow> go_error option"
  dr_OpenDB :: "pgx_config \<Rightarrow> ('x, unit) effect"
  dr_Open :: "string \<Rightarrow> string \<Rightarrow> ('x, go_error option) effect"
  dr_Ping :: "duration \<Rightarrow> ('x, go_error option) effect"
  dr_Close :: "('x, go_error option) effect"

record sql_pool =
  pl_driver :: string
  pl_MaxOpenConns :: int64
  pl_MaxIdleConns :: int64
  pl_ConnMaxLifetime :: duration
  pl_ConnMaxIdleTime :: duration

definition driverName :: "(string \<Rightarrow> string) \<Rightarrow> string \<Rightarrow> go_error + string" where
  "driverName uni dbType =
     (if dbType = ''mysql'' then Inr ''mysql''
      else if dbType = ''postgres'' \<or> dbType = ''kingbase'' then Inr ''pgx''
      else Inl (Errorf (''unsupported database type '' @ Quote uni dbType)))"

definition open_pgx :: "'x sql_driver \<Rightarrow> cfg_Database \<Rightarrow> ('x, go_error option) effect" where
  "open_pgx D cfg x =
     (case dr_ParseConfig D (database_DSN cfg) of
        Inl err \<Rightarrow> (Some (Wrapf ''parse database dsn'' err), x)
      | Inr c \<Rightarrow>
          let c1 = (if database_Name cfg \<noteq> [] then c\<lparr>pg_Database := database_Name cfg\<rparr> else c);
              params = (if database_Schema cfg \<noteq> []
                then (pg_RuntimeParams c1)(''search_path'' \<mapsto> database_Schema cfg) else pg_RuntimeParams c1)
          in (None, snd (dr_OpenDB D (c1\<lparr>pg_RuntimeParams := params(''timezone'' \<mapsto> ''Asia/Shanghai'')\<rparr>) x)))"

definition open_mysql :: "'x sql_driver \<Rightarrow> string \<Rightarrow> cfg_Database \<Rightarrow> ('x, go_error option) effect" where
  "open_mysql D driver cfg x =
     (case dr_ParseDSN D (database_DSN cfg) of
        Inl err \<Rightarrow> (Some (Wrapf ''parse database dsn'' err), x)
      | Inr c \<Rightarrow>
          let c1 = (if database_Name cfg \<noteq> [] then c\<lparr>my_DBName := database_Name cfg\<rparr> else c) in
          (case dr_LoadLocation D ''Asia/Shanghai'' of
             Some err \<Rightarrow> (Some (Wrapf ''load database timezone'' err), x)
           | None \<Rightarrow>
               (case dr_Open D driver (dr_FormatDSN D (c1\<lparr>my_ParseTime := True, my_Loc := ''Asia/Shanghai''\<rparr>)) x of
                  (err, x1) \<Rightarrow> (map_option (Wrapf ''open database'') err, x1))))"

definition database_Open ::
    "(string \<Rightarrow> string) \<Rightarrow> 'x sql_driver \<Rightarrow> cfg_Database \<Rightarrow> ('x, go_error + sql_pool) effect" where
  "database_Open uni D cfg x =
     (case driverName uni (database_Type cfg) of
        Inl err \<Rightarrow> (Inl err, x)
      | Inr driver \<Rightarrow>
          (case (if driver = ''pgx'' then open_pgx D cfg x
                 else if driver = ''mysql'' then open_mysql D driver cfg x
                 else case dr_Open D driver (database_DSN cfg) x of
                   (err, x1) \<Rightarrow> (map_option (Wrapf ''open database'') err, x1)) of
             (Some err, x1) \<Rightarrow> (Inl err, x1)
           | (None, x1) \<Rightarrow>
               (case dr_Ping D (database_PingTimeout cfg) x1 of
                  (Some err, x2) \<Rightarrow> (Inl (Wrapf ''ping database'' err), snd (dr_Close D x2))
                | (None, x2) \<Rightarrow>
                    (Inr \<lparr>pl_driver = driver, pl_MaxOpenConns = database_MaxOpenConns cfg,
                       pl_MaxIdleConns = database_MaxIdleConns cfg,
                       pl_ConnMaxLifetime = database_ConnMaxLifetime cfg,
                       pl_ConnMaxIdleTime = database_ConnMaxIdleTime cfg\<rparr>, x2))))"

definition newDatabase ::
    "(string \<Rightarrow> string) \<Rightarrow> 'x sql_driver \<Rightarrow> cfg_Config \<Rightarrow> ('x, go_error + sql_pool option) effect" where
  "newDatabase uni D cfg x =
     (if \<not> database_Enabled (config_Database cfg) then (Inr None, x)
      else case database_Open uni D (config_Database cfg) x of (r, x1) \<Rightarrow> (map_sum id Some r, x1))"

text \<open>The stop hook of the container: a pool that was returned is closed.\<close>

definition stop_database :: "'x sql_driver \<Rightarrow> go_error + sql_pool option \<Rightarrow> ('x, go_error option) effect" where
  "stop_database D db x = (case db of Inr (Some pool) \<Rightarrow> dr_Close D x | _ \<Rightarrow> (None, x))"

subsection \<open>The Redis connection\<close>

record 'x redis_library =
  rl_NewClient :: "cfg_Redis \<Rightarrow> ('x, unit) effect"
  rl_Ping :: "('x, go_error option) effect"
  rl_Close :: "('x, go_error option) effect"
  rl_InstrumentTracing :: "('x, go_error option) effect"

text \<open>The client is represented by the settings it was made with.\<close>

definition redis_Open :: "'x redis_library \<Rightarrow> cfg_Redis \<Rightarrow> ('x, go_error + cfg_Redis) effect" where
  "redis_Open D cfg x =
     (case rl_Ping D (snd (rl_NewClient D cfg x)) of
        (Some err, x1) \<Rightarrow> (Inl (Wrapf ''ping redis'' err), snd (rl_Close D x1))
      | (None, x1) \<Rightarrow> (Inr cfg, x1))"

definition newRedis :: "'x redis_library \<Rightarrow> cfg_Config \<Rightarrow> bool \<Rightarrow> ('x, go_error + cfg_Redis option) effect" where
  "newRedis D cfg tracing x =
     (if \<not> redis_Enabled (config_Redis cfg) then (Inr None, x)
      else case redis_Open D (config_Redis cfg) x of
          (Inl err, x1) \<Rightarrow> (Inl err, x1)
        | (Inr client, x1) \<Rightarrow>
            if \<not> tracing then (Inr (Some client), x1)
            else case rl_InstrumentTracing D x1 of
                (Some err, x2) \<Rightarrow> (Inl (Wrapf ''instrument redis tracing'' err), snd (rl_Close D x2))
              | (None, x2) \<Rightarrow> (Inr (Some client), x2))"

definition stop_redis :: "'x redis_library \<Rightarrow> go_error + cfg_Redis option \<Rightarrow> ('x, go_error option) effect" where
  "stop_redis D client x = (case client of Inr (Some c) \<Rightarrow> rl_Close D x | _ \<Rightarrow> (None, x))"

definition newLocker :: "(cfg_Redis \<Rightarrow> 'l) \<Rightarrow> cfg_Redis option \<Rightarrow> 'l option" where
  "newLocker NewLocker client = (case client of None \<Rightarrow> None | Some c \<Rightarrow> Some (NewLocker c))"

subsection \<open>Verifiers of other services\<close>

datatype application_verifier = DisabledVerifier | GRPCVerifier grpc_client_cfg duration

definition newApplicationVerifier :: "cfg_Config \<Rightarrow> Registry option \<Rightarrow> go_error + application_verifier" where
  "newApplicationVerifier cfg registry =
     (if \<not> database_Enabled (config_Database cfg) then Inr DisabledVerifier
      else case registry of
          None \<Rightarrow> Inl (Errorf ''file service requires outbound registry'')
        | Some r \<Rightarrow>
            (case Registry_GRPC r ''application'' of
               None \<Rightarrow> Inl (Errorf ''file service requires outbound.grpc.application'')
             | Some connection \<Rightarrow> Inr (GRPCVerifier connection (seconds 2))))"

text \<open>The authorizer of \<^verbatim>\<open>internal/authorization\<close>: with a connection, or without one.\<close>

definition authorization_New :: "Registry \<Rightarrow> grpc_client_cfg option \<times> duration" where
  "authorization_New registry = (Registry_GRPC registry ''authorization'', seconds 2)"

text \<open>The idempotency manager of \<^verbatim>\<open>internal/idempotency\<close>: its settings.\<close>

record idem_config =
  ic_Enabled :: bool
  ic_Service :: string
  ic_ProcessingTTL :: duration
  ic_ResultTTL :: duration
  ic_FailureTTL :: duration

definition idempotency_New :: "cfg_Config \<Rightarrow> idem_config" where
  "idempotency_New cfg = (let i = config_Idempotency cfg in
     \<lparr>ic_Enabled = idempotency_Enabled i, ic_Service = app_Name (config_App cfg),
      ic_ProcessingTTL = idempotency_ProcessingTTL i, ic_ResultTTL = idempotency_ResultTTL i,
      ic_FailureTTL = idempotency_FailureTTL i\<rparr>)"

definition newLogger ::
    "(string \<Rightarrow> string) \<Rightarrow> (string \<Rightarrow> ('x, go_error option) effect) \<Rightarrow> cfg_Config \<Rightarrow> ('x, go_error + Logger \<times> rotator) effect" where
  "newLogger lower MkdirDir cfg x =
     (case logging_New lower MkdirDir (config_Log cfg) x of
        (Inl err, x1) \<Rightarrow> (Inl err, x1)
      | (Inr (logger, closer), x1) \<Rightarrow>
          (Inr (logger\<lparr>lg_attrs := lg_attrs logger @ [(''service'', app_Name (config_App cfg)),
             (''environment'', runtime_ActiveProfile (config_Runtime cfg))]\<rparr>, closer), x1))"

subsection \<open>The servers\<close>

record http_server =
  hs_Addr :: string
  hs_ReadTimeout :: duration
  hs_WriteTimeout :: duration
  hs_IdleTimeout :: duration
  hs_release :: bool

definition http_NewServer :: "(string list \<Rightarrow> go_error option) \<Rightarrow> cfg_Config \<Rightarrow> go_error + http_server" where
  "http_NewServer SetTrustedProxies cfg = (let h = config_HTTP cfg in
     case SetTrustedProxies (http_TrustedProxies h) of
       Some err \<Rightarrow> Inl (Wrapf ''configure trusted proxies'' err)
     | None \<Rightarrow> Inr \<lparr>hs_Addr = http_Address h, hs_ReadTimeout = http_ReadTimeout h, hs_WriteTimeout = http_WriteTimeout h,
         hs_IdleTimeout = http_IdleTimeout h, hs_release = (app_Env (config_App cfg) = ''production'')\<rparr>)"

record grpc_server =
  gs_address :: string
  gs_MaxRecvMsgSize :: int64
  gs_creds :: "tls_Config option"
  gs_services :: "string list"

definition grpc_NewServer :: "tls_files \<Rightarrow> cfg_Config \<Rightarrow> go_error + grpc_server" where
  "grpc_NewServer F cfg = (let g = config_GRPC cfg in
     case (if grpctls_Enabled (grpc_TLS g) then map_sum id Some (serverCredentials F (grpc_TLS g)) else Inr None) of
       Inl err \<Rightarrow> Inl err
     | Inr creds \<Rightarrow> Inr \<lparr>gs_address = grpc_Address g, gs_MaxRecvMsgSize = grpc_MaxReceiveBytes g, gs_creds = creds,
         gs_services = [''platform.file.v1.FileService'', ''grpc.health.v1.Health''] @
           (if grpc_ReflectionEnabled g then [''reflection''] else [])\<rparr>)"

text \<open>
  The start hooks listen; what happens then runs on its own. Stopping the gRPC server waits for the
  running calls until the deadline of the context, an error of \<open>GracefulStop\<close> here, and then ends them.
\<close>

definition http_OnStart :: "(string \<Rightarrow> ('x, go_error option) effect) \<Rightarrow> http_server \<Rightarrow> ('x, go_error option) effect" where
  "http_OnStart Listen server x =
     (case Listen (hs_Addr server) x of (err, x1) \<Rightarrow> (map_option (Wrapf ''listen http'') err, x1))"

definition grpc_start ::
    "(string \<Rightarrow> ('x, go_error option) effect) \<Rightarrow> bool \<Rightarrow> grpc_server \<Rightarrow> ('x, go_error option) effect" where
  "grpc_start Listen enabled server x =
     (if \<not> enabled then (None, x)
      else case Listen (gs_address server) x of (err, x1) \<Rightarrow> (map_option (Wrapf ''listen grpc'') err, x1))"

definition grpc_stop :: "('x, go_error option) effect \<Rightarrow> ('x, unit) effect \<Rightarrow> ('x, go_error option) effect" where
  "grpc_stop GracefulStop Stop x =
     (case GracefulStop x of
        (None, x1) \<Rightarrow> (None, x1)
      | (Some err, x1) \<Rightarrow> (Some err, snd (Stop x1)))"

subsection \<open>The programs\<close>

text \<open>How a run of \<^verbatim>\<open>cmd/api\<close> or \<^verbatim>\<open>cmd/migrate\<close> ends, or that the application is run.\<close>

datatype program = Prints string | Exits nat string go_error | Refuses nat string | Succeeds | Runs cfg_Config

definition api_main ::
    "'v viper \<Rightarrow> (string \<Rightarrow> string) \<Rightarrow> (string \<Rightarrow> string) \<Rightarrow> build_vars \<Rightarrow> string \<Rightarrow> string \<Rightarrow> bool \<Rightarrow> program" where
  "api_main vp lower uni vars configPath profile showVersion =
     (if showVersion
      then Prints (''version='' @ bv_Version vars @ '' commit='' @ bv_Commit vars @ '' build_time='' @ bv_BuildTime vars @ [CHR 0x0A])
      else case LoadWithProfile vp lower uni configPath profile of
          Inl err \<Rightarrow> Exits 1 ''load configuration: '' err
        | Inr cfg \<Rightarrow> Runs cfg)"

definition migrate_main ::
    "'v viper \<Rightarrow> (string \<Rightarrow> string) \<Rightarrow> (string \<Rightarrow> string) \<Rightarrow> url_library \<Rightarrow> 'x sql_db \<Rightarrow> 'x migrator \<Rightarrow>
      string \<Rightarrow> string \<Rightarrow> string \<Rightarrow> int \<Rightarrow> ('x, program) effect" where
  "migrate_main vp lower uni L D M configPath profile direction steps x =
     (if direction \<noteq> ''up'' \<and> direction \<noteq> ''down'' then (Refuses 2 ''direction must be up or down'', x)
      else case LoadWithProfile vp lower uni configPath profile of
          Inl err \<Rightarrow> (Exits 1 ''migration failed: '' err, x)
        | Inr cfg \<Rightarrow>
            (case migration_Run uni L D M (config_Migration cfg) direction steps x of
               (Some err, x1) \<Rightarrow> (Exits 1 ''migration failed: '' err, x1)
             | (None, x1) \<Rightarrow> (Succeeds, x1)))"

subsection \<open>The event runtime\<close>

record bus_config =
  bc_URLs :: "string list"
  bc_ClientName :: string
  bc_StreamName :: string
  bc_Subjects :: "string list"
  bc_Storage :: string
  bc_MaxAge :: duration
  bc_DuplicateWindow :: duration
  bc_ConnectTimeout :: duration
  bc_PublishTimeout :: duration

record 'x event_library =
  el_NewBus :: "bus_config \<Rightarrow> ('x, go_error option) effect"
  el_CloseBus :: "('x, go_error option) effect"
  el_NewDispatcher :: "int64 \<Rightarrow> duration \<Rightarrow> duration \<Rightarrow> go_error option"
  el_NewCleaner :: "duration \<Rightarrow> int64 \<Rightarrow> go_error option"
  el_RunOnce :: "('x, go_error option) effect"
  el_Clean :: "('x, int64 \<times> go_error option) effect"

text \<open>\<open>er_tasks\<close> counts the running goroutines, \<open>er_cancel\<close> says whether there is a context to cancel.\<close>

record fileEventRuntime =
  er_store :: bool
  er_bus :: bool
  er_cancel :: bool
  er_tasks :: nat

text \<open>The outbox store, absent without a database.\<close>

definition newFileOutboxStore :: "(string \<Rightarrow> go_error option) \<Rightarrow> sql_pool option \<Rightarrow> go_error + string option" where
  "newFileOutboxStore NewSQLStore db =
     (case db of
        None \<Rightarrow> Inr None
      | Some pool \<Rightarrow>
          (case NewSQLStore ''file_outbox_events'' of
             Some err \<Rightarrow> Inl err
           | None \<Rightarrow> Inr (Some ''file_outbox_events'')))"

definition newFileEventRuntime :: "string option \<Rightarrow> fileEventRuntime" where
  "newFileEventRuntime store = \<lparr>er_store = (store \<noteq> None), er_bus = False, er_cancel = False, er_tasks = 0\<rparr>"

definition stream_config :: "cfg_Config \<Rightarrow> bus_config" where
  "stream_config cfg = (let b = config_EventBus cfg in
     \<lparr>bc_URLs = eventbus_URLs b, bc_ClientName = app_Name (config_App cfg), bc_StreamName = eventbus_StreamName b,
      bc_Subjects = [''platform.>''], bc_Storage = eventbus_Storage b, bc_MaxAge = eventbus_MaxAge b,
      bc_DuplicateWindow = eventbus_DuplicateWindow b, bc_ConnectTimeout = eventbus_ConnectTimeout b,
      bc_PublishTimeout = eventbus_PublishTimeout b\<rparr>)"

definition eventRuntime_start ::
    "'x event_library \<Rightarrow> cfg_Config \<Rightarrow> fileEventRuntime \<Rightarrow> ('x, go_error option \<times> fileEventRuntime) effect" where
  "eventRuntime_start L cfg r x =
     (let b = config_EventBus cfg in
      if \<not> eventbus_Enabled b then ((None, r), x)
      else if \<not> er_store r then ((Some (Errorf ''enabled event bus requires database outbox''), r), x)
      else case el_NewBus L (stream_config cfg) x of
          (Some err, x1) \<Rightarrow> ((Some err, r), x1)
        | (None, x1) \<Rightarrow>
            (case el_NewDispatcher L (eventbus_DispatchBatchSize b) (eventbus_DispatchLease b)
                (eventbus_DispatchRetryDelay b) of
               Some err \<Rightarrow> ((Some err, r), snd (el_CloseBus L x1))
             | None \<Rightarrow>
                 (case el_NewCleaner L (eventbus_PublishedRetention b) (eventbus_CleanupBatchSize b) of
                    Some err \<Rightarrow> ((Some err, r\<lparr>er_bus := True, er_cancel := True\<rparr>), snd (el_CloseBus L x1))
                  | None \<Rightarrow> ((None, r\<lparr>er_bus := True, er_cancel := True, er_tasks := 2\<rparr>), x1))))"

definition eventRuntime_stop :: "'x event_library \<Rightarrow> fileEventRuntime \<Rightarrow> ('x, go_error option \<times> fileEventRuntime) effect" where
  "eventRuntime_stop L r x =
     (let r1 = (if er_cancel r then r\<lparr>er_tasks := 0\<rparr> else r) in
      if er_bus r then (case el_CloseBus L x of (err, x1) \<Rightarrow> ((err, r1), x1)) else ((None, r1), x))"

text \<open>
  The dispatching goroutine: a round, then a tick or the end of the context. With \<open>n\<close> ticks
  before the end, the errors it logs.
\<close>

definition loggable :: "go_error option \<Rightarrow> go_error list" where
  "loggable err = (case err of Some e \<Rightarrow> if errors_Is e Canceled then [] else [e] | None \<Rightarrow> [])"

fun dispatch_loop :: "'x event_library \<Rightarrow> nat \<Rightarrow> ('x, go_error list) effect" where
  "dispatch_loop L 0 x = (case el_RunOnce L x of (err, x1) \<Rightarrow> (loggable err, x1))"
| "dispatch_loop L (Suc n) x =
     (case el_RunOnce L x of (err, x1) \<Rightarrow>
        (case dispatch_loop L n x1 of (es, x2) \<Rightarrow> (loggable err @ es, x2)))"

text \<open>The cleaning goroutine logs an error, or the number of events it deleted.\<close>

datatype cleaner_log = CleanFailed go_error | Cleaned int64

definition cleaner_line :: "int64 \<times> go_error option \<Rightarrow> cleaner_log list" where
  "cleaner_line = (\<lambda>(deleted, err).
     case loggable err of e # _ \<Rightarrow> [CleanFailed e] | [] \<Rightarrow> if 0 <s deleted then [Cleaned deleted] else [])"

fun clean_loop :: "'x event_library \<Rightarrow> nat \<Rightarrow> ('x, cleaner_log list) effect" where
  "clean_loop L 0 x = (case el_Clean L x of (r, x1) \<Rightarrow> (cleaner_line r, x1))"
| "clean_loop L (Suc n) x =
     (case el_Clean L x of (r, x1) \<Rightarrow>
        (case clean_loop L n x1 of (es, x2) \<Rightarrow> (cleaner_line r @ es, x2)))"

subsection \<open>Properties\<close>

text \<open>Counting what is open.\<close>

definition opens :: "('x, 'a) effect \<Rightarrow> ('a \<Rightarrow> bool) \<Rightarrow> (int \<times> 'x, 'a) effect" where
  "opens f ok = (\<lambda>(k, x). let (a, x') = f x in (a, if ok a then k + 1 else k, x'))"

definition closes :: "('x, 'a) effect \<Rightarrow> (int \<times> 'x, 'a) effect" where
  "closes f = (\<lambda>(k, x). let (a, x') = f x in (a, k - 1, x'))"

definition keeps_open :: "('x, 'a) effect \<Rightarrow> (int \<times> 'x, 'a) effect" where
  "keeps_open f = (\<lambda>(k, x). let (a, x') = f x in (a, k, x'))"

definition counting_driver :: "'x sql_driver \<Rightarrow> (int \<times> 'x) sql_driver" where
  "counting_driver D = \<lparr>dr_ParseConfig = dr_ParseConfig D, dr_ParseDSN = dr_ParseDSN D, dr_FormatDSN = dr_FormatDSN D,
     dr_LoadLocation = dr_LoadLocation D, dr_OpenDB = (\<lambda>c. opens (dr_OpenDB D c) (\<lambda>_. True)),
     dr_Open = (\<lambda>d s. opens (dr_Open D d s) (\<lambda>err. err = None)), dr_Ping = (\<lambda>t. keeps_open (dr_Ping D t)),
     dr_Close = closes (dr_Close D)\<rparr>"

definition counting_redis :: "'x redis_library \<Rightarrow> (int \<times> 'x) redis_library" where
  "counting_redis D = \<lparr>rl_NewClient = (\<lambda>c. opens (rl_NewClient D c) (\<lambda>_. True)), rl_Ping = keeps_open (rl_Ping D),
     rl_Close = closes (rl_Close D), rl_InstrumentTracing = keeps_open (rl_InstrumentTracing D)\<rparr>"

definition counting_events :: "'x event_library \<Rightarrow> (int \<times> 'x) event_library" where
  "counting_events L = \<lparr>el_NewBus = (\<lambda>c. opens (el_NewBus L c) (\<lambda>err. err = None)), el_CloseBus = closes (el_CloseBus L),
     el_NewDispatcher = el_NewDispatcher L, el_NewCleaner = el_NewCleaner L, el_RunOnce = keeps_open (el_RunOnce L),
     el_Clean = keeps_open (el_Clean L)\<rparr>"

definition counting_dialer :: "'x dialer \<Rightarrow> (int \<times> 'x) dialer" where
  "counting_dialer D = \<lparr>dl_NewClient = (\<lambda>c. opens (dl_NewClient D c) (\<lambda>err. err = None)),
     dl_Close = (\<lambda>n. closes (dl_Close D n)), dl_CloseIdle = (\<lambda>n. keeps_open (dl_CloseIdle D n))\<rparr>"

text \<open>An operation that opens connections: exactly those its result holds stay open.\<close>

locale connecting =
  fixes run :: "int \<times> 'x \<Rightarrow> 'r \<times> int \<times> 'x" and held :: "'r \<Rightarrow> int"
  assumes balance: "fst (snd (run (k, x))) = k + held (fst (run (k, x)))"
begin

text \<open>Whatever is opened by a run is closed again by an operation that closes what the result holds.\<close>

lemma then_closed:
  assumes "\<And>r j y. fst (snd (shut r (j, y))) = j - held r"
  shows "fst (snd (shut (fst (run (k, x))) (snd (run (k, x))))) = k"
  using balance [of k x] assms [of "fst (run (k, x))" "fst (snd (run (k, x)))" "snd (snd (run (k, x)))"]
  unfolding prod.collapse by simp

end

text \<open>What a constructor holds: a connection if it returns one.\<close>

definition one_if_some :: "go_error + 'a option \<Rightarrow> int" where
  "one_if_some r = (case r of Inr (Some _) \<Rightarrow> 1 | _ \<Rightarrow> 0)"

definition held_clients :: "go_error + Registry \<Rightarrow> int" where
  "held_clients r = (case r of Inr reg \<Rightarrow> int (length (reg_grpc reg)) | Inl _ \<Rightarrow> 0)"

lemma counting_simps [simp]:
  "dr_ParseConfig (counting_driver D) = dr_ParseConfig D" "dr_ParseDSN (counting_driver D) = dr_ParseDSN D"
  "dr_FormatDSN (counting_driver D) = dr_FormatDSN D" "dr_LoadLocation (counting_driver D) = dr_LoadLocation D"
  "dr_OpenDB (counting_driver D) c (k, x) = (fst (dr_OpenDB D c x), k + 1, snd (dr_OpenDB D c x))"
  "dr_Open (counting_driver D) d s (k, x) =
     (fst (dr_Open D d s x), if fst (dr_Open D d s x) = None then k + 1 else k, snd (dr_Open D d s x))"
  "dr_Ping (counting_driver D) t (k, x) = (fst (dr_Ping D t x), k, snd (dr_Ping D t x))"
  "dr_Close (counting_driver D) (k, x) = (fst (dr_Close D x), k - 1, snd (dr_Close D x))"
  by (simp_all add: counting_driver_def opens_def closes_def keeps_open_def split: prod.splits)

lemma connect_balance:
  "fst (snd (open_pgx (counting_driver D) cfg (k, x))) =
     (if fst (open_pgx (counting_driver D) cfg (k, x)) = None then k + 1 else k)"
  "fst (snd (open_mysql (counting_driver D) driver cfg (k, x))) =
     (if fst (open_mysql (counting_driver D) driver cfg (k, x)) = None then k + 1 else k)"
  by (simp_all add: open_pgx_def open_mysql_def Let_def split: sum.splits option.splits)

lemma database_balance:
  "fst (snd (database_Open uni (counting_driver D) cfg (k, x))) =
     (case fst (database_Open uni (counting_driver D) cfg (k, x)) of Inl _ \<Rightarrow> k | Inr _ \<Rightarrow> k + 1)"
proof (cases "driverName uni (database_Type cfg)")
  case (Inr driver)
  define c where "c = (if driver = ''pgx'' then open_pgx (counting_driver D) cfg (k, x)
     else if driver = ''mysql'' then open_mysql (counting_driver D) driver cfg (k, x)
     else case dr_Open (counting_driver D) driver (database_DSN cfg) (k, x) of
       (err, x1) \<Rightarrow> (map_option (Wrapf ''open database'') err, x1))"
  obtain err j y where c': "c = (err, j, y)" by (cases c) auto
  have "j = (if err = None then k + 1 else k)"
    using connect_balance(1) [of D cfg k x] connect_balance(2) [of D driver cfg k x] c' unfolding c_def
    by (auto split: if_splits)
  then show ?thesis
    by (simp add: database_Open_def Inr c_def [symmetric] c' split: option.splits)
qed (simp add: database_Open_def)

interpretation db_connection: connecting "newDatabase uni (counting_driver D) cfg" one_if_some for uni D cfg
proof
  fix k x
  show "fst (snd (newDatabase uni (counting_driver D) cfg (k, x))) =
    k + one_if_some (fst (newDatabase uni (counting_driver D) cfg (k, x)))"
    using database_balance [of uni D "config_Database cfg" k x]
    by (auto simp: newDatabase_def one_if_some_def split: prod.splits sum.splits)
qed

lemma counting_redis_Close [simp]:
  "rl_Close (counting_redis D) (k, x) = (fst (rl_Close D x), k - 1, snd (rl_Close D x))"
  by (simp add: counting_redis_def closes_def split: prod.splits)

interpretation redis_connection: connecting "newRedis (counting_redis D) cfg tracing" one_if_some for D cfg tracing
  by unfold_locales
    (auto simp: newRedis_def redis_Open_def counting_redis_def opens_def closes_def keeps_open_def one_if_some_def
      split: prod.splits option.splits sum.splits if_splits)

interpretation bus_connection: connecting "eventRuntime_start (counting_events L) cfg r"
    "\<lambda>(err, r'). if err = None \<and> eventbus_Enabled (config_EventBus cfg) then 1 else 0"
  for L cfg r
  by unfold_locales
    (auto simp: eventRuntime_start_def Let_def counting_events_def opens_def closes_def
      split: prod.splits option.splits if_splits)

lemma dialer_counts:
  "fst (snd (dl_NewClient (counting_dialer D) c s)) = fst s + (if fst (dl_NewClient (counting_dialer D) c s) = None then 1 else 0)"
  "fst (snd (dl_Close (counting_dialer D) n s)) = fst s - 1"
  "fst (snd (dl_CloseIdle (counting_dialer D) n s)) = fst s"
  by (cases s; simp add: counting_dialer_def opens_def closes_def keeps_open_def Let_def split: prod.splits)+

lemma Dial_counts:
  "fst (snd (Dial F (counting_dialer D) c s)) = fst s + (if fst (Dial F (counting_dialer D) c s) = None then 1 else 0)"
  by (simp add: Dial_def dialer_counts split: sum.splits)

lemma open_grpc_counts:
  "fst (snd (open_grpc uni F (counting_dialer D) us s)) =
    fst s + int (length (snd (fst (open_grpc uni F (counting_dialer D) us s))))"
proof (induction us arbitrary: s)
  case (Cons u us)
  obtain name up where u: "u = (name, up)" by (cases u)
  obtain err t where d: "Dial F (counting_dialer D) (client_config name up) s = (err, t)"
    by (cases "Dial F (counting_dialer D) (client_config name up) s")
  have t: "fst t = fst s + (if err = None then 1 else 0)" using Dial_counts [of F D "client_config name up" s] d by simp
  show ?case
  proof (cases err)
    case None
    then show ?thesis using Cons.IH [of t] t by (simp add: u d case_prod_unfold)
  qed (use t in \<open>simp add: u d\<close>)
qed simp

lemma close_grpc_counts: "fst (snd (close_grpc uni (counting_dialer D) cs s)) = fst s - int (length cs)"
proof (induction cs arbitrary: s)
  case (Cons c cs)
  obtain name cfg where c: "c = (name, cfg)" by (cases c)
  show ?case using Cons.IH [of "snd (dl_Close (counting_dialer D) name s)"]
    by (simp add: c case_prod_unfold dialer_counts)
qed simp

lemma Registry_close_counts:
  "fst (snd (Registry_close uni (counting_dialer D) r s)) = fst s - int (length (reg_grpc r))"
proof -
  have "fst (fold (\<lambda>(name, c) x. snd (dl_CloseIdle (counting_dialer D) name x)) hs s) = fst s" for hs s
    by (induction hs arbitrary: s) (auto simp: dialer_counts)
  then show ?thesis by (simp add: Registry_close_def close_grpc_counts)
qed

interpretation outbound_connections: connecting "NewRegistry uni N F (counting_dialer D) cfg" held_clients
  for uni N F D cfg
proof
  fix k x
  let ?us = "outbound_GRPC (config_Outbound cfg)"
  obtain err hs where h: "open_http uni N F (outbound_HTTP (config_Outbound cfg)) = (err, hs)" by fastforce
  obtain gerr gs t where g: "open_grpc uni F (counting_dialer D) ?us (k, x) = ((gerr, gs), t)" by (metis prod.collapse)
  have "fst t = k + int (length gs)" using open_grpc_counts [of uni F D ?us "(k, x)"] g by simp
  then show "fst (snd (NewRegistry uni N F (counting_dialer D) cfg (k, x))) =
    k + held_clients (fst (NewRegistry uni N F (counting_dialer D) cfg (k, x)))"
    by (cases err; cases gerr) (simp_all add: NewRegistry_def h g held_clients_def Registry_close_counts)
qed

lemma start_runtime:
  assumes "eventRuntime_start L cfg (newFileEventRuntime store) x = ((err, r), x')"
  shows "er_tasks r = (if err = None \<and> eventbus_Enabled (config_EventBus cfg) then 2 else 0)"
    "err = None \<Longrightarrow> er_bus r = eventbus_Enabled (config_EventBus cfg) \<and> er_cancel r = eventbus_Enabled (config_EventBus cfg)"
  using assms
  by (auto simp: eventRuntime_start_def newFileEventRuntime_def Let_def split: prod.splits option.splits if_splits)

definition stop_registry :: "(string \<Rightarrow> string) \<Rightarrow> 'x dialer \<Rightarrow> go_error + Registry \<Rightarrow> ('x, go_error option) effect" where
  "stop_registry uni D r x = (case r of Inr reg \<Rightarrow> Registry_close uni D reg x | Inl _ \<Rightarrow> (None, x))"

text \<open>
  C31. Starting up leaks nothing. A constructor that opens connections, to the database, to Redis or to
  the other services, returns them or closes them again, whichever of its steps fails and whatever the errors of
  closing; so does the start of the event runtime with its bus, which has its two goroutines running exactly when
  it succeeded with the bus switched on. And the stop hooks undo it: they close what was returned, the bus
  of a started runtime, and end its goroutines.
\<close>

theorem startup_leaks_nothing:
  assumes "newDatabase uni (counting_driver D) cfg (k, x) = (db, k1, x1)"
    and "newRedis (counting_redis C) cfg tracing (k, y) = (client, k2, y1)"
    and "NewRegistry uni N F (counting_dialer G) cfg (k, u) = (registry, k4, u1)"
    and "eventRuntime_start (counting_events L) cfg (newFileEventRuntime store) (k, z) = ((err, r), k3, z1)"
  shows "k1 = k + one_if_some db \<and> fst (snd (stop_database (counting_driver D) db (k1, x1))) = k \<and>
    k2 = k + one_if_some client \<and> fst (snd (stop_redis (counting_redis C) client (k2, y1))) = k \<and>
    k4 = k + held_clients registry \<and> fst (snd (stop_registry uni (counting_dialer G) registry (k4, u1))) = k \<and>
    k3 = (if err = None \<and> eventbus_Enabled (config_EventBus cfg) then k + 1 else k) \<and>
    er_tasks r = (if err = None \<and> eventbus_Enabled (config_EventBus cfg) then 2 else 0) \<and>
    (err = None \<longrightarrow> (\<exists>e r' z'. eventRuntime_stop (counting_events L) r (k3, z1) = ((e, r'), k, z') \<and> er_tasks r' = 0))"
proof -
  have "k1 = k + one_if_some db" using db_connection.balance [of uni D cfg k x] assms(1) by simp
  moreover have "fst (snd (stop_database (counting_driver D) db (k1, x1))) = k"
    using db_connection.then_closed [of "stop_database (counting_driver D)" uni D cfg k x] assms(1)
    by (auto simp: stop_database_def one_if_some_def split: sum.splits option.splits)
  moreover have "k2 = k + one_if_some client" using redis_connection.balance [of C cfg tracing k y] assms(2) by simp
  moreover have "fst (snd (stop_redis (counting_redis C) client (k2, y1))) = k"
    using redis_connection.then_closed [of "stop_redis (counting_redis C)" C cfg tracing k y] assms(2)
    by (auto simp: stop_redis_def one_if_some_def split: sum.splits option.splits)
  moreover have "k4 = k + held_clients registry" using outbound_connections.balance [of uni N F G cfg k u] assms(3) by simp
  moreover have "fst (snd (stop_registry uni (counting_dialer G) registry (k4, u1))) = k"
    using outbound_connections.then_closed [of "stop_registry uni (counting_dialer G)" uni N F G cfg k u] assms(3)
    by (auto simp: stop_registry_def held_clients_def Registry_close_counts split: sum.splits)
  moreover have k3: "k3 = (if err = None \<and> eventbus_Enabled (config_EventBus cfg) then k + 1 else k)"
    using bus_connection.balance [of L cfg "newFileEventRuntime store" k z] assms(4) by (simp split: if_splits)
  moreover have "\<exists>e r' z'. eventRuntime_stop (counting_events L) r (k3, z1) = ((e, r'), k, z') \<and> er_tasks r' = 0"
    if "err = None"
    using that k3 start_runtime [OF assms(4)]
    by (auto simp: eventRuntime_stop_def Let_def counting_events_def closes_def split: prod.splits if_splits)
  ultimately show ?thesis using start_runtime(1) [OF assms(4)] by blast
qed

text \<open>Both goroutines make one round more than there are ticks, whatever the rounds return.\<close>

lemma dispatch_rounds: "snd (dispatch_loop L n x) = ((\<lambda>x. snd (el_RunOnce L x)) ^^ Suc n) x"
  by (induction n arbitrary: x) (simp_all add: case_prod_unfold funpow_swap1 [of "\<lambda>x. snd (el_RunOnce L x)"])

lemma clean_rounds: "snd (clean_loop L n x) = ((\<lambda>x. snd (el_Clean L x)) ^^ Suc n) x"
  by (induction n arbitrary: x) (simp_all add: case_prod_unfold funpow_swap1 [of "\<lambda>x. snd (el_Clean L x)"])

definition demo_bus :: "nat event_library" where
  "demo_bus = \<lparr>el_NewBus = (\<lambda>c x. (None, Suc x)), el_CloseBus = (\<lambda>x. (None, x)), el_NewDispatcher = (\<lambda>n l d. None),
     el_NewCleaner = (\<lambda>d n. None), el_RunOnce = (\<lambda>x. (None, x)),
     el_Clean = (\<lambda>x. ((0, None), x))\<rparr>"

text \<open>Two other services, the second of which has no address.\<close>

definition demo_service :: "string \<Rightarrow> cfg_GRPCUpstream" where
  "demo_service target =
     \<lparr>grpcupstream_Target = target, grpcupstream_Timeout = seconds 2,
      grpcupstream_Auth = \<lparr>clientauth_Type = [], clientauth_Token = []\<rparr>,
      grpcupstream_Retry = \<lparr>retry_MaxAttempts = 1, retry_InitialBackoff = 1, retry_MaxBackoff = 1, retry_Methods = []\<rparr>,
      grpcupstream_Breaker = \<lparr>breaker_Enabled = False, breaker_FailureThreshold = 0, breaker_OpenTimeout = 0\<rparr>,
      grpcupstream_TLS = \<lparr>clienttls_Enabled = False, clienttls_ServerName = [], clienttls_CAFile = [],
        clienttls_CertFile = [], clienttls_KeyFile = []\<rparr>\<rparr>"

definition demo_app :: cfg_Config where
  "demo_app = default_config\<lparr>config_EventBus := default_EventBus\<lparr>eventbus_Enabled := True\<rparr>,
     config_Redis := default_Redis\<lparr>redis_Enabled := True\<rparr>,
     config_Outbound := \<lparr>outbound_HTTP = [], outbound_GRPC = [(''application'', demo_service ''app:9090''),
       (''authorization'', demo_service [])]\<rparr>\<rparr>"

definition demo_dialer :: "nat dialer" where
  "demo_dialer = \<lparr>dl_NewClient = (\<lambda>c x. (None, x)), dl_Close = (\<lambda>n x. (Some (Errorf ''gone''), x)), dl_CloseIdle = (\<lambda>n x. ((), x))\<rparr>"

definition demo_tls :: tls_files where
  "demo_tls = \<lparr>tf_LoadX509KeyPair = (\<lambda>c k. Inl (Errorf c)), tf_ReadFile = (\<lambda>f. Inl (Errorf f)), tf_AppendCertsFromPEM = (\<lambda>p. None)\<rparr>"

definition demo_network :: "(int \<times> nat) outbound_http" where
  "demo_network = \<lparr>oh_parse = (\<lambda>u. None), oh_resolve = (\<lambda>b r. r), oh_request = (\<lambda>m t. None), oh_Do = (\<lambda>q x. (Inl (Errorf []), x)),
     oh_wait = (\<lambda>d x. (None, x)), oh_admit = (\<lambda>x. (None, x)), oh_report = (\<lambda>b x. ((), x))\<rparr>"

definition demo_driver_library :: "nat sql_driver" where
  "demo_driver_library = \<lparr>dr_ParseConfig = (\<lambda>s. Inl (Errorf s)), dr_ParseDSN = (\<lambda>s. Inl (Errorf s)), dr_FormatDSN = my_rest,
     dr_LoadLocation = (\<lambda>s. None), dr_OpenDB = (\<lambda>c x. ((), x)), dr_Open = (\<lambda>d s x. (None, x)),
     dr_Ping = (\<lambda>t x. (None, x)), dr_Close = (\<lambda>x. (None, x))\<rparr>"

text \<open>A Redis that answers the ping but cannot be instrumented.\<close>

definition demo_redis :: "nat redis_library" where
  "demo_redis = \<lparr>rl_NewClient = (\<lambda>c x. ((), x)), rl_Ping = (\<lambda>x. (None, x)), rl_Close = (\<lambda>x. (None, x)),
     rl_InstrumentTracing = (\<lambda>x. (Some (Errorf ''no tracer''), x))\<rparr>"

theorem startup_leaks_nothing_witness:
  "snd (newRedis (counting_redis demo_redis) demo_app True (0, 0)) = (0, 0) \<and>
    snd (NewRegistry (\<lambda>s. s) demo_network demo_tls (counting_dialer demo_dialer) demo_app (0, 0)) = (0, 0) \<and>
    (\<exists>r k3 z1 e r' z'. eventRuntime_start (counting_events demo_bus) demo_app (newFileEventRuntime (Some ''file_outbox_events'')) (0, 0) =
        ((None, r), k3, z1) \<and>
      eventRuntime_stop (counting_events demo_bus) r (k3, z1) = ((e, r'), 0, z') \<and> er_tasks r' = 0)"
proof -
  let ?r = "\<lparr>er_store = True, er_bus = True, er_cancel = True, er_tasks = 2\<rparr>"
  have d: "newDatabase (\<lambda>s. s) (counting_driver demo_driver_library) demo_app (0, 0) = (Inr None, 0, 0)"
    by (simp add: newDatabase_def demo_app_def default_config_def default_Database_def)
  have c: "newRedis (counting_redis demo_redis) demo_app True (0, 0) =
      (Inl (Wrapf ''instrument redis tracing'' (Errorf ''no tracer'')), 0, 0)"
    by (simp add: newRedis_def redis_Open_def demo_app_def counting_redis_def demo_redis_def opens_def closes_def
        keeps_open_def)
  have e: "eventRuntime_start (counting_events demo_bus) demo_app (newFileEventRuntime (Some ''file_outbox_events'')) (0, 0) =
      ((None, ?r), 1, 1)"
    by (simp add: eventRuntime_start_def newFileEventRuntime_def demo_app_def counting_events_def demo_bus_def opens_def)
  have n: "NewRegistry (\<lambda>s. s) demo_network demo_tls (counting_dialer demo_dialer) demo_app (0, 0) =
      (Inl (Wrapf (''create outbound gRPC client '' @ Quote (\<lambda>s. s) ''authorization'')
        (Errorf ''grpc client target is required'')), 0, 0)"
    by (simp add: NewRegistry_def demo_app_def Dial_def Dial_check_def client_config_def demo_service_def seconds_def
        transportCredentials_def counting_dialer_def demo_dialer_def opens_def closes_def keeps_open_def Registry_close_def)
  from startup_leaks_nothing [OF d c n e] c e n show ?thesis by auto
qed

end
