(* ===== verification/Wiring.thy ===== *)
theory Wiring
  imports App
begin

text \<open>
  How the application is put together: the options that \<open>New\<close> of \<^verbatim>\<open>internal/app\<close> gives to the container, with
  the modules of the packages, the types each constructor takes and the hooks it registers. The container is a library:
  it appears as the log of what it constructs and invokes, which keeps the rules the library documents. Of the invoked functions
  the startup migration is in \<open>Migration\<close>; the others do nothing or warn that a connection is switched off.
\<close>

subsection \<open>The container's rules\<close>

text \<open>
  A constructor that has returned without an error, and an invoked function that has. A start that fails
  is a log that ends.
\<close>

datatype 'p fx_event = Constructed 'p | Invoked string

fun constructed :: "'p fx_event list \<Rightarrow> 'p list" where
  "constructed [] = []"
| "constructed (Constructed p # es) = p # constructed es"
| "constructed (Invoked n # es) = constructed es"

fun invoked :: "'p fx_event list \<Rightarrow> string list" where
  "invoked [] = []"
| "invoked (Constructed p # es) = invoked es"
| "invoked (Invoked n # es) = n # invoked es"

text \<open>What an invoked function wants: its arguments, and what the constructors of wanted types take.\<close>

inductive wanted :: "('p \<Rightarrow> 'p list option) \<Rightarrow> 'p list \<Rightarrow> 'p \<Rightarrow> bool" for deps args where
  wanted_argument: "p \<in> set args \<Longrightarrow> wanted deps args p"
| wanted_through: "wanted deps args p \<Longrightarrow> deps p = Some qs \<Longrightarrow> q \<in> set qs \<Longrightarrow> wanted deps args q"

text \<open>
  The rules: functions are invoked in the order they are given, each once its arguments are there; a
  constructor is called at most once, after what it takes has been constructed, and only for a function that
  is to be invoked next and wants its result.
\<close>

fun obeys :: "('p \<Rightarrow> 'p list option) \<Rightarrow> 'p list \<Rightarrow> (string \<times> 'p list) list \<Rightarrow> 'p fx_event list \<Rightarrow> bool" where
  "obeys deps built todo [] = True"
| "obeys deps built [] (e # es) = False"
| "obeys deps built ((n, args) # todo) (Constructed p # es) =
     (p \<notin> set built \<and> (case deps p of None \<Rightarrow> False | Some qs \<Rightarrow> set qs \<subseteq> set built) \<and> wanted deps args p \<and>
      obeys deps (built @ [p]) ((n, args) # todo) es)"
| "obeys deps built ((n, args) # todo) (Invoked m # es) = (m = n \<and> set args \<subseteq> set built \<and> obeys deps built todo es)"

lemma constructed_append [simp]: "constructed (xs @ ys) = constructed xs @ constructed ys"
  by (induction xs rule: constructed.induct) simp_all

lemma invoked_append [simp]: "invoked (xs @ ys) = invoked xs @ invoked ys"
  by (induction xs rule: invoked.induct) simp_all

lemma obeys_append:
  "obeys deps built todo (xs @ ys) \<longleftrightarrow>
     obeys deps built todo xs \<and> obeys deps (built @ constructed xs) (drop (length (invoked xs)) todo) ys"
  by (induction deps built todo xs rule: obeys.induct) auto

lemma obeys_constructed:
  assumes "obeys deps built todo (xs @ Constructed p # ys)"
  obtains n args rest qs where "drop (length (invoked xs)) todo = (n, args) # rest" "p \<notin> set (built @ constructed xs)"
    "deps p = Some qs" "set qs \<subseteq> set (built @ constructed xs)" "wanted deps args p"
    "obeys deps (built @ constructed xs @ [p]) ((n, args) # rest) ys"
proof (cases "drop (length (invoked xs)) todo")
  case (Cons a rest)
  then show ?thesis using assms that by (cases a) (auto simp: obeys_append split: option.splits)
qed (use assms in \<open>simp add: obeys_append\<close>)

lemma obeys_distinct: "obeys deps built todo es \<Longrightarrow> distinct built \<Longrightarrow> distinct (built @ constructed es)"
  by (induction deps built todo es rule: obeys.induct) auto

lemma obeys_invoked: "obeys deps built todo es \<Longrightarrow> invoked es = map fst (take (length (invoked es)) todo)"
  by (induction deps built todo es rule: obeys.induct) auto

lemma wanted_closed:
  assumes "wanted deps args p" "set args \<subseteq> S" "\<And>p qs. p \<in> S \<Longrightarrow> deps p = Some qs \<Longrightarrow> set qs \<subseteq> S"
  shows "p \<in> S"
  using assms(1) by induction (use assms(2,3) in auto)

text \<open>What has been constructed has everything it was made from, directly or not, before it.\<close>

definition complete_for :: "('p \<Rightarrow> 'p list option) \<Rightarrow> 'p set \<Rightarrow> bool" where
  "complete_for deps S \<longleftrightarrow> (\<forall>p\<in>S. case deps p of None \<Rightarrow> False | Some qs \<Rightarrow> set qs \<subseteq> S)"

lemma obeys_complete: "obeys deps built todo es \<Longrightarrow> complete_for deps (set built) \<Longrightarrow> complete_for deps (set (built @ constructed es))"
proof (induction deps built todo es rule: obeys.induct)
  case (3 deps built n args todo p es)
  have "complete_for deps (set (built @ [p]))" using 3(2,3) by (force simp: complete_for_def split: option.splits)
  then show ?case using 3 by simp
qed simp_all

lemma wanted_of_complete:
  "wanted deps args p \<Longrightarrow> set args \<subseteq> S \<Longrightarrow> complete_for deps S \<Longrightarrow> p \<in> S"
  by (erule wanted_closed) (auto simp: complete_for_def split: option.splits)

text \<open>
  A container that can always go on: every type has a constructor, and no constructor needs its own result.
\<close>

locale acyclic_wiring =
  fixes deps :: "'p::finite \<Rightarrow> 'p list option" and rank :: "'p \<Rightarrow> nat"
  assumes provided: "\<exists>qs. deps p = Some qs"
    and earlier: "deps p = Some qs \<Longrightarrow> q \<in> set qs \<Longrightarrow> rank q < rank p"
begin

lemma can_go_on: "\<exists>e. obeys deps built ((n, args) # todo) [e]"
proof (cases "set args \<subseteq> set built")
  case True
  then have "obeys deps built ((n, args) # todo) [Invoked n]" by simp
  then show ?thesis ..
next
  case False
  then obtain p0 where "wanted deps args p0 \<and> p0 \<notin> set built" by (auto intro: wanted_argument)
  then obtain p where p: "wanted deps args p" "p \<notin> set built"
    and least: "\<And>q. wanted deps args q \<and> q \<notin> set built \<Longrightarrow> rank p \<le> rank q"
    using ex_has_least_nat [of "\<lambda>p. wanted deps args p \<and> p \<notin> set built" p0 rank] by blast
  obtain qs where qs: "deps p = Some qs" using provided by blast
  have "q \<in> set built" if "q \<in> set qs" for q
    using least [of q] earlier [OF qs that] wanted_through [OF p(1) qs that] by fastforce
  then have "obeys deps built ((n, args) # todo) [Constructed p]" using p qs by auto
  then show ?thesis ..
qed

lemma can_finish: "\<exists>es. obeys deps built todo es \<and> invoked es = map fst todo"
proof (induction "length todo + card (- set built)" arbitrary: built todo rule: less_induct)
  case less
  show ?case
  proof (cases todo)
    case Nil
    then show ?thesis by (intro exI [of _ "[]"]) simp
  next
    case (Cons a rest)
    obtain n args where a: "a = (n, args)" by (cases a)
    obtain e where e: "obeys deps built todo [e]" using can_go_on Cons a by blast
    show ?thesis
    proof (cases e)
      case (Constructed p)
      have "card (- set (built @ [p])) < card (- set built)"
        by (rule psubset_card_mono) (use e Cons a Constructed in auto)
      then obtain es where "obeys deps (built @ [p]) todo es" "invoked es = map fst todo"
        using less [of todo "built @ [p]"] by auto
      then show ?thesis using e Cons a Constructed by (intro exI [of _ "e # es"]) (auto split: option.splits)
    next
      case (Invoked m)
      then have "m = n" "set args \<subseteq> set built" using e Cons a by simp_all
      moreover obtain es where "obeys deps built rest es" "invoked es = map fst rest"
        using less [of rest built] Cons by auto
      ultimately show ?thesis using Cons a Invoked by (intro exI [of _ "e # es"]) auto
    qed
  qed
qed

lemma finishes:
  assumes "obeys deps [] todo es"
  shows "\<exists>rest. obeys deps [] todo (es @ rest) \<and> invoked (es @ rest) = map fst todo"
proof -
  obtain rest where r: "obeys deps (constructed es) (drop (length (invoked es)) todo) rest"
    "invoked rest = map fst (drop (length (invoked es)) todo)"
    using can_finish by blast
  have "invoked (es @ rest) = map fst todo"
    using obeys_invoked [OF assms] r(2) by (metis append_take_drop_id invoked_append map_append)
  then show ?thesis using assms r(1) by (auto simp: obeys_append)
qed

end

subsection \<open>The options\<close>

text \<open>The types of the container, one for each constructor's result, and the configuration it is given.\<close>

datatype part =
    AppConfig | AppLogger | AppTracing | AppDB | AppTransactor | AppRedis | AppLocker | AppOutboxStore | AppEventRuntime
  | AppIdempotency | AppMetrics | AppRegistry | AppVerifier | AppStorage | AppRepository | AppFiles | AppAuthorizer
  | AppCron | AppAuth | AppHealth | AppGRPCServer | AppLimiter | AppHandler | AppHTTPServer

definition all_parts :: "part list" where
  "all_parts = [AppConfig, AppLogger, AppTracing, AppDB, AppTransactor, AppRedis, AppLocker, AppOutboxStore, AppEventRuntime,
     AppIdempotency, AppMetrics, AppRegistry, AppVerifier, AppStorage, AppRepository, AppFiles, AppAuthorizer,
     AppCron, AppAuth, AppHealth, AppGRPCServer, AppLimiter, AppHandler, AppHTTPServer]"

lemma all_parts: "p \<in> set all_parts"
  by (cases p) (simp_all add: all_parts_def)

instance part :: finite
proof
  have "(UNIV :: part set) = set all_parts" using all_parts by auto
  then show "finite (UNIV :: part set)" by (metis List.finite_set)
qed

text \<open>A constructor is its result with the types it takes; a function to invoke, the types it takes.\<close>

datatype fx_option =
    Supply part
  | Provide "(part \<times> part list) list"
  | WithLogger "part list"
  | Invoke "part list"
  | Module string "fx_option list"
  | StartTimeout duration
  | StopTimeout duration

definition MigrationModule :: fx_option where
  "MigrationModule = Module ''migration'' [Invoke [AppConfig, AppLogger]]"

definition DatabaseModule :: fx_option where
  "DatabaseModule = Module ''database''
     [Provide [(AppDB, [AppConfig]), (AppTransactor, [AppDB])], Invoke [AppDB, AppLogger]]"

definition CacheModule :: fx_option where
  "CacheModule = Module ''cache''
     [Provide [(AppRedis, [AppConfig, AppTracing]), (AppLocker, [AppRedis])], Invoke [AppRedis, AppLogger]]"

definition EventBusModule :: fx_option where
  "EventBusModule = Module ''file-event-bus''
     [Provide [(AppOutboxStore, [AppDB]), (AppEventRuntime, [AppConfig, AppOutboxStore, AppLogger])], Invoke [AppEventRuntime]]"

definition file_Module :: fx_option where
  "file_Module = Module ''file''
     [Provide [(AppStorage, [AppConfig]), (AppRepository, [AppDB]),
        (AppFiles, [AppRepository, AppTransactor, AppStorage, AppConfig, AppVerifier])]]"

definition outbound_Module :: fx_option where
  "outbound_Module = Module ''outbound'' [Provide [(AppRegistry, [AppConfig, AppMetrics])], Invoke [AppRegistry]]"

definition scheduler_Module :: fx_option where
  "scheduler_Module = Module ''scheduler''
     [Provide [(AppCron, [AppConfig, AppLocker, AppFiles, AppMetrics, AppLogger])], Invoke [AppCron]]"

definition grpc_Module :: fx_option where
  "grpc_Module = Module ''grpc''
     [Provide [(AppGRPCServer, [AppConfig, AppAuth, AppAuthorizer, AppHealth, AppFiles, AppIdempotency, AppMetrics, AppLogger])],
      Invoke [AppGRPCServer]]"

definition http_Module :: fx_option where
  "http_Module = Module ''http''
     [Provide [(AppAuth, [AppConfig]), (AppHealth, [AppDB, AppRedis, AppConfig]), (AppLimiter, [AppRedis, AppConfig]),
        (AppHandler, [AppHealth, AppFiles, AppLogger]),
        (AppHTTPServer, [AppConfig, AppHandler, AppAuth, AppAuthorizer, AppLimiter, AppIdempotency, AppMetrics, AppTracing, AppLogger])],
      Invoke [AppHTTPServer]]"

definition app_New :: "cfg_Config \<Rightarrow> fx_option list" where
  "app_New cfg =
     [Supply AppConfig,
      Provide [(AppLogger, [AppConfig])],
      Provide [(AppTracing, [AppConfig])],
      WithLogger [AppLogger],
      MigrationModule,
      DatabaseModule,
      CacheModule,
      EventBusModule,
      Provide [(AppIdempotency, [AppRedis, AppConfig])],
      Provide [(AppVerifier, [AppConfig, AppRegistry])],
      file_Module,
      Provide [(AppMetrics, [AppConfig, AppDB, AppRedis])],
      outbound_Module,
      Provide [(AppAuthorizer, [AppRegistry])],
      scheduler_Module,
      grpc_Module,
      http_Module,
      StartTimeout (app_ShutdownTimeout (config_App cfg)),
      StopTimeout (app_ShutdownTimeout (config_App cfg))]"

text \<open>
  The constructors of the options, and the functions to invoke, named after their modules. The container's own
  log is set up before the rest, and asks for the logger.
\<close>

fun providers :: "fx_option \<Rightarrow> (part \<times> part list) list" where
  "providers (Supply p) = [(p, [])]"
| "providers (Provide ps) = ps"
| "providers (Module n opts) = concat (map providers opts)"
| "providers opt = []"

fun invocations :: "string \<Rightarrow> fx_option \<Rightarrow> (string \<times> part list) list" where
  "invocations n (WithLogger args) = [(''logger'', args)]"
| "invocations n (Invoke args) = [(n, args)]"
| "invocations n (Module m opts) = concat (map (invocations m) opts)"
| "invocations n opt = []"

definition app_providers :: "cfg_Config \<Rightarrow> (part \<times> part list) list" where
  "app_providers cfg = concat (map providers (app_New cfg))"

definition app_invocations :: "cfg_Config \<Rightarrow> (string \<times> part list) list" where
  "app_invocations cfg = concat (map (invocations []) (app_New cfg))"

text \<open>
  The constructors that register a hook, by the configuration: \<open>newLogger\<close>, \<open>NewTracing\<close>, \<open>newDatabase\<close>, \<open>newRedis\<close>,
  \<open>newFileEventRuntime\<close>, \<open>NewRegistry\<close>, \<open>New\<close> of the scheduler, \<open>NewRuntime\<close> of \<^verbatim>\<open>internal/auth\<close> and
  \<open>NewServer\<close> of both transports.
\<close>

fun appends_hook :: "cfg_Config \<Rightarrow> part \<Rightarrow> bool" where
  "appends_hook cfg AppLogger = True"
| "appends_hook cfg AppTracing = observability_TracingEnabled (config_Observability cfg)"
| "appends_hook cfg AppDB = database_Enabled (config_Database cfg)"
| "appends_hook cfg AppRedis = redis_Enabled (config_Redis cfg)"
| "appends_hook cfg AppEventRuntime = True"
| "appends_hook cfg AppRegistry = True"
| "appends_hook cfg AppCron = True"
| "appends_hook cfg AppAuth = (auth_JWKSURL (config_Auth cfg) \<noteq> [])"
| "appends_hook cfg AppGRPCServer = True"
| "appends_hook cfg AppHTTPServer = True"
| "appends_hook cfg _ = False"

text \<open>The hooks in the order they are registered, the order of the start; the stop goes through them backwards.\<close>

definition start_order :: "cfg_Config \<Rightarrow> part fx_event list \<Rightarrow> part list" where
  "start_order cfg es = filter (appends_hook cfg) (constructed es)"

definition stop_order :: "cfg_Config \<Rightarrow> part fx_event list \<Rightarrow> part list" where
  "stop_order cfg es = rev (start_order cfg es)"

text \<open>A log of a start of this application.\<close>

definition app_log :: "cfg_Config \<Rightarrow> part fx_event list \<Rightarrow> bool" where
  "app_log cfg es = obeys (map_of (app_providers cfg)) [] (app_invocations cfg) es"

subsection \<open>The start\<close>

lemmas option_defs = app_New_def MigrationModule_def DatabaseModule_def CacheModule_def EventBusModule_def file_Module_def
  outbound_Module_def scheduler_Module_def grpc_Module_def http_Module_def

lemma app_deps:
  "map_of (app_providers cfg) AppConfig = Some []"
  "map_of (app_providers cfg) AppLogger = Some [AppConfig]"
  "map_of (app_providers cfg) AppTracing = Some [AppConfig]"
  "map_of (app_providers cfg) AppDB = Some [AppConfig]"
  "map_of (app_providers cfg) AppTransactor = Some [AppDB]"
  "map_of (app_providers cfg) AppRedis = Some [AppConfig, AppTracing]"
  "map_of (app_providers cfg) AppLocker = Some [AppRedis]"
  "map_of (app_providers cfg) AppOutboxStore = Some [AppDB]"
  "map_of (app_providers cfg) AppEventRuntime = Some [AppConfig, AppOutboxStore, AppLogger]"
  "map_of (app_providers cfg) AppIdempotency = Some [AppRedis, AppConfig]"
  "map_of (app_providers cfg) AppMetrics = Some [AppConfig, AppDB, AppRedis]"
  "map_of (app_providers cfg) AppRegistry = Some [AppConfig, AppMetrics]"
  "map_of (app_providers cfg) AppVerifier = Some [AppConfig, AppRegistry]"
  "map_of (app_providers cfg) AppStorage = Some [AppConfig]"
  "map_of (app_providers cfg) AppRepository = Some [AppDB]"
  "map_of (app_providers cfg) AppFiles = Some [AppRepository, AppTransactor, AppStorage, AppConfig, AppVerifier]"
  "map_of (app_providers cfg) AppAuthorizer = Some [AppRegistry]"
  "map_of (app_providers cfg) AppCron = Some [AppConfig, AppLocker, AppFiles, AppMetrics, AppLogger]"
  "map_of (app_providers cfg) AppAuth = Some [AppConfig]"
  "map_of (app_providers cfg) AppHealth = Some [AppDB, AppRedis, AppConfig]"
  "map_of (app_providers cfg) AppGRPCServer =
     Some [AppConfig, AppAuth, AppAuthorizer, AppHealth, AppFiles, AppIdempotency, AppMetrics, AppLogger]"
  "map_of (app_providers cfg) AppLimiter = Some [AppRedis, AppConfig]"
  "map_of (app_providers cfg) AppHandler = Some [AppHealth, AppFiles, AppLogger]"
  "map_of (app_providers cfg) AppHTTPServer =
     Some [AppConfig, AppHandler, AppAuth, AppAuthorizer, AppLimiter, AppIdempotency, AppMetrics, AppTracing, AppLogger]"
  by (simp_all add: app_providers_def option_defs)

lemma app_invocations:
  "app_invocations cfg = [(''logger'', [AppLogger]), (''migration'', [AppConfig, AppLogger]), (''database'', [AppDB, AppLogger]),
     (''cache'', [AppRedis, AppLogger]), (''file-event-bus'', [AppEventRuntime]), (''outbound'', [AppRegistry]),
     (''scheduler'', [AppCron]), (''grpc'', [AppGRPCServer]), (''http'', [AppHTTPServer])]"
  by (simp add: app_invocations_def option_defs)

definition part_rank :: "part \<Rightarrow> nat" where
  "part_rank p = length (takeWhile (\<lambda>q. q \<noteq> p) all_parts)"

interpretation app_wiring: acyclic_wiring "map_of (app_providers cfg)" part_rank for cfg
proof
  show "\<exists>qs. map_of (app_providers cfg) p = Some qs" for p by (cases p) (simp_all add: app_deps)
  show "part_rank q < part_rank p" if "map_of (app_providers cfg) p = Some qs" "q \<in> set qs" for p qs q
    using that by (cases p) (auto simp: app_deps part_rank_def all_parts_def)
qed

text \<open>The arguments of what has been invoked are there, and with them everything they were made from.\<close>

lemma obeys_arguments:
  "obeys deps built todo es \<Longrightarrow> (n, args) \<in> set (take (length (invoked es)) todo) \<Longrightarrow> set args \<subseteq> set (built @ constructed es)"
  by (induction deps built todo es rule: obeys.induct) auto

lemma app_complete: "app_log cfg es \<Longrightarrow> complete_for (map_of (app_providers cfg)) (set (constructed es))"
  unfolding app_log_def by (drule obeys_complete) (simp_all add: complete_for_def)

lemma complete_forD: "complete_for deps S \<Longrightarrow> p \<in> S \<Longrightarrow> deps p = Some qs \<Longrightarrow> set qs \<subseteq> S"
  by (force simp: complete_for_def)

lemma every_part_used:
  assumes c: "complete_for (map_of (app_providers cfg)) S"
    and "{AppCron, AppEventRuntime, AppGRPCServer, AppHTTPServer} \<subseteq> S"
  shows "S = UNIV"
proof -
  note d = complete_forD [OF c]
  have 1: "{AppCron, AppEventRuntime, AppGRPCServer, AppHTTPServer, AppConfig, AppLocker, AppFiles, AppMetrics, AppLogger,
      AppOutboxStore, AppAuth, AppAuthorizer, AppHealth, AppIdempotency, AppHandler, AppLimiter, AppTracing} \<subseteq> S"
    using assms(2) d [of AppCron] d [of AppEventRuntime] d [of AppGRPCServer] d [of AppHTTPServer] by (simp add: app_deps)
  then have 2: "{AppRepository, AppTransactor, AppStorage, AppVerifier, AppRedis, AppRegistry, AppDB} \<subseteq> S"
    using d [of AppFiles] d [of AppHealth] d [of AppAuthorizer] by (simp add: app_deps)
  have "p \<in> S" for p using 1 2 by (cases p) simp_all
  then show ?thesis by blast
qed

text \<open>A part of the list of constructed types is a part of the log.\<close>

lemma constructed_split:
  assumes "constructed es = us @ p # vs"
  obtains xs ys where "es = xs @ Constructed p # ys" "constructed xs = us" "constructed ys = vs"
  using assms
proof (induction es arbitrary: us thesis)
  case (Cons e es)
  show ?case
  proof (cases e)
    case (Constructed q)
    show ?thesis
    proof (cases us)
      case Nil
      then show ?thesis using Cons.prems Constructed by (intro Cons.prems(1) [of "[]" es]) simp_all
    next
      case us: (Cons u us')
      obtain xs ys where "es = xs @ Constructed p # ys" "constructed xs = us'" "constructed ys = vs"
        using Cons.IH [of us'] Cons.prems(2) Constructed us by auto
      then show ?thesis using Cons.prems Constructed us by (intro Cons.prems(1) [of "e # xs" ys]) simp_all
    qed
  next
    case (Invoked n)
    obtain xs ys where "es = xs @ Constructed p # ys" "constructed xs = us" "constructed ys = vs"
      using Cons.IH [of us] Cons.prems(2) Invoked by auto
    then show ?thesis using Invoked by (intro Cons.prems(1) [of "e # xs" ys]) simp_all
  qed
qed simp

lemma filter_split:
  assumes "filter P xs = ys @ y # zs"
  obtains us vs where "xs = us @ y # vs" "filter P us = ys"
proof -
  have "\<exists>us vs. xs = us @ y # vs \<and> filter P us = ys" using assms
  proof (induction xs arbitrary: ys)
    case (Cons x xs)
    show ?case
    proof (cases "P x \<and> ys = []")
      case False
      then have "filter P xs = (if P x then tl ys else ys) @ y # zs" using Cons.prems by (cases ys) (auto split: if_splits)
      then obtain us vs where "xs = us @ y # vs \<and> filter P us = (if P x then tl ys else ys)" using Cons.IH by blast
      moreover have "P x \<Longrightarrow> x # tl ys = ys" using Cons.prems False by (cases ys) auto
      ultimately show ?thesis by (intro exI [of _ "x # us"] exI [of _ vs]) auto
    qed (intro exI [of _ "[]"] exI [of _ xs], use Cons.prems in auto)
  qed simp
  then show ?thesis using that by blast
qed

lemma constructed_step:
  assumes "app_log cfg es" "constructed es = us @ p # vs"
  obtains xs ys n args rest where "es = xs @ Constructed p # ys" "constructed xs = us" "constructed ys = vs"
    "app_log cfg xs" "drop (length (invoked xs)) (app_invocations cfg) = (n, args) # rest"
    "wanted (map_of (app_providers cfg)) args p" "app_log cfg (xs @ [Constructed p])"
    "obeys (map_of (app_providers cfg)) (us @ [p]) ((n, args) # rest) ys"
proof -
  obtain xs ys where es: "es = xs @ Constructed p # ys" "constructed xs = us" "constructed ys = vs"
    by (rule constructed_split [OF assms(2)])
  have log: "obeys (map_of (app_providers cfg)) [] (app_invocations cfg) (xs @ Constructed p # ys)"
    using assms(1) es(1) by (simp add: app_log_def)
  have "app_log cfg (xs @ [Constructed p])" "app_log cfg xs"
    using log obeys_append [of _ "[]" _ "xs @ [Constructed p]" ys] by (auto simp: app_log_def obeys_append)
  then show ?thesis using log that es by (auto elim: obeys_constructed)
qed

lemma wanted_at_first:
  "wanted (map_of (app_providers cfg)) args p \<Longrightarrow> set args \<subseteq> {AppConfig, AppLogger} \<Longrightarrow> p \<in> {AppConfig, AppLogger}"
  by (erule wanted_closed) (auto simp: app_deps)

lemma before_migration:
  assumes "app_log cfg es" "constructed es = us @ p # vs" "p \<notin> {AppConfig, AppLogger}"
  obtains xs ys where "es = xs @ Constructed p # ys" "constructed xs = us" "app_log cfg xs" "{''logger'', ''migration''} \<subseteq> set (invoked xs)"
proof -
  from assms(1,2) obtain xs ys n args rest where x: "es = xs @ Constructed p # ys" "constructed xs = us" "app_log cfg xs"
    "drop (length (invoked xs)) (app_invocations cfg) = (n, args) # rest" "wanted (map_of (app_providers cfg)) args p"
    by (rule constructed_step)
  have i: "invoked xs = map fst (take (length (invoked xs)) (app_invocations cfg))"
    using x(3) obeys_invoked by (simp add: app_log_def)
  have "length (invoked xs) \<noteq> 0" "length (invoked xs) \<noteq> 1"
    using x(4) assms(3) wanted_at_first [OF x(5)] by (auto simp: app_invocations)
  then obtain k where "length (invoked xs) = Suc (Suc k)" by (metis One_nat_def not0_implies_Suc)
  then have "{''logger'', ''migration''} \<subseteq> set (invoked xs)" using i by (simp add: app_invocations)
  then show ?thesis using that x(1-3) by blast
qed

lemma logger_first:
  assumes "app_log cfg es" "start_order cfg es = p # ps"
  shows "p = AppLogger"
proof (rule ccontr)
  assume p: "p \<noteq> AppLogger"
  obtain us vs where c: "constructed es = us @ p # vs" "filter (appends_hook cfg) us = []" "appends_hook cfg p"
    using assms(2) by (auto simp: start_order_def filter_eq_Cons_iff filter_empty_conv)
  then have "p \<notin> {AppConfig, AppLogger}" using p by auto
  then obtain xs where x: "constructed xs = us" "app_log cfg xs" "''logger'' \<in> set (invoked xs)"
    using before_migration [OF assms(1) c(1)] by auto
  then have "''logger'' \<in> fst ` set (take (length (invoked xs)) (app_invocations cfg))"
    using obeys_invoked [OF x(2) [unfolded app_log_def]] by (metis set_map)
  then obtain args where "(''logger'', args) \<in> set (take (length (invoked xs)) (app_invocations cfg))" by auto
  moreover from this have "args = [AppLogger]" by (auto dest: in_set_takeD simp: app_invocations)
  ultimately have "AppLogger \<in> set us" using x obeys_arguments by (fastforce simp: app_log_def)
  then show False using c(2) by (force simp: filter_empty_conv)
qed

lemma nothing_left: "obeys deps built [(n, args)] es \<Longrightarrow> set args \<subseteq> set built \<Longrightarrow> complete_for deps (set built) \<Longrightarrow> constructed es = []"
  by (cases es; cases "hd es"; cases "tl es") (auto dest: wanted_of_complete)

lemma http_last:
  assumes "app_log cfg es" "constructed es = us @ AppHTTPServer # vs"
  shows "vs = []"
proof -
  let ?deps = "map_of (app_providers cfg)"
  from assms obtain xs ys n args rest where x: "constructed xs = us" "constructed ys = vs"
    "drop (length (invoked xs)) (app_invocations cfg) = (n, args) # rest" "wanted ?deps args AppHTTPServer"
    "app_log cfg (xs @ [Constructed AppHTTPServer])" "obeys ?deps (us @ [AppHTTPServer]) ((n, args) # rest) ys"
    by (rule constructed_step)
  have "AppHTTPServer \<notin> set qs" if "?deps q = Some qs" for q qs using that by (cases q) (auto simp: app_deps)
  with x(4) have "AppHTTPServer \<in> set args" by (auto elim: wanted.cases)
  moreover have "(n, args) \<in> set (app_invocations cfg)" by (metis in_set_dropD list.set_intros(1) x(3))
  ultimately have args: "n = ''http''" "args = [AppHTTPServer]" by (auto simp: app_invocations)
  have "rest = []"
  proof (rule ccontr)
    assume "rest \<noteq> []"
    then have "(n, args) \<in> set (butlast (drop (length (invoked xs)) (app_invocations cfg)))" by (simp add: x(3))
    then have "(n, args) \<in> set (butlast (app_invocations cfg))" by (metis butlast_drop in_set_dropD)
    then show False by (simp add: args app_invocations)
  qed
  moreover have "complete_for ?deps (set (us @ [AppHTTPServer]))" using app_complete [OF x(5)] x(1) by simp
  ultimately show ?thesis using nothing_left [of ?deps "us @ [AppHTTPServer]" n args ys] x(2,6) args by simp
qed

lemma made_from_earlier:
  assumes "app_log cfg es" "constructed es = us @ p # vs" "wanted (map_of (app_providers cfg)) [p] q" "q \<noteq> p"
  shows "q \<in> set us"
proof -
  from assms(1,2) obtain xs where "constructed xs = us" "app_log cfg (xs @ [Constructed p])"
    by (rule constructed_step)
  then have "complete_for (map_of (app_providers cfg)) (set (us @ [p]))" using app_complete by fastforce
  then show ?thesis using wanted_of_complete [OF assms(3)] assms(4) by auto
qed

text \<open>
  The application can be put together: no type has two constructors, and whatever order the container chooses,
  a start that no constructor stops can always go on until every function has been invoked; then every type has been
  constructed, exactly once. So no dependency is missing or circular, and no constructor is unused.
\<close>

lemma wiring_is_complete:
  assumes "app_log cfg es"
  shows "distinct (map fst (app_providers cfg)) \<and>
    (\<exists>rest. app_log cfg (es @ rest) \<and> invoked (es @ rest) = map fst (app_invocations cfg) \<and>
      distinct (constructed (es @ rest)) \<and> set (constructed (es @ rest)) = UNIV)"
proof -
  obtain rest where r: "app_log cfg (es @ rest)" "invoked (es @ rest) = map fst (app_invocations cfg)"
    using app_wiring.finishes assms unfolding app_log_def by blast
  have l: "length (invoked (es @ rest)) = length (app_invocations cfg)" unfolding r(2) by simp
  have args: "set args \<subseteq> set (constructed (es @ rest))" if "(n, args) \<in> set (app_invocations cfg)" for n args
    using obeys_arguments [OF r(1) [unfolded app_log_def], of n args] that unfolding l by simp
  have "{AppCron, AppEventRuntime, AppGRPCServer, AppHTTPServer} \<subseteq> set (constructed (es @ rest))"
    using args [of "''scheduler''" "[AppCron]"] args [of "''file-event-bus''" "[AppEventRuntime]"]
      args [of "''grpc''" "[AppGRPCServer]"] args [of "''http''" "[AppHTTPServer]"] by (simp add: app_invocations)
  then have "set (constructed (es @ rest)) = UNIV" by (rule every_part_used [OF app_complete [OF r(1)]])
  moreover have "distinct (constructed (es @ rest))" using r(1) obeys_distinct unfolding app_log_def by fastforce
  moreover have "distinct (map fst (app_providers cfg))" by (simp add: app_providers_def option_defs)
  ultimately show ?thesis using r by blast
qed

lemma wiring_is_complete_witness:
  "\<exists>rest. app_log default_config ([Constructed AppConfig, Constructed AppLogger, Invoked ''logger''] @ rest) \<and>
    set (constructed ([Constructed AppConfig, Constructed AppLogger, Invoked ''logger''] @ rest)) = UNIV"
proof -
  have "wanted (map_of (app_providers default_config)) [AppLogger] AppConfig"
    by (rule wanted_through [of _ _ AppLogger "[AppConfig]"]) (simp_all add: wanted_argument app_deps)
  then have "app_log default_config [Constructed AppConfig, Constructed AppLogger, Invoked ''logger'']"
    by (simp add: app_log_def app_invocations app_deps wanted_argument)
  from wiring_is_complete [OF this] show ?thesis by blast
qed

text \<open>
  C40. Start and stop are in order. Nothing but the logger is constructed, so that no connection is opened, before the
  startup migration has succeeded; the logger's hook is the first and the HTTP server's the last, so that requests
  are taken when everything else runs, and refused before anything is stopped; and what a constructor was given, directly or not, is
  stopped only after what it made.
\<close>

theorem start_and_stop_are_ordered:
  assumes "app_log cfg es"
  shows "(constructed es = us @ p # vs \<and> p \<notin> {AppConfig, AppLogger} \<longrightarrow>
      (\<exists>xs ys. es = xs @ Constructed p # ys \<and> constructed xs = us \<and> ''migration'' \<in> set (invoked xs))) \<and>
    (start_order cfg es \<noteq> [] \<longrightarrow> hd (start_order cfg es) = AppLogger) \<and>
    (AppHTTPServer \<in> set (start_order cfg es) \<longrightarrow> hd (stop_order cfg es) = AppHTTPServer) \<and>
    (stop_order cfg es = ps @ q # rs \<and> wanted (map_of (app_providers cfg)) [q] r \<and> appends_hook cfg r \<and> r \<noteq> q \<longrightarrow> r \<in> set rs)"
proof (intro conjI impI)
  assume "constructed es = us @ p # vs \<and> p \<notin> {AppConfig, AppLogger}"
  then show "\<exists>xs ys. es = xs @ Constructed p # ys \<and> constructed xs = us \<and> ''migration'' \<in> set (invoked xs)"
    using before_migration [OF assms, of us p vs] by (metis insert_subset)
next
  assume "start_order cfg es \<noteq> []"
  then show "hd (start_order cfg es) = AppLogger" using logger_first [OF assms] by (cases "start_order cfg es") auto
next
  assume "AppHTTPServer \<in> set (start_order cfg es)"
  then obtain us vs where c: "constructed es = us @ AppHTTPServer # vs" by (auto simp: start_order_def in_set_conv_decomp)
  with http_last [OF assms] have "constructed es = us @ [AppHTTPServer]" by blast
  then show "hd (stop_order cfg es) = AppHTTPServer" by (simp add: stop_order_def start_order_def)
next
  assume a: "stop_order cfg es = ps @ q # rs \<and> wanted (map_of (app_providers cfg)) [q] r \<and> appends_hook cfg r \<and> r \<noteq> q"
  then have "filter (appends_hook cfg) (constructed es) = rev rs @ q # rev ps"
    by (metis append.assoc append_Cons append_Nil rev.simps(2) rev_append rev_rev_ident start_order_def stop_order_def)
  then obtain us vs where c: "constructed es = us @ q # vs" "filter (appends_hook cfg) us = rev rs"
    by (rule filter_split)
  have "r \<in> set us" using made_from_earlier [OF assms c(1)] a by blast
  then show "r \<in> set rs" using arg_cong [OF c(2), of set] a by auto
qed

text \<open>A whole start: what is wanted, and not yet there, is at most two constructors away from what is invoked.\<close>

lemma wanted_nearby:
  assumes "p \<in> set args \<or> (\<exists>a\<in>set args. p \<in> set (the (map_of (app_providers cfg) a)) \<or>
      (\<exists>b\<in>set (the (map_of (app_providers cfg) a)). p \<in> set (the (map_of (app_providers cfg) b))))"
  shows "wanted (map_of (app_providers cfg)) args p"
proof -
  have d: "map_of (app_providers cfg) a = Some (the (map_of (app_providers cfg) a))" for a
    using app_wiring.provided [of cfg a] by auto
  show ?thesis using assms by (meson d wanted_argument wanted_through)
qed

definition demo_start :: "part fx_event list" where
  "demo_start =
     [Constructed AppConfig, Constructed AppLogger, Invoked ''logger'', Invoked ''migration'',
      Constructed AppDB, Invoked ''database'', Constructed AppTracing, Constructed AppRedis, Invoked ''cache'',
      Constructed AppOutboxStore, Constructed AppEventRuntime, Invoked ''file-event-bus'',
      Constructed AppMetrics, Constructed AppRegistry, Invoked ''outbound'',
      Constructed AppLocker, Constructed AppRepository, Constructed AppTransactor, Constructed AppStorage, Constructed AppVerifier,
      Constructed AppFiles, Constructed AppCron, Invoked ''scheduler'',
      Constructed AppAuth, Constructed AppAuthorizer, Constructed AppHealth, Constructed AppIdempotency,
      Constructed AppGRPCServer, Invoked ''grpc'',
      Constructed AppLimiter, Constructed AppHandler, Constructed AppHTTPServer, Invoked ''http'']"

lemma demo_start_log: "app_log cfg demo_start"
  by (simp add: app_log_def demo_start_def app_invocations app_deps wanted_nearby)

theorem start_and_stop_are_ordered_witness:
  "stop_order demo_app demo_start = [AppHTTPServer, AppGRPCServer, AppCron, AppRegistry, AppEventRuntime, AppRedis, AppLogger] \<and>
   (\<exists>xs ys. demo_start = xs @ Constructed AppDB # ys \<and> constructed xs = [AppConfig, AppLogger] \<and> ''migration'' \<in> set (invoked xs)) \<and>
   hd (start_order demo_app demo_start) = AppLogger \<and> hd (stop_order demo_app demo_start) = AppHTTPServer \<and>
   AppRedis \<in> set [AppRegistry, AppEventRuntime, AppRedis, AppLogger]"
proof -
  have start: "start_order demo_app demo_start = [AppLogger, AppRedis, AppEventRuntime, AppRegistry, AppCron, AppGRPCServer, AppHTTPServer]"
    by (simp add: start_order_def demo_start_def demo_app_def default_config_def default_Auth_def default_Database_def
        default_Redis_def default_Observability_def)
  have "stop_order demo_app demo_start =
      [AppHTTPServer, AppGRPCServer] @ AppCron # [AppRegistry, AppEventRuntime, AppRedis, AppLogger]"
    by (simp add: stop_order_def start)
  moreover have "wanted (map_of (app_providers demo_app)) [AppCron] AppRedis" "appends_hook demo_app AppRedis"
    by (simp_all add: wanted_nearby app_deps demo_app_def)
  moreover have "constructed demo_start = [AppConfig, AppLogger] @ AppDB # drop 3 (constructed demo_start)"
    by (simp add: demo_start_def)
  ultimately show ?thesis
    using start_and_stop_are_ordered [OF demo_start_log, where cfg = demo_app and us = "[AppConfig, AppLogger]" and p = AppDB
        and vs = "drop 3 (constructed demo_start)" and ps = "[AppHTTPServer, AppGRPCServer]" and q = AppCron
        and rs = "[AppRegistry, AppEventRuntime, AppRedis, AppLogger]" and r = AppRedis]
    by (simp add: start)
qed

end
