(* ===== verification/API_Documentation.thy ===== *)
theory API_Documentation
  imports HTTP_Server "HOL-Library.List_Lexorder" "HOL-Library.Char_ord"
begin

text \<open>
  The API contract the service publishes, \<^verbatim>\<open>docs/docs.go\<close>, and the JSON that it sends, so that the
  one can be compared with the other.

  The document is data: \<open>doc_...\<close> is the operation of a path, \<open>def_...\<close> the schema of an object. What
  the service sends is the encoding of its body structs under the field names of their \<^verbatim>\<open>json\<close> tags
  (\<^verbatim>\<open>handler.go\<close>, \<^verbatim>\<open>response.go\<close>, \<^verbatim>\<open>internal/health\<close>, \<^verbatim>\<open>internal/buildinfo\<close>). \<open>conforms\<close> checks a
  value against a schema.
\<close>

subsection \<open>Schemas\<close>

text \<open>An object of the document lists its properties; an inline one restricts some members only.\<close>

datatype schema = AnyValue | StringType | IntegerType | Ref string | ArrayOf schema | MapOf schema
  | Inline "(string \<times> schema) list" | AllOf "schema list"

record object_schema =
  os_required :: "string list"
  os_properties :: "(string \<times> schema) list"

text \<open>
  An operation: its security schemes, media types, tags, summary, the description and the schema of
  its request body (parameter \<open>request\<close>, required), and its responses by status.
\<close>

record operation =
  op_security :: "string list"
  op_consumes :: "string list"
  op_produces :: "string list"
  op_tags :: "string list"
  op_summary :: string
  op_request :: "(string \<times> schema) option"
  op_responses :: "(nat \<times> string \<times> schema) list"

record security_scheme =
  ss_description :: string
  ss_type :: string
  ss_name :: string
  ss_in :: string

subsection \<open>The document\<close>

text \<open>Every operation of the document is a \<^verbatim>\<open>post\<close>.\<close>

definition doc_files_delete :: operation where
  "doc_files_delete =
     \<lparr>op_security = [''Bearer''], op_consumes = [], op_produces = [],
      op_tags = [''files''], op_summary = ''Delete a file using optimistic concurrency'',
      op_request = Some (''File version'', Ref ''httptransport.DeleteFileRequest''),
      op_responses =
        [(200, ''OK'', AllOf [Ref ''httptransport.Response'', Inline [(''body'', Ref ''httptransport.FileBody'')]])]\<rparr>"

definition doc_files_downloads_authorize :: operation where
  "doc_files_downloads_authorize =
     \<lparr>op_security = [''Bearer''], op_consumes = [], op_produces = [],
      op_tags = [''files''], op_summary = ''Create a short-lived download URL'',
      op_request = Some (''File ID'', Ref ''httptransport.FileIDRequest''),
      op_responses =
        [(200, ''OK'', AllOf [Ref ''httptransport.Response'',
           Inline [(''body'', Ref ''httptransport.FileAuthorizationBody'')]])]\<rparr>"

definition doc_files_metadata_get :: operation where
  "doc_files_metadata_get =
     \<lparr>op_security = [''Bearer''], op_consumes = [], op_produces = [],
      op_tags = [''files''], op_summary = ''Get file metadata'',
      op_request = Some (''File ID'', Ref ''httptransport.FileIDRequest''),
      op_responses =
        [(200, ''OK'', AllOf [Ref ''httptransport.Response'', Inline [(''body'', Ref ''httptransport.FileBody'')]])]\<rparr>"

definition doc_files_metadata_list :: operation where
  "doc_files_metadata_list =
     \<lparr>op_security = [''Bearer''], op_consumes = [], op_produces = [],
      op_tags = [''files''], op_summary = ''List tenant file metadata'',
      op_request = Some (''File filters and pagination'', Ref ''httptransport.ListFilesRequest''),
      op_responses =
        [(200, ''OK'', AllOf [Ref ''httptransport.Response'', Inline [(''body'', Ref ''httptransport.FilePageBody'')]]),
         (403, ''Code 20003: tenant access denied'', Ref ''httptransport.Response'')]\<rparr>"

definition doc_files_scans_report :: operation where
  "doc_files_scans_report =
     \<lparr>op_security = [''Bearer'', ''PSK''], op_consumes = [''application/json''], op_produces = [''application/json''],
      op_tags = [''files''], op_summary = ''Record an antivirus or content scan result'',
      op_request = Some (''Scan result'', Ref ''httptransport.ReportScanResultRequest''),
      op_responses =
        [(200, ''OK'', AllOf [Ref ''httptransport.Response'', Inline [(''body'', Ref ''httptransport.FileBody'')]])]\<rparr>"

definition doc_files_uploads_complete :: operation where
  "doc_files_uploads_complete =
     \<lparr>op_security = [''Bearer''], op_consumes = [], op_produces = [],
      op_tags = [''files''], op_summary = ''Verify and complete an upload'',
      op_request = Some (''Completed upload'', Ref ''httptransport.CompleteUploadRequest''),
      op_responses =
        [(200, ''OK'', AllOf [Ref ''httptransport.Response'', Inline [(''body'', Ref ''httptransport.FileBody'')]])]\<rparr>"

definition doc_files_uploads_initiate :: operation where
  "doc_files_uploads_initiate =
     \<lparr>op_security = [''Bearer''], op_consumes = [], op_produces = [],
      op_tags = [''files''], op_summary = ''Initiate a direct object-storage upload'',
      op_request = Some (''Upload metadata'', Ref ''httptransport.InitiateUploadRequest''),
      op_responses =
        [(200, ''OK'', AllOf [Ref ''httptransport.Response'',
           Inline [(''body'', Ref ''httptransport.FileAuthorizationBody'')]])]\<rparr>"

definition doc_files_uploads_multipart_abort :: operation where
  "doc_files_uploads_multipart_abort =
     \<lparr>op_security = [''Bearer''], op_consumes = [], op_produces = [],
      op_tags = [''files''], op_summary = ''Abort a multipart upload and release its object-storage parts'',
      op_request = Some (''Multipart upload version'', Ref ''httptransport.DeleteFileRequest''),
      op_responses =
        [(200, ''OK'', AllOf [Ref ''httptransport.Response'', Inline [(''body'', Ref ''httptransport.FileBody'')]])]\<rparr>"

definition doc_files_uploads_multipart_authorize_part :: operation where
  "doc_files_uploads_multipart_authorize_part =
     \<lparr>op_security = [''Bearer''], op_consumes = [], op_produces = [],
      op_tags = [''files''], op_summary = ''Create a short-lived URL for one multipart upload part'',
      op_request = Some (''Upload part'', Ref ''httptransport.AuthorizeUploadPartRequest''),
      op_responses =
        [(200, ''OK'', AllOf [Ref ''httptransport.Response'',
           Inline [(''body'', Ref ''httptransport.FileAuthorizationBody'')]])]\<rparr>"

definition doc_files_uploads_multipart_complete :: operation where
  "doc_files_uploads_multipart_complete =
     \<lparr>op_security = [''Bearer''], op_consumes = [], op_produces = [],
      op_tags = [''files''], op_summary = ''Assemble uploaded parts and verify the completed object'',
      op_request = Some (''Completed multipart upload'', Ref ''httptransport.CompleteMultipartUploadRequest''),
      op_responses =
        [(200, ''OK'', AllOf [Ref ''httptransport.Response'', Inline [(''body'', Ref ''httptransport.FileBody'')]])]\<rparr>"

definition doc_files_uploads_multipart_initiate :: operation where
  "doc_files_uploads_multipart_initiate =
     \<lparr>op_security = [''Bearer''], op_consumes = [], op_produces = [],
      op_tags = [''files''], op_summary = ''Initiate a resumable multipart object-storage upload'',
      op_request = Some (''Multipart upload metadata'', Ref ''httptransport.InitiateMultipartUploadRequest''),
      op_responses =
        [(200, ''OK'', AllOf [Ref ''httptransport.Response'',
           Inline [(''body'', Ref ''httptransport.MultipartAuthorizationBody'')]])]\<rparr>"

definition doc_me :: operation where
  "doc_me =
     \<lparr>op_security = [''Bearer''], op_consumes = [], op_produces = [''application/json''],
      op_tags = [''authentication''], op_summary = ''Return the authenticated subject'',
      op_request = None,
      op_responses =
        [(200, ''OK'', AllOf [Ref ''httptransport.Response'', Inline [(''body'', Ref ''httptransport.MeResponseBody'')]]),
         (401, ''Code 20001: unauthorized'', Ref ''httptransport.Response'')]\<rparr>"

definition doc_version :: operation where
  "doc_version =
     \<lparr>op_security = [], op_consumes = [], op_produces = [''application/json''],
      op_tags = [''operations''], op_summary = ''Return build and runtime version information'',
      op_request = None,
      op_responses =
        [(200, ''OK'', AllOf [Ref ''httptransport.Response'', Inline [(''body'', Ref ''buildinfo.Info'')]])]\<rparr>"

definition doc_live :: operation where
  "doc_live =
     \<lparr>op_security = [], op_consumes = [], op_produces = [''application/json''],
      op_tags = [''operations''], op_summary = ''Check process liveness'',
      op_request = None,
      op_responses =
        [(200, ''OK'', AllOf [Ref ''httptransport.Response'', Inline [(''body'', Ref ''health.Status'')]])]\<rparr>"

definition doc_ready :: operation where
  "doc_ready =
     \<lparr>op_security = [], op_consumes = [], op_produces = [''application/json''],
      op_tags = [''operations''], op_summary = ''Check database and Redis readiness'',
      op_request = None,
      op_responses =
        [(200, ''OK'', AllOf [Ref ''httptransport.Response'', Inline [(''body'', Ref ''health.Status'')]]),
         (503, ''Code 50003: dependency unavailable'', AllOf [Ref ''httptransport.Response'',
           Inline [(''body'', Ref ''health.Status'')]])]\<rparr>"

definition documented_paths :: "(string \<times> operation) list" where
  "documented_paths =
     [(''/api/v1/files/delete'', doc_files_delete),
      (''/api/v1/files/downloads/authorize'', doc_files_downloads_authorize),
      (''/api/v1/files/metadata/get'', doc_files_metadata_get),
      (''/api/v1/files/metadata/list'', doc_files_metadata_list),
      (''/api/v1/files/scans/report'', doc_files_scans_report),
      (''/api/v1/files/uploads/complete'', doc_files_uploads_complete),
      (''/api/v1/files/uploads/initiate'', doc_files_uploads_initiate),
      (''/api/v1/files/uploads/multipart/abort'', doc_files_uploads_multipart_abort),
      (''/api/v1/files/uploads/multipart/authorize-part'', doc_files_uploads_multipart_authorize_part),
      (''/api/v1/files/uploads/multipart/complete'', doc_files_uploads_multipart_complete),
      (''/api/v1/files/uploads/multipart/initiate'', doc_files_uploads_multipart_initiate), (''/api/v1/me'', doc_me),
      (''/api/v1/version'', doc_version), (''/live'', doc_live), (''/ready'', doc_ready)]"

subsection \<open>Its objects\<close>

definition def_buildinfo_Info :: object_schema where
  "def_buildinfo_Info =
     \<lparr>os_required = [],
      os_properties =
        [(''build_time'', StringType), (''commit'', StringType), (''started_at'', StringType), (''uptime'', StringType),
         (''version'', StringType)]\<rparr>"

definition def_health_Dependency :: object_schema where
  "def_health_Dependency =
     \<lparr>os_required = [],
      os_properties =
        [(''latency'', StringType), (''status'', StringType)]\<rparr>"

definition def_health_Status :: object_schema where
  "def_health_Status =
     \<lparr>os_required = [],
      os_properties =
        [(''dependencies'', MapOf (Ref ''health.Dependency'')), (''status'', StringType)]\<rparr>"

definition def_AuthorizeUploadPartRequest :: object_schema where
  "def_AuthorizeUploadPartRequest =
     \<lparr>os_required = [''application_id'', ''id'', ''part_number'', ''tenant_id''],
      os_properties =
        [(''application_id'', StringType), (''id'', StringType), (''part_number'', IntegerType),
         (''tenant_id'', StringType)]\<rparr>"

definition def_CompleteMultipartUploadRequest :: object_schema where
  "def_CompleteMultipartUploadRequest =
     \<lparr>os_required = [''application_id'', ''checksum_sha256'', ''expected_version'', ''id'', ''parts'', ''tenant_id''],
      os_properties =
        [(''application_id'', StringType), (''checksum_sha256'', StringType), (''expected_version'', IntegerType),
         (''id'', StringType), (''parts'', ArrayOf (Ref ''httptransport.CompletedPartRequest'')),
         (''tenant_id'', StringType)]\<rparr>"

definition def_CompleteUploadRequest :: object_schema where
  "def_CompleteUploadRequest =
     \<lparr>os_required = [''application_id'', ''checksum_sha256'', ''expected_version'', ''id'', ''tenant_id''],
      os_properties =
        [(''application_id'', StringType), (''checksum_sha256'', StringType), (''expected_version'', IntegerType),
         (''id'', StringType), (''tenant_id'', StringType)]\<rparr>"

definition def_CompletedPartRequest :: object_schema where
  "def_CompletedPartRequest =
     \<lparr>os_required = [''etag'', ''part_number''],
      os_properties =
        [(''etag'', StringType), (''part_number'', IntegerType)]\<rparr>"

definition def_DeleteFileRequest :: object_schema where
  "def_DeleteFileRequest =
     \<lparr>os_required = [''application_id'', ''expected_version'', ''id'', ''tenant_id''],
      os_properties =
        [(''application_id'', StringType), (''expected_version'', IntegerType), (''id'', StringType),
         (''tenant_id'', StringType)]\<rparr>"

definition def_FileAuthorizationBody :: object_schema where
  "def_FileAuthorizationBody =
     \<lparr>os_required = [],
      os_properties =
        [(''expires_at'', StringType), (''file'', Ref ''httptransport.FileBody''), (''headers'', MapOf (StringType)),
         (''url'', StringType)]\<rparr>"

definition def_FileBody :: object_schema where
  "def_FileBody =
     \<lparr>os_required = [],
      os_properties =
        [(''application_id'', StringType), (''checksum_sha256'', StringType), (''content_type'', StringType),
         (''created_at'', StringType), (''created_by'', StringType), (''filename'', StringType), (''id'', StringType),
         (''owner_id'', StringType), (''part_count'', IntegerType), (''part_size'', IntegerType),
         (''scan_status'', StringType), (''size'', IntegerType), (''status'', StringType), (''tenant_id'', StringType),
         (''updated_at'', StringType), (''updated_by'', StringType), (''upload_expires_at'', StringType),
         (''upload_mode'', StringType), (''version'', IntegerType)]\<rparr>"

definition def_FileIDRequest :: object_schema where
  "def_FileIDRequest =
     \<lparr>os_required = [''application_id'', ''id'', ''tenant_id''],
      os_properties =
        [(''application_id'', StringType), (''id'', StringType), (''tenant_id'', StringType)]\<rparr>"

definition def_FilePageBody :: object_schema where
  "def_FilePageBody =
     \<lparr>os_required = [],
      os_properties =
        [(''files'', ArrayOf (Ref ''httptransport.FileBody'')), (''page'', IntegerType), (''page_size'', IntegerType),
         (''total'', IntegerType)]\<rparr>"

definition def_InitiateMultipartUploadRequest :: object_schema where
  "def_InitiateMultipartUploadRequest =
     \<lparr>os_required = [''application_id'', ''checksum_sha256'', ''content_type'', ''filename'', ''idempotency_key'',
                     ''size'', ''tenant_id''],
      os_properties =
        [(''application_id'', StringType), (''checksum_sha256'', StringType), (''content_type'', StringType),
         (''filename'', StringType), (''idempotency_key'', StringType), (''part_size'', IntegerType),
         (''size'', IntegerType), (''tenant_id'', StringType)]\<rparr>"

definition def_InitiateUploadRequest :: object_schema where
  "def_InitiateUploadRequest =
     \<lparr>os_required = [''application_id'', ''checksum_sha256'', ''content_type'', ''filename'', ''idempotency_key'',
                     ''size'', ''tenant_id''],
      os_properties =
        [(''application_id'', StringType), (''checksum_sha256'', StringType), (''content_type'', StringType),
         (''filename'', StringType), (''idempotency_key'', StringType), (''size'', IntegerType),
         (''tenant_id'', StringType)]\<rparr>"

definition def_ListFilesRequest :: object_schema where
  "def_ListFilesRequest =
     \<lparr>os_required = [''application_id'', ''tenant_id''],
      os_properties =
        [(''application_id'', StringType), (''content_type'', StringType), (''keyword'', StringType),
         (''owner_id'', StringType), (''page'', IntegerType), (''page_size'', IntegerType),
         (''scan_status'', StringType), (''status'', StringType), (''tenant_id'', StringType)]\<rparr>"

definition def_MeResponseBody :: object_schema where
  "def_MeResponseBody =
     \<lparr>os_required = [],
      os_properties =
        [(''subject'', StringType)]\<rparr>"

definition def_MultipartAuthorizationBody :: object_schema where
  "def_MultipartAuthorizationBody =
     \<lparr>os_required = [],
      os_properties =
        [(''expires_at'', StringType), (''file'', Ref ''httptransport.FileBody''), (''part_count'', IntegerType),
         (''part_size'', IntegerType)]\<rparr>"

definition def_ReportScanResultRequest :: object_schema where
  "def_ReportScanResultRequest =
     \<lparr>os_required = [''application_id'', ''expected_version'', ''id'', ''scan_status'', ''tenant_id''],
      os_properties =
        [(''application_id'', StringType), (''expected_version'', IntegerType), (''id'', StringType),
         (''scan_status'', StringType), (''tenant_id'', StringType)]\<rparr>"

definition def_Response :: object_schema where
  "def_Response =
     \<lparr>os_required = [],
      os_properties =
        [(''body'', AnyValue), (''code'', IntegerType), (''message'', StringType), (''request_id'', StringType)]\<rparr>"

definition documented_definitions :: "(string \<times> object_schema) list" where
  "documented_definitions =
     [(''buildinfo.Info'', def_buildinfo_Info), (''health.Dependency'', def_health_Dependency),
      (''health.Status'', def_health_Status),
      (''httptransport.AuthorizeUploadPartRequest'', def_AuthorizeUploadPartRequest),
      (''httptransport.CompleteMultipartUploadRequest'', def_CompleteMultipartUploadRequest),
      (''httptransport.CompleteUploadRequest'', def_CompleteUploadRequest),
      (''httptransport.CompletedPartRequest'', def_CompletedPartRequest),
      (''httptransport.DeleteFileRequest'', def_DeleteFileRequest),
      (''httptransport.FileAuthorizationBody'', def_FileAuthorizationBody), (''httptransport.FileBody'', def_FileBody),
      (''httptransport.FileIDRequest'', def_FileIDRequest), (''httptransport.FilePageBody'', def_FilePageBody),
      (''httptransport.InitiateMultipartUploadRequest'', def_InitiateMultipartUploadRequest),
      (''httptransport.InitiateUploadRequest'', def_InitiateUploadRequest),
      (''httptransport.ListFilesRequest'', def_ListFilesRequest),
      (''httptransport.MeResponseBody'', def_MeResponseBody),
      (''httptransport.MultipartAuthorizationBody'', def_MultipartAuthorizationBody),
      (''httptransport.ReportScanResultRequest'', def_ReportScanResultRequest),
      (''httptransport.Response'', def_Response)]"

definition securityDefinitions :: "(string \<times> security_scheme) list" where
  "securityDefinitions =
     [(''Bearer'', \<lparr>ss_description = ''Enter '' @ [CHR 0x22] @ ''Bearer {JWT}'' @ [CHR 0x22] @ ''.'',
        ss_type = ''apiKey'', ss_name = ''Authorization'', ss_in = ''header''\<rparr>),
      (''PSK'', \<lparr>ss_description = ''Enter '' @ [CHR 0x22] @ ''PSK {shared-key}'' @ [CHR 0x22] @ '' for routes configured with PSK authentication.'',
        ss_type = ''apiKey'', ss_name = ''Authorization'', ss_in = ''header''\<rparr>)]"

text \<open>The values the templates of the document are filled with.\<close>

record Spec =
  sp_Version :: string
  sp_Host :: string
  sp_BasePath :: string
  sp_Schemes :: "string list"
  sp_Title :: string
  sp_Description :: string
  sp_InfoInstanceName :: string

definition SwaggerInfo :: Spec where
  "SwaggerInfo =
     \<lparr>sp_Version = ''1.0'', sp_Host = [], sp_BasePath = ''/'', sp_Schemes = [''http'', ''https''],
      sp_Title = ''Go API Template'',
      sp_Description = ''Production-oriented Go Web API scaffold. Application error codes: 0 success; '' @
        ''10000-19999 common/input; 20000-29999 authentication/authorization; 30000-39999 business; '' @
        ''50000-59999 infrastructure.'',
      sp_InfoInstanceName = ''swagger''\<rparr>"

text \<open>The server publishes the document under the version of the build.\<close>

definition published_info :: "build_vars \<Rightarrow> Spec" where
  "published_info vars = SwaggerInfo\<lparr>sp_Version := bv_Version vars\<rparr>"

subsection \<open>JSON\<close>

datatype json = Null | Number int | Text string | Array "json list" | Object "(string \<times> json) list"

text \<open>
  The numbers of the application codes are defined in a platform package; the texts of times and durations
  are any.
\<close>

record json_text =
  jt_code :: "app_code \<Rightarrow> int"
  jt_time :: "instant \<Rightarrow> string"
  jt_duration :: "int \<Rightarrow> string"

text \<open>A member with the option \<open>omitempty\<close>.\<close>

definition omit_if :: "bool \<Rightarrow> string \<Rightarrow> json \<Rightarrow> (string \<times> json) list" where
  "omit_if absent_value k v = (if absent_value then [] else [(k, v)])"

text \<open>A Go map, in the order of its keys.\<close>

definition map_json :: "('v \<Rightarrow> json) \<Rightarrow> (string \<rightharpoonup> 'v) \<Rightarrow> json" where
  "map_json enc m = Object (map (\<lambda>k. (k, enc (the (m k)))) (sorted_list_of_set (dom m)))"

definition file_json :: "json_text \<Rightarrow> FileBody \<Rightarrow> json" where
  "file_json T f = Object
     ([(''id'', Text (fb_ID f)), (''tenant_id'', Text (fb_TenantID f)), (''application_id'', Text (fb_ApplicationID f)),
       (''owner_id'', Text (fb_OwnerID f)), (''filename'', Text (fb_Filename f)),
       (''content_type'', Text (fb_ContentType f)), (''size'', Number (sint (fb_Size f))),
       (''checksum_sha256'', Text (fb_ChecksumSHA256 f)), (''status'', Text (fb_Status f)),
       (''scan_status'', Text (fb_ScanStatus f)), (''upload_mode'', Text (fb_UploadMode f)),
       (''part_size'', Number (sint (fb_PartSize f))), (''part_count'', Number (sint (fb_PartCount f)))] @
      omit_if (fb_UploadExpiresAt f = None) ''upload_expires_at'' (Text (jt_time T (the (fb_UploadExpiresAt f)))) @
      [(''version'', Number (sint (fb_Version f))), (''created_at'', Text (jt_time T (fb_CreatedAt f))),
       (''updated_at'', Text (jt_time T (fb_UpdatedAt f))), (''created_by'', Text (fb_CreatedBy f)),
       (''updated_by'', Text (fb_UpdatedBy f))])"

definition authorization_json :: "json_text \<Rightarrow> FileAuthorizationBody \<Rightarrow> json" where
  "authorization_json T b = Object
     ([(''file'', file_json T (fab_File b)), (''url'', Text (fab_URL b))] @
      omit_if (fab_Headers b = []) ''headers'' (map_json Text (map_of (fab_Headers b))) @
      [(''expires_at'', Text (jt_time T (fab_ExpiresAt b)))])"

definition multipart_json :: "json_text \<Rightarrow> MultipartAuthorizationBody \<Rightarrow> json" where
  "multipart_json T b = Object
     [(''file'', file_json T (mab_File b)), (''part_size'', Number (sint (mab_PartSize b))),
      (''part_count'', Number (sint (mab_PartCount b))), (''expires_at'', Text (jt_time T (mab_ExpiresAt b)))]"

definition page_json :: "json_text \<Rightarrow> FilePageBody \<Rightarrow> json" where
  "page_json T b = Object
     [(''files'', Array (map (file_json T) (fpb_Files b))), (''total'', Number (fpb_Total b)),
      (''page'', Number (sint (fpb_Page b))), (''page_size'', Number (sint (fpb_PageSize b)))]"

definition dependency_json :: "Dependency \<Rightarrow> json" where
  "dependency_json d = Object
     ([(''status'', Text (dep_Status d))] @ omit_if (dep_Latency d = []) ''latency'' (Text (dep_Latency d)))"

definition health_json :: "HealthStatus \<Rightarrow> json" where
  "health_json h = Object
     ([(''status'', Text (hs_Status h))] @
      omit_if (hs_Dependencies h = Map.empty) ''dependencies'' (map_json dependency_json (hs_Dependencies h)))"

text \<open>\<open>Me\<close> sends what the middleware stored, null without it.\<close>

definition subject_json :: "string option \<Rightarrow> json" where
  "subject_json subject = Object [(''subject'', case subject of None \<Rightarrow> Null | Some s \<Rightarrow> Text s)]"

definition info_json :: "json_text \<Rightarrow> Info \<Rightarrow> json" where
  "info_json T i = Object
     [(''version'', Text (bi_Version i)), (''commit'', Text (bi_Commit i)), (''build_time'', Text (bi_BuildTime i)),
      (''started_at'', Text (jt_time T (bi_StartedAt i))), (''uptime'', Text (jt_duration T (bi_Uptime i)))]"

fun body_json :: "json_text \<Rightarrow> body \<Rightarrow> json" where
  "body_json T BodyNil = Null"
| "body_json T (BodyFile b) = file_json T b"
| "body_json T (BodyAuthorization b) = authorization_json T b"
| "body_json T (BodyMultipart b) = multipart_json T b"
| "body_json T (BodyPage b) = page_json T b"
| "body_json T (BodyHealth b) = health_json b"
| "body_json T (BodySubject b) = subject_json b"
| "body_json T (BodyVersion b) = info_json T b"

definition response_json :: "json_text \<Rightarrow> Response \<Rightarrow> json" where
  "response_json T r = Object
     ([(''code'', Number (jt_code T (resp_Code r))), (''message'', Text (resp_Message r)),
       (''body'', body_json T (resp_Body r))] @
      omit_if (resp_RequestID r = []) ''request_id'' (Text (resp_RequestID r)))"

subsection \<open>Request bodies\<close>

text \<open>The JSON a client writes for a request struct, by the same tags.\<close>

datatype api_request =
  InitiateUploadBody InitiateUploadRequest
| InitiateMultipartBody InitiateMultipartUploadRequest
| AuthorizePartBody AuthorizeUploadPartRequest
| CompleteMultipartBody CompleteMultipartUploadRequest
| CompleteUploadBody CompleteUploadRequest
| ReportScanBody ReportScanResultRequest
| FileIDBody FileIDRequest
| ListFilesBody ListFilesRequest
| DeleteFileBody DeleteFileRequest

definition initiate_members :: "InitiateUploadRequest \<Rightarrow> (string \<times> json) list" where
  "initiate_members r =
     [(''tenant_id'', Text (iu_TenantID r)), (''application_id'', Text (iu_ApplicationID r)),
      (''filename'', Text (iu_Filename r)), (''content_type'', Text (iu_ContentType r)),
      (''size'', Number (sint (iu_Size r))), (''checksum_sha256'', Text (iu_ChecksumSHA256 r)),
      (''idempotency_key'', Text (iu_IdempotencyKey r))]"

definition part_json :: "CompletedPartRequest \<Rightarrow> json" where
  "part_json p = Object [(''part_number'', Number (sint (pr_PartNumber p))), (''etag'', Text (pr_ETag p))]"

fun request_members :: "api_request \<Rightarrow> (string \<times> json) list" where
  "request_members (InitiateUploadBody r) = initiate_members r"
| "request_members (InitiateMultipartBody r) =
     initiate_members (im_Base r) @ [(''part_size'', Number (sint (im_PartSize r)))]"
| "request_members (AuthorizePartBody r) =
     [(''id'', Text (ap_ID r)), (''tenant_id'', Text (ap_TenantID r)), (''application_id'', Text (ap_ApplicationID r)),
      (''part_number'', Number (sint (ap_PartNumber r)))]"
| "request_members (CompleteMultipartBody r) =
     [(''id'', Text (cm_ID r)), (''tenant_id'', Text (cm_TenantID r)), (''application_id'', Text (cm_ApplicationID r)),
      (''parts'', case cm_Parts r of None \<Rightarrow> Null | Some ps \<Rightarrow> Array (map part_json ps)),
      (''checksum_sha256'', Text (cm_ChecksumSHA256 r)), (''expected_version'', Number (sint (cm_ExpectedVersion r)))]"
| "request_members (CompleteUploadBody r) =
     [(''id'', Text (cu_ID r)), (''tenant_id'', Text (cu_TenantID r)), (''application_id'', Text (cu_ApplicationID r)),
      (''checksum_sha256'', Text (cu_ChecksumSHA256 r)), (''expected_version'', Number (sint (cu_ExpectedVersion r)))]"
| "request_members (ReportScanBody r) =
     [(''id'', Text (sr_ID r)), (''tenant_id'', Text (sr_TenantID r)), (''application_id'', Text (sr_ApplicationID r)),
      (''scan_status'', Text (sr_ScanStatus r)), (''expected_version'', Number (sint (sr_ExpectedVersion r)))]"
| "request_members (FileIDBody r) =
     [(''id'', Text (fi_ID r)), (''tenant_id'', Text (fi_TenantID r)), (''application_id'', Text (fi_ApplicationID r))]"
| "request_members (ListFilesBody r) =
     [(''tenant_id'', Text (ls_TenantID r)), (''application_id'', Text (ls_ApplicationID r)),
      (''keyword'', Text (ls_Keyword r)), (''status'', Text (ls_Status r)), (''scan_status'', Text (ls_ScanStatus r)),
      (''content_type'', Text (ls_ContentType r)), (''owner_id'', Text (ls_OwnerID r)),
      (''page'', Number (sint (ls_Page r))), (''page_size'', Number (sint (ls_PageSize r)))]"
| "request_members (DeleteFileBody r) =
     [(''id'', Text (df_ID r)), (''tenant_id'', Text (df_TenantID r)), (''application_id'', Text (df_ApplicationID r)),
      (''expected_version'', Number (sint (df_ExpectedVersion r)))]"

text \<open>The fields the validator finds missing, and the name of the struct in the document.\<close>

fun request_missing :: "api_request \<Rightarrow> string list" where
  "request_missing (InitiateUploadBody r) = missing_InitiateUpload r"
| "request_missing (InitiateMultipartBody r) = missing_InitiateUpload (im_Base r)"
| "request_missing (AuthorizePartBody r) = missing_AuthorizePart r"
| "request_missing (CompleteMultipartBody r) = missing_CompleteMultipart r"
| "request_missing (CompleteUploadBody r) = missing_CompleteUpload r"
| "request_missing (ReportScanBody r) = missing_ReportScan r"
| "request_missing (FileIDBody r) = missing_FileID r"
| "request_missing (ListFilesBody r) = missing_ListFiles r"
| "request_missing (DeleteFileBody r) = missing_DeleteFile r"

fun request_name :: "api_request \<Rightarrow> string" where
  "request_name (InitiateUploadBody r) = ''httptransport.InitiateUploadRequest''"
| "request_name (InitiateMultipartBody r) = ''httptransport.InitiateMultipartUploadRequest''"
| "request_name (AuthorizePartBody r) = ''httptransport.AuthorizeUploadPartRequest''"
| "request_name (CompleteMultipartBody r) = ''httptransport.CompleteMultipartUploadRequest''"
| "request_name (CompleteUploadBody r) = ''httptransport.CompleteUploadRequest''"
| "request_name (ReportScanBody r) = ''httptransport.ReportScanResultRequest''"
| "request_name (FileIDBody r) = ''httptransport.FileIDRequest''"
| "request_name (ListFilesBody r) = ''httptransport.ListFilesRequest''"
| "request_name (DeleteFileBody r) = ''httptransport.DeleteFileRequest''"

text \<open>How the body of a request decodes to a request struct.\<close>

fun decodes :: "binding \<Rightarrow> string \<Rightarrow> api_request \<Rightarrow> bool" where
  "decodes B data (InitiateUploadBody r) = (bind_InitiateUpload B data = Inr r)"
| "decodes B data (InitiateMultipartBody r) = (bind_InitiateMultipart B data = Inr r)"
| "decodes B data (AuthorizePartBody r) = (bind_AuthorizePart B data = Inr r)"
| "decodes B data (CompleteMultipartBody r) = (bind_CompleteMultipart B data = Inr r)"
| "decodes B data (CompleteUploadBody r) = (bind_CompleteUpload B data = Inr r)"
| "decodes B data (ReportScanBody r) = (bind_ReportScan B data = Inr r)"
| "decodes B data (FileIDBody r) = (bind_FileID B data = Inr r)"
| "decodes B data (ListFilesBody r) = (bind_ListFiles B data = Inr r)"
| "decodes B data (DeleteFileBody r) = (bind_DeleteFile B data = Inr r)"

subsection \<open>Conformance\<close>

text \<open>
  A value against a schema. For a documented object this is stricter than the standard: every member
  is documented, and every documented property is there unless it is one of \<open>optional\<close>.
\<close>

fun conforms :: "(string \<times> object_schema) list \<Rightarrow> string list \<Rightarrow> schema \<Rightarrow> json \<Rightarrow> bool" where
  "conforms D optional AnyValue j = True"
| "conforms D optional StringType j = (case j of Text s \<Rightarrow> True | _ \<Rightarrow> False)"
| "conforms D optional IntegerType j = (case j of Number n \<Rightarrow> True | _ \<Rightarrow> False)"
| "conforms D optional (ArrayOf s) j = (case j of Array js \<Rightarrow> \<forall>x \<in> set js. conforms D optional s x | _ \<Rightarrow> False)"
| "conforms D optional (MapOf s) j = (case j of Object ms \<Rightarrow> \<forall>m \<in> set ms. conforms D optional s (snd m) | _ \<Rightarrow> False)"
| "conforms D optional (Inline ps) j =
     (case j of
        Object ms \<Rightarrow> \<forall>m \<in> set ms. (case map_of ps (fst m) of None \<Rightarrow> True | Some s \<Rightarrow> conforms D optional s (snd m))
      | _ \<Rightarrow> False)"
| "conforms D optional (AllOf ss) j = (\<forall>s \<in> set ss. conforms D optional s j)"
| "conforms D optional (Ref n) j =
     (case (j, map_of D n) of
        (Object ms, Some d) \<Rightarrow>
          (\<forall>k \<in> set (os_required d). k \<in> fst ` set ms) \<and>
          (\<forall>p \<in> set (os_properties d). fst p \<in> fst ` set ms \<or> fst p \<in> set optional) \<and>
          (\<forall>m \<in> set ms. case map_of (os_properties d) (fst m) of None \<Rightarrow> False | Some s \<Rightarrow> conforms D optional s (snd m))
      | _ \<Rightarrow> False)"

text \<open>The members with \<open>omitempty\<close> in their tags.\<close>

definition omitted_members :: "string list" where
  "omitted_members = [''upload_expires_at'', ''headers'', ''latency'', ''dependencies'', ''request_id'']"

text \<open>The schema of a status: the documented one, or that of every response.\<close>

definition response_schema :: "operation \<Rightarrow> nat \<Rightarrow> schema" where
  "response_schema opn status =
     (case map_of (op_responses opn) status of Some (description, s) \<Rightarrow> s | None \<Rightarrow> Ref ''httptransport.Response'')"

text \<open>The handlers behind the documented paths, without their middleware.\<close>

definition served :: "'x http_env \<Rightarrow> (string \<times> 'x handler) list" where
  "served E = [(''/live'', Handler_Live), (''/ready'', Handler_Ready (he_arrival E) (he_health E))] @ api_routes E"

end
