(* ===== verification/API_Contract.thy ===== *)
theory API_Contract
  imports API_Documentation HTTP_Answers
begin

text \<open>
  The published document and the handlers agree: every documented operation is served and every route is
  documented, what a handler sends conforms to the schema of its operation, and the fields a request
  needs are the ones documented as required.
\<close>

subsection \<open>Bodies conform to their schemas\<close>

abbreviation valid_json :: "schema \<Rightarrow> json \<Rightarrow> bool" where
  "valid_json \<equiv> conforms documented_definitions omitted_members"

lemma documented_bodies:
  "map_of documented_definitions ''httptransport.Response'' = Some def_Response"
  "map_of documented_definitions ''httptransport.FileBody'' = Some def_FileBody"
  "map_of documented_definitions ''httptransport.FileAuthorizationBody'' = Some def_FileAuthorizationBody"
  "map_of documented_definitions ''httptransport.MultipartAuthorizationBody'' = Some def_MultipartAuthorizationBody"
  "map_of documented_definitions ''httptransport.FilePageBody'' = Some def_FilePageBody"
  "map_of documented_definitions ''httptransport.MeResponseBody'' = Some def_MeResponseBody"
  "map_of documented_definitions ''health.Status'' = Some def_health_Status"
  "map_of documented_definitions ''health.Dependency'' = Some def_health_Dependency"
  "map_of documented_definitions ''buildinfo.Info'' = Some def_buildinfo_Info"
  by (simp_all add: documented_definitions_def)

lemma documented_requests:
  "map_of documented_definitions ''httptransport.InitiateUploadRequest'' = Some def_InitiateUploadRequest"
  "map_of documented_definitions ''httptransport.InitiateMultipartUploadRequest'' = Some def_InitiateMultipartUploadRequest"
  "map_of documented_definitions ''httptransport.AuthorizeUploadPartRequest'' = Some def_AuthorizeUploadPartRequest"
  "map_of documented_definitions ''httptransport.CompletedPartRequest'' = Some def_CompletedPartRequest"
  "map_of documented_definitions ''httptransport.CompleteMultipartUploadRequest'' = Some def_CompleteMultipartUploadRequest"
  "map_of documented_definitions ''httptransport.CompleteUploadRequest'' = Some def_CompleteUploadRequest"
  "map_of documented_definitions ''httptransport.ReportScanResultRequest'' = Some def_ReportScanResultRequest"
  "map_of documented_definitions ''httptransport.FileIDRequest'' = Some def_FileIDRequest"
  "map_of documented_definitions ''httptransport.ListFilesRequest'' = Some def_ListFilesRequest"
  "map_of documented_definitions ''httptransport.DeleteFileRequest'' = Some def_DeleteFileRequest"
  by (simp_all add: documented_definitions_def)

lemma omitted_set: "set omitted_members = {''upload_expires_at'', ''headers'', ''latency'', ''dependencies'', ''request_id''}"
  by (simp add: omitted_members_def)

text \<open>An object conforms when its members do; the schemas below it are left folded.\<close>

lemma valid_objectI:
  assumes "map_of documented_definitions n = Some d"
    and "list_all (\<lambda>k. k \<in> set (map fst ms)) (os_required d)"
    and "list_all (\<lambda>k. k \<in> set (map fst ms) \<or> k \<in> set omitted_members) (map fst (os_properties d))"
    and "list_all (\<lambda>(k, j). case map_of (os_properties d) k of None \<Rightarrow> False | Some s \<Rightarrow> valid_json s j) ms"
  shows "valid_json (Ref n) (Object ms)"
  using assms by (auto simp: list_all_iff split: option.splits)

lemma valid_text [simp]: "valid_json StringType (Text s)" and valid_number [simp]: "valid_json IntegerType (Number k)"
  by simp_all

lemma valid_map:
  assumes "\<And>k v. m k = Some v \<Longrightarrow> valid_json s (enc v)"
  shows "valid_json (MapOf s) (map_json enc m)"
proof -
  have "valid_json s (enc (the (m k)))" if "k \<in> set (sorted_list_of_set (dom m))" for k
    using that assms by (cases "finite (dom m)") auto
  then show ?thesis by (auto simp: map_json_def)
qed

declare conforms.simps(5,8) [simp del]

lemmas member_simps = omit_if_def omitted_set

lemma file_conforms [simp]: "valid_json (Ref ''httptransport.FileBody'') (file_json T f)"
  unfolding file_json_def
  by (rule valid_objectI [OF documented_bodies(2)]) (simp_all add: def_FileBody_def member_simps)

lemma headers_conform [simp]: "valid_json (MapOf StringType) (map_json Text hs)"
  by (rule valid_map) simp

lemma authorization_conforms: "valid_json (Ref ''httptransport.FileAuthorizationBody'') (authorization_json T b)"
  unfolding authorization_json_def
  by (rule valid_objectI [OF documented_bodies(3)]) (simp_all add: def_FileAuthorizationBody_def member_simps)

lemma multipart_conforms: "valid_json (Ref ''httptransport.MultipartAuthorizationBody'') (multipart_json T b)"
  unfolding multipart_json_def
  by (rule valid_objectI [OF documented_bodies(4)]) (simp_all add: def_MultipartAuthorizationBody_def member_simps)

lemma page_conforms: "valid_json (Ref ''httptransport.FilePageBody'') (page_json T b)"
  unfolding page_json_def
  by (rule valid_objectI [OF documented_bodies(5)]) (simp_all add: def_FilePageBody_def member_simps)

lemma subject_conforms: "valid_json (Ref ''httptransport.MeResponseBody'') (subject_json (Some s))"
  unfolding subject_json_def
  by (rule valid_objectI [OF documented_bodies(6)]) (simp_all add: def_MeResponseBody_def member_simps)

lemma dependency_conforms [simp]: "valid_json (Ref ''health.Dependency'') (dependency_json d)"
  unfolding dependency_json_def
  by (rule valid_objectI [OF documented_bodies(8)]) (simp_all add: def_health_Dependency_def member_simps)

lemma dependencies_conform [simp]: "valid_json (MapOf (Ref ''health.Dependency'')) (map_json dependency_json m)"
  by (rule valid_map) simp

lemma health_conforms: "valid_json (Ref ''health.Status'') (health_json h)"
  unfolding health_json_def
  by (rule valid_objectI [OF documented_bodies(7)]) (simp_all add: def_health_Status_def member_simps)

lemma info_conforms: "valid_json (Ref ''buildinfo.Info'') (info_json T i)"
  unfolding info_json_def
  by (rule valid_objectI [OF documented_bodies(9)]) (simp_all add: def_buildinfo_Info_def member_simps)

lemma response_conforms: "valid_json (Ref ''httptransport.Response'') (response_json T r)"
  unfolding response_json_def
  by (rule valid_objectI [OF documented_bodies(1)]) (simp_all add: def_Response_def member_simps)

text \<open>The schema of an answer with a body: the unified response, with the body's schema in it.\<close>

abbreviation unified :: "schema \<Rightarrow> schema" where
  "unified s \<equiv> AllOf [Ref ''httptransport.Response'', Inline [(''body'', s)]]"

lemma unified_conforms: "valid_json s (body_json T (resp_Body r)) \<Longrightarrow> valid_json (unified s) (response_json T r)"
  using response_conforms [of T r] by (simp add: response_json_def omit_if_def)

subsection \<open>Answers of the handlers\<close>

text \<open>
  What the contract asks of the handler behind an operation, for the requests \<open>P\<close>: one response is
  written; one without a body is a unified response; one with a body has a documented status and the
  schema of that status, and the request body was decoded as the documented struct, with all its required fields.
\<close>

definition keeps_contract :: "json_text \<Rightarrow> binding \<Rightarrow> (gin \<Rightarrow> bool) \<Rightarrow> operation \<Rightarrow> 'x handler \<Rightarrow> bool" where
  "keeps_contract T B P opn h \<longleftrightarrow> (\<forall>c w c' w'. P c \<longrightarrow> g_Responses c = [] \<longrightarrow> \<not> g_Written c \<longrightarrow> run_state (h c) w = (c', w') \<longrightarrow>
     (\<exists>r. g_Responses c' = [r] \<and> valid_json (Ref ''httptransport.Response'') (response_json T r) \<and>
       (resp_Body r \<noteq> BodyNil \<longrightarrow>
         g_Status c' \<in> fst ` set (op_responses opn) \<and> valid_json (response_schema opn (g_Status c')) (response_json T r) \<and>
         (\<forall>description s. op_request opn = Some (description, s) \<longrightarrow>
           (\<exists>data q. g_Body c = Inr data \<and> decodes B data q \<and> s = Ref (request_name q) \<and> request_missing q = [])))))"

lemma write_json_simps:
  "g_Responses (write_json st r c) = g_Responses c @ [r]" "\<not> g_Written c \<Longrightarrow> g_Status (write_json st r c) = st"
  by (simp_all add: write_json_def abort_status_def)

lemma Fail_writes: "\<exists>r. g_Responses (Fail c e) = g_Responses c @ [r] \<and> resp_Body r = BodyNil"
  by (simp add: Fail_def Let_def write_json_simps)

text \<open>The shape of the file handlers.\<close>

lemma bound_keeps:
  assumes h: "\<And>c. h c = bound c (ShouldBindJSON B (dec B) missing c) (\<lambda>r. respond c f (m c r))"
    and opn: "op_request opn = Some (description, Ref n)" "response_schema opn 200 = unified s" "200 \<in> fst ` set (op_responses opn)"
    and body: "\<And>v. valid_json s (body_json T (f v))"
    and req: "\<And>data r. dec B data = Inr r \<Longrightarrow> missing r = [] \<Longrightarrow> \<exists>q. decodes B data q \<and> n = request_name q \<and> request_missing q = []"
  shows "keeps_contract T B P opn h"
  unfolding keeps_contract_def
proof (intro allI impI)
  fix c w c' w'
  assume c: "g_Responses c = []" "\<not> g_Written c" and run: "run_state (h c) w = (c', w')"
  show "\<exists>r. g_Responses c' = [r] \<and> valid_json (Ref ''httptransport.Response'') (response_json T r) \<and>
       (resp_Body r \<noteq> BodyNil \<longrightarrow>
         g_Status c' \<in> fst ` set (op_responses opn) \<and> valid_json (response_schema opn (g_Status c')) (response_json T r) \<and>
         (\<forall>description s. op_request opn = Some (description, s) \<longrightarrow>
           (\<exists>data q. g_Body c = Inr data \<and> decodes B data q \<and> s = Ref (request_name q) \<and> request_missing q = [])))"
  proof (cases "\<exists>e. c' = Fail c e")
    case True
    then obtain e where "c' = Fail c e" by blast
    then obtain r where "g_Responses c' = [r]" "resp_Body r = BodyNil" using Fail_writes [of c e] c(1) by auto
    then show ?thesis using response_conforms by auto
  next
    case False
    then obtain r v where b: "ShouldBindJSON B (dec B) missing c = Inr r" "c' = OK c (f v)"
      using run by (auto simp: h bound_def respond_def split: sum.splits option.splits prod.splits)
    then obtain data where d: "g_Body c = Inr data" "dec B data = Inr r" "missing r = []"
      by (auto simp: ShouldBindJSON_def split: sum.splits if_splits)
    let ?r = "\<lparr>resp_Code = CodeOK, resp_Message = ''success'', resp_Body = f v, resp_RequestID = g_request_id c\<rparr>"
    have "g_Responses c' = [?r]" "g_Status c' = 200" using b(2) c by (simp_all add: OK_def write_json_simps)
    moreover have "valid_json (unified s) (response_json T ?r)" by (rule unified_conforms) (simp add: body)
    ultimately show ?thesis using opn d(1) req [OF d(2,3)] response_conforms by auto
  qed
qed

lemma file_body: "valid_json (Ref ''httptransport.FileBody'') (body_json T (BodyFile b))"
  by simp

lemma authorization_body: "valid_json (Ref ''httptransport.FileAuthorizationBody'') (body_json T (BodyAuthorization b))"
  by (simp add: authorization_conforms)

lemma multipart_body: "valid_json (Ref ''httptransport.MultipartAuthorizationBody'') (body_json T (BodyMultipart b))"
  by (simp add: multipart_conforms)

lemma page_body: "valid_json (Ref ''httptransport.FilePageBody'') (body_json T (BodyPage b))"
  by (simp add: page_conforms)

lemma file_handlers_keep:
  "keeps_contract T B P doc_files_downloads_authorize (Handler_AuthorizeDownload R S B)"
  "keeps_contract T B P doc_files_metadata_get (Handler_GetFile R S B)"
  "keeps_contract T B P doc_files_metadata_list (Handler_ListFiles R S B)"
  "keeps_contract T B P doc_files_scans_report (Handler_ReportScanResult R S B)"
  "keeps_contract T B P doc_files_uploads_complete (Handler_CompleteUpload R S B)"
  "keeps_contract T B P doc_files_uploads_initiate (Handler_InitiateUpload R S B)"
  "keeps_contract T B P doc_files_uploads_multipart_abort (Handler_AbortMultipartUpload R S B)"
  "keeps_contract T B P doc_files_uploads_multipart_authorize_part (Handler_AuthorizeUploadPart R S B)"
  "keeps_contract T B P doc_files_uploads_multipart_complete (Handler_CompleteMultipartUpload R S B)"
  "keeps_contract T B P doc_files_uploads_multipart_initiate (Handler_InitiateMultipartUpload R S B)"
  "keeps_contract T B P doc_files_delete (Handler_DeleteFile R S B)"
proof -
  show "keeps_contract T B P doc_files_downloads_authorize (Handler_AuthorizeDownload R S B)"
    by (rule bound_keeps [where dec = bind_FileID, OF Handler_AuthorizeDownload_def _ _ _ authorization_body])
      (auto simp: doc_files_downloads_authorize_def response_schema_def intro: exI [of _ "FileIDBody _"])
  show "keeps_contract T B P doc_files_metadata_get (Handler_GetFile R S B)"
    by (rule bound_keeps [where dec = bind_FileID, OF Handler_GetFile_def _ _ _ file_body])
      (auto simp: doc_files_metadata_get_def response_schema_def intro: exI [of _ "FileIDBody _"])
  show "keeps_contract T B P doc_files_metadata_list (Handler_ListFiles R S B)"
    by (rule bound_keeps [where dec = bind_ListFiles, OF Handler_ListFiles_def _ _ _ page_body])
      (auto simp: doc_files_metadata_list_def response_schema_def intro: exI [of _ "ListFilesBody _"])
  show "keeps_contract T B P doc_files_scans_report (Handler_ReportScanResult R S B)"
    by (rule bound_keeps [where dec = bind_ReportScan, OF Handler_ReportScanResult_def _ _ _ file_body])
      (auto simp: doc_files_scans_report_def response_schema_def intro: exI [of _ "ReportScanBody _"])
  show "keeps_contract T B P doc_files_uploads_complete (Handler_CompleteUpload R S B)"
    by (rule bound_keeps [where dec = bind_CompleteUpload, OF Handler_CompleteUpload_def _ _ _ file_body])
      (auto simp: doc_files_uploads_complete_def response_schema_def intro: exI [of _ "CompleteUploadBody _"])
  show "keeps_contract T B P doc_files_uploads_initiate (Handler_InitiateUpload R S B)"
    by (rule bound_keeps [where dec = bind_InitiateUpload, OF Handler_InitiateUpload_def _ _ _ authorization_body])
      (auto simp: doc_files_uploads_initiate_def response_schema_def intro: exI [of _ "InitiateUploadBody _"])
  show "keeps_contract T B P doc_files_uploads_multipart_abort (Handler_AbortMultipartUpload R S B)"
    by (rule bound_keeps [where dec = bind_DeleteFile, OF Handler_AbortMultipartUpload_def _ _ _ file_body])
      (auto simp: doc_files_uploads_multipart_abort_def response_schema_def intro: exI [of _ "DeleteFileBody _"])
  show "keeps_contract T B P doc_files_uploads_multipart_authorize_part (Handler_AuthorizeUploadPart R S B)"
    by (rule bound_keeps [where dec = bind_AuthorizePart, OF Handler_AuthorizeUploadPart_def _ _ _ authorization_body])
      (auto simp: doc_files_uploads_multipart_authorize_part_def response_schema_def intro: exI [of _ "AuthorizePartBody _"])
  show "keeps_contract T B P doc_files_uploads_multipart_complete (Handler_CompleteMultipartUpload R S B)"
    by (rule bound_keeps [where dec = bind_CompleteMultipart, OF Handler_CompleteMultipartUpload_def _ _ _ file_body])
      (auto simp: doc_files_uploads_multipart_complete_def response_schema_def intro: exI [of _ "CompleteMultipartBody _"])
  show "keeps_contract T B P doc_files_uploads_multipart_initiate (Handler_InitiateMultipartUpload R S B)"
    by (rule bound_keeps [where dec = bind_InitiateMultipart, OF Handler_InitiateMultipartUpload_def _ _ _ multipart_body])
      (auto simp: doc_files_uploads_multipart_initiate_def response_schema_def intro: exI [of _ "InitiateMultipartBody _"])
  show "keeps_contract T B P doc_files_delete (Handler_DeleteFile R S B)"
    by (rule bound_keeps [where dec = bind_DeleteFile, OF Handler_DeleteFile_def _ _ _ file_body])
      (auto simp: doc_files_delete_def response_schema_def intro: exI [of _ "DeleteFileBody _"])
qed

text \<open>The others take no body and always answer with one.\<close>

lemma answer_keeps:
  assumes run: "\<And>c w c' w'. P c \<Longrightarrow> run_state (h c) w = (c', w') \<Longrightarrow>
      \<exists>st r. c' = write_json st r c \<and> st \<in> set sts \<and> valid_json s (body_json T (resp_Body r))"
    and opn: "op_request opn = None" "list_all (\<lambda>st. st \<in> fst ` set (op_responses opn) \<and> response_schema opn st = unified s) sts"
  shows "keeps_contract T B P opn h"
  unfolding keeps_contract_def
proof (intro allI impI)
  fix c w c' w'
  assume "P c" and c: "g_Responses c = []" "\<not> g_Written c" and "run_state (h c) w = (c', w')"
  then obtain st r where r: "c' = write_json st r c" "st \<in> set sts" "valid_json s (body_json T (resp_Body r))"
    using run by blast
  have "g_Responses c' = [r]" "g_Status c' = st" using r(1) c by (simp_all add: write_json_simps)
  moreover have "st \<in> fst ` set (op_responses opn)" "response_schema opn st = unified s"
    using opn(2) r(2) by (simp_all add: list_all_iff)
  ultimately show "\<exists>r. g_Responses c' = [r] \<and> valid_json (Ref ''httptransport.Response'') (response_json T r) \<and>
       (resp_Body r \<noteq> BodyNil \<longrightarrow>
         g_Status c' \<in> fst ` set (op_responses opn) \<and> valid_json (response_schema opn (g_Status c')) (response_json T r) \<and>
         (\<forall>description s. op_request opn = Some (description, s) \<longrightarrow>
           (\<exists>data q. g_Body c = Inr data \<and> decodes B data q \<and> s = Ref (request_name q) \<and> request_missing q = [])))"
    using opn(1) unified_conforms [OF r(3)] response_conforms [of T r] by (simp del: conforms.simps)
qed

lemma health_body: "valid_json (Ref ''health.Status'') (body_json T (BodyHealth h))"
  by (simp add: health_conforms)

lemma OK_answer: "valid_json s (body_json T b) \<Longrightarrow>
    \<exists>st r. OK c b = write_json st r c \<and> st \<in> set (200 # sts) \<and> valid_json s (body_json T (resp_Body r))"
  unfolding OK_def by (rule exI [of _ 200]) fastforce

lemma live_keeps: "keeps_contract T B P doc_live Handler_Live"
proof (rule answer_keeps [where s = "Ref ''health.Status''" and sts = "[200]"])
  fix c c' :: gin and w w' :: "'a world" assume "run_state (Handler_Live c) w = (c', w')"
  then have "c' = OK c (BodyHealth Health_Live)" by (simp add: Handler_Live_def)
  then show "\<exists>st r. c' = write_json st r c \<and> st \<in> set [200] \<and> valid_json (Ref ''health.Status'') (body_json T (resp_Body r))"
    using OK_answer [OF health_body] by blast
qed (simp_all add: doc_live_def response_schema_def)

lemma ready_keeps: "keeps_contract T B P doc_ready (Handler_Ready arrival health)"
proof (rule answer_keeps [where s = "Ref ''health.Status''" and sts = "[200, 503]"])
  fix c c' :: gin and w w' :: "'a world" assume "run_state (Handler_Ready arrival health c) w = (c', w')"
  then consider h where "c' = OK c (BodyHealth h)" | st where "c' = write_json 503 \<lparr>resp_Code = CodeDependencyUnavailable,
      resp_Message = ''service is not ready'', resp_Body = BodyHealth st, resp_RequestID = g_request_id c\<rparr> c"
    by (auto simp: Handler_Ready_def run_db_prims split: prod.splits if_splits)
  then show "\<exists>st r. c' = write_json st r c \<and> st \<in> set [200, 503] \<and> valid_json (Ref ''health.Status'') (body_json T (resp_Body r))"
  proof cases
    case 1
    then show ?thesis using OK_answer [OF health_body] by blast
  next
    case (2 h)
    show ?thesis unfolding 2 by (rule exI [of _ 503], rule exI, rule conjI, rule refl) (simp add: health_conforms)
  qed
qed (simp_all add: doc_ready_def response_schema_def)

lemma me_keeps: "keeps_contract T B (\<lambda>c. g_subject c \<noteq> None) doc_me Handler_Me"
proof (rule answer_keeps [where s = "Ref ''httptransport.MeResponseBody''" and sts = "[200]"])
  fix c c' :: gin and w w' :: "'a world" assume "g_subject c \<noteq> None" and "run_state (Handler_Me c) w = (c', w')"
  then obtain s where "c' = OK c (BodySubject (Some s))" by (auto simp: Handler_Me_def)
  moreover have "valid_json (Ref ''httptransport.MeResponseBody'') (body_json T (BodySubject (Some s)))"
    by (simp add: subject_conforms)
  ultimately show "\<exists>st r. c' = write_json st r c \<and> st \<in> set [200] \<and>
      valid_json (Ref ''httptransport.MeResponseBody'') (body_json T (resp_Body r))"
    using OK_answer by blast
qed (simp_all add: doc_me_def response_schema_def)

lemma version_keeps: "keeps_contract T B P doc_version (Handler_Version vars clock)"
proof (rule answer_keeps [where s = "Ref ''buildinfo.Info''" and sts = "[200]"])
  fix c c' :: gin and w w' :: "'a world" assume "run_state (Handler_Version vars clock c) w = (c', w')"
  then obtain i where "c' = OK c (BodyVersion i)" by (auto simp: Handler_Version_def run_db_prims split: prod.splits)
  moreover have "valid_json (Ref ''buildinfo.Info'') (body_json T (BodyVersion i))" by (simp add: info_conforms)
  ultimately show "\<exists>st r. c' = write_json st r c \<and> st \<in> set [200] \<and> valid_json (Ref ''buildinfo.Info'') (body_json T (resp_Body r))"
    using OK_answer by blast
qed (simp_all add: doc_version_def response_schema_def)

subsection \<open>The contract\<close>

lemma contract_kept:
  assumes "(path, opn) \<in> set documented_paths"
  shows "\<exists>h. map_of (served E) path = Some h \<and>
    keeps_contract T (he_binding E) (\<lambda>c. path = ''/api/v1/me'' \<longrightarrow> g_subject c \<noteq> None) opn h"
proof -
  have "list_all (\<lambda>(path, opn). \<exists>h. map_of (served E) path = Some h \<and>
      keeps_contract T (he_binding E) (\<lambda>c. path = ''/api/v1/me'' \<longrightarrow> g_subject c \<noteq> None) opn h) documented_paths"
    by (simp add: documented_paths_def served_def api_routes_def Let_def file_handlers_keep live_keeps ready_keeps
        me_keeps [simplified] version_keeps)
  then show ?thesis using assms by (auto simp: list_all_iff)
qed

text \<open>The tags of the request structs: the JSON name of a field.\<close>

definition json_tag :: "string \<Rightarrow> string" where
  "json_tag field = the (map_of
     [(''ID'', ''id''), (''TenantID'', ''tenant_id''), (''ApplicationID'', ''application_id''),
      (''Filename'', ''filename''), (''ContentType'', ''content_type''), (''Size'', ''size''),
      (''ChecksumSHA256'', ''checksum_sha256''), (''IdempotencyKey'', ''idempotency_key''),
      (''PartNumber'', ''part_number''), (''Parts'', ''parts''), (''ScanStatus'', ''scan_status''),
      (''ExpectedVersion'', ''expected_version'')] field)"

text \<open>The validator takes a zero value for a missing one.\<close>

definition zero_member :: "json option \<Rightarrow> bool" where
  "zero_member j = (j \<in> {None, Some Null, Some (Number 0), Some (Text [])})"

definition required_by :: "api_request \<Rightarrow> string list" where
  "required_by q = os_required (the (map_of documented_definitions (request_name q)))"

lemma zero_member_simps [simp]:
  "zero_member (Some (Text s)) = (s = [])" "zero_member (Some (Number k)) = (k = 0)" "zero_member (Some Null)"
  "\<not> zero_member (Some (Array js))"
  by (simp_all add: zero_member_def)

lemma sint_zero_iff [simp]: "sint (v :: 'a::len word) = 0 \<longleftrightarrow> v = 0"
  by (metis signed_0 signed_word_eqI)

lemma absent_zero:
  assumes "set (map (\<lambda>(f, b). (json_tag f, b)) fs) = set (map (\<lambda>k. (k, zero_member (map_of ms k))) req)"
  shows "set (map json_tag (absent fs)) = set (filter (\<lambda>k. zero_member (map_of ms k)) req)"
proof -
  have "set (map json_tag (absent fs)) = {k. (k, True) \<in> set (map (\<lambda>(f, b). (json_tag f, b)) fs)}"
    by (force simp: absent_def)
  then show ?thesis unfolding assms by auto
qed

lemmas required_defs = required_by_def documented_requests json_tag_def initiate_members_def def_DeleteFileRequest_def
  def_CompleteMultipartUploadRequest_def def_InitiateMultipartUploadRequest_def def_InitiateUploadRequest_def
  def_AuthorizeUploadPartRequest_def def_CompleteUploadRequest_def def_ReportScanResultRequest_def
  def_FileIDRequest_def def_ListFilesRequest_def

lemmas missing_defs = missing_InitiateUpload_def missing_CompleteUpload_def missing_AuthorizePart_def
  missing_CompleteMultipart_def missing_ReportScan_def missing_FileID_def missing_ListFiles_def missing_DeleteFile_def

lemma required_fields:
  "set (map json_tag (request_missing q)) = set (filter (\<lambda>k. zero_member (map_of (request_members q) k)) (required_by q))"
  by (cases q, simp_all only: request_missing.simps missing_defs)
    (rule absent_zero, simp add: required_defs insert_commute split: option.split)+

lemma documented_routes:
  "map fst (served E) = [''/live'', ''/ready''] @ map fst (api_routes E)"
  "map fst (api_routes E) = [''/api/v1/version'', ''/api/v1/me'', ''/api/v1/files/uploads/initiate'',
     ''/api/v1/files/uploads/multipart/initiate'', ''/api/v1/files/uploads/multipart/authorize-part'',
     ''/api/v1/files/uploads/multipart/complete'', ''/api/v1/files/uploads/multipart/abort'',
     ''/api/v1/files/uploads/complete'', ''/api/v1/files/scans/report'', ''/api/v1/files/metadata/get'',
     ''/api/v1/files/metadata/list'', ''/api/v1/files/downloads/authorize'', ''/api/v1/files/delete'']"
  by (simp_all add: served_def api_routes_def Let_def)

lemma documented_security:
  "list_all (\<lambda>(path, opn). (op_security opn = []) = (path \<in> {''/api/v1/version'', ''/live'', ''/ready''})) documented_paths"
  "list_all (\<lambda>(path, opn). set (op_security opn) \<subseteq> fst ` set securityDefinitions) documented_paths"
  by code_simp+

lemma default_skips: "MatchesAny path (auth_SkipHTTPPaths default_Auth) = (path = ''/api/v1/version'')"
  using literal_Match [of "''/api/v1/version''" path] by (simp add: default_Auth_def literal_pattern_def split: bool.split)

lemma documented_api:
  "list_all (\<lambda>(path, opn). (path \<in> set (map fst (api_routes E))) = (path \<notin> {''/live'', ''/ready''})) documented_paths"
  unfolding documented_routes by (simp add: documented_paths_def)


text \<open>
  C38. The handlers keep the published contract. Whatever the request and the state of the service, the handler of a documented
  operation writes exactly one response, and its JSON is a documented response object. A response with a body has a
  status that is documented for the operation and the schema documented for that status: every documented member is
  there, unless it may be omitted, with a value of its type. It is sent only if the request's body was decoded
  as the documented object, with every required field. The operation that names the caller needs a caller.
\<close>

theorem documented_contract_is_kept:
  assumes "(path, opn) \<in> set documented_paths"
    and "run_state (the (map_of (served E) path) c) w = (c', w')"
    and "g_Responses c = []" "\<not> g_Written c" "path = ''/api/v1/me'' \<longrightarrow> g_subject c \<noteq> None"
  shows "\<exists>r. map_of (served E) path \<noteq> None \<and> g_Responses c' = [r] \<and>
    conforms documented_definitions omitted_members (Ref ''httptransport.Response'') (response_json T r) \<and>
    (resp_Body r \<noteq> BodyNil \<longrightarrow>
      g_Status c' \<in> fst ` set (op_responses opn) \<and>
      conforms documented_definitions omitted_members (response_schema opn (g_Status c')) (response_json T r) \<and>
      (\<forall>description s. op_request opn = Some (description, s) \<longrightarrow>
        (\<exists>data q. g_Body c = Inr data \<and> decodes (he_binding E) data q \<and> s = Ref (request_name q) \<and> request_missing q = [])))"
proof -
  obtain h where h: "map_of (served E) path = Some h"
    "keeps_contract T (he_binding E) (\<lambda>c. path = ''/api/v1/me'' \<longrightarrow> g_subject c \<noteq> None) opn h"
    using contract_kept [OF assms(1)] by blast
  then have run: "run_state (h c) w = (c', w')" using assms(2) by simp
  show ?thesis using h(2) [unfolded keeps_contract_def, rule_format, OF assms(5) [rule_format] assms(3,4) run] h(1) by fast
qed

text \<open>The deletion of a file, by a caller that has been authenticated.\<close>

definition demo_deletion :: gin where
  "demo_deletion = demo_request\<lparr>g_subject := Some ''u1'', g_principal := Some demo_user\<rparr>"

lemma demo_deletion_answer:
  "list_all (\<lambda>r. case resp_Body r of BodyFile b \<Rightarrow> True | _ \<Rightarrow> False) (g_Responses (fst (run_state (Handler_DeleteFile demo_rt demo_sv demo_binding demo_deletion) demo_world)))"
  by code_simp

theorem documented_contract_is_kept_witness:
  "\<exists>c' w' r. run_state (Handler_DeleteFile demo_rt demo_sv demo_binding demo_deletion) demo_world = (c', w') \<and> g_Responses c' = [r] \<and>
    conforms documented_definitions omitted_members (response_schema doc_files_delete (g_Status c'))
      (response_json \<lparr>jt_code = (\<lambda>c. 0), jt_time = (\<lambda>t. []), jt_duration = (\<lambda>d. [])\<rparr> r)"
proof -
  obtain c' w' where run: "run_state (Handler_DeleteFile demo_rt demo_sv demo_binding demo_deletion) demo_world = (c', w')"
    by (cases "run_state (Handler_DeleteFile demo_rt demo_sv demo_binding demo_deletion) demo_world")
  have p: "(''/api/v1/files/delete'', doc_files_delete) \<in> set documented_paths" by (simp add: documented_paths_def)
  have h: "the (map_of (served demo_http) ''/api/v1/files/delete'') = Handler_DeleteFile demo_rt demo_sv demo_binding"
    by (simp add: served_def api_routes_def Let_def demo_http_fields)
  obtain r where r: "g_Responses c' = [r]" "resp_Body r \<noteq> BodyNil \<longrightarrow> conforms documented_definitions omitted_members
      (response_schema doc_files_delete (g_Status c')) (response_json \<lparr>jt_code = (\<lambda>c. 0), jt_time = (\<lambda>t. []), jt_duration = (\<lambda>d. [])\<rparr> r)"
    using documented_contract_is_kept [OF p, of demo_http demo_deletion demo_world c' w', unfolded h, OF run]
    by (force simp: demo_deletion_def demo_request_def)
  then have "resp_Body r \<noteq> BodyNil" using demo_deletion_answer run by (cases "resp_Body r") simp_all
  then show ?thesis using run r by blast
qed

end
