(* ===== verification/Spec2Isabelle.thy ===== *)
theory Spec2Isabelle
  imports File_Theorems Multipart_Lifecycle File_Listing HTTP_Answers Transports Config_Theorems
    Outbound_Theorems Scheduler Migration Wiring API_Contract
begin

text \<open>
  \<^bold>\<open>Verification of file-service\<close>

  The program is a service that keeps the metadata of files in two SQL tables and the files in an S3
  store. Clients talk to it over HTTP and gRPC; a scheduler cleans up abandoned uploads; every change
  of a row is written together with an event in an outbox table. This library models the program's
  own logic and proves the properties that make it correct.

  \<^bold>\<open>How the parts interact.\<close> \<^verbatim>\<open>cmd/api\<close> loads the configuration and starts the
  application, which opens the connections and starts the servers, the scheduler and the outbox
  dispatcher. A request passes the middleware (HTTP) or interceptors (gRPC): request id, panic recovery, log and
  metrics, authentication, authorization, rate limits, idempotency. A handler then makes one call of
  \<open>file.Service\<close>, which checks the caller, calls the object storage and other services, and
  changes the tables in transactions. Several replicas of the service run on one database; they are
  kept apart by optimistic locking (a version per row) and, for the scheduled cleanup, by a lock in Redis.

  \<^bold>\<open>Conventions.\<close> Go structs are records, enumerations datatypes, \<open>int64\<close>,
  \<open>int32\<close> and \<open>time.Duration\<close> words of their width, strings lists of bytes, errors the
  datatype \<open>go_error\<close> with nil as \<open>None\<close>; a result with an error is a pair or a sum. Code that is
  not in the repository (drivers, clients, codecs, clocks, random numbers) is a record of operations
  on an arbitrary state \<open>'x\<close> of the outside world, so every theorem holds for all its behaviours
  unless a hypothesis names the behaviour it relies on. Stateful code is in the state monad over
  \<open>world\<close>: the database and the outside world. What other replicas do to the database is an
  operation of the runtime too, run before every transaction and every statement outside one, the
  points where the isolation of the database lets their changes in. Loops are structural recursion or
  \<open>function\<close> with a termination proof: no definition of this library uses fuel, and all
  are total.

  \<^bold>\<open>Theories and sources\<close> (under \<^verbatim>\<open>src/\<close>)

  \<^item> \<open>Prelude\<close>: word arithmetic, Hoare triples over the state monad. \<open>Go_Strings\<close>,
    \<open>Go_Mime\<close>, \<open>Go_Path\<close>: what the program uses of Go's \<open>strings\<close>, \<open>hex\<close>,
    \<open>mime\<close> and \<open>path\<close> packages, on bytes; the last one with the loop of \<open>path.Match\<close>.
  \<^item> \<open>App_Error\<close>: \<^verbatim>\<open>internal/apperror\<close>. \<open>Config_Types\<close>, \<open>Config\<close>:
    \<^verbatim>\<open>internal/config\<close>, its structs, defaults, \<open>Validate\<close> and \<open>LoadWithProfile\<close>.
  \<^item> \<open>Object_Storage\<close>: \<^verbatim>\<open>internal/objectstorage\<close>. \<open>Database\<close>:
    \<^verbatim>\<open>internal/database/transaction.go\<close> over the two tables. \<open>File_Model\<close>,
    \<open>File_Repository\<close>, \<open>File_Service\<close>: \<^verbatim>\<open>internal/file\<close>, each SQL statement a
    function on the tables, each method of the service one definition.
  \<^item> \<open>Auth\<close>: \<^verbatim>\<open>internal/auth\<close> and \<^verbatim>\<open>internal/requestid\<close>. \<open>Platform\<close>:
    \<^verbatim>\<open>internal/health\<close>, \<^verbatim>\<open>internal/ratelimit\<close>, the locks of \<^verbatim>\<open>internal/cache\<close>.
  \<^item> \<open>HTTP_Handlers\<close>, \<open>HTTP_Server\<close>: \<^verbatim>\<open>internal/transport/http\<close>; \<open>GRPC_Server\<close>:
    \<^verbatim>\<open>internal/transport/grpc\<close>, with their log lines, metrics and recovery from panics.
    \<open>Scheduler\<close>: \<^verbatim>\<open>internal/scheduler\<close>.
  \<^item> \<open>Outbound\<close>: \<^verbatim>\<open>internal/outbound\<close> and \<^verbatim>\<open>internal/grpcclient\<close>. \<open>Migration\<close>:
    \<^verbatim>\<open>internal/migration\<close> and its use at startup in \<^verbatim>\<open>internal/app\<close>.
  \<^item> \<open>Observability\<close>: \<^verbatim>\<open>internal/observability\<close>, \<^verbatim>\<open>internal/logging\<close>, \<^verbatim>\<open>internal/buildinfo\<close>.
    \<open>App\<close>: \<^verbatim>\<open>internal/app\<close> with \<^verbatim>\<open>internal/database/database.go\<close>, \<open>Open\<close> of
    \<^verbatim>\<open>internal/cache\<close>, \<^verbatim>\<open>internal/authorization\<close>, \<^verbatim>\<open>internal/idempotency\<close>, the settings and hooks
    of the two servers, and the programs under \<^verbatim>\<open>cmd\<close>. \<open>Wiring\<close>: \<open>New\<close> of
    \<^verbatim>\<open>internal/app\<close> and the modules of all packages, as the options of the container.
  \<^item> \<open>API_Documentation\<close>: the published contract, \<^verbatim>\<open>docs/docs.go\<close>, each operation and object of it one
    definition, with the JSON encodings of the structs that it describes.

  \<^bold>\<open>What is shown\<close>

  \<^item> \<open>File_Protocol\<close> gives the abstract protocol of the tables (a row is created, or moves one
    step of its life cycle, with its event, in one transaction) and proves that every method refines
    it. \<open>File_Invariants\<close> proves invariants of the protocol once, in a locale, so that
    \<open>File_Theorems\<close> has them for every call: consistent tables, every row announced, one
    event per version, the scan policy, nothing outside the scope of a call.
  \<^item> \<open>File_Methods\<close>, \<open>File_Uploads\<close>, \<open>File_Listing\<close>: the behaviour of the single methods:
    access, downloads, completion, deletion, stale versions, scans, part geometry in wrapping
    arithmetic, idempotent initiation, paging, cleanup. \<open>File_Lifecycle\<close>,
    \<open>Multipart_Lifecycle\<close>: with working dependencies the methods succeed, from the registration of an upload, whole
    or in parts, to the deletion of the file.
  \<^item> \<open>Config_Theorems\<close>: what an accepted configuration guarantees to the code that uses it.
  \<^item> \<open>Frontend\<close> holds the two interfaces of the transports as locales: a gate runs the next handler
    at most once on a related context, a front end makes at most one call. \<open>HTTP_Theorems\<close>,
    \<open>GRPC_Theorems\<close> and \<open>Scheduler\<close> interpret them for every middleware, interceptor, handler and job, so
    changes need an authenticated and authorized caller, and every invariant of the calls is one of
    the running service (below). \<open>HTTP_Answers\<close>: one answer per request, idempotent
    retries, panics. \<open>Platform\<close>: readiness. \<open>GRPC_Theorems\<close>: errors over gRPC, and with the locale
    \<open>relay\<close> that the interceptors pass results on unchanged. \<open>Transports\<close>: a method behaves alike
    over both transports.
  \<^item> \<open>Outbound_Theorems\<close>: bounded sends for any network, the first final answer, the backoffs;
    the two retry loops share the locales \<open>attempts\<close> and \<open>retrying\<close>.
  \<^item> \<open>Scheduler\<close>: the cleanup under its lock. \<open>Migration\<close>: schema creation and database
    URLs. \<open>App\<close>: connections that are opened are kept or closed, the locale \<open>connecting\<close>
    interpreted for every constructor. \<open>Wiring\<close>: with the locale \<open>acyclic_wiring\<close>, that the application can always
    be put together, and the order of its start and stop. Below: tokens the service issues itself.
  \<^item> \<open>API_Contract\<close>: the handlers keep the published contract, and the document has the paths, the security and the
    required fields of the code.
  \<^item> \<open>Demo\<close> and the demo definitions of the other theories are the concrete values at which the theorems with hypotheses are
    instantiated.

  \<^bold>\<open>Bounds.\<close> Nanosecond arithmetic is at 64 bits; the equality of the two backoffs assumes a first
    backoff of at most \<open>2 ^ 53\<close> nanoseconds (104 days), below which the float product is exact and
    the shift of at most four places cannot overflow; the number of attempts is at most five by validation.

  \<^bold>\<open>Not modelled\<close>: the dependency-injection library itself, which appears as the log of what it constructs and invokes, kept to its
  documented rules; the spans of the tracing middleware, which is a library (the ids it gives to the log lines are a
  parameter); log lines other than those of requests, recovered panics and the retention cleaner; the pages that libraries serve
  (profiles, metrics, Swagger, server reflection) behind their modelled routes; the manager
  of \<^verbatim>\<open>internal/idempotency\<close>, an alias of a platform package and a parameter here; the text of JSON: what
  is sent is a JSON value, what is received is decoded by a parameter. Contexts carry the caller, the request id, the idempotency key and the environment as
  fields; cancellation shows as an error of the operation it interrupts.
\<close>

section \<open>The running service\<close>

text \<open>
  The HTTP server, the gRPC server and the scheduler work on one file service \<open>S\<close> over one
  database; a run is a sequence of requests, calls, streams and firings.
\<close>

datatype traffic = HTTPRequest gin | RPC pb_request "string \<Rightarrow> string list" | Streaming string "string \<Rightarrow> string list"
  | Firing job

fun deliver ::
    "'x runtime \<Rightarrow> 'x Service \<Rightarrow> 'x http_env \<Rightarrow> 'x grpc_env \<Rightarrow> 'x cron_env \<Rightarrow> traffic \<Rightarrow> ('x world, unit) state" where
  "deliver R S E G C (HTTPRequest c) = do { _ \<leftarrow> http_serve (E\<lparr>he_runtime := R, he_files := S\<rparr>) c; State_Monad.return () }"
| "deliver R S E G C (RPC req md) = do { _ \<leftarrow> grpc_serve (G\<lparr>ge_runtime := R, ge_files := S\<rparr>) (req, md); State_Monad.return () }"
| "deliver R S E G C (Streaming method md) =
     do { _ \<leftarrow> stream_serve (G\<lparr>ge_runtime := R, ge_files := S\<rparr>) (method, md); State_Monad.return () }"
| "deliver R S E G C (Firing j) = do { _ \<leftarrow> run_job (C\<lparr>ce_runtime := R, ce_files := S\<rparr>) j; State_Monad.return () }"

interpretation service: frontend R S "deliver R S E G C"
  for R :: "'x runtime" and S and E :: "'x http_env" and G C
proof
  fix t and w :: "'x world" and r w'
  assume "run_state (deliver R S E G C t) w = (r, w')"
  then show "w_db w' = w_db w \<or> effect_of_call R S w w'"
    using http.one_call [of "E\<lparr>he_runtime := R, he_files := S\<rparr>"] grpc.one_call [of "G\<lparr>ge_runtime := R, ge_files := S\<rparr>"]
      jobs.one_call [of "C\<lparr>ce_runtime := R, ce_files := S\<rparr>"]
      silentD [OF stream_silent [of "G\<lparr>ge_runtime := R, ge_files := S\<rparr>"]]
    by (cases t) (auto split: prod.splits)
qed

definition run_traffic ::
    "'x runtime \<Rightarrow> 'x Service \<Rightarrow> 'x http_env \<Rightarrow> 'x grpc_env \<Rightarrow> 'x cron_env \<Rightarrow> traffic list \<Rightarrow> 'x world \<Rightarrow> 'x world" where
  "run_traffic R S E G C ts w = fold (\<lambda>t v. snd (run_state (deliver R S E G C t) v)) ts w"


text \<open>
  C32. A token this service issues itself round-trips, and is of no use for files. Let the JWT
  library parse what it signed while the token is valid; then a token issued at \<open>now\<close> verifies, until
  a second before its end, as the user it was issued to, and that user has no tenant: every call of
  the file service that names a tenant is refused with 400, 401 or 403 and has no effect.
\<close>

theorem local_tokens_reach_no_tenant:
  assumes "jwt_sound J" "as_verifier s = None" "Auth_Issue J now bytes s subject = Inr token"
    and "now \<le> t" "t + 1000000000 \<le> now + sint (as_ttl s)"
    and "req_tenant req = Some tenant" "TrimSpace tenant \<noteq> []"
  shows "\<exists>p. Auth_Verify J t s token = Inr p \<and> p_ID p = subject \<and>
    (\<exists>a e. run_state (serve R S \<lparr>ctx_principal = Some p\<rparr> req) w = ((a, Some e), w) \<and>
      ae_HTTPStatus e \<in> {400, 401, 403})"
proof -
  let ?p = "\<lparr>p_ID = subject, p_Type = TypeUser, p_TenantID = []\<rparr>"
  have "Auth_Verify J t s token = Inr ?p" by (rule issued_token_verifies [OF assms(1-5)])
  moreover have "refused (serve R S \<lparr>ctx_principal = Some ?p\<rparr> req) w"
    by (rule serve_turned_away [OF assms(6)]) (use assms(7) in \<open>simp add: turned_away_def\<close>)
  ultimately show ?thesis by (auto simp: refused_def refusal_def)
qed

subsection \<open>Witnesses\<close>

definition demo_cron :: "nat cron_env" where
  "demo_cron = \<lparr>ce_quote = (\<lambda>s. s), ce_runtime = demo_rt, ce_files = demo_sv, ce_locker = None,
     ce_metrics = demo_metrics\<rparr>"


definition demo_local :: AuthService where
  "demo_local = \<lparr>as_issuer = ''file-service'', as_secret = replicate 32 (CHR ''k''), as_ttl = seconds 60,
     as_clientID = ''c'', as_clientSecret = ''s'', as_verifier = None\<rparr>"

definition demo_claims :: Claims where
  "demo_claims = \<lparr>cl_Issuer = ''file-service'', cl_Subject = ''u1'', cl_ID = RawURLEncoding (replicate 16 (CHR ''r'')),
     cl_IssuedAt = 0, cl_NotBefore = 0, cl_ExpiresAt = 60000000000\<rparr>"

text \<open>A library that signs one token.\<close>

definition demo_library :: jwt_library where
  "demo_library =
     \<lparr>jl_NewNumericDate = (\<lambda>t. t),
      jl_SignedString = (\<lambda>alg cl key. if cl = demo_claims \<and> key = as_secret demo_local then Inr ''t1''
        else Inl (Errorf ''not signed'')),
      jl_ParseWithClaims = (\<lambda>raw keyfunc issuer t.
        if raw = ''t1'' \<and> keyfunc ''HS256'' = Inr (as_secret demo_local) \<and> issuer = cl_Issuer demo_claims \<and>
          0 \<le> t \<and> t < 60000000000 then Inr (demo_claims, True)
        else Inl (Errorf ''no token''))\<rparr>"

lemma demo_library_sound: "jwt_sound demo_library"
  by (auto simp: jwt_sound_def demo_library_def demo_claims_def split: if_splits)

theorem local_tokens_reach_no_tenant_witness:
  "\<exists>p. Auth_Verify demo_library 1000000000 demo_local ''t1'' = Inr p \<and> p_ID p = ''u1'' \<and>
    (\<exists>a e. run_state (serve demo_rt demo_sv \<lparr>ctx_principal = Some p\<rparr> (ReqGet ''f'' ''t1'' ''a1'')) demo_world =
      ((a, Some e), demo_world) \<and> ae_HTTPStatus e \<in> {400, 401, 403})"
proof (rule local_tokens_reach_no_tenant [OF demo_library_sound, where bytes = "Inr (replicate 16 (CHR ''r''))" and now = 0
    and tenant = "''t1''"])
  have ttl: "sint (as_ttl demo_local) = 60000000000" by (simp add: demo_local_def seconds_def)
  show "as_verifier demo_local = None" by (simp add: demo_local_def)
  show "Auth_Issue demo_library 0 (Inr (replicate 16 (CHR ''r''))) demo_local ''u1'' = Inr ''t1''"
    unfolding Auth_Issue_def Auth_Enabled_def randomID_def ttl
    by (simp add: demo_library_def demo_claims_def demo_local_def)
  show "1000000000 + 1000000000 \<le> 0 + sint (as_ttl demo_local)" unfolding ttl by simp
  show "TrimSpace ''t1'' \<noteq> []" by code_simp
qed simp_all

end
